(* ===== verification/Prelude.thy ===== *)
theory Prelude
  imports Main "HOL-Library.List_Lexorder" "HOL-Library.Char_ord" "HOL-Library.Code_Target_Nat"
begin

text \<open>
  Shared vocabulary of the development: the collections of rewrite and introduction rules the
  component theories use, the transaction monad (a write transaction either fails with an error,
  which rolls everything back, or returns a value and the new database), table operations on lists
  of rows (the rowid order of SQLite is the list order), and the JavaScript helpers the source uses
  everywhere (\<^verbatim>\<open>??\<close>, \<^verbatim>\<open>String(n)\<close>, \<^verbatim>\<open>Array.prototype.includes\<close>).
\<close>

named_theorems tx_simps \<open>unfolding rules of the transaction monad\<close>
named_theorems preserves_intros \<open>introduction rules for invariants of transactions\<close>
named_theorems grows_intros \<open>introduction rules for the append-only ledger\<close>
named_theorems act_intros \<open>introduction rules for what controller code keeps\<close>
named_theorems frame_intros \<open>introduction rules for what a transaction leaves alone\<close>
named_theorems table_simps \<open>rewrite rules for tables (lists of rows)\<close>

section \<open>JavaScript helpers\<close>

definition coalesce :: "'a option \<Rightarrow> 'a \<Rightarrow> 'a" where
  "coalesce v d = (case v of None \<Rightarrow> d | Some x \<Rightarrow> x)"

lemma coalesce_simps [simp]: "coalesce None d = d" "coalesce (Some x) d = x"
  by (simp_all add: coalesce_def)

text \<open>\<^verbatim>\<open>a ?? b\<close> where \<open>b\<close> may be null again.\<close>

definition or_else :: "'a option \<Rightarrow> 'a option \<Rightarrow> 'a option" where
  "or_else v d = (case v of None \<Rightarrow> d | Some x \<Rightarrow> Some x)"

lemma or_else_simps [simp]: "or_else None d = d" "or_else (Some x) d = Some x"
  by (simp_all add: or_else_def)

definition digit_char :: "nat \<Rightarrow> char" where
  "digit_char d = char_of (48 + d)"

fun show_nat_acc :: "nat \<Rightarrow> string \<Rightarrow> string" where
  "show_nat_acc n acc =
     (if n < 10 then digit_char n # acc
      else show_nat_acc (n div 10) (digit_char (n mod 10) # acc))"

declare show_nat_acc.simps [simp del]

definition show_nat :: "nat \<Rightarrow> string" where
  "show_nat n = show_nat_acc n []"

definition show_int :: "int \<Rightarrow> string" where
  "show_int i = (if i < 0 then CHR ''-'' # show_nat (nat (- i)) else show_nat (nat i))"

section \<open>Transactions\<close>

text \<open>
  \<open>('s, 'e, 'a) tx\<close> is the body of a \<^verbatim>\<open>BEGIN IMMEDIATE\<close> transaction over a database of type \<open>'s\<close>: an
  exception is \<open>Inl\<close>, and the state reached before it is dropped, as the ROLLBACK does.
  \<open>('s, 'e, 'a) act\<close> is controller code around transactions: whether it throws or returns, the
  database it leaves behind is kept.
\<close>

type_synonym ('s, 'e, 'a) tx = "'s \<Rightarrow> 'e + 'a \<times> 's"
type_synonym ('s, 'e, 'a) act = "'s \<Rightarrow> ('e + 'a) \<times> 's"

definition tx_return :: "'a \<Rightarrow> ('s, 'e, 'a) tx" where
  "tx_return x s = Inr (x, s)"

definition tx_fail :: "'e \<Rightarrow> ('s, 'e, 'a) tx" where
  "tx_fail e s = Inl e"

definition tx_bind :: "('s, 'e, 'a) tx \<Rightarrow> ('a \<Rightarrow> ('s, 'e, 'b) tx) \<Rightarrow> ('s, 'e, 'b) tx" where
  "tx_bind m f s = (case m s of Inl e \<Rightarrow> Inl e | Inr (x, s') \<Rightarrow> f x s')"

definition tx_then :: "('s, 'e, 'a) tx \<Rightarrow> ('s, 'e, 'b) tx \<Rightarrow> ('s, 'e, 'b) tx" where
  "tx_then m k = tx_bind m (\<lambda>_. k)"

definition tx_get :: "('s \<Rightarrow> 'a) \<Rightarrow> ('s, 'e, 'a) tx" where
  "tx_get f s = Inr (f s, s)"

definition tx_modify :: "('s \<Rightarrow> 's) \<Rightarrow> ('s, 'e, unit) tx" where
  "tx_modify f s = Inr ((), f s)"

definition tx_when :: "bool \<Rightarrow> ('s, 'e, unit) tx \<Rightarrow> ('s, 'e, unit) tx" where
  "tx_when b m = (if b then m else tx_return ())"

primrec tx_foreach :: "('x \<Rightarrow> ('s, 'e, unit) tx) \<Rightarrow> 'x list \<Rightarrow> ('s, 'e, unit) tx" where
  "tx_foreach f [] = tx_return ()"
| "tx_foreach f (x # xs) = tx_then (f x) (tx_foreach f xs)"

text \<open>A loop that threads an accumulator (the result object the source mutates).\<close>

primrec tx_fold :: "('x \<Rightarrow> 'r \<Rightarrow> ('s, 'e, 'r) tx) \<Rightarrow> 'x list \<Rightarrow> 'r \<Rightarrow> ('s, 'e, 'r) tx" where
  "tx_fold f [] r = tx_return r"
| "tx_fold f (x # xs) r = tx_bind (f x r) (tx_fold f xs)"

definition tx_guard :: "bool \<Rightarrow> 'e \<Rightarrow> ('s, 'e, unit) tx" where
  "tx_guard b e = (if b then tx_return () else tx_fail e)"

lemma tx_return_eq [tx_simps]: "tx_return x s = Inr (x, s)" by (simp add: tx_return_def)
lemma tx_fail_eq [tx_simps]: "tx_fail e s = Inl e" by (simp add: tx_fail_def)
lemma tx_get_eq [tx_simps]: "tx_get f s = Inr (f s, s)" by (simp add: tx_get_def)
lemma tx_modify_eq [tx_simps]: "tx_modify f s = Inr ((), f s)" by (simp add: tx_modify_def)
lemma tx_guard_eq [tx_simps]: "tx_guard b e s = (if b then Inr ((), s) else Inl e)"
  by (simp add: tx_guard_def tx_simps)
lemma tx_when_eq [tx_simps]: "tx_when b m s = (if b then m s else Inr ((), s))"
  by (simp add: tx_when_def tx_simps)

lemma tx_bind_Inr [simp]: "m s = Inr (x, s') \<Longrightarrow> tx_bind m f s = f x s'"
  by (simp add: tx_bind_def)
lemma tx_bind_Inl [simp]: "m s = Inl e \<Longrightarrow> tx_bind m f s = Inl e"
  by (simp add: tx_bind_def)
lemma tx_then_Inr [simp]: "m s = Inr (x, s') \<Longrightarrow> tx_then m k s = k s'"
  by (simp add: tx_then_def)
lemma tx_then_Inl [simp]: "m s = Inl e \<Longrightarrow> tx_then m k s = Inl e"
  by (simp add: tx_then_def)

lemma tx_bind_return_eq [tx_simps]: "tx_bind (tx_return x) f s = f x s"
  by (simp add: tx_bind_def tx_simps)
lemma tx_bind_get_eq [tx_simps]: "tx_bind (tx_get g) f s = f (g s) s"
  by (simp add: tx_bind_def tx_simps)
lemma tx_then_modify_eq [tx_simps]: "tx_then (tx_modify g) k s = k (g s)"
  by (simp add: tx_then_def tx_bind_def tx_simps)
lemma tx_then_guard_eq [tx_simps]: "tx_then (tx_guard b e) k s = (if b then k s else Inl e)"
  by (simp add: tx_then_def tx_bind_def tx_simps)
lemma tx_then_return_eq [tx_simps]: "tx_then (tx_return x) k s = k s"
  by (simp add: tx_then_def tx_bind_def tx_simps)

lemma tx_bind_success:
  "tx_bind m f s = Inr (y, s'') \<longleftrightarrow> (\<exists>x s'. m s = Inr (x, s') \<and> f x s' = Inr (y, s''))"
  by (auto simp: tx_bind_def split: sum.splits)

lemma tx_then_success:
  "tx_then m k s = Inr (y, s'') \<longleftrightarrow> (\<exists>x s'. m s = Inr (x, s') \<and> k s' = Inr (y, s''))"
  by (simp add: tx_then_def tx_bind_success)

lemmas tx_success = tx_bind_success tx_then_success

text \<open>\<^verbatim>\<open>runWrite\<close>-independent: run a body, keep the new state only on success.\<close>

definition run_tx :: "('s, 'e, 'a) tx \<Rightarrow> ('s, 'e, 'a) act" where
  "run_tx m s = (case m s of Inl e \<Rightarrow> (Inl e, s) | Inr (x, s') \<Rightarrow> (Inr x, s'))"

subsection \<open>Controller code around transactions\<close>

definition act_return :: "'a \<Rightarrow> ('s, 'e, 'a) act" where
  "act_return x s = (Inr x, s)"

definition act_fail :: "'e \<Rightarrow> ('s, 'e, 'a) act" where
  "act_fail e s = (Inl e, s)"

definition act_bind :: "('s, 'e, 'a) act \<Rightarrow> ('a \<Rightarrow> ('s, 'e, 'b) act) \<Rightarrow> ('s, 'e, 'b) act" where
  "act_bind m f s = (case m s of (Inl e, s') \<Rightarrow> (Inl e, s') | (Inr x, s') \<Rightarrow> f x s')"

definition act_then :: "('s, 'e, 'a) act \<Rightarrow> ('s, 'e, 'b) act \<Rightarrow> ('s, 'e, 'b) act" where
  "act_then m k = act_bind m (\<lambda>_. k)"

definition act_get :: "('s \<Rightarrow> 'a) \<Rightarrow> ('s, 'e, 'a) act" where
  "act_get f s = (Inr (f s), s)"

definition act_guard :: "bool \<Rightarrow> 'e \<Rightarrow> ('s, 'e, unit) act" where
  "act_guard b e = (if b then act_return () else act_fail e)"

definition act_when :: "bool \<Rightarrow> ('s, 'e, unit) act \<Rightarrow> ('s, 'e, unit) act" where
  "act_when b m = (if b then m else act_return ())"

text \<open>\<^verbatim>\<open>try { m } catch (err) { h(err) }\<close>: the state reached at the throw stays.\<close>

definition act_try :: "('s, 'e, 'a) act \<Rightarrow> ('e \<Rightarrow> ('s, 'e, 'a) act) \<Rightarrow> ('s, 'e, 'a) act" where
  "act_try m h s = (case m s of (Inl e, s') \<Rightarrow> h e s' | (Inr x, s') \<Rightarrow> (Inr x, s'))"

primrec act_foreach :: "('x \<Rightarrow> ('s, 'e, unit) act) \<Rightarrow> 'x list \<Rightarrow> ('s, 'e, unit) act" where
  "act_foreach f [] = act_return ()"
| "act_foreach f (x # xs) = act_then (f x) (act_foreach f xs)"

primrec act_fold :: "('x \<Rightarrow> 'r \<Rightarrow> ('s, 'e, 'r) act) \<Rightarrow> 'x list \<Rightarrow> 'r \<Rightarrow> ('s, 'e, 'r) act" where
  "act_fold f [] r = act_return r"
| "act_fold f (x # xs) r = act_bind (f x r) (act_fold f xs)"

text \<open>An action on the first component of a product state (the database beside the outside world).\<close>

definition on_fst :: "('s, 'e, 'a) act \<Rightarrow> ('s \<times> 'w, 'e, 'a) act" where
  "on_fst m sw = (case m (fst sw) of (r, s') \<Rightarrow> (r, (s', snd sw)))"

definition on_snd :: "('w, 'e, 'a) act \<Rightarrow> ('s \<times> 'w, 'e, 'a) act" where
  "on_snd m sw = (case m (snd sw) of (r, w') \<Rightarrow> (r, (fst sw, w')))"

lemma act_simps [tx_simps]:
  "act_return x s = (Inr x, s)"
  "act_fail e s = (Inl e, s)"
  "act_get f s = (Inr (f s), s)"
  "act_guard b e s = (if b then (Inr (), s) else (Inl e, s))"
  "act_when b n s = (if b then n s else (Inr (), s))"
  by (simp_all add: act_return_def act_fail_def act_get_def act_guard_def act_when_def)

lemma act_bind_Inr [simp]: "m s = (Inr x, s') \<Longrightarrow> act_bind m f s = f x s'"
  by (simp add: act_bind_def)
lemma act_bind_Inl [simp]: "m s = (Inl e, s') \<Longrightarrow> act_bind m f s = (Inl e, s')"
  by (simp add: act_bind_def)
lemma act_then_Inr [simp]: "m s = (Inr x, s') \<Longrightarrow> act_then m k s = k s'"
  by (simp add: act_then_def)
lemma act_then_Inl [simp]: "m s = (Inl e, s') \<Longrightarrow> act_then m k s = (Inl e, s')"
  by (simp add: act_then_def)

lemma act_bind_eqs [tx_simps]:
  "act_bind (act_return x) f s = f x s"
  "act_bind (act_get g) f s = f (g s) s"
  "act_then (act_guard b e) k s = (if b then k s else (Inl e, s))"
  "act_then (act_return x) k s = k s"
  by (simp_all add: act_then_def act_bind_def tx_simps)

text \<open>The value and state of a run that did not fail.\<close>

lemma act_okE:
  assumes "\<not> isl (fst r)" obtains x s where "r = (Inr x, s)"
  using assms by (cases r; cases "fst r") auto

lemma tx_okE:
  assumes "\<not> isl r" obtains x s where "r = Inr (x, s)"
  using assms by (cases r) auto

lemma tx_caseE:
  assumes "case r of Inl e \<Rightarrow> False | Inr (x, s) \<Rightarrow> P x s" obtains x s where "r = Inr (x, s)" "P x s"
  using assms by (cases r) auto

lemma act_caseE:
  assumes "case r of (Inl e, s) \<Rightarrow> False | (Inr x, s) \<Rightarrow> P x s" obtains x s where "r = (Inr x, s)" "P x s"
  using assms by (cases r; cases "fst r") auto

text \<open>\<open>act_rel R m\<close>: whatever the outcome, the state before and the state after are related.\<close>

definition act_rel :: "('s \<Rightarrow> 's \<Rightarrow> bool) \<Rightarrow> ('s, 'e, 'a) act \<Rightarrow> bool" where
  "act_rel R m \<longleftrightarrow> (\<forall>s. R s (snd (m s)))"

lemma act_relI: "(\<And>s. R s (snd (m s))) \<Longrightarrow> act_rel R m"
  by (simp add: act_rel_def)

lemma act_relD: "act_rel R m \<Longrightarrow> m s = (r, s') \<Longrightarrow> R s s'"
  by (metis act_rel_def snd_conv)

subsection \<open>Invariants and frame relations of transactions\<close>

text \<open>
  \<open>tx_rel R m\<close>: every successful run of \<open>m\<close> relates the state before to the state after by \<open>R\<close>. For a
  preorder \<open>R\<close> the property composes; \<open>R = (\<lambda>s s'. inv s \<longrightarrow> inv s')\<close> is preservation of an invariant
  and \<open>R = (\<lambda>s s'. f s' = f s)\<close> a frame condition.
\<close>

definition tx_rel :: "('s \<Rightarrow> 's \<Rightarrow> bool) \<Rightarrow> ('s, 'e, 'a) tx \<Rightarrow> bool" where
  "tx_rel R m \<longleftrightarrow> (\<forall>s x s'. m s = Inr (x, s') \<longrightarrow> R s s')"

lemma tx_relI: "(\<And>s x s'. m s = Inr (x, s') \<Longrightarrow> R s s') \<Longrightarrow> tx_rel R m"
  by (simp add: tx_rel_def)

lemma tx_relD: "tx_rel R m \<Longrightarrow> m s = Inr (x, s') \<Longrightarrow> R s s'"
  by (auto simp: tx_rel_def)

text \<open>The contract of a relation that transactions may be composed under.\<close>

locale tx_preorder =
  fixes R :: "'s \<Rightarrow> 's \<Rightarrow> bool"
  assumes R_refl: "R s s"
    and R_trans: "R s t \<Longrightarrow> R t u \<Longrightarrow> R s u"
begin

lemma rel_return: "tx_rel R (tx_return x)"
  by (auto simp: tx_rel_def tx_simps R_refl)

lemma rel_fail: "tx_rel R (tx_fail e)"
  by (auto simp: tx_rel_def tx_simps)

lemma rel_get: "tx_rel R (tx_get f)"
  by (auto simp: tx_rel_def tx_simps R_refl)

lemma rel_guard: "tx_rel R (tx_guard b e)"
  by (auto simp: tx_rel_def tx_simps R_refl split: if_splits)

lemma rel_bind: "tx_rel R m \<Longrightarrow> (\<And>x. tx_rel R (f x)) \<Longrightarrow> tx_rel R (tx_bind m f)"
  by (rule tx_relI) (auto simp: tx_success dest!: tx_relD intro: R_trans)

lemma rel_then: "tx_rel R m \<Longrightarrow> tx_rel R k \<Longrightarrow> tx_rel R (tx_then m k)"
  by (simp add: tx_then_def rel_bind)

lemma rel_when: "tx_rel R m \<Longrightarrow> tx_rel R (tx_when b m)"
  by (simp add: tx_when_def rel_return)

lemma rel_foreach: "(\<And>x. x \<in> set xs \<Longrightarrow> tx_rel R (f x)) \<Longrightarrow> tx_rel R (tx_foreach f xs)"
  by (induction xs) (auto intro: rel_return rel_then)

lemma rel_fold: "(\<And>x r. x \<in> set xs \<Longrightarrow> tx_rel R (f x r)) \<Longrightarrow> tx_rel R (tx_fold f xs r)"
  by (induction xs arbitrary: r) (auto intro: rel_return rel_bind)

lemma rel_if: "(b \<Longrightarrow> tx_rel R m) \<Longrightarrow> (\<not> b \<Longrightarrow> tx_rel R k) \<Longrightarrow> tx_rel R (if b then m else k)"
  by simp

lemma rel_option: "(v = None \<Longrightarrow> tx_rel R m) \<Longrightarrow> (\<And>x. v = Some x \<Longrightarrow> tx_rel R (f x)) \<Longrightarrow>
    tx_rel R (case v of None \<Rightarrow> m | Some x \<Rightarrow> f x)"
  by (cases v) auto

lemma rel_list: "tx_rel R m \<Longrightarrow> (\<And>x xs. tx_rel R (f x xs)) \<Longrightarrow> tx_rel R (case v of [] \<Rightarrow> m | x # xs \<Rightarrow> f x xs)"
  by (cases v) auto

lemma rel_run: "tx_rel R m \<Longrightarrow> R s (snd (run_tx m s))"
  by (auto simp: tx_rel_def run_tx_def R_refl split: sum.splits)

lemma act_rel_return: "act_rel R (act_return x)"
  by (simp add: act_rel_def tx_simps R_refl)

lemma act_rel_fail: "act_rel R (act_fail e)"
  by (simp add: act_rel_def tx_simps R_refl)

lemma act_rel_get: "act_rel R (act_get f)"
  by (simp add: act_rel_def tx_simps R_refl)

lemma act_rel_guard: "act_rel R (act_guard b e)"
  by (simp add: act_rel_def tx_simps R_refl)

lemma act_rel_bind:
  assumes "act_rel R m" "\<And>x. act_rel R (f x)"
  shows "act_rel R (act_bind m f)"
proof (rule act_relI)
  fix s
  obtain r s' where m: "m s = (r, s')" by (cases "m s")
  then have "R s s'" by (rule act_relD[OF assms(1)])
  moreover have "R s' (snd (f x s'))" for x using assms(2) by (simp add: act_rel_def)
  ultimately show "R s (snd (act_bind m f s))"
    using m by (cases r) (auto simp: act_bind_def intro: R_trans)
qed

lemma act_rel_then: "act_rel R m \<Longrightarrow> act_rel R k \<Longrightarrow> act_rel R (act_then m k)"
  by (simp add: act_then_def act_rel_bind)

lemma act_rel_when: "act_rel R m \<Longrightarrow> act_rel R (act_when b m)"
  by (simp add: act_when_def act_rel_return)

lemma act_rel_try:
  assumes "act_rel R m" "\<And>e. act_rel R (h e)"
  shows "act_rel R (act_try m h)"
proof (rule act_relI)
  fix s
  obtain r s' where m: "m s = (r, s')" by (cases "m s")
  then have "R s s'" by (rule act_relD[OF assms(1)])
  moreover have "R s' (snd (h e s'))" for e using assms(2) by (simp add: act_rel_def)
  ultimately show "R s (snd (act_try m h s))"
    using m by (cases r) (auto simp: act_try_def intro: R_trans)
qed

lemma act_rel_foreach: "(\<And>x. x \<in> set xs \<Longrightarrow> act_rel R (f x)) \<Longrightarrow> act_rel R (act_foreach f xs)"
  by (induction xs) (auto intro: act_rel_return act_rel_then)

lemma act_rel_fold: "(\<And>x r. x \<in> set xs \<Longrightarrow> act_rel R (f x r)) \<Longrightarrow> act_rel R (act_fold f xs r)"
  by (induction xs arbitrary: r) (auto intro: act_rel_return act_rel_bind)

lemma act_rel_if: "(b \<Longrightarrow> act_rel R m) \<Longrightarrow> (\<not> b \<Longrightarrow> act_rel R k) \<Longrightarrow> act_rel R (if b then m else k)"
  by simp

lemma act_rel_option: "(v = None \<Longrightarrow> act_rel R m) \<Longrightarrow> (\<And>x. v = Some x \<Longrightarrow> act_rel R (f x)) \<Longrightarrow>
    act_rel R (case v of None \<Rightarrow> m | Some x \<Rightarrow> f x)"
  by (cases v) auto

lemmas act_rel_intros = act_rel_return act_rel_fail act_rel_get act_rel_guard act_rel_bind act_rel_then
  act_rel_when act_rel_try act_rel_foreach act_rel_fold act_rel_if act_rel_option

lemmas rel_intros = rel_return rel_fail rel_get rel_guard rel_bind rel_then rel_when
  rel_foreach rel_fold rel_if rel_option rel_list

end

section \<open>Tables\<close>

definition update_where :: "('r \<Rightarrow> bool) \<Rightarrow> ('r \<Rightarrow> 'r) \<Rightarrow> 'r list \<Rightarrow> 'r list" where
  "update_where p f t = map (\<lambda>r. if p r then f r else r) t"

definition count_where :: "('r \<Rightarrow> bool) \<Rightarrow> 'r list \<Rightarrow> nat" where
  "count_where p t = length (filter p t)"

lemma length_update_where [table_simps]: "length (update_where p f t) = length t"
  by (simp add: update_where_def)

lemma set_update_where [table_simps]:
  "set (update_where p f t) = (\<lambda>r. if p r then f r else r) ` set t"
  by (simp add: update_where_def)

lemma map_update_where [table_simps]:
  "(\<And>r. r \<in> set t \<Longrightarrow> p r \<Longrightarrow> g (f r) = g r) \<Longrightarrow> map g (update_where p f t) = map g t"
  by (simp add: update_where_def)

lemma update_where_none [table_simps]:
  "(\<And>r. r \<in> set t \<Longrightarrow> \<not> p r) \<Longrightarrow> update_where p f t = t"
  unfolding update_where_def by (rule map_idI) simp

lemma update_where_append [table_simps]:
  "update_where p f (xs @ ys) = update_where p f xs @ update_where p f ys"
  by (simp add: update_where_def)

lemma update_where_Cons [table_simps]:
  "update_where p f (x # xs) = (if p x then f x else x) # update_where p f xs"
  by (simp add: update_where_def)

lemma update_where_Nil [table_simps]: "update_where p f [] = []"
  by (simp add: update_where_def)

lemma count_where_simps [table_simps]:
  "count_where p [] = 0"
  "count_where p (x # xs) = (if p x then Suc (count_where p xs) else count_where p xs)"
  "count_where p (xs @ ys) = count_where p xs + count_where p ys"
  by (simp_all add: count_where_def)

lemma count_where_cong:
  "(\<And>r. r \<in> set t \<Longrightarrow> p r = q r) \<Longrightarrow> count_where p t = count_where q t"
  by (simp add: count_where_def cong: filter_cong)

lemma count_where_update_le:
  "(\<And>r. r \<in> set t \<Longrightarrow> p r \<Longrightarrow> q (f r) \<Longrightarrow> q r) \<Longrightarrow>
   count_where q (update_where p f t) \<le> count_where q t"
  by (induction t) (auto simp: table_simps le_Suc_eq)

lemma count_where_update_one:
  assumes "distinct (map key t)"
  shows "count_where q (update_where (\<lambda>r. key r = k) f t) \<le> Suc (count_where q t)"
  using assms
proof (induction t)
  case Nil
  then show ?case by (simp add: table_simps)
next
  case (Cons r t)
  show ?case
  proof (cases "key r = k")
    case True
    with Cons.prems have "update_where (\<lambda>r. key r = k) f t = t"
      by (intro update_where_none) (auto simp: image_iff)
    with True show ?thesis by (simp add: table_simps)
  next
    case False
    with Cons show ?thesis by (simp add: table_simps)
  qed
qed

lemma update_where_twice:
  assumes "\<And>r. f (f r) = f r" "\<And>r. q (f r) = q r"
  shows "update_where q f (update_where p f t) = update_where (\<lambda>r. p r \<or> q r) f t"
  using assms by (simp add: update_where_def)

lemma find_update_where:
  assumes "\<And>r. r \<in> set t \<Longrightarrow> q (if p r then f r else r) = q r"
  shows "List.find q (update_where p f t)
    = map_option (\<lambda>r. if p r then f r else r) (List.find q t)"
  using assms by (induction t) (auto simp: table_simps)

lemma find_append [table_simps]:
  "List.find p (xs @ ys) = (case List.find p xs of None \<Rightarrow> List.find p ys | Some r \<Rightarrow> Some r)"
  by (induction xs) auto

lemma find_SomeD: "List.find p t = Some r \<Longrightarrow> r \<in> set t \<and> p r"
  by (auto simp: find_Some_iff in_set_conv_nth)

lemma find_key_unique:
  "distinct (map key t) \<Longrightarrow> r \<in> set t \<Longrightarrow> List.find (\<lambda>x. key x = key r) t = Some r"
  by (induction t) (auto simp: rev_image_eqI)

lemma find_None_set: "List.find p t = None \<longleftrightarrow> (\<forall>r \<in> set t. \<not> p r)"
  by (auto simp: find_None_iff)

lemma list_ex_key:
  "list_ex (\<lambda>r. k r = v) t \<longleftrightarrow> v \<in> k ` set t"
  "list_ex (\<lambda>r. P r \<and> k r = v) t \<longleftrightarrow> v \<in> k ` set (filter P t)"
  "list_ex (\<lambda>r. f r = a \<and> g r = b) t \<longleftrightarrow> (a, b) \<in> (\<lambda>r. (f r, g r)) ` set t"
  by (auto simp: list_ex_iff)

text \<open>SQL \<^verbatim>\<open>ORDER BY k\<close>: a stable insertion sort on the key, ties in rowid order.\<close>

definition order_by :: "('r \<Rightarrow> 'k::linorder) \<Rightarrow> 'r list \<Rightarrow> 'r list" where
  "order_by k t = sort_key k t"

lemma set_order_by [table_simps]: "set (order_by k t) = set t"
  by (simp add: order_by_def)

lemma sorted_order_by: "sorted (map k (order_by k t))"
  by (simp add: order_by_def)

end
