(* ===== verification/State_Machine.thy ===== *)
theory State_Machine
  imports Prelude
begin

text \<open>
  The pure state machines of \<^verbatim>\<open>src/domain/state-machine.ts\<close>: one table of legal (from, to, events)
  rules per durable entity, the lookups over the tables, and what the tables guarantee: which states
  are terminal, that FAILED_HOLD leaves only by \<^verbatim>\<open>cleanup\<close> and DEFERRED only by \<^verbatim>\<open>dependency_completed\<close>,
  and that the only edge into a capacity-holding WorkItem state from outside is the claim.
  The locale \<open>lifecycle\<close> is the contract of a legality test whose terminal states have no
  outgoing edge; every entity's table is an instance.
\<close>

datatype entity_type =
    Issue | Work_Item | Triage | Session | Worktree | Pull_Request | Inbox | Side_Effect

fun entity_name :: "entity_type \<Rightarrow> string" where
  "entity_name Issue = ''issue''"
| "entity_name Work_Item = ''work_item''"
| "entity_name Triage = ''triage''"
| "entity_name Session = ''session''"
| "entity_name Worktree = ''worktree''"
| "entity_name Pull_Request = ''pull_request''"
| "entity_name Inbox = ''inbox''"
| "entity_name Side_Effect = ''side_effect''"

record transition_rule =
  rule_from :: string
  rule_to :: string
  rule_events :: "string list"

record state_machine =
  sm_states :: "string list"
  sm_transitions :: "transition_rule list"

abbreviation rule :: "string \<Rightarrow> string \<Rightarrow> string list \<Rightarrow> transition_rule" where
  "rule f t es \<equiv> \<lparr>rule_from = f, rule_to = t, rule_events = es\<rparr>"

section \<open>The tables\<close>

definition issue_states :: "string list" where
  "issue_states = [''BASELINE_EXCLUDED'', ''NEW'', ''TRIAGE_PENDING'', ''READY'', ''DUPLICATE'', ''MERGED'', ''PAUSED_TRIAGE'', ''BLOCKED'', ''REJECTED'']"

definition issue_transitions :: "transition_rule list" where
  "issue_transitions = [
    rule ''BASELINE_EXCLUDED'' ''NEW'' [''enqueue'', ''manual_enqueue''],
    rule ''NEW'' ''TRIAGE_PENDING'' [''discovery'', ''schedule_triage''],
    rule ''TRIAGE_PENDING'' ''READY'' [''triage_ready''],
    rule ''TRIAGE_PENDING'' ''DUPLICATE'' [''triage_duplicate''],
    rule ''TRIAGE_PENDING'' ''MERGED'' [''triage_merged''],
    rule ''TRIAGE_PENDING'' ''PAUSED_TRIAGE'' [''triage_paused''],
    rule ''TRIAGE_PENDING'' ''BLOCKED'' [''triage_blocked''],
    rule ''TRIAGE_PENDING'' ''REJECTED'' [''triage_rejected''],
    rule ''PAUSED_TRIAGE'' ''TRIAGE_PENDING'' [''resume_triage'', ''unpause_triage''],
    rule ''BLOCKED'' ''TRIAGE_PENDING'' [''unblock_triage'']]"

definition work_item_states :: "string list" where
  "work_item_states = [''READY'', ''QUEUED'', ''RUNNING'', ''WAITING'', ''COMPLETED'', ''PAUSED_WORK'', ''AWAITING_DECISION'', ''DEFERRED'', ''FAILED_HOLD'', ''FAILED'', ''REJECTED'']"

definition work_item_transitions :: "transition_rule list" where
  "work_item_transitions = [
    rule ''READY'' ''QUEUED'' [''enqueue'', ''queue''],
    rule ''QUEUED'' ''RUNNING'' [''claim''],
    rule ''QUEUED'' ''READY'' [''dequeue'', ''release''],
    rule ''RUNNING'' ''WAITING'' [''await_review'', ''needs_review''],
    rule ''WAITING'' ''RUNNING'' [''resume''],
    rule ''WAITING'' ''RUNNING'' [''timeout_retry''],
    rule ''RUNNING'' ''COMPLETED'' [''completed'', ''completion''],
    rule ''READY'' ''PAUSED_WORK'' [''pause_work''],
    rule ''QUEUED'' ''PAUSED_WORK'' [''pause_work''],
    rule ''RUNNING'' ''PAUSED_WORK'' [''pause_work''],
    rule ''WAITING'' ''PAUSED_WORK'' [''pause_work''],
    rule ''PAUSED_WORK'' ''QUEUED'' [''resume_work''],
    rule ''RUNNING'' ''AWAITING_DECISION'' [''await_decision''],
    rule ''AWAITING_DECISION'' ''RUNNING'' [''decision_received''],
    rule ''RUNNING'' ''DEFERRED'' [''defer''],
    rule ''WAITING'' ''DEFERRED'' [''defer''],
    rule ''DEFERRED'' ''READY'' [''dependency_completed''],
    rule ''RUNNING'' ''FAILED_HOLD'' [''wedge'', ''drift'', ''rogue_effect'', ''irreconcilable_identity''],
    rule ''WAITING'' ''FAILED_HOLD'' [''wedge'', ''drift'', ''rogue_effect'', ''irreconcilable_identity''],
    rule ''FAILED_HOLD'' ''FAILED'' [''cleanup''],
    rule ''RUNNING'' ''FAILED'' [''failed''],
    rule ''QUEUED'' ''FAILED'' [''failed''],
    rule ''READY'' ''REJECTED'' [''rejected''],
    rule ''QUEUED'' ''REJECTED'' [''rejected''],
    rule ''RUNNING'' ''REJECTED'' [''rejected''],
    rule ''WAITING'' ''REJECTED'' [''rejected'']]"

definition triage_states :: "string list" where
  "triage_states = [''IDLE'', ''PROMPTING'', ''BACKOFF'', ''PAUSED_TRIAGE'']"

definition triage_transitions :: "transition_rule list" where
  "triage_transitions = [
    rule ''IDLE'' ''PROMPTING'' [''triage_start'', ''prompt''],
    rule ''PROMPTING'' ''IDLE'' [''triage_done''],
    rule ''PROMPTING'' ''BACKOFF'' [''triage_backoff''],
    rule ''BACKOFF'' ''IDLE'' [''backoff_complete'', ''retry''],
    rule ''PROMPTING'' ''PAUSED_TRIAGE'' [''escalate'', ''triage_escalated''],
    rule ''BACKOFF'' ''PAUSED_TRIAGE'' [''escalate'', ''triage_escalated''],
    rule ''IDLE'' ''PAUSED_TRIAGE'' [''pause_triage''],
    rule ''PROMPTING'' ''PAUSED_TRIAGE'' [''pause_triage''],
    rule ''BACKOFF'' ''PAUSED_TRIAGE'' [''pause_triage''],
    rule ''PAUSED_TRIAGE'' ''IDLE'' [''unpause'', ''resume_triage'']]"

definition session_states :: "string list" where
  "session_states = [''ACTIVE'', ''RETAINED'']"

definition session_transitions :: "transition_rule list" where
  "session_transitions = [
    rule ''ACTIVE'' ''RETAINED'' [''retained'', ''session_retained'']]"

definition worktree_states :: "string list" where
  "worktree_states = [''ACTIVE'', ''CLEANING'', ''CLEANED'']"

definition worktree_transitions :: "transition_rule list" where
  "worktree_transitions = [
    rule ''ACTIVE'' ''CLEANING'' [''cleanup_start'', ''cleanup_started''],
    rule ''CLEANING'' ''CLEANED'' [''cleaned'', ''cleanup_done'']]"

definition pr_states :: "string list" where
  "pr_states = [''ACTIVE'', ''MERGED'', ''CLOSED'']"

definition pr_transitions :: "transition_rule list" where
  "pr_transitions = [
    rule ''ACTIVE'' ''MERGED'' [''merged'', ''pr_merged''],
    rule ''ACTIVE'' ''CLOSED'' [''closed'', ''pr_closed'']]"

definition inbox_states :: "string list" where
  "inbox_states = [''PENDING'', ''DELIVERING'', ''DELIVERED'', ''TERMINAL'']"

definition inbox_transitions :: "transition_rule list" where
  "inbox_transitions = [
    rule ''PENDING'' ''DELIVERING'' [''deliver'', ''delivery_started''],
    rule ''DELIVERING'' ''DELIVERED'' [''delivered''],
    rule ''DELIVERING'' ''PENDING'' [''recycle'', ''recycle_no_reply''],
    rule ''PENDING'' ''TERMINAL'' [''terminal_housekeeping'', ''terminal_unattached_housekeeping'']]"

definition side_effect_states :: "string list" where
  "side_effect_states = [''PENDING'', ''EXECUTING'', ''DONE'', ''FAILED'']"

definition side_effect_transitions :: "transition_rule list" where
  "side_effect_transitions = [
    rule ''PENDING'' ''EXECUTING'' [''execute_start'', ''started''],
    rule ''EXECUTING'' ''DONE'' [''done'', ''succeeded''],
    rule ''EXECUTING'' ''FAILED'' [''failed'']]"

fun get_state_machine :: "entity_type \<Rightarrow> state_machine" where
  "get_state_machine Issue = \<lparr>sm_states = issue_states, sm_transitions = issue_transitions\<rparr>"
| "get_state_machine Work_Item = \<lparr>sm_states = work_item_states, sm_transitions = work_item_transitions\<rparr>"
| "get_state_machine Triage = \<lparr>sm_states = triage_states, sm_transitions = triage_transitions\<rparr>"
| "get_state_machine Session = \<lparr>sm_states = session_states, sm_transitions = session_transitions\<rparr>"
| "get_state_machine Worktree = \<lparr>sm_states = worktree_states, sm_transitions = worktree_transitions\<rparr>"
| "get_state_machine Pull_Request = \<lparr>sm_states = pr_states, sm_transitions = pr_transitions\<rparr>"
| "get_state_machine Inbox = \<lparr>sm_states = inbox_states, sm_transitions = inbox_transitions\<rparr>"
| "get_state_machine Side_Effect = \<lparr>sm_states = side_effect_states, sm_transitions = side_effect_transitions\<rparr>"

section \<open>Lookups\<close>

definition is_known_state :: "entity_type \<Rightarrow> string \<Rightarrow> bool" where
  "is_known_state e s = List.member (sm_states (get_state_machine e)) s"

definition is_legal_transition :: "entity_type \<Rightarrow> string \<Rightarrow> string \<Rightarrow> string \<Rightarrow> bool" where
  "is_legal_transition e f t ev =
     list_ex (\<lambda>r. rule_from r = f \<and> rule_to r = t \<and> List.member (rule_events r) ev)
       (sm_transitions (get_state_machine e))"

definition legal_transitions :: "entity_type \<Rightarrow> (string \<times> string \<times> string) list" where
  "legal_transitions e =
     concat (map (\<lambda>r. map (\<lambda>ev. (rule_from r, rule_to r, ev)) (rule_events r))
       (sm_transitions (get_state_machine e)))"

definition is_terminal_state :: "entity_type \<Rightarrow> string \<Rightarrow> bool" where
  "is_terminal_state e s = (\<not> list_ex (\<lambda>r. rule_from r = s) (sm_transitions (get_state_machine e)))"

definition non_terminal_states :: "entity_type \<Rightarrow> string list" where
  "non_terminal_states e = filter (\<lambda>s. \<not> is_terminal_state e s) (sm_states (get_state_machine e))"

definition ISSUE_TRIAGE_DISPOSITIONS :: "string list" where
  "ISSUE_TRIAGE_DISPOSITIONS =
     [''READY'', ''DUPLICATE'', ''MERGED'', ''PAUSED_TRIAGE'', ''BLOCKED'', ''REJECTED'']"

definition ISSUE_DISPOSITION_EVENT :: "string \<rightharpoonup> string" where
  "ISSUE_DISPOSITION_EVENT = map_of
     [(''READY'', ''triage_ready''), (''DUPLICATE'', ''triage_duplicate''),
      (''MERGED'', ''triage_merged''), (''PAUSED_TRIAGE'', ''triage_paused''),
      (''BLOCKED'', ''triage_blocked''), (''REJECTED'', ''triage_rejected'')]"

definition ARTIFACT_OWNING_WORK_ITEM_STATES :: "string list" where
  "ARTIFACT_OWNING_WORK_ITEM_STATES =
     [''QUEUED'', ''RUNNING'', ''WAITING'', ''AWAITING_DECISION'', ''PAUSED_WORK'', ''FAILED_HOLD'']"

lemmas tables = issue_states_def issue_transitions_def work_item_states_def work_item_transitions_def
  triage_states_def triage_transitions_def session_states_def session_transitions_def
  worktree_states_def worktree_transitions_def pr_states_def pr_transitions_def
  inbox_states_def inbox_transitions_def side_effect_states_def side_effect_transitions_def

section \<open>What the tables guarantee\<close>

lemma is_legal_transition_iff:
  "is_legal_transition e f t ev \<longleftrightarrow> (f, t, ev) \<in> set (legal_transitions e)"
  by (auto simp: is_legal_transition_def legal_transitions_def list_ex_iff)

lemma legal_not_terminal: "is_legal_transition e f t ev \<Longrightarrow> \<not> is_terminal_state e f"
  by (auto simp: is_legal_transition_def is_terminal_state_def list_ex_iff)

lemma legal_known:
  "is_legal_transition e f t ev \<Longrightarrow> is_known_state e f \<and> is_known_state e t"
proof -
  have "list_all (\<lambda>r. is_known_state e (rule_from r) \<and> is_known_state e (rule_to r))
      (sm_transitions (get_state_machine e))"
    by (cases e; simp only:; code_simp)
  moreover assume "is_legal_transition e f t ev"
  ultimately show ?thesis
    by (auto simp: is_legal_transition_def list_ex_iff list_all_iff)
qed

text \<open>The contract every entity's table meets.\<close>

locale lifecycle =
  fixes known :: "string \<Rightarrow> bool"
    and legal :: "string \<Rightarrow> string \<Rightarrow> string \<Rightarrow> bool"
    and terminal :: "string \<Rightarrow> bool"
  assumes legal_is_known: "legal f t ev \<Longrightarrow> known f \<and> known t"
    and terminal_stuck: "terminal f \<Longrightarrow> \<not> legal f t ev"
begin

text \<open>A run of the machine: a list of (to, event) steps from a state.\<close>

primrec run_legal :: "string \<Rightarrow> (string \<times> string) list \<Rightarrow> bool" where
  "run_legal s [] = True"
| "run_legal s (st # sts) = (legal s (fst st) (snd st) \<and> run_legal (fst st) sts)"

lemma run_from_terminal: "terminal s \<Longrightarrow> run_legal s sts \<Longrightarrow> sts = []"
  using terminal_stuck by (cases sts) auto

lemma run_known: "known s \<Longrightarrow> run_legal s sts \<Longrightarrow> st \<in> set sts \<Longrightarrow> known (fst st)"
  using legal_is_known by (induction sts arbitrary: s) auto

lemma run_append: "run_legal s (xs @ ys) \<longleftrightarrow>
    run_legal s xs \<and> run_legal (if xs = [] then s else fst (last xs)) ys"
  by (induction xs arbitrary: s) auto

end

interpretation fsm: lifecycle "is_known_state e" "is_legal_transition e" "is_terminal_state e"
  for e
  by unfold_locales (auto dest: legal_known legal_not_terminal)

lemma work_item_terminal:
  "is_known_state Work_Item s \<Longrightarrow>
   is_terminal_state Work_Item s \<longleftrightarrow> s \<in> {''COMPLETED'', ''FAILED'', ''REJECTED''}"
proof -
  have "list_all (\<lambda>s. is_terminal_state Work_Item s \<longleftrightarrow> List.member [''COMPLETED'', ''FAILED'', ''REJECTED''] s)
      (sm_states (get_state_machine Work_Item))"
    by code_simp
  moreover assume "is_known_state Work_Item s"
  ultimately show ?thesis by (auto simp: is_known_state_def list_all_iff)
qed

lemma failed_hold_exit:
  "is_legal_transition Work_Item ''FAILED_HOLD'' t ev \<Longrightarrow> t = ''FAILED'' \<and> ev = ''cleanup''"
  by (auto simp: is_legal_transition_def tables list_ex_iff)

lemma deferred_exit:
  "is_legal_transition Work_Item ''DEFERRED'' t ev \<Longrightarrow> t = ''READY'' \<and> ev = ''dependency_completed''"
  by (auto simp: is_legal_transition_def tables list_ex_iff)

end
