(* ===== verification/Iso_Time.thy ===== *)
theory Iso_Time
  imports Prelude
begin

text \<open>
  Timestamps. The source keeps every timestamp as the TEXT that \<^verbatim>\<open>Date.prototype.toISOString\<close> prints
  (24 characters, millisecond precision, \<^verbatim>\<open>Z\<close> suffix) and compares them as strings. Instants are
  milliseconds since 1970-01-01 UTC; \<open>to_iso\<close> prints one, \<open>date_parse\<close> reads it back. The calendar is
  the proleptic Gregorian one, counted day by day. The two facts every component relies on are that
  printing is strictly monotonic (so comparing the texts compares the instants) and that parsing
  inverts it, for instants below \<open>max_instant\<close> (in the year 9994), above which the printed
  year could have more than four digits.
\<close>

type_synonym instant = nat
type_synonym timestamp = string

fun leap_year :: "nat \<Rightarrow> bool" where
  "leap_year y \<longleftrightarrow> 4 dvd y \<and> (\<not> 100 dvd y \<or> 400 dvd y)"

definition days_in_month :: "nat \<Rightarrow> nat \<Rightarrow> nat" where
  "days_in_month y m =
     (if m = 2 then (if leap_year y then 29 else 28)
      else if m = 4 \<or> m = 6 \<or> m = 9 \<or> m = 11 then 30 else 31)"

fun next_day :: "nat \<times> nat \<times> nat \<Rightarrow> nat \<times> nat \<times> nat" where
  "next_day (y, m, d) =
     (if d < days_in_month y m then (y, m, Suc d)
      else if m < 12 then (y, Suc m, 1)
      else (Suc y, 1, 1))"

primrec civil :: "nat \<Rightarrow> nat \<times> nat \<times> nat" where
  "civil 0 = (1970, 1, 1)"
| "civil (Suc n) = next_day (civil n)"

text \<open>Zero-padded decimal of a fixed width.\<close>

primrec pad :: "nat \<Rightarrow> nat \<Rightarrow> string" where
  "pad 0 n = []"
| "pad (Suc w) n = pad w (n div 10) @ [digit_char (n mod 10)]"

definition ms_per_day :: nat where "ms_per_day = 86400000"

definition to_iso :: "instant \<Rightarrow> timestamp" where
  "to_iso t =
     (let (y, m, d) = civil (t div ms_per_day); r = t mod ms_per_day in
      pad 4 y @ ''-'' @ pad 2 m @ ''-'' @ pad 2 d @ ''T'' @ pad 2 (r div 3600000) @ '':'' @
      pad 2 (r div 60000 mod 60) @ '':'' @ pad 2 (r div 1000 mod 60) @ ''.'' @ pad 3 (r mod 1000) @ ''Z'')"

definition max_instant :: instant where
  "max_instant = ms_per_day * 2930585"

section \<open>Reading a printed timestamp\<close>

definition char_digit :: "char \<Rightarrow> nat" where
  "char_digit c = of_char c - 48"

definition is_digit :: "char \<Rightarrow> bool" where
  "is_digit c \<longleftrightarrow> (48::nat) \<le> of_char c \<and> (of_char c :: nat) \<le> 57"

definition digits_val :: "string \<Rightarrow> nat" where
  "digits_val s = foldl (\<lambda>v c. 10 * v + char_digit c) 0 s"

primrec month_days :: "nat \<Rightarrow> nat \<Rightarrow> nat" where
  "month_days y 0 = 0"
| "month_days y (Suc m) = month_days y m + days_in_month y (Suc m)"

primrec year_days :: "nat \<Rightarrow> nat" where
  "year_days 0 = 0"
| "year_days (Suc k) = year_days k + month_days (1970 + k) 12"

fun days_of :: "nat \<times> nat \<times> nat \<Rightarrow> nat" where
  "days_of (y, m, d) = year_days (y - 1970) + month_days y (m - 1) + (d - 1)"

text \<open>
  \<^verbatim>\<open>Date.parse\<close> on a text of the shape \<open>to_iso\<close> prints; any other text is \<open>None\<close> (the source applies it only to
  columns it wrote with \<^verbatim>\<open>toISOString\<close>).
\<close>

definition iso_field :: "timestamp \<Rightarrow> nat \<Rightarrow> nat \<Rightarrow> string" where
  "iso_field s i n = take n (drop i s)"

definition date_parse :: "timestamp \<Rightarrow> instant option" where
  "date_parse s =
     (if length s = 24 \<and> iso_field s 4 1 = ''-'' \<and> iso_field s 7 1 = ''-'' \<and> iso_field s 10 1 = ''T''
         \<and> iso_field s 13 1 = '':'' \<and> iso_field s 16 1 = '':'' \<and> iso_field s 19 1 = ''.'' \<and> iso_field s 23 1 = ''Z''
         \<and> list_all (list_all is_digit) [iso_field s 0 4, iso_field s 5 2, iso_field s 8 2, iso_field s 11 2,
             iso_field s 14 2, iso_field s 17 2, iso_field s 20 3]
      then Some (ms_per_day * days_of (digits_val (iso_field s 0 4), digits_val (iso_field s 5 2), digits_val (iso_field s 8 2))
          + 3600000 * digits_val (iso_field s 11 2) + 60000 * digits_val (iso_field s 14 2)
          + 1000 * digits_val (iso_field s 17 2) + digits_val (iso_field s 20 3))
      else None)"

section \<open>Fixed-width decimals\<close>

lemma length_pad [simp]: "length (pad w n) = w"
  by (induction w arbitrary: n) auto

lemma of_digit_char: "d < 10 \<Longrightarrow> (of_char (digit_char d) :: nat) = 48 + d"
  by (simp add: digit_char_def)

lemma is_digit_digit_char [simp]: "d < 10 \<Longrightarrow> is_digit (digit_char d)"
  by (simp add: is_digit_def of_digit_char)

lemma char_digit_digit_char [simp]: "d < 10 \<Longrightarrow> char_digit (digit_char d) = d"
  by (simp add: char_digit_def of_digit_char)

lemma pad_digits: "c \<in> set (pad w n) \<Longrightarrow> is_digit c"
  by (induction w arbitrary: n) auto

lemma digits_val_pad: "n < 10 ^ w \<Longrightarrow> digits_val (pad w n) = n"
proof (induction w arbitrary: n)
  case 0
  then show ?case by (simp add: digits_val_def)
next
  case (Suc w)
  then have "n div 10 < 10 ^ w" by simp
  with Suc.IH have "digits_val (pad w (n div 10)) = n div 10" by blast
  then show ?case by (simp add: digits_val_def)
qed

lemma char_less_iff: "(c < d) = ((of_char c :: nat) < of_char d)"
  by (simp add: less_char_def)

lemma digit_char_less: "a < b \<Longrightarrow> b < 10 \<Longrightarrow> digit_char a < digit_char b"
  by (simp add: char_less_iff of_digit_char)

lemma append_less_same_length:
  "length xs = length ys \<Longrightarrow>
   ((xs @ us :: string) < ys @ vs) \<longleftrightarrow> xs < ys \<or> (xs = ys \<and> us < vs)"
  by (induction xs ys rule: list_induct2) auto

lemma div_mod_lex:
  fixes a b k :: nat
  assumes "0 < k" and "a < b"
  shows "a div k < b div k \<or> (a div k = b div k \<and> a mod k < b mod k)"
proof (cases "a div k = b div k")
  case True
  have "a = k * (a div k) + a mod k" and "b = k * (b div k) + b mod k" by simp_all
  with True \<open>a < b\<close> show ?thesis by (metis nat_add_left_cancel_less)
next
  case False
  with \<open>a < b\<close> show ?thesis using div_le_mono[of a b k] by simp
qed

lemma pad_less: "a < b \<Longrightarrow> b < 10 ^ w \<Longrightarrow> pad w a < pad w b"
proof (induction w arbitrary: a b)
  case 0
  then show ?case by simp
next
  case (Suc w)
  consider "a div 10 < b div 10" | "a div 10 = b div 10" "a mod 10 < b mod 10"
    using div_mod_lex[OF _ Suc.prems(1), of 10] by auto
  then show ?case
  proof cases
    case 1
    with Suc have "pad w (a div 10) < pad w (b div 10)" by simp
    then show ?thesis by (simp add: append_less_same_length)
  next
    case 2
    then show ?thesis by (simp add: append_less_same_length digit_char_less)
  qed
qed

lemma pad_inj: "a < 10 ^ w \<Longrightarrow> b < 10 ^ w \<Longrightarrow> pad w a = pad w b \<Longrightarrow> a = b"
  by (metis digits_val_pad)

section \<open>The calendar\<close>

fun valid_civil :: "nat \<times> nat \<times> nat \<Rightarrow> bool" where
  "valid_civil (y, m, d) \<longleftrightarrow> 1970 \<le> y \<and> 1 \<le> m \<and> m \<le> 12 \<and> 1 \<le> d \<and> d \<le> days_in_month y m"

lemma days_in_month_bounds: "28 \<le> days_in_month y m" "days_in_month y m \<le> 31"
  by (simp_all add: days_in_month_def)

lemma valid_next_day: "valid_civil c \<Longrightarrow> valid_civil (next_day c)"
  using days_in_month_bounds(1) by (cases c) (auto simp: Suc_le_eq intro: order.strict_trans2[of 0 28])

lemma valid_civil_civil: "valid_civil (civil n)"
proof (induction n)
  case 0
  then show ?case using days_in_month_bounds(1)[of 1970 1] by simp
next
  case (Suc n)
  then show ?case by (simp add: valid_next_day)
qed

lemma days_of_next_day:
  assumes "valid_civil c"
  shows "days_of (next_day c) = Suc (days_of c)"
proof -
  obtain y m d where c: "c = (y, m, d)" by (cases c)
  have y: "1970 \<le> y" and m: "1 \<le> m" "m \<le> 12" and d: "1 \<le> d" "d \<le> days_in_month y m"
    using assms by (simp_all add: c)
  obtain m' where m': "m = Suc m'" using m(1) by (cases m) auto
  consider "d < days_in_month y m" | "d = days_in_month y m" "m < 12" | "d = days_in_month y m" "m = 12"
    using d m by linarith
  then show ?thesis
  proof cases
    case 1
    then show ?thesis using d by (simp add: c)
  next
    case 2
    then show ?thesis using d by (simp add: c m')
  next
    case 3
    have "Suc y - 1970 = Suc (y - 1970)" using y by simp
    moreover have "month_days y 12 = month_days y 11 + days_in_month y 12"
      by (simp add: numeral_eq_Suc)
    ultimately show ?thesis using 3 d y by (simp add: c)
  qed
qed

lemma days_of_civil: "days_of (civil n) = n"
proof (induction n)
  case (Suc n)
  then show ?case using days_of_next_day[OF valid_civil_civil[of n]] by simp
qed simp

definition civil_less :: "nat \<times> nat \<times> nat \<Rightarrow> nat \<times> nat \<times> nat \<Rightarrow> bool" where
  "civil_less a b \<longleftrightarrow> (case (a, b) of ((y, m, d), (y', m', d')) \<Rightarrow>
     y < y' \<or> y = y' \<and> (m < m' \<or> m = m' \<and> d < d'))"

lemma civil_less_next: "civil_less c (next_day c)"
  by (cases c) (auto simp: civil_less_def)

lemma civil_less_trans: "civil_less a b \<Longrightarrow> civil_less b c \<Longrightarrow> civil_less a c"
  by (auto simp: civil_less_def split: prod.splits)

lemma civil_mono: "a < b \<Longrightarrow> civil_less (civil a) (civil b)"
proof (induction b)
  case (Suc b)
  then show ?case
    by (cases "a = b") (auto intro: civil_less_next civil_less_trans)
qed simp

lemma year_days_ge: "365 * k \<le> year_days k"
proof (induction k)
  case (Suc k)
  have "month_days y 12 \<ge> 365" for y
    by (simp add: numeral_eq_Suc days_in_month_def)
  then have "365 \<le> month_days (1970 + k) 12" .
  with Suc show ?case by simp
qed simp

lemma civil_year_bound:
  assumes "n \<le> 365 * 8029" and "civil n = (y, m, d)"
  shows "y \<le> 9999"
proof -
  have "365 * (y - 1970) \<le> n"
    using year_days_ge[of "y - 1970"] days_of_civil[of n] assms(2) by simp
  with assms(1) show ?thesis by linarith
qed
section \<open>Printing is monotonic and parsing inverts it\<close>

lemma time_of_day_lex:
  fixes r r' :: nat
  assumes "r < r'"
  shows "r div 3600000 < r' div 3600000 \<or> r div 3600000 = r' div 3600000 \<and>
    (r div 60000 mod 60 < r' div 60000 mod 60 \<or> r div 60000 mod 60 = r' div 60000 mod 60 \<and>
    (r div 1000 mod 60 < r' div 1000 mod 60 \<or> r div 1000 mod 60 = r' div 1000 mod 60 \<and>
     r mod 1000 < r' mod 1000))"
proof -
  have d1: "x div 1000 div 60 = x div 60000" and d2: "x div 60000 div 60 = x div 3600000" for x :: nat
    by (simp_all add: div_mult2_eq[symmetric])
  consider "r div 1000 < r' div 1000" | "r div 1000 = r' div 1000" "r mod 1000 < r' mod 1000"
    using div_mod_lex[OF _ assms, of 1000] by auto
  then show ?thesis
  proof cases
    case 1
    then consider "r div 60000 < r' div 60000"
      | "r div 60000 = r' div 60000" "r div 1000 mod 60 < r' div 1000 mod 60"
      using div_mod_lex[OF _ 1, of 60] by (auto simp: d1)
    then show ?thesis
    proof cases
      case 1
      then show ?thesis using div_mod_lex[OF _ 1, of 60] by (auto simp: d2)
    next
      case 2
      then show ?thesis using d2[of r] d2[of r'] by simp
    qed
  next
    case 2
    then show ?thesis using d1[of r] d1[of r'] d2[of r] d2[of r'] by simp
  qed
qed

lemma to_iso_eq:
  assumes "civil (t div ms_per_day) = (y, m, d)"
  shows "to_iso t = pad 4 y @ ''-'' @ pad 2 m @ ''-'' @ pad 2 d @ ''T'' @
    pad 2 (t mod ms_per_day div 3600000) @ '':'' @ pad 2 (t mod ms_per_day div 60000 mod 60) @ '':'' @
    pad 2 (t mod ms_per_day div 1000 mod 60) @ ''.'' @ pad 3 (t mod ms_per_day mod 1000) @ ''Z''"
  by (simp add: to_iso_def assms Let_def)

lemma to_iso_fields:
  assumes "t < max_instant" and c: "civil (t div ms_per_day) = (y, m, d)"
  shows "y < 10 ^ 4" "m < 10 ^ 2" "d < 10 ^ 2" "t mod ms_per_day div 3600000 < 10 ^ 2"
    "1970 \<le> y" "1 \<le> m" "1 \<le> d"
proof -
  have "t div ms_per_day \<le> 365 * 8029"
    using assms(1) by (simp add: max_instant_def ms_per_day_def)
  from civil_year_bound[OF this c] show "y < 10 ^ 4" by simp
  have "valid_civil (y, m, d)" using valid_civil_civil c by metis
  then show "m < 10 ^ 2" "d < 10 ^ 2" "1970 \<le> y" "1 \<le> m" "1 \<le> d"
    using days_in_month_bounds(2)[of y m] by auto
  show "t mod ms_per_day div 3600000 < 10 ^ 2"
    by (simp add: ms_per_day_def)
qed

lemma pad_append_less: "a < b \<Longrightarrow> b < 10 ^ w \<Longrightarrow> pad w a @ us < pad w b @ vs"
  by (simp add: append_less_same_length pad_less)

lemma append_less_prefix: "(us :: string) < vs \<Longrightarrow> xs @ us < xs @ vs"
  by (simp add: append_less_same_length)

lemma to_iso_mono_day:
  assumes c: "civil (t div ms_per_day) = (y, m, d)" and c': "civil (t' div ms_per_day) = (y', m', d')"
    and "t' < max_instant" and "t div ms_per_day < t' div ms_per_day"
  shows "to_iso t < to_iso t'"
proof -
  note f' = to_iso_fields[OF assms(3) c']
  from civil_mono[OF assms(4)] have "y < y' \<or> y = y' \<and> (m < m' \<or> m = m' \<and> d < d')"
    by (simp add: c c' civil_less_def)
  then consider "y < y'" | "y = y'" "m < m'" | "y = y'" "m = m'" "d < d'" by blast
  then show ?thesis
    unfolding to_iso_eq[OF c] to_iso_eq[OF c']
    by cases (simp_all only: pad_append_less[OF _ f'(1)] pad_append_less[OF _ f'(2)]
      pad_append_less[OF _ f'(3)] append_less_prefix)
qed

lemma to_iso_mono_time:
  assumes c: "civil (t div ms_per_day) = (y, m, d)"
    and same: "t div ms_per_day = t' div ms_per_day" and less: "t mod ms_per_day < t' mod ms_per_day"
  shows "to_iso t < to_iso t'"
proof -
  let ?r = "t mod ms_per_day" and ?r' = "t' mod ms_per_day"
  have c': "civil (t' div ms_per_day) = (y, m, d)" using c same by simp
  have b: "?r' div 3600000 < 10 ^ 2" "?r' div 60000 mod 60 < 10 ^ 2" "?r' div 1000 mod 60 < 10 ^ 2"
    "?r' mod 1000 < 10 ^ 3"
    by (simp_all add: ms_per_day_def less_trans[OF mod_less_divisor])
  consider "?r div 3600000 < ?r' div 3600000"
    | "?r div 3600000 = ?r' div 3600000" "?r div 60000 mod 60 < ?r' div 60000 mod 60"
    | "?r div 3600000 = ?r' div 3600000" "?r div 60000 mod 60 = ?r' div 60000 mod 60"
      "?r div 1000 mod 60 < ?r' div 1000 mod 60"
    | "?r div 3600000 = ?r' div 3600000" "?r div 60000 mod 60 = ?r' div 60000 mod 60"
      "?r div 1000 mod 60 = ?r' div 1000 mod 60" "?r mod 1000 < ?r' mod 1000"
    using time_of_day_lex[OF less] by blast
  then show ?thesis
    unfolding to_iso_eq[OF c] to_iso_eq[OF c']
    by cases (simp_all only: pad_append_less[OF _ b(1)] pad_append_less[OF _ b(2)]
      pad_append_less[OF _ b(3)] pad_append_less[OF _ b(4)] append_less_prefix)
qed

theorem to_iso_mono:
  assumes "t < t'" and "t' < max_instant"
  shows "to_iso t < to_iso t'"
proof -
  obtain y m d where c: "civil (t div ms_per_day) = (y, m, d)" by (cases "civil (t div ms_per_day)")
  obtain y' m' d' where c': "civil (t' div ms_per_day) = (y', m', d')" by (cases "civil (t' div ms_per_day)")
  consider "t div ms_per_day < t' div ms_per_day"
    | "t div ms_per_day = t' div ms_per_day" "t mod ms_per_day < t' mod ms_per_day"
    using div_mod_lex[OF _ assms(1), of ms_per_day] by (auto simp: ms_per_day_def)
  then show ?thesis
    by cases (simp_all add: to_iso_mono_day[OF c c' assms(2)] to_iso_mono_time[OF c])
qed

corollary to_iso_le_iff:
  assumes "t < max_instant" and "t' < max_instant"
  shows "to_iso t \<le> to_iso t' \<longleftrightarrow> t \<le> t'"
proof (cases "t \<le> t'")
  case True
  then consider "t < t'" | "t = t'" by linarith
  then show ?thesis
    using to_iso_mono[of t t'] assms by cases (auto intro: order.strict_implies_order)
next
  case False
  with assms have "to_iso t' < to_iso t" by (intro to_iso_mono) auto
  with False show ?thesis by (simp add: not_le[symmetric])
qed

corollary to_iso_less_iff:
  assumes "t < max_instant" and "t' < max_instant"
  shows "to_iso t < to_iso t' \<longleftrightarrow> t < t'"
  using to_iso_le_iff[OF assms(2,1)] by (simp add: not_le[symmetric])

corollary to_iso_inj:
  "t < max_instant \<Longrightarrow> t' < max_instant \<Longrightarrow> to_iso t = to_iso t' \<Longrightarrow> t = t'"
  by (metis nat_neq_iff order_less_irrefl to_iso_mono)

lemma length_to_iso: "length (to_iso t) = 24"
  by (simp add: to_iso_def Let_def split: prod.split)

lemma pad_all_digits: "list_all is_digit (pad w n)"
  using pad_digits by (auto simp: list_all_iff)

lemma time_of_day_recompose:
  "3600000 * (r div 3600000) + 60000 * (r div 60000 mod 60) + 1000 * (r div 1000 mod 60) + r mod 1000 = (r::nat)"
proof -
  have "r div 1000 div 60 = r div 60000" and "r div 60000 div 60 = r div 3600000"
    by (simp_all add: div_mult2_eq[symmetric])
  moreover have "r = 1000 * (r div 1000) + r mod 1000"
    and "r div 1000 = 60 * (r div 1000 div 60) + r div 1000 mod 60"
    and "r div 60000 = 60 * (r div 60000 div 60) + r div 60000 mod 60" by simp_all
  ultimately show ?thesis by linarith
qed

theorem date_parse_to_iso:
  assumes "t < max_instant"
  shows "date_parse (to_iso t) = Some t"
proof -
  obtain y m d where c: "civil (t div ms_per_day) = (y, m, d)" by (cases "civil (t div ms_per_day)")
  let ?r = "t mod ms_per_day"
  note eq = to_iso_eq[OF c] and b = to_iso_fields[OF assms c]
  have f: "iso_field (to_iso t) 4 1 = ''-''" "iso_field (to_iso t) 7 1 = ''-''" "iso_field (to_iso t) 10 1 = ''T''"
    "iso_field (to_iso t) 13 1 = '':''" "iso_field (to_iso t) 16 1 = '':''" "iso_field (to_iso t) 19 1 = ''.''"
    "iso_field (to_iso t) 23 1 = ''Z''"
    "iso_field (to_iso t) 0 4 = pad 4 y" "iso_field (to_iso t) 5 2 = pad 2 m" "iso_field (to_iso t) 8 2 = pad 2 d"
    "iso_field (to_iso t) 11 2 = pad 2 (?r div 3600000)"
    "iso_field (to_iso t) 14 2 = pad 2 (?r div 60000 mod 60)"
    "iso_field (to_iso t) 17 2 = pad 2 (?r div 1000 mod 60)"
    "iso_field (to_iso t) 20 3 = pad 3 (?r mod 1000)"
    unfolding eq iso_field_def by (simp_all del: pad.simps)
  have v: "digits_val (pad 4 y) = y" "digits_val (pad 2 m) = m" "digits_val (pad 2 d) = d"
    "digits_val (pad 2 (?r div 3600000)) = ?r div 3600000"
    "digits_val (pad 2 (?r div 60000 mod 60)) = ?r div 60000 mod 60"
    "digits_val (pad 2 (?r div 1000 mod 60)) = ?r div 1000 mod 60"
    "digits_val (pad 3 (?r mod 1000)) = ?r mod 1000"
    using b by (simp_all add: digits_val_pad less_trans[OF mod_less_divisor])
  have "days_of (y, m, d) = t div ms_per_day" using days_of_civil[of "t div ms_per_day"] c by simp
  then show ?thesis
    using time_of_day_recompose[of ?r]
    unfolding date_parse_def f v by (simp add: length_to_iso pad_all_digits add.assoc del: days_of.simps)
qed


end
