(* ===== verification/Store.thy ===== *)
theory Store
  imports State_Machine Iso_Time
begin

text \<open>
  The durable store: the tables of \<^verbatim>\<open>src/db/migrations.ts\<close> as records of rows, the errors the code
  raises, and the write transaction of \<^verbatim>\<open>src/db/open.ts\<close>. A table is the list of its rows in rowid
  order. The declarative constraints of the schema (primary keys, UNIQUE, partial unique indexes,
  foreign keys, CHECKs) are the checks the insert and update operations make in the theories
  above this one; \<open>schema_ok\<close> states them together.

  \<^verbatim>\<open>*_json\<close> columns: a column holds the text of a JSON value, \<open>Text v\<close>, or text that does not parse,
  \<open>Malformed s\<close>; \<^verbatim>\<open>JSON.parse\<close> of \<^verbatim>\<open>JSON.stringify v\<close> is \<open>v\<close>. A number is an
  integer, \<open>JNum\<close>, or another number, \<open>JFrac\<close>, by its text.
  \<open>db_now\<close> is what \<^verbatim>\<open>nowIso()\<close> returns during the operation that runs: the clock is read once per
  operation.
\<close>

section \<open>JSON values\<close>

datatype json =
    JNull
  | JBool bool
  | JNum int
  | JFrac string
  | JStr string
  | JArr "json list"
  | JObj "(string \<times> json) list"

datatype json_text = Text json | Malformed string

fun json_parse :: "json_text \<Rightarrow> json option" where
  "json_parse (Text v) = Some v"
| "json_parse (Malformed s) = None"

fun json_field :: "json \<Rightarrow> string \<Rightarrow> json option" where
  "json_field (JObj fs) k = map_of fs k"
| "json_field _ k = None"

text \<open>\<^verbatim>\<open>value ?? null\<close> of an optional string inside \<^verbatim>\<open>JSON.stringify\<close>.\<close>

fun json_opt :: "string option \<Rightarrow> json" where
  "json_opt None = JNull"
| "json_opt (Some s) = JStr s"

text \<open>\<^verbatim>\<open>if (value)\<close> on a JSON text column: null and the empty text are falsy.\<close>

fun truthy_text :: "json_text option \<Rightarrow> bool" where
  "truthy_text None = False"
| "truthy_text (Some (Malformed s)) = (s \<noteq> [])"
| "truthy_text (Some (Text v)) = True"

section \<open>Errors\<close>

datatype gh_error_kind = Rate_Limited | Auth | Not_Found | Bad_Request | Network | Unknown

datatype err =
    IllegalTransitionError entity_type string string string
  | UnknownStateError entity_type string
  | EnvelopeValidationError string
  | TissueDbError string
  | SqliteError nat string
  | GhError gh_error_kind string
  | OperationError string string nat
  | ConfigError string
  | GhArgError string
  | GitError string
  | GitArgError string
  | OpenCodeHttpError string nat
  | JsError string

fun gh_kind_name :: "gh_error_kind \<Rightarrow> string" where
  "gh_kind_name Rate_Limited = ''rate_limited''"
| "gh_kind_name Auth = ''auth''"
| "gh_kind_name Not_Found = ''not_found''"
| "gh_kind_name Bad_Request = ''bad_request''"
| "gh_kind_name Network = ''network''"
| "gh_kind_name Unknown = ''unknown''"

fun message :: "err \<Rightarrow> string" where
  "message (IllegalTransitionError e f t ev) =
     ''illegal '' @ entity_name e @ '' transition '' @ f @ '' -> '' @ t @ '' (event '' @ [CHR 0x27] @ ev
       @ [CHR 0x27] @ '') is not in the legal transition table''"
| "message (UnknownStateError e s) =
     ''unknown state '' @ [CHR 0x27] @ s @ [CHR 0x27] @ '' for '' @ entity_name e @ '' entity''"
| "message (EnvelopeValidationError m) = m"
| "message (TissueDbError m) = m"
| "message (SqliteError c m) = m"
| "message (GhError k m) = ''gh '' @ gh_kind_name k @ '': '' @ m"
| "message (OperationError c m x) = m"
| "message (ConfigError m) = ''config: '' @ m"
| "message (GhArgError m) = ''gh-argv: '' @ m"
| "message (GitError m) = ''git: '' @ m"
| "message (GitArgError m) = ''git-argv: '' @ m"
| "message (OpenCodeHttpError m status) = m"
| "message (JsError m) = m"

definition quoted :: "string \<Rightarrow> string" where
  "quoted s = [CHR 0x27] @ s @ [CHR 0x27]"

text \<open>\<^verbatim>\<open>SQLITE_BUSY\<close> is 5, \<^verbatim>\<open>SQLITE_CONSTRAINT\<close> is 19 (\<^verbatim>\<open>errcode\<close> of the thrown error).\<close>

definition SQLITE_BUSY :: nat where "SQLITE_BUSY = 5"

definition sqlite_unique :: "string \<Rightarrow> err" where
  "sqlite_unique c = SqliteError 19 (''UNIQUE constraint failed: '' @ c)"

definition sqlite_foreign_key :: err where
  "sqlite_foreign_key = SqliteError 19 ''FOREIGN KEY constraint failed''"

fun is_busy_error :: "err \<Rightarrow> bool" where
  "is_busy_error (SqliteError c m) = (c = SQLITE_BUSY)"
| "is_busy_error _ = False"

section \<open>Rows\<close>

record repository_row =
  r_id :: string
  r_owner :: string
  r_name :: string
  r_remote :: string
  r_target_owner :: string
  r_target_name :: string
  r_push_owner :: string
  r_push_name :: string
  r_push_remote :: "string option"
  r_local_dir :: string
  r_enabled :: bool
  r_baseline_at :: timestamp
  r_poll_watermark :: "timestamp option"
  r_poll_interval_seconds :: int
  r_max_concurrent :: int
  r_base_branch :: "string option"
  r_labels_json :: "json_text option"
  r_auto_merge :: bool
  r_priority :: int
  r_triage_session_id :: "string option"
  r_triage_state :: string
  r_triage_attempts :: int
  r_triage_failures :: int
  r_triage_next_attempt_at :: "timestamp option"
  r_issues_enabled :: "bool option"
  r_protection_json :: "json_text option"
  r_policy_json :: "json_text option"
  r_config_managed :: bool
  r_capability_state :: "string option"
  r_capability_json :: "json_text option"
  r_capability_checked_at :: "timestamp option"
  r_created_at :: timestamp
  r_updated_at :: timestamp

record issue_row =
  i_id :: string
  i_repo_id :: string
  i_number :: int
  i_title :: string
  i_body_json :: "json_text option"
  i_state :: string
  i_snapshot_hash :: "string option"
  i_first_seen_at :: timestamp
  i_updated_at :: timestamp
  i_disposition_json :: "json_text option"
  i_blocked_by :: "string option"
  i_actor_raw_login :: "string option"

record work_item_row =
  w_id :: string
  w_repo_id :: string
  w_state :: string
  w_title :: "string option"
  w_base_branch :: string
  w_head_branch :: "string option"
  w_lease_token :: "string option"
  w_lease_until :: "timestamp option"
  w_attempts :: int
  w_priority :: int
  w_created_at :: timestamp
  w_updated_at :: timestamp

record issue_link_row =
  l_issue_id :: string
  l_work_item_id :: string
  l_state :: string
  l_attached_at :: timestamp
  l_detached_at :: "timestamp option"

datatype session_kind = Triage_Session | Resolution_Session

record session_row =
  s_id :: string
  s_kind :: session_kind
  s_repo_id :: "string option"
  s_work_item_id :: "string option"
  s_directory :: string
  s_agent :: "string option"
  s_model_json :: "json_text option"
  s_requested_agent :: "string option"
  s_requested_model_json :: "json_text option"
  s_observed_agent :: "string option"
  s_observed_model_json :: "json_text option"
  s_observed_at :: "timestamp option"
  s_state :: string
  s_created_at :: timestamp
  s_updated_at :: timestamp

record worktree_row =
  wt_id :: string
  wt_work_item_id :: string
  wt_path :: string
  wt_branch :: string
  wt_state :: string
  wt_created_at :: timestamp
  wt_cleaned_at :: "timestamp option"

record pull_request_row =
  pr_id :: string
  pr_work_item_id :: string
  pr_repo_id :: string
  pr_number :: int
  pr_head_ref :: string
  pr_head_sha :: "string option"
  pr_state :: string
  pr_origin :: string
  pr_snapshot_hash :: "string option"
  pr_created_at :: timestamp
  pr_updated_at :: timestamp

record inbox_row =
  ib_id :: nat
  ib_work_item_id :: "string option"
  ib_issue_id :: string
  ib_event_key :: string
  ib_kind :: string
  ib_payload_json :: json_text
  ib_state :: string
  ib_delivery_nonce :: "string option"
  ib_created_at :: timestamp
  ib_delivered_at :: "timestamp option"
  ib_terminal_action :: "string option"
  ib_terminal_reason :: "string option"
  ib_retention_deadline :: "timestamp option"
  ib_housekept_at :: "timestamp option"
  ib_actor_raw_login :: "string option"

text \<open>\<^verbatim>\<open>entity_type\<close> is the name of one of the eight entities; the row keeps the entity.\<close>

record transition_row =
  t_entity_type :: entity_type
  t_entity_id :: string
  t_from_state :: "string option"
  t_to_state :: string
  t_event :: string
  t_reason_json :: "json_text option"
  t_actor :: string
  t_at :: timestamp

record side_effect_row =
  fx_id :: string
  fx_kind :: string
  fx_effect_key :: string
  fx_state :: string
  fx_payload_json :: json_text
  fx_attempt :: nat
  fx_next_attempt_at :: "timestamp option"
  fx_last_error :: "string option"
  fx_created_at :: timestamp
  fx_completed_at :: "timestamp option"

record lease_row =
  ls_resource_key :: string
  ls_owner_token :: string
  ls_acquired_at :: timestamp
  ls_lease_until :: timestamp

datatype dependency_target = On_Issue string | On_Work_Item string

text \<open>
  The CHECK that exactly one of \<^verbatim>\<open>dependency_issue_id\<close> and \<^verbatim>\<open>dependency_work_item_id\<close> is set is the type of
  \<open>dp_target\<close>.
\<close>

record dependency_row =
  dp_id :: string
  dp_dependent :: string
  dp_target :: dependency_target
  dp_state :: string
  dp_created_at :: timestamp
  dp_settled_at :: "timestamp option"

section \<open>The database\<close>

record db =
  repositories :: "repository_row list"
  issues :: "issue_row list"
  work_items :: "work_item_row list"
  issue_work_items :: "issue_link_row list"
  opencode_sessions :: "session_row list"
  worktrees :: "worktree_row list"
  pull_requests :: "pull_request_row list"
  inbox :: "inbox_row list"
  inbox_seq :: nat
  state_transitions :: "transition_row list"
  side_effects :: "side_effect_row list"
  controller_leases :: "lease_row list"
  work_item_dependencies :: "dependency_row list"
  retention_days :: nat
  db_now :: timestamp

type_synonym 'a db_tx = "(db, err, 'a) tx"
type_synonym 'a db_act = "(db, err, 'a) act"

definition empty_db :: "nat \<Rightarrow> timestamp \<Rightarrow> db" where
  "empty_db days now = \<lparr>repositories = [], issues = [], work_items = [], issue_work_items = [],
     opencode_sessions = [], worktrees = [], pull_requests = [], inbox = [], inbox_seq = 0,
     state_transitions = [], side_effects = [], controller_leases = [], work_item_dependencies = [],
     retention_days = days, db_now = now\<rparr>"

text \<open>
  \<^verbatim>\<open>runWrite\<close>: BEGIN IMMEDIATE, the body, COMMIT; any throw rolls back and is rethrown.
\<close>

definition run_write :: "'a db_tx \<Rightarrow> 'a db_act" where
  "run_write operation d = (case operation d of Inl e \<Rightarrow> (Inl e, d) | Inr (out, d') \<Rightarrow> (Inr out, d'))"

definition assert_valid_json_string :: "json_text \<Rightarrow> string \<Rightarrow> unit db_tx" where
  "assert_valid_json_string v field =
     tx_guard (json_parse v \<noteq> None) (TissueDbError (field @ '': value is not valid JSON''))"

text \<open>\<^verbatim>\<open>if (value) assertValidJsonString(value, field)\<close>.\<close>

definition assert_json_if_set :: "json_text option \<Rightarrow> string \<Rightarrow> unit db_tx" where
  "assert_json_if_set v field =
     (case v of None \<Rightarrow> tx_return ()
      | Some j \<Rightarrow> (if truthy_text v then assert_valid_json_string j field else tx_return ()))"

lemma run_write_Inr [simp]: "op d = Inr (x, d') \<Longrightarrow> run_write op d = (Inr x, d')"
  by (simp add: run_write_def)
lemma run_write_Inl [simp]: "op d = Inl e \<Longrightarrow> run_write op d = (Inl e, d)"
  by (simp add: run_write_def)

lemma run_write_rollback: "fst (run_write op d) = Inl e \<Longrightarrow> snd (run_write op d) = d"
  by (auto simp: run_write_def split: sum.splits)

lemma assert_valid_json_state: "assert_valid_json_string v f d = Inr (x, d') \<Longrightarrow> d' = d"
  by (auto simp: assert_valid_json_string_def tx_simps split: if_splits)

lemma assert_json_if_set_state: "assert_json_if_set v f d = Inr (x, d') \<Longrightarrow> d' = d"
  by (auto simp: assert_json_if_set_def assert_valid_json_string_def tx_simps
      split: option.splits if_splits)

lemma assert_json_Text [simp]: "assert_valid_json_string (Text v) f d = Inr ((), d)"
  by (simp add: assert_valid_json_string_def tx_simps)

lemma assert_json_if_set_simps [simp]:
  "assert_json_if_set None f d = Inr ((), d)"
  "assert_json_if_set (Some (Text v)) f d = Inr ((), d)"
  by (simp_all add: assert_json_if_set_def tx_simps)

end
