(* ===== verification/Login.thy ===== *)
theory Login
  imports Store
begin

text \<open>
  Character classes and the GitHub login rule of \<^verbatim>\<open>src/controller/trust.ts\<close>. The regular expressions
  of the source are written as the predicates they accept: \<^verbatim>\<open>LOGIN_RE\<close> is 1 to 39 characters, letters
  or digits at both ends, hyphens allowed between.
\<close>

definition is_upper :: "char \<Rightarrow> bool" where
  "is_upper c \<longleftrightarrow> (65::nat) \<le> of_char c \<and> (of_char c :: nat) \<le> 90"

definition is_lower :: "char \<Rightarrow> bool" where
  "is_lower c \<longleftrightarrow> (97::nat) \<le> of_char c \<and> (of_char c :: nat) \<le> 122"

definition is_alnum :: "char \<Rightarrow> bool" where
  "is_alnum c \<longleftrightarrow> is_upper c \<or> is_lower c \<or> is_digit c"

text \<open>\<^verbatim>\<open>\\w\<close>\<close>

definition is_word_char :: "char \<Rightarrow> bool" where
  "is_word_char c \<longleftrightarrow> is_alnum c \<or> c = CHR ''_''"

text \<open>\<^verbatim>\<open>[\\u0000-\\u0020\\u007f]\<close> and \<^verbatim>\<open>[\\u0000-\\u001f\\u007f]\<close>\<close>

definition control_or_space :: "char \<Rightarrow> bool" where
  "control_or_space c \<longleftrightarrow> (of_char c :: nat) \<le> 32 \<or> of_char c = (127::nat)"

definition is_control :: "char \<Rightarrow> bool" where
  "is_control c \<longleftrightarrow> (of_char c :: nat) \<le> 31 \<or> of_char c = (127::nat)"

definition to_lower_char :: "char \<Rightarrow> char" where
  "to_lower_char c = (if is_upper c then char_of (of_char c + (32::nat)) else c)"

definition to_lower :: "string \<Rightarrow> string" where
  "to_lower = map to_lower_char"

text \<open>\<^verbatim>\<open>/^[A-Za-z0-9](?:[A-Za-z0-9-]{0,37}[A-Za-z0-9])?$/\<close>\<close>

definition login_re :: "string \<Rightarrow> bool" where
  "login_re s \<longleftrightarrow> s \<noteq> [] \<and> length s \<le> 39 \<and> is_alnum (hd s) \<and> is_alnum (last s)
     \<and> list_all (\<lambda>c. is_alnum c \<or> c = CHR ''-'') s"

text \<open>\<^verbatim>\<open>normalizeGithubLogin(raw: unknown)\<close>: a value that is not a string is \<open>None\<close>.\<close>

definition normalize_github_login :: "string option \<Rightarrow> string option" where
  "normalize_github_login raw =
     (case raw of
        None \<Rightarrow> None
      | Some s \<Rightarrow>
          if s = [] \<or> length s > 39 then None
          else if list_ex control_or_space s \<or> \<not> login_re s then None
          else Some (map (\<lambda>c. if is_upper c then to_lower_char c else c) s))"

section \<open>Lemmas\<close>

lemma to_lower_char_not_upper: "\<not> is_upper c \<Longrightarrow> to_lower_char c = c"
  by (simp add: to_lower_char_def)

lemma of_char_to_lower:
  "is_upper c \<Longrightarrow> (of_char (to_lower_char c) :: nat) = of_char c + 32"
  by (simp add: to_lower_char_def is_upper_def)

lemma to_lower_char_lower: "is_upper c \<Longrightarrow> is_lower (to_lower_char c)"
  using of_char_to_lower[of c] by (simp add: is_upper_def is_lower_def)

lemma not_upper_to_lower [simp]: "\<not> is_upper (to_lower_char c)"
proof (cases "is_upper c")
  case True
  then show ?thesis using of_char_to_lower[of c] by (simp add: is_upper_def)
qed (simp add: to_lower_char_not_upper)

lemma to_lower_char_idem [simp]: "to_lower_char (to_lower_char c) = to_lower_char c"
  by (simp add: to_lower_char_not_upper)

lemma to_lower_idem [simp]: "to_lower (to_lower s) = to_lower s"
  by (simp add: to_lower_def)

lemma is_alnum_to_lower: "is_alnum c \<Longrightarrow> is_alnum (to_lower_char c)"
  using to_lower_char_lower by (cases "is_upper c") (auto simp: is_alnum_def to_lower_char_not_upper)

lemma login_re_no_control: "login_re s \<Longrightarrow> \<not> list_ex control_or_space s"
  by (auto simp: login_re_def list_ex_iff list_all_iff control_or_space_def is_alnum_def is_upper_def
      is_lower_def is_digit_def)

lemma normalize_eq:
  "normalize_github_login (Some s) = (if login_re s then Some (to_lower s) else None)"
proof -
  have "(\<lambda>c. if is_upper c then to_lower_char c else c) = to_lower_char"
    by (auto simp: fun_eq_iff to_lower_char_not_upper)
  then show ?thesis
    using login_re_no_control[of s] by (auto simp: normalize_github_login_def login_re_def to_lower_def)
qed

lemma normalize_None [simp]: "normalize_github_login None = None"
  by (simp add: normalize_github_login_def)

lemma login_re_to_lower: "login_re s \<Longrightarrow> login_re (to_lower s)"
proof -
  assume s: "login_re s"
  then have ne: "s \<noteq> []" by (simp add: login_re_def)
  have "is_alnum c \<or> c = CHR ''-'' \<Longrightarrow> is_alnum (to_lower_char c) \<or> to_lower_char c = CHR ''-''" for c
    using is_alnum_to_lower[of c] by (auto simp: to_lower_char_def is_upper_def)
  with s show ?thesis
    using ne by (auto simp: login_re_def to_lower_def list_all_iff hd_map last_map is_alnum_to_lower)
qed

lemma normalize_idem:
  "normalize_github_login (Some s) = Some n \<Longrightarrow> normalize_github_login (Some n) = Some n"
  by (auto simp: normalize_eq login_re_to_lower split: if_splits)

end
