(* ===== verification/Config.thy ===== *)
theory Config
  imports Login
begin

text \<open>
  The configuration boundary: the types and defaults of \<^verbatim>\<open>src/config/types.ts\<close> and the strict loader of
  \<^verbatim>\<open>src/config/load.ts\<close>. The YAML parser is a library: the parsed document is a \<open>json\<close> value (a missing
  key is JavaScript's undefined). \<open>finite_date\<close>, the test \<^verbatim>\<open>Number.isFinite(Date.parse(s))\<close> on a text of
  the ISO shape, is a parameter. \<open>config_safe\<close> is what an accepted configuration guarantees.
\<close>

section \<open>Types and defaults\<close>

definition DEFAULT_MAX_CONCURRENT_GLOBAL :: int where "DEFAULT_MAX_CONCURRENT_GLOBAL = 3"
definition DEFAULT_MAX_CONCURRENT_PER_REPO :: int where "DEFAULT_MAX_CONCURRENT_PER_REPO = 1"
definition DEFAULT_POLL_INTERVAL_SECONDS :: int where "DEFAULT_POLL_INTERVAL_SECONDS = 300"
definition DEFAULT_RETENTION_DAYS :: int where "DEFAULT_RETENTION_DAYS = 90"
definition DEFAULT_BASE_BRANCH :: string where "DEFAULT_BASE_BRANCH = ''main''"
definition TISSUE_TRIAGE_AGENT :: string where "TISSUE_TRIAGE_AGENT = ''tissue-triage''"
definition TISSUE_RESOLVE_AGENT :: string where "TISSUE_RESOLVE_AGENT = ''tissue-resolve''"

record model_setting =
  ms_agent :: "string option"
  ms_model :: "string option"

record repository_config =
  rc_owner :: string
  rc_name :: string
  rc_remote :: "string option"
  rc_target_owner :: "string option"
  rc_target_name :: "string option"
  rc_push_owner :: "string option"
  rc_push_name :: "string option"
  rc_push_remote :: "string option"
  rc_local_dir :: string
  rc_enabled :: bool
  rc_poll_interval_seconds :: int
  rc_max_concurrent_per_repo :: int
  rc_base_branch :: string
  rc_labels :: "string list"
  rc_auto_merge :: bool
  rc_priority :: int
  rc_baseline_before :: "string option"

record tissue_config =
  c_trusted_users :: "string list option"
  c_poll_interval_seconds :: int
  c_max_concurrent_global :: int
  c_retention_days :: int
  c_triage_agent :: model_setting
  c_resolution_agent :: model_setting
  c_repos :: "repository_config list"

section \<open>Results\<close>

type_synonym 'a parsed = "err + 'a"

definition p_bind :: "'a parsed \<Rightarrow> ('a \<Rightarrow> 'b parsed) \<Rightarrow> 'b parsed" where
  "p_bind m f = (case m of Inl e \<Rightarrow> Inl e | Inr x \<Rightarrow> f x)"

definition p_guard :: "bool \<Rightarrow> string \<Rightarrow> unit parsed" where
  "p_guard b m = (if b then Inr () else Inl (ConfigError m))"

lemma p_bind_success: "p_bind m f = Inr y \<longleftrightarrow> (\<exists>x. m = Inr x \<and> f x = Inr y)"
  by (auto simp: p_bind_def split: sum.splits)

lemma p_guard_success: "p_guard b m = Inr u \<longleftrightarrow> b"
  by (simp add: p_guard_def)

lemmas p_success = p_bind_success p_guard_success

section \<open>Text predicates\<close>

fun is_prefix :: "string \<Rightarrow> string \<Rightarrow> bool" where
  "is_prefix [] s = True"
| "is_prefix (c # cs) [] = False"
| "is_prefix (c # cs) (x # xs) = (c = x \<and> is_prefix cs xs)"

fun contains :: "string \<Rightarrow> string \<Rightarrow> bool" where
  "contains p [] = (p = [])"
| "contains p (x # xs) = (is_prefix p (x # xs) \<or> contains p xs)"

text \<open>\<^verbatim>\<open>/(secret|token|password|credential|authorization|bearer|apikey|api[-_]?key|oauth)/i\<close>\<close>

definition secret_key :: "string \<Rightarrow> bool" where
  "secret_key k = list_ex (\<lambda>p. contains p (to_lower k))
     [''secret'', ''token'', ''password'', ''credential'', ''authorization'', ''bearer'', ''apikey'',
      ''api-key'', ''api_key'', ''oauth'']"

definition repo_id_char :: "char \<Rightarrow> bool" where
  "repo_id_char c \<longleftrightarrow> is_alnum c \<or> c = CHR ''.'' \<or> c = CHR ''_'' \<or> c = CHR ''-''"

text \<open>\<^verbatim>\<open>/^[A-Za-z0-9][A-Za-z0-9._-]*$/\<close>\<close>

definition repo_id_re :: "string \<Rightarrow> bool" where
  "repo_id_re s \<longleftrightarrow> s \<noteq> [] \<and> is_alnum (hd s) \<and> list_all repo_id_char s"

text \<open>
  \<^verbatim>\<open>/\\bgh[pousr]_[A-Za-z0-9]{10,}\\b/\<close> at the start of the text: the run of letters and digits is maximal
  and the next character is no word character.
\<close>

definition gh_token_here :: "string \<Rightarrow> bool" where
  "gh_token_here s \<longleftrightarrow> is_prefix ''gh'' s \<and> length s > 3 \<and> List.member ''pousr'' (s ! 2) \<and> s ! 3 = CHR ''_'' \<and>
     (let r = drop 4 s; run = takeWhile is_alnum r; rest = dropWhile is_alnum r
      in length run \<ge> 10 \<and> (rest = [] \<or> \<not> is_word_char (hd rest)))"

text \<open>\<^verbatim>\<open>/\\bgithub_pat_[A-Za-z0-9_]{10,}\\b/\<close>\<close>

definition pat_token_here :: "string \<Rightarrow> bool" where
  "pat_token_here s \<longleftrightarrow> is_prefix ''github_pat_'' s \<and> length (takeWhile is_word_char (drop 11 s)) \<ge> 10"

fun token_from :: "bool \<Rightarrow> string \<Rightarrow> bool" where
  "token_from prev_word [] = False"
| "token_from prev_word (c # cs) =
     ((\<not> prev_word \<and> (gh_token_here (c # cs) \<or> pat_token_here (c # cs))) \<or> token_from (is_word_char c) cs)"

definition token_shaped :: "string \<Rightarrow> bool" where
  "token_shaped s = token_from False s"

definition is_space :: "char \<Rightarrow> bool" where
  "is_space c \<longleftrightarrow> c = CHR '' '' \<or> ((9::nat) \<le> of_char c \<and> (of_char c :: nat) \<le> 13) \<or> of_char c = (160::nat)"

text \<open>\<^verbatim>\<open>/^[a-z][a-z0-9+.-]*:\\/\\/[^/@\\s]+@/i\<close>\<close>

definition remote_with_credentials :: "string \<Rightarrow> bool" where
  "remote_with_credentials s \<longleftrightarrow>
     (case s of [] \<Rightarrow> False
      | c # cs \<Rightarrow> (is_upper c \<or> is_lower c) \<and>
          (let r = dropWhile (\<lambda>x. is_alnum x \<or> List.member ''+.-'' x) cs
           in is_prefix ''://'' r \<and>
             (let u = drop 3 r; user = takeWhile (\<lambda>x. x \<noteq> CHR ''/'' \<and> x \<noteq> CHR ''@'' \<and> \<not> is_space x) u;
                  rest = dropWhile (\<lambda>x. x \<noteq> CHR ''/'' \<and> x \<noteq> CHR ''@'' \<and> \<not> is_space x) u
              in user \<noteq> [] \<and> is_prefix ''@'' rest)))"

section \<open>The loader\<close>

text \<open>\<^verbatim>\<open>walkRejectSecrets\<close>: every key of every mapping, at any depth.\<close>

fun walk_reject_secrets :: "json \<Rightarrow> string \<Rightarrow> unit parsed"
  and walk_list :: "json list \<Rightarrow> nat \<Rightarrow> string \<Rightarrow> unit parsed"
  and walk_fields :: "(string \<times> json) list \<Rightarrow> string \<Rightarrow> unit parsed" where
  "walk_reject_secrets (JArr vs) path = walk_list vs 0 path"
| "walk_reject_secrets (JObj fs) path = walk_fields fs path"
| "walk_reject_secrets _ path = Inr ()"
| "walk_list [] i path = Inr ()"
| "walk_list (v # vs) i path =
     p_bind (walk_reject_secrets v (path @ ''['' @ show_nat i @ '']'')) (\<lambda>_. walk_list vs (Suc i) path)"
| "walk_fields [] path = Inr ()"
| "walk_fields ((k, v) # fs) path =
     (if secret_key k
      then Inl (ConfigError (path @ ''.'' @ k @ '': secret-like key is forbidden in configuration''))
      else p_bind (walk_reject_secrets v (path @ ''.'' @ k)) (\<lambda>_. walk_fields fs path))"

fun assert_known_keys :: "(string \<times> json) list \<Rightarrow> string list \<Rightarrow> string \<Rightarrow> unit parsed" where
  "assert_known_keys [] allowed path = Inr ()"
| "assert_known_keys ((k, v) # fs) allowed path =
     (if List.member allowed k then assert_known_keys fs allowed path
      else Inl (ConfigError (path @ ''.'' @ k @ '': unknown key (policy DSL / arbitrary config rejected)'')))"

text \<open>The \<^verbatim>\<open>expect*\<close> functions take \<open>None\<close> for undefined.\<close>

fun expect_object :: "json option \<Rightarrow> string \<Rightarrow> (string \<times> json) list parsed" where
  "expect_object (Some (JObj fs)) path = Inr fs"
| "expect_object _ path = Inl (ConfigError (path @ '': expected a mapping''))"

fun expect_string :: "json option \<Rightarrow> string \<Rightarrow> string parsed" where
  "expect_string (Some (JStr s)) path = Inr s"
| "expect_string _ path = Inl (ConfigError (path @ '': expected a string''))"

fun expect_boolean :: "json option \<Rightarrow> string \<Rightarrow> bool parsed" where
  "expect_boolean (Some (JBool b)) path = Inr b"
| "expect_boolean _ path = Inl (ConfigError (path @ '': expected a boolean''))"

fun expect_integer :: "json option \<Rightarrow> string \<Rightarrow> int parsed" where
  "expect_integer (Some (JNum n)) path = Inr n"
| "expect_integer _ path = Inl (ConfigError (path @ '': expected an integer''))"

fun plain_strings :: "json list \<Rightarrow> string list option" where
  "plain_strings [] = Some []"
| "plain_strings (JStr s # vs) = map_option ((#) s) (plain_strings vs)"
| "plain_strings (v # vs) = None"

fun expect_string_array :: "json option \<Rightarrow> string \<Rightarrow> string list parsed" where
  "expect_string_array (Some (JArr vs)) path =
     (case plain_strings vs of Some ss \<Rightarrow> Inr ss
      | None \<Rightarrow> Inl (ConfigError (path @ '': expected an array of strings'')))"
| "expect_string_array _ path = Inl (ConfigError (path @ '': expected an array of strings''))"

definition validate_repo_identity :: "string \<Rightarrow> string \<Rightarrow> string \<Rightarrow> unit parsed" where
  "validate_repo_identity owner name path =
     p_bind (p_guard (repo_id_re owner)
         (path @ ''.owner: unsafe owner (must match [A-Za-z0-9._-], no shell metacharacters)''))
       (\<lambda>_. p_guard (repo_id_re name)
         (path @ ''.name: unsafe repo name (must match [A-Za-z0-9._-])''))"

definition absolute_path_ok :: "string \<Rightarrow> bool" where
  "absolute_path_ok s \<longleftrightarrow> \<not> list_ex is_control s \<and> is_prefix ''/'' s"

definition validate_absolute_path :: "string \<Rightarrow> string \<Rightarrow> string parsed" where
  "validate_absolute_path value path =
     (if absolute_path_ok value then Inr value
      else Inl (ConfigError (path @ '': must be an absolute path with no control characters'')))"

definition validate_remote :: "string \<Rightarrow> string \<Rightarrow> string parsed" where
  "validate_remote value path =
     (if token_shaped value then Inl (ConfigError (path @ '': credential-shaped value is forbidden''))
      else if remote_with_credentials value
      then Inl (ConfigError (path @ '': remote must not embed credentials''))
      else Inr value)"

text \<open>
  \<^verbatim>\<open>/^\\d{4}-\\d{2}-\\d{2}(T\\d{2}:\\d{2}:\\d{2}(\\.\\d{1,3})?(Z|[+-]\\d{2}:\\d{2}))?$/\<close>: the text is matched against a
  shape, \<^verbatim>\<open>d\<close> for a digit and any other character for itself.
\<close>

fun matches_shape :: "string \<Rightarrow> string \<Rightarrow> bool" where
  "matches_shape [] [] = True"
| "matches_shape (p # ps) (c # cs) =
     ((if p = CHR ''d'' then is_digit c else p = c) \<and> matches_shape ps cs)"
| "matches_shape _ _ = False"

definition baseline_shapes :: "string list" where
  "baseline_shapes = ''dddd-dd-dd'' #
     concat (map (\<lambda>frac. map (\<lambda>zone. ''dddd-dd-ddTdd:dd:dd'' @ frac @ zone)
       [''Z'', ''+dd:dd'', ''-dd:dd'']) [[], ''.d'', ''.dd'', ''.ddd''])"

definition validate_baseline :: "(string \<Rightarrow> bool) \<Rightarrow> string \<Rightarrow> string \<Rightarrow> string parsed" where
  "validate_baseline finite_date value path =
     (if \<not> list_ex (\<lambda>p. matches_shape p value) baseline_shapes
      then Inl (ConfigError (path @ '': baselineBefore must be an ISO-8601 date/time''))
      else if \<not> finite_date value
      then Inl (ConfigError (path @ '': baselineBefore is not a valid date''))
      else Inr value)"

definition parse_model_setting :: "json option \<Rightarrow> string \<Rightarrow> string \<Rightarrow> model_setting parsed" where
  "parse_model_setting node path required_agent =
     (if node = None \<or> node = Some JNull then Inr \<lparr>ms_agent = Some required_agent, ms_model = None\<rparr>
      else p_bind (expect_object node path) (\<lambda>obj.
        p_bind (assert_known_keys obj [''agent'', ''model''] path) (\<lambda>_.
        p_bind (case map_of obj ''agent'' of
                  None \<Rightarrow> Inr required_agent
                | Some a \<Rightarrow> p_bind (expect_string (Some a) (path @ ''.agent'')) (\<lambda>agent.
                    if agent \<noteq> required_agent
                    then Inl (ConfigError (path @ ''.agent: must be '' @ quoted required_agent))
                    else Inr agent)) (\<lambda>agent.
        p_bind (case map_of obj ''model'' of
                  None \<Rightarrow> Inr None
                | Some m \<Rightarrow> p_bind (expect_string (Some m) (path @ ''.model'')) (\<lambda>s. Inr (Some s))) (\<lambda>model.
        Inr \<lparr>ms_agent = Some agent, ms_model = model\<rparr>)))))"

text \<open>\<^verbatim>\<open>obj.k === undefined ? dflt : expect(obj.k)\<close>\<close>

definition opt_field ::
  "(string \<times> json) list \<Rightarrow> string \<Rightarrow> 'a \<Rightarrow> (json option \<Rightarrow> string \<Rightarrow> 'a parsed) \<Rightarrow> string \<Rightarrow> 'a parsed" where
  "opt_field obj k dflt expect base =
     (case map_of obj k of None \<Rightarrow> Inr dflt | Some v \<Rightarrow> expect (Some v) (base @ ''.'' @ k))"

text \<open>\<^verbatim>\<open>...(x ? { x } : {})\<close>: an empty text is dropped.\<close>

definition non_empty :: "string option \<Rightarrow> string option" where
  "non_empty v = (case v of None \<Rightarrow> None | Some s \<Rightarrow> if s = [] then None else Some s)"

definition repository_keys :: "string list" where
  "repository_keys = [''owner'', ''name'', ''remote'', ''targetOwner'', ''targetName'', ''pushOwner'', ''pushName'',
     ''pushRemote'', ''localDir'', ''enabled'', ''pollIntervalSeconds'', ''maxConcurrentPerRepo'', ''baseBranch'',
     ''labels'', ''autoMerge'', ''priority'', ''baselineBefore'']"

definition parse_repository :: "(string \<Rightarrow> bool) \<Rightarrow> json \<Rightarrow> nat \<Rightarrow> repository_config parsed" where
  "parse_repository finite_date node index =
     (let base = ''repos['' @ show_nat index @ '']'' in
      p_bind (expect_object (Some node) base) (\<lambda>obj.
      p_bind (assert_known_keys obj repository_keys base) (\<lambda>_.
      p_bind (expect_string (map_of obj ''owner'') (base @ ''.owner'')) (\<lambda>owner.
      p_bind (expect_string (map_of obj ''name'') (base @ ''.name'')) (\<lambda>name.
      p_bind (validate_repo_identity owner name base) (\<lambda>_.
      p_bind (expect_string (map_of obj ''localDir'') (base @ ''.localDir'')) (\<lambda>dir0.
      p_bind (validate_absolute_path dir0 (base @ ''.localDir'')) (\<lambda>local_dir.
      p_bind (opt_field obj ''remote'' None (\<lambda>v p. p_bind (expect_string v p) (\<lambda>s.
          p_bind (validate_remote s p) (\<lambda>r. Inr (Some r)))) base) (\<lambda>remote.
      p_bind (opt_field obj ''targetOwner'' owner expect_string base) (\<lambda>target_owner.
      p_bind (opt_field obj ''targetName'' name expect_string base) (\<lambda>target_name.
      p_bind (validate_repo_identity target_owner target_name (base @ ''.target'')) (\<lambda>_.
      p_bind (opt_field obj ''pushOwner'' target_owner expect_string base) (\<lambda>push_owner.
      p_bind (opt_field obj ''pushName'' target_name expect_string base) (\<lambda>push_name.
      p_bind (validate_repo_identity push_owner push_name (base @ ''.push'')) (\<lambda>_.
      p_bind (opt_field obj ''pushRemote'' None (\<lambda>v p. p_bind (expect_string v p) (\<lambda>s. Inr (Some s))) base) (\<lambda>push_remote.
      p_bind (opt_field obj ''enabled'' True expect_boolean base) (\<lambda>enabled.
      p_bind (opt_field obj ''pollIntervalSeconds'' DEFAULT_POLL_INTERVAL_SECONDS expect_integer base) (\<lambda>interval.
      p_bind (p_guard (\<not> interval < 10) (base @ ''.pollIntervalSeconds: must be >= 10 seconds'')) (\<lambda>_.
      p_bind (opt_field obj ''maxConcurrentPerRepo'' DEFAULT_MAX_CONCURRENT_PER_REPO expect_integer base) (\<lambda>per_repo.
      p_bind (p_guard (\<not> per_repo < 1) (base @ ''.maxConcurrentPerRepo: must be >= 1'')) (\<lambda>_.
      p_bind (opt_field obj ''baseBranch'' DEFAULT_BASE_BRANCH expect_string base) (\<lambda>base_branch.
      p_bind (opt_field obj ''labels'' [] expect_string_array base) (\<lambda>labels.
      p_bind (p_guard (list_all (\<lambda>l. \<not> (l = [] \<or> list_ex is_control l)) labels)
          (base @ ''.labels: label must be non-empty with no control characters'')) (\<lambda>_.
      p_bind (opt_field obj ''autoMerge'' False expect_boolean base) (\<lambda>auto_merge.
      p_bind (opt_field obj ''priority'' 0 expect_integer base) (\<lambda>priority.
      p_bind (opt_field obj ''baselineBefore'' None (\<lambda>v p. p_bind (expect_string v p) (\<lambda>s.
          p_bind (validate_baseline finite_date s p) (\<lambda>b. Inr (Some b)))) base) (\<lambda>baseline_before.
      Inr \<lparr>rc_owner = owner, rc_name = name, rc_remote = non_empty remote,
        rc_target_owner = Some target_owner, rc_target_name = Some target_name,
        rc_push_owner = Some push_owner, rc_push_name = Some push_name,
        rc_push_remote = non_empty push_remote, rc_local_dir = local_dir, rc_enabled = enabled,
        rc_poll_interval_seconds = interval, rc_max_concurrent_per_repo = per_repo,
        rc_base_branch = base_branch, rc_labels = labels, rc_auto_merge = auto_merge,
        rc_priority = priority, rc_baseline_before = non_empty baseline_before\<rparr>)))))))))))))))))))))))))))"

fun parse_repositories :: "(string \<Rightarrow> bool) \<Rightarrow> json list \<Rightarrow> nat \<Rightarrow> repository_config list parsed" where
  "parse_repositories fd [] i = Inr []"
| "parse_repositories fd (v # vs) i =
     p_bind (parse_repository fd v i) (\<lambda>r. p_bind (parse_repositories fd vs (Suc i)) (\<lambda>rs. Inr (r # rs)))"

fun check_logins :: "string list \<Rightarrow> nat \<Rightarrow> string \<Rightarrow> unit parsed" where
  "check_logins [] i source = Inr ()"
| "check_logins (l # ls) i source =
     (if normalize_github_login (Some l) = None
      then Inl (ConfigError (source @ ''.security.trustedGithubUsers['' @ show_nat i @ '']: invalid GitHub login''))
      else check_logins ls (Suc i) source)"

definition parse_security :: "(string \<times> json) list \<Rightarrow> string \<Rightarrow> string list option parsed" where
  "parse_security root source =
     (case map_of root ''security'' of
        None \<Rightarrow> Inr None
      | Some s \<Rightarrow>
          p_bind (expect_object (Some s) (source @ ''.security'')) (\<lambda>obj.
          p_bind (assert_known_keys obj [''trustedGithubUsers''] (source @ ''.security'')) (\<lambda>_.
          p_bind (expect_string_array (map_of obj ''trustedGithubUsers'')
              (source @ ''.security.trustedGithubUsers'')) (\<lambda>users.
          p_bind (check_logins users 0 source) (\<lambda>_. Inr (Some users))))))"

text \<open>\<^verbatim>\<open>parseConfig\<close>: the parsed document, or \<open>None\<close> when \<^verbatim>\<open>parseYaml\<close> threw.\<close>

definition parse_config :: "(string \<Rightarrow> bool) \<Rightarrow> json option \<Rightarrow> string \<Rightarrow> tissue_config parsed" where
  "parse_config finite_date doc source =
     (case doc of None \<Rightarrow> Inl (ConfigError (source @ '': invalid YAML''))
      | Some node \<Rightarrow>
      p_bind (expect_object (Some node) source) (\<lambda>root.
      p_bind (assert_known_keys root [''security'', ''pollIntervalSeconds'', ''maxConcurrentGlobal'',
          ''retentionDays'', ''agents'', ''repos''] source) (\<lambda>_.
      p_bind (walk_reject_secrets (JObj root) source) (\<lambda>_.
      p_bind (parse_security root source) (\<lambda>security.
      p_bind (opt_field root ''pollIntervalSeconds'' DEFAULT_POLL_INTERVAL_SECONDS expect_integer source) (\<lambda>interval.
      p_bind (p_guard (\<not> interval < 10) (source @ ''.pollIntervalSeconds: must be >= 10 seconds'')) (\<lambda>_.
      p_bind (opt_field root ''maxConcurrentGlobal'' DEFAULT_MAX_CONCURRENT_GLOBAL expect_integer source) (\<lambda>max_global.
      p_bind (p_guard (\<not> max_global < 1) (source @ ''.maxConcurrentGlobal: must be >= 1'')) (\<lambda>_.
      p_bind (opt_field root ''retentionDays'' DEFAULT_RETENTION_DAYS expect_integer source) (\<lambda>retention.
      p_bind (p_guard (\<not> retention < 1) (source @ ''.retentionDays: must be >= 1'')) (\<lambda>_.
      p_bind (case map_of root ''agents'' of None \<Rightarrow> Inr []
              | Some a \<Rightarrow> p_bind (expect_object (Some a) (source @ ''.agents'')) (\<lambda>fs.
                  p_bind (assert_known_keys fs [''triage'', ''resolution''] (source @ ''.agents'')) (\<lambda>_. Inr fs))) (\<lambda>agents.
      p_bind (parse_model_setting (map_of agents ''triage'') (source @ ''.agents.triage'') TISSUE_TRIAGE_AGENT) (\<lambda>triage.
      p_bind (parse_model_setting (map_of agents ''resolution'') (source @ ''.agents.resolution'') TISSUE_RESOLVE_AGENT) (\<lambda>resolution.
      p_bind (case map_of root ''repos'' of None \<Rightarrow> Inr []
              | Some (JArr vs) \<Rightarrow> Inr vs
              | Some _ \<Rightarrow> Inl (ConfigError (source @ ''.repos: expected a list''))) (\<lambda>raw.
      p_bind (parse_repositories finite_date raw 0) (\<lambda>repos.
      Inr \<lparr>c_trusted_users = security, c_poll_interval_seconds = interval, c_max_concurrent_global = max_global,
        c_retention_days = retention, c_triage_agent = triage, c_resolution_agent = resolution,
        c_repos = repos\<rparr>))))))))))))))))"

text \<open>\<^verbatim>\<open>loadConfig\<close>: the file is read afresh on each call; \<open>None\<close> when it cannot be read.\<close>

definition load_config ::
  "(string \<Rightarrow> bool) \<Rightarrow> (string \<Rightarrow> json option) \<Rightarrow> (string \<Rightarrow> string option) \<Rightarrow> string \<Rightarrow> tissue_config parsed" where
  "load_config finite_date parse_yaml read_file path =
     (case read_file path of
        None \<Rightarrow> Inl (ConfigError (path @ '': cannot read config file''))
      | Some text \<Rightarrow> parse_config finite_date (parse_yaml text) path)"

text \<open>
  \<^verbatim>\<open>resolveWorktreeRoot(env)\<close>; \<open>resolve\<close> is Node's \<^verbatim>\<open>path.resolve\<close> of a base and a segment against the working
  directory.
\<close>

definition resolve_worktree_root ::
  "(string \<Rightarrow> string \<Rightarrow> string) \<Rightarrow> (string \<Rightarrow> string option) \<Rightarrow> string parsed" where
  "resolve_worktree_root resolve env =
     (case env ''TISSUE_WORKTREE_ROOT'' of
        Some configured \<Rightarrow> validate_absolute_path configured ''TISSUE_WORKTREE_ROOT''
      | None \<Rightarrow> Inr (resolve (coalesce (env ''TISSUE_STATE_DIR'') ''.tissue'') ''worktrees''))"

section \<open>What an accepted configuration guarantees\<close>

definition remote_safe :: "string option \<Rightarrow> bool" where
  "remote_safe r \<longleftrightarrow> (case r of None \<Rightarrow> True | Some s \<Rightarrow> \<not> token_shaped s \<and> \<not> remote_with_credentials s)"

definition identity_safe :: "string option \<Rightarrow> bool" where
  "identity_safe v \<longleftrightarrow> (case v of None \<Rightarrow> True | Some s \<Rightarrow> repo_id_re s)"

definition repo_config_safe :: "repository_config \<Rightarrow> bool" where
  "repo_config_safe c \<longleftrightarrow>
     repo_id_re (rc_owner c) \<and> repo_id_re (rc_name c) \<and>
     identity_safe (rc_target_owner c) \<and> identity_safe (rc_target_name c) \<and>
     identity_safe (rc_push_owner c) \<and> identity_safe (rc_push_name c) \<and>
     absolute_path_ok (rc_local_dir c) \<and> remote_safe (rc_remote c) \<and>
     10 \<le> rc_poll_interval_seconds c \<and> 1 \<le> rc_max_concurrent_per_repo c \<and>
     list_all (\<lambda>l. l \<noteq> [] \<and> \<not> list_ex is_control l) (rc_labels c)"

definition config_safe :: "tissue_config \<Rightarrow> bool" where
  "config_safe c \<longleftrightarrow>
     10 \<le> c_poll_interval_seconds c \<and> 1 \<le> c_max_concurrent_global c \<and> 1 \<le> c_retention_days c \<and>
     ms_agent (c_triage_agent c) = Some TISSUE_TRIAGE_AGENT \<and>
     ms_agent (c_resolution_agent c) = Some TISSUE_RESOLVE_AGENT \<and>
     list_all repo_config_safe (c_repos c) \<and>
     (case c_trusted_users c of None \<Rightarrow> True | Some us \<Rightarrow> list_all login_re us)"

text \<open>No key anywhere in the document looks like a secret.\<close>

fun no_secret_keys :: "json \<Rightarrow> bool"
  and no_secret_list :: "json list \<Rightarrow> bool"
  and no_secret_fields :: "(string \<times> json) list \<Rightarrow> bool" where
  "no_secret_keys (JArr vs) = no_secret_list vs"
| "no_secret_keys (JObj fs) = no_secret_fields fs"
| "no_secret_keys _ = True"
| "no_secret_list [] = True"
| "no_secret_list (v # vs) = (no_secret_keys v \<and> no_secret_list vs)"
| "no_secret_fields [] = True"
| "no_secret_fields ((k, v) # fs) = (\<not> secret_key k \<and> no_secret_keys v \<and> no_secret_fields fs)"

lemma p_bindE [elim!]:
  assumes "p_bind m f = Inr y"
  obtains x where "m = Inr x" "f x = Inr y"
  using assms by (auto simp: p_bind_success)

lemma walk_no_secret:
  "walk_reject_secrets v path = Inr u \<Longrightarrow> no_secret_keys v"
  "walk_list vs i path = Inr u \<Longrightarrow> no_secret_list vs"
  "walk_fields fs path = Inr u \<Longrightarrow> no_secret_fields fs"
  by (induction v path and vs i path and fs path arbitrary: u and u and u
      rule: walk_reject_secrets_walk_list_walk_fields.induct)
    (auto split: if_splits)

lemma validate_repo_identity_ok:
  "validate_repo_identity a b p = Inr u \<Longrightarrow> repo_id_re a \<and> repo_id_re b"
  by (auto simp: validate_repo_identity_def p_guard_success)

lemma validate_absolute_path_ok: "validate_absolute_path v p = Inr x \<Longrightarrow> x = v \<and> absolute_path_ok v"
  by (auto simp: validate_absolute_path_def split: if_splits)

lemma validate_remote_ok: "validate_remote v p = Inr x \<Longrightarrow> x = v \<and> remote_safe (Some v)"
  by (auto simp: validate_remote_def remote_safe_def split: if_splits)

lemma remote_field_ok:
  "opt_field obj k None (\<lambda>v p. p_bind (expect_string v p) (\<lambda>s. p_bind (validate_remote s p) (\<lambda>r. Inr (Some r)))) b
     = Inr r \<Longrightarrow> remote_safe (non_empty r)"
  by (auto simp: opt_field_def non_empty_def remote_safe_def dest!: validate_remote_ok split: option.splits)

lemma parse_repository_safe:
  assumes "parse_repository fd node i = Inr c"
  shows "repo_config_safe c"
  by (insert assms, unfold parse_repository_def Let_def, elim p_bindE, (drule validate_repo_identity_ok)+, drule validate_absolute_path_ok,
      drule remote_field_ok, unfold p_guard_success sum.inject, elim conjE, hypsubst)
    (simp only: repo_config_safe_def identity_safe_def repository_config.simps option.case
      list_all_iff de_Morgan_disj not_less conj_assoc)

lemma parse_repositories_safe:
  "parse_repositories fd vs i = Inr cs \<Longrightarrow> list_all repo_config_safe cs"
  by (induction fd vs i arbitrary: cs rule: parse_repositories.induct)
    (auto simp: parse_repository_safe)

lemma check_logins_ok: "check_logins ls i src = Inr u \<Longrightarrow> list_all login_re ls"
  by (induction ls i src rule: check_logins.induct) (auto simp: normalize_eq split: if_splits)

lemma parse_security_ok:
  "parse_security root src = Inr s \<Longrightarrow> case s of None \<Rightarrow> True | Some us \<Rightarrow> list_all login_re us"
  by (auto simp: parse_security_def check_logins_ok split: option.splits)

lemma parse_model_setting_agent:
  "parse_model_setting node p a = Inr m \<Longrightarrow> ms_agent m = Some a"
  by (auto simp: parse_model_setting_def split: if_splits option.splits)

lemma parse_config_safe:
  assumes "parse_config fd doc src = Inr c"
  shows "config_safe c"
proof -
  obtain node where d: "doc = Some node" using assms by (cases doc) (simp_all add: parse_config_def)
  show ?thesis
    by (insert assms, unfold d parse_config_def option.case, elim p_bindE, drule parse_security_ok,
        (drule parse_model_setting_agent)+, drule parse_repositories_safe,
        unfold p_guard_success sum.inject, hypsubst)
      (simp only: config_safe_def tissue_config.simps not_less)
qed

lemma parse_config_no_secret_keys:
  assumes "parse_config fd (Some node) src = Inr c"
  shows "no_secret_keys node"
proof -
  from assms obtain root where "expect_object (Some node) src = Inr root"
    and "walk_reject_secrets (JObj root) src = Inr ()"
    unfolding parse_config_def option.case by (elim p_bindE) simp
  then show ?thesis using walk_no_secret(1)[of "JObj root" src] by (cases node) auto
qed

end
