(* ===== verification/Gh.thy ===== *)
theory Gh
  imports Config
begin

text \<open>
  The gh transport (\<^verbatim>\<open>src/integrations/gh-client.ts\<close>): redaction, failure classification, the version
  gate, the identifier checks every argv goes through, the argv builders and the client. The spawned
  process is a parameter: a run takes the argv and the optional stdin, and gives the exit code, the two
  outputs and the outside world after it. Regular expressions are written as the texts they accept.
  The lemmas say that no builder lets an argument through that gh could read as an option, and that
  the version gate is the order on versions.
\<close>

section \<open>Text searches\<close>

primrec find_first :: "(string \<Rightarrow> 'a option) \<Rightarrow> string \<Rightarrow> 'a option" where
  "find_first f [] = f []"
| "find_first f (c # cs) = (case f (c # cs) of None \<Rightarrow> find_first f cs | Some x \<Rightarrow> Some x)"

definition trim :: "string \<Rightarrow> string" where
  "trim s = rev (dropWhile is_space (rev (dropWhile is_space s)))"

definition newline :: string where "newline = [CHR 0x0A]"

section \<open>Redaction\<close>

text \<open>Replace the tokens \<open>here\<close> finds, where \<open>run\<close> is the length of a token at the start of the text.\<close>

function redact_pass :: "(string \<Rightarrow> bool) \<Rightarrow> (string \<Rightarrow> nat) \<Rightarrow> bool \<Rightarrow> string \<Rightarrow> string" where
  "redact_pass here run prev_word [] = []"
| "redact_pass here run prev_word (c # cs) =
     (if \<not> prev_word \<and> here (c # cs) then ''[REDACTED]'' @ redact_pass here run True (drop (run (c # cs) - 1) cs)
      else c # redact_pass here run (is_word_char c) cs)"
  by pat_completeness auto
termination by (relation "measure (\<lambda>(here, run, prev, s). length s)") auto

definition gh_token_length :: "string \<Rightarrow> nat" where
  "gh_token_length s = 4 + length (takeWhile is_alnum (drop 4 s))"

definition pat_token_length :: "string \<Rightarrow> nat" where
  "pat_token_length s = 11 + length (takeWhile is_word_char (drop 11 s))"

definition scheme_char :: "char \<Rightarrow> bool" where
  "scheme_char c \<longleftrightarrow> is_alnum c \<or> List.member ''+.-'' c"

definition userinfo_char :: "char \<Rightarrow> bool" where
  "userinfo_char c \<longleftrightarrow> c \<noteq> CHR ''/'' \<and> c \<noteq> CHR ''@'' \<and> \<not> is_space c"

text \<open>
  \<^verbatim>\<open>[^/@\s]+:[^/@\s]+@\<close> at the start of the text: its length, when it matches. The class contains the
  colon, so the run before the at sign has a colon that is neither its first nor its last character.
\<close>

definition userinfo_here :: "string \<Rightarrow> nat option" where
  "userinfo_here s =
     (let run = takeWhile userinfo_char s in
      if List.member (butlast (drop 1 run)) CHR '':'' \<and> is_prefix ''@'' (drop (length run) s)
      then Some (length run + 1) else None)"

text \<open>\<open>in_scheme\<close>: the text just before is a run of scheme characters with a letter in it.\<close>

function redact_urls :: "bool \<Rightarrow> string \<Rightarrow> string" where
  "redact_urls in_scheme [] = []"
| "redact_urls in_scheme (c # cs) =
     (case (if in_scheme \<and> is_prefix ''://'' (c # cs) then userinfo_here (drop 2 cs) else None) of
        Some n \<Rightarrow> ''://[REDACTED]@'' @ redact_urls False (drop (n + 2) cs)
      | None \<Rightarrow> c # redact_urls (if is_upper c \<or> is_lower c then True else scheme_char c \<and> in_scheme) cs)"
  by pat_completeness auto
termination by (relation "measure (\<lambda>(b, s). length s)") (auto split: if_splits)

definition redact_gh_text :: "string \<Rightarrow> string" where
  "redact_gh_text s = redact_urls False (redact_pass pat_token_here pat_token_length False
     (redact_pass gh_token_here gh_token_length False s))"

section \<open>Failures\<close>

record gh_spawn_result =
  gs_exit_code :: int
  gs_stdout :: string
  gs_stderr :: string

text \<open>\<^verbatim>\<open>repository .* not found\<close> is a case of \<^verbatim>\<open>not found\<close>.\<close>

definition classify_gh_failure :: "int \<Rightarrow> string \<Rightarrow> string \<Rightarrow> gh_error_kind" where
  "classify_gh_failure exit_code stdout stderr =
     (let hay = to_lower (stdout @ newline @ stderr);
          has = list_ex (\<lambda>w. contains w hay) in
      if has [''secondary rate limit'', ''api rate limit'', ''rate limit exceeded'', [CHR 0x22] @ ''rate limit'' @ [CHR 0x22]]
      then Rate_Limited
      else if has [''bad credentials'', ''not logged in'', ''authentication failed'', ''could not read username'', ''401'']
      then Auth
      else if has [''not found'', ''404'', ''does not exist''] then Not_Found
      else if has [''validation failed'', ''422'', ''unprocessable'', ''conflict'', ''409''] then Bad_Request
      else Unknown)"

section \<open>Versions\<close>

datatype gh_version = Gh_Version (major: nat) (minor: nat) (patch: nat)

text \<open>\<^verbatim>\<open>compareVersions\<close> as the order on versions.\<close>

instantiation gh_version :: linorder
begin

definition less_eq_gh_version :: "gh_version \<Rightarrow> gh_version \<Rightarrow> bool" where
  "a \<le> b \<longleftrightarrow> major a < major b \<or> major a = major b \<and> (minor a < minor b \<or> minor a = minor b \<and> patch a \<le> patch b)"

definition less_gh_version :: "gh_version \<Rightarrow> gh_version \<Rightarrow> bool" where
  "(a :: gh_version) < b \<longleftrightarrow> a \<le> b \<and> \<not> b \<le> a"

instance
  by standard (auto simp: less_eq_gh_version_def less_gh_version_def gh_version.expand)

end

definition compare_versions :: "gh_version \<Rightarrow> gh_version \<Rightarrow> int" where
  "compare_versions a b =
     (if major a \<noteq> major b then int (major a) - int (major b)
      else if minor a \<noteq> minor b then int (minor a) - int (minor b)
      else int (patch a) - int (patch b))"

definition gh_version_at_least :: "gh_version \<Rightarrow> gh_version \<Rightarrow> bool" where
  "gh_version_at_least version least \<longleftrightarrow> compare_versions version least \<ge> 0"

definition MIN_GH_VERSION :: gh_version where "MIN_GH_VERSION = Gh_Version 2 97 0"

text \<open>\<^verbatim>\<open>(\d+)\<close>: the maximal run of digits and what follows it.\<close>

definition digits_here :: "string \<Rightarrow> (nat \<times> string) option" where
  "digits_here s = (let ds = takeWhile is_digit s in if ds = [] then None else Some (digits_val ds, dropWhile is_digit s))"

definition after_dot :: "string \<Rightarrow> string option" where
  "after_dot s = (case s of [] \<Rightarrow> None | c # cs \<Rightarrow> if c = CHR ''.'' then Some cs else None)"

definition version_here :: "string \<Rightarrow> gh_version option" where
  "version_here s =
     (if is_prefix ''gh version '' s
      then Option.bind (digits_here (drop 11 s)) (\<lambda>a. Option.bind (after_dot (snd a)) (\<lambda>r.
        Option.bind (digits_here r) (\<lambda>b. Option.bind (after_dot (snd b)) (\<lambda>q.
        Option.bind (digits_here q) (\<lambda>c. Some (Gh_Version (fst a) (fst b) (fst c)))))))
      else None)"

definition parse_gh_version :: "string \<Rightarrow> gh_version option" where
  "parse_gh_version = find_first version_here"

section \<open>Identifier checks\<close>

type_synonym 'a checked = "err + 'a"

definition c_guard :: "bool \<Rightarrow> string \<Rightarrow> unit checked" where
  "c_guard b m = (if b then Inr () else Inl (GhArgError m))"

definition c_then :: "unit checked \<Rightarrow> 'a checked \<Rightarrow> 'a checked" where
  "c_then m k = (case m of Inl e \<Rightarrow> Inl e | Inr u \<Rightarrow> k)"

definition assert_repo_identifier :: "string \<Rightarrow> string \<Rightarrow> unit checked" where
  "assert_repo_identifier value field =
     c_guard (\<not> (value = [] \<or> length value > 100 \<or> list_ex is_control value \<or> \<not> repo_id_re value))
       (field @ '': '' @ quoted (redact_gh_text value) @ '' is not identifier-safe (must match [A-Za-z0-9._-])'')"

definition assert_numeric_id :: "int \<Rightarrow> string \<Rightarrow> unit checked" where
  "assert_numeric_id value field = c_guard (0 \<le> value \<and> value \<le> 2 ^ 53)
     (field @ '': expected a non-negative integer identifier, got '' @ quoted (show_int value))"

text \<open>\<^verbatim>\<open>/^tissue\/wi_[A-Za-z0-9][A-Za-z0-9._-]*$/\<close>\<close>

definition controller_branch_re :: "string \<Rightarrow> bool" where
  "controller_branch_re s \<longleftrightarrow> is_prefix ''tissue/wi_'' s \<and> repo_id_re (drop 10 s)"

definition assert_controller_branch :: "string \<Rightarrow> string \<Rightarrow> unit checked" where
  "assert_controller_branch value field = c_guard (controller_branch_re value \<and> \<not> list_ex is_control value)
     (field @ '': only controller-generated '' @ quoted ''tissue/wi_<opaque>'' @ '' branches are allowed'')"

definition branch_ref_re :: "string \<Rightarrow> bool" where
  "branch_ref_re s \<longleftrightarrow> s \<noteq> [] \<and> is_alnum (hd s) \<and> list_all (\<lambda>c. is_alnum c \<or> List.member ''._/-'' c) s"

definition assert_branch_ref :: "string \<Rightarrow> string \<Rightarrow> unit checked" where
  "assert_branch_ref value field =
     c_then (c_guard (\<not> (value = [] \<or> length value > 200 \<or> list_ex is_control value \<or> \<not> branch_ref_re value))
         (field @ '': '' @ quoted (redact_gh_text value) @ '' is not a valid identifier-safe branch ref''))
       (c_guard (\<not> is_prefix ''-'' value) (field @ '': branch must not start with '' @ quoted ''-''))"

definition repo_slug :: "string \<Rightarrow> string \<Rightarrow> string checked" where
  "repo_slug owner name =
     c_then (assert_repo_identifier owner ''owner'') (c_then (assert_repo_identifier name ''name'')
       (Inr (owner @ ''/'' @ name)))"


section \<open>Argv builders\<close>

definition JSON_ISSUE_FIELDS :: string where
  "JSON_ISSUE_FIELDS = ''number,title,author,labels,updatedAt,state,createdAt''"

definition JSON_REPO_META_FIELDS :: string where
  "JSON_REPO_META_FIELDS = ''default_branch,has_issues,permissions''"

definition JSON_PR_LIST_FIELDS :: string where
  "JSON_PR_LIST_FIELDS = ''number,state,author,headRefName,headRefOid,headRepositoryOwner,headRepository,updatedAt,mergeable,mergeStateStatus,isDraft,url''"

definition JSON_PR_VIEW_FIELDS :: string where
  "JSON_PR_VIEW_FIELDS = ''number,state,author,headRefName,headRefOid,headRepositoryOwner,headRepository,updatedAt,mergeable,mergeStateStatus,isDraft,reviewDecision,url''"

definition slugged :: "string \<Rightarrow> string \<Rightarrow> unit checked \<Rightarrow> (string \<Rightarrow> string list) \<Rightarrow> string list checked" where
  "slugged owner name check build =
     (case repo_slug owner name of Inl e \<Rightarrow> Inl e | Inr slug \<Rightarrow> c_then check (Inr (build slug)))"

definition argv_version :: "string list" where "argv_version = [''--version'']"
definition argv_auth_status :: "string list" where "argv_auth_status = [''auth'', ''status'']"

definition argv_repo_meta :: "string \<Rightarrow> string \<Rightarrow> string list checked" where
  "argv_repo_meta owner name = slugged owner name (Inr ())
     (\<lambda>slug. [''api'', ''repos/'' @ slug, ''--jq'', ''{'' @ JSON_REPO_META_FIELDS @ ''}''])"

definition argv_protection :: "string \<Rightarrow> string \<Rightarrow> string \<Rightarrow> string list checked" where
  "argv_protection owner name branch = slugged owner name (assert_branch_ref branch ''branch'')
     (\<lambda>slug. [''api'', ''repos/'' @ slug @ ''/branches/'' @ branch @ ''/protection''])"

definition argv_issue_list :: "string \<Rightarrow> string \<Rightarrow> string \<Rightarrow> int \<Rightarrow> string list checked" where
  "argv_issue_list owner name state limit = slugged owner name
     (c_guard (1 \<le> limit \<and> limit \<le> 100) ''issue list limit must be an integer in [1,100]'')
     (\<lambda>slug. [''issue'', ''list'', ''-R'', slug, ''--state'', state, ''--limit'', show_int limit, ''--json'', JSON_ISSUE_FIELDS])"

text \<open>The reads and effects keyed by the number of an issue or of a pull request.\<close>

definition numbered :: "string \<Rightarrow> string \<Rightarrow> int \<Rightarrow> string \<Rightarrow> (string \<Rightarrow> string \<Rightarrow> string list) \<Rightarrow> string list checked" where
  "numbered owner name number field build =
     slugged owner name (assert_numeric_id number field) (build (show_int number))"

definition argv_issue_view :: "string \<Rightarrow> string \<Rightarrow> int \<Rightarrow> string list checked" where
  "argv_issue_view owner name number = numbered owner name number ''issueNumber''
     (\<lambda>n slug. [''issue'', ''view'', n, ''-R'', slug, ''--json'', JSON_ISSUE_FIELDS])"

definition argv_issue_body :: "string \<Rightarrow> string \<Rightarrow> int \<Rightarrow> string list checked" where
  "argv_issue_body owner name number = numbered owner name number ''issueNumber''
     (\<lambda>n slug. [''issue'', ''view'', n, ''-R'', slug, ''--json'', ''body''])"

definition argv_issue_comments :: "string \<Rightarrow> string \<Rightarrow> int \<Rightarrow> string list checked" where
  "argv_issue_comments owner name number = numbered owner name number ''issueNumber''
     (\<lambda>n slug. [''issue'', ''view'', n, ''-R'', slug, ''--json'', ''comments''])"

definition argv_issue_comment :: "string \<Rightarrow> string \<Rightarrow> int \<Rightarrow> string list checked" where
  "argv_issue_comment owner name number = numbered owner name number ''issueNumber''
     (\<lambda>n slug. [''issue'', ''comment'', n, ''-R'', slug, ''--body-file'', ''-''])"

definition argv_issue_close :: "string \<Rightarrow> string \<Rightarrow> int \<Rightarrow> string list checked" where
  "argv_issue_close owner name number = numbered owner name number ''issueNumber''
     (\<lambda>n slug. [''issue'', ''close'', n, ''-R'', slug])"

definition argv_issue_reopen :: "string \<Rightarrow> string \<Rightarrow> int \<Rightarrow> string list checked" where
  "argv_issue_reopen owner name number = numbered owner name number ''issueNumber''
     (\<lambda>n slug. [''issue'', ''reopen'', n, ''-R'', slug])"

definition argv_pr_list :: "string \<Rightarrow> string \<Rightarrow> string \<Rightarrow> int \<Rightarrow> string list checked" where
  "argv_pr_list owner name state limit = slugged owner name
     (c_guard (1 \<le> limit \<and> limit \<le> 100) ''pr list limit must be an integer in [1,100]'')
     (\<lambda>slug. [''pr'', ''list'', ''-R'', slug, ''--state'', state, ''--limit'', show_int limit, ''--json'', JSON_PR_LIST_FIELDS])"

definition argv_pr_view :: "string \<Rightarrow> string \<Rightarrow> int \<Rightarrow> string list checked" where
  "argv_pr_view owner name number = numbered owner name number ''prNumber''
     (\<lambda>n slug. [''pr'', ''view'', n, ''-R'', slug, ''--json'', JSON_PR_VIEW_FIELDS])"

definition argv_pr_checks :: "string \<Rightarrow> string \<Rightarrow> int \<Rightarrow> string list checked" where
  "argv_pr_checks owner name number = numbered owner name number ''prNumber''
     (\<lambda>n slug. [''pr'', ''view'', n, ''-R'', slug, ''--json'', ''number,statusCheckRollup''])"

definition argv_pr_reviews :: "string \<Rightarrow> string \<Rightarrow> int \<Rightarrow> string list checked" where
  "argv_pr_reviews owner name number = numbered owner name number ''prNumber''
     (\<lambda>n slug. [''pr'', ''view'', n, ''-R'', slug, ''--json'', ''number,reviews''])"

definition argv_pr_comments :: "string \<Rightarrow> string \<Rightarrow> int \<Rightarrow> string list checked" where
  "argv_pr_comments owner name number = numbered owner name number ''prNumber''
     (\<lambda>n slug. [''pr'', ''view'', n, ''-R'', slug, ''--json'', ''comments''])"

record pr_create_query =
  pq_owner :: string
  pq_name :: string
  pq_head :: string
  pq_head_owner :: "string option"
  pq_base :: string
  pq_title :: string

definition pr_head_argument :: "pr_create_query \<Rightarrow> string" where
  "pr_head_argument q =
     (case pq_head_owner q of Some owner \<Rightarrow> if owner \<noteq> [] then owner @ '':'' @ pq_head q else pq_head q | None \<Rightarrow> pq_head q)"

definition argv_pr_create :: "pr_create_query \<Rightarrow> string list checked" where
  "argv_pr_create q = slugged (pq_owner q) (pq_name q)
     (c_then (assert_controller_branch (pq_head q) ''head'')
     (c_then (case pq_head_owner q of None \<Rightarrow> Inr () | Some owner \<Rightarrow> assert_repo_identifier owner ''headOwner'')
     (c_then (assert_branch_ref (pq_base q) ''base'')
       (c_guard (\<not> (pq_title q = [] \<or> length (pq_title q) > 200 \<or> list_ex is_control (pq_title q)))
         ''pr title must be 1..200 chars with no control characters''))))
     (\<lambda>slug. [''pr'', ''create'', ''-R'', slug, ''--head'', pr_head_argument q, ''--base'', pq_base q,
        ''--title'', pq_title q, ''--body-file'', ''-''])"

definition argv_pr_merge :: "string \<Rightarrow> string \<Rightarrow> int \<Rightarrow> string \<Rightarrow> string list checked" where
  "argv_pr_merge owner name number meth = slugged owner name
     (c_then (assert_numeric_id number ''prNumber'')
       (c_guard (List.member [''merge'', ''squash'', ''rebase''] meth)
         (''merge method must be merge|squash|rebase, got '' @ quoted meth)))
     (\<lambda>slug. [''pr'', ''merge'', show_int number, ''-R'', slug, ''--'' @ meth])"

section \<open>The client\<close>

text \<open>
  \<open>gc_run\<close> runs the validated binary; \<open>gc_parse\<close> is \<^verbatim>\<open>JSON.parse\<close>, with the message it throws.
\<close>

record 'w gh_client =
  gc_run :: "string list \<Rightarrow> string option \<Rightarrow> 'w \<Rightarrow> gh_spawn_result \<times> 'w"
  gc_parse :: "string \<Rightarrow> string + json"
  gc_binary :: string
  gc_min_version :: gh_version

definition gh_client_binary_ok :: "string \<Rightarrow> unit checked" where
  "gh_client_binary_ok binary =
     (if is_prefix ''/'' binary then Inr ()
      else Inl (GhError Unknown (''gh binary must be an absolute path (PATH '' @ quoted ''gh'' @ '' shim is unverified), got '' @ quoted binary)))"

definition gh_run :: "'w gh_client \<Rightarrow> string list \<Rightarrow> string option \<Rightarrow> ('w, err, gh_spawn_result) act" where
  "gh_run gh args stdin w = (case gc_run gh args stdin w of (res, w') \<Rightarrow> (Inr res, w'))"

definition gh_failure_text :: "gh_spawn_result \<Rightarrow> string" where
  "gh_failure_text res = redact_gh_text (trim (trim (gs_stderr res) @ newline @ trim (gs_stdout res)))"

definition gh_json_of :: "'w gh_client \<Rightarrow> gh_spawn_result \<Rightarrow> err + json" where
  "gh_json_of gh res =
     (if gs_exit_code res \<noteq> 0
      then if gs_exit_code res = -1
        then Inl (GhError Network (redact_gh_text (if trim (gs_stderr res) \<noteq> [] then trim (gs_stderr res) else ''spawn failed'')))
        else Inl (GhError (classify_gh_failure (gs_exit_code res) (gs_stdout res) (gs_stderr res)) (gh_failure_text res))
      else if trim (gs_stdout res) = []
      then Inl (GhError Unknown ''gh returned an empty response where JSON was expected'')
      else case gc_parse gh (gs_stdout res) of
          Inl m \<Rightarrow> Inl (GhError Unknown (''gh did not return valid JSON: '' @ redact_gh_text m))
        | Inr j \<Rightarrow> Inr j)"

definition gh_run_json :: "'w gh_client \<Rightarrow> string list checked \<Rightarrow> ('w, err, json) act" where
  "gh_run_json gh args =
     (case args of
        Inl e \<Rightarrow> act_fail e
      | Inr argv \<Rightarrow> act_bind (gh_run gh argv None) (\<lambda>res.
          case gh_json_of gh res of Inl e \<Rightarrow> act_fail e | Inr j \<Rightarrow> act_return j))"

record auth_status =
  au_authenticated :: bool
  au_host :: string
  au_account :: "string option"

text \<open>\<^verbatim>\<open>/logged in to ([a-z0-9.-]+) (?:account|as) ([A-Za-z0-9._-]+)/i\<close>\<close>

definition host_char :: "char \<Rightarrow> bool" where
  "host_char c \<longleftrightarrow> is_alnum c \<or> List.member ''.-'' c"

definition strip_word :: "string \<Rightarrow> string \<Rightarrow> string option" where
  "strip_word w s = (if is_prefix w (to_lower s) then Some (drop (length w) s) else None)"

definition account_here :: "string \<Rightarrow> (string \<times> string) option" where
  "account_here s =
     Option.bind (strip_word ''logged in to '' s) (\<lambda>r.
       let host = takeWhile host_char r; rest = dropWhile host_char r in
       if host = [] then None
       else Option.bind (case strip_word '' account '' rest of Some q \<Rightarrow> Some q | None \<Rightarrow> strip_word '' as '' rest) (\<lambda>q.
         let account = takeWhile repo_id_char q in if account = [] then None else Some (host, account)))"

definition gh_auth_status :: "'w gh_client \<Rightarrow> ('w, err, auth_status) act" where
  "gh_auth_status gh =
     act_bind (gh_run gh argv_auth_status None) (\<lambda>res.
       if gs_exit_code res \<noteq> 0
       then act_return \<lparr>au_authenticated = False, au_host = ''unknown'', au_account = None\<rparr>
       else let m = find_first account_here (gs_stdout res) in
         act_return \<lparr>au_authenticated = True, au_host = coalesce (map_option fst m) ''github.com'', au_account = map_option snd m\<rparr>)"

record gh_validation =
  gv_binary :: string
  gv_version :: string
  gv_version_ok :: bool
  gv_authenticated :: bool
  gv_account :: "string option"

definition gh_validate :: "'w gh_client \<Rightarrow> ('w, err, gh_validation) act" where
  "gh_validate gh =
     act_bind (gh_run gh argv_version None) (\<lambda>out.
     act_bind (gh_auth_status gh) (\<lambda>auth.
       let version_ok = (case parse_gh_version (gs_stdout out) of None \<Rightarrow> False | Some v \<Rightarrow> gh_version_at_least v (gc_min_version gh));
           shown = (if gs_exit_code out \<noteq> 0 \<or> \<not> au_authenticated auth then redact_gh_text (trim (gs_stdout out)) else trim (gs_stdout out)) in
       act_return \<lparr>gv_binary = gc_binary gh, gv_version = shown, gv_version_ok = version_ok,
         gv_authenticated = au_authenticated auth, gv_account = au_account auth\<rparr>))"

section \<open>Repository metadata\<close>

fun bool_or_null :: "json option \<Rightarrow> bool option" where
  "bool_or_null (Some (JBool b)) = Some b"
| "bool_or_null _ = None"

fun string_or_null :: "json option \<Rightarrow> string option" where
  "string_or_null (Some (JStr s)) = Some s"
| "string_or_null _ = None"

fun is_record_json :: "json option \<Rightarrow> bool" where
  "is_record_json (Some (JObj fs)) = True"
| "is_record_json _ = False"

fun all_strings :: "json list \<Rightarrow> string list option" where
  "all_strings [] = Some []"
| "all_strings (JStr s # vs) = map_option ((#) s) (all_strings vs)"
| "all_strings (_ # vs) = None"

fun string_array_or_null :: "json option \<Rightarrow> string list option" where
  "string_array_or_null (Some (JArr vs)) = all_strings vs"
| "string_array_or_null _ = None"

text \<open>A field of a value that may be missing: \<^verbatim>\<open>undefined\<close> unless it is an object with the field.\<close>

definition sub_field :: "json option \<Rightarrow> string \<Rightarrow> json option" where
  "sub_field v k = Option.bind v (\<lambda>j. json_field j k)"

record repo_permissions =
  rp_admin :: "bool option"
  rp_push :: "bool option"
  rp_pull :: "bool option"

record repo_meta =
  rm_owner :: string
  rm_name :: string
  rm_default_branch :: "string option"
  rm_issues_enabled :: "bool option"
  rm_permissions :: "repo_permissions option"

text \<open>Reading a property of \<^verbatim>\<open>null\<close> throws.\<close>

definition js_object :: "json \<Rightarrow> ('s, err, unit) act" where
  "js_object j = act_guard (j \<noteq> JNull) (JsError ''TypeError: Cannot read properties of null'')"

definition gh_repo_meta :: "'w gh_client \<Rightarrow> string \<Rightarrow> string \<Rightarrow> ('w, err, repo_meta) act" where
  "gh_repo_meta gh owner name =
     act_bind (gh_run_json gh (argv_repo_meta owner name)) (\<lambda>data.
     act_then (js_object data)
       (let perms = json_field data ''permissions'' in
        act_return \<lparr>rm_owner = owner, rm_name = name,
          rm_default_branch = string_or_null (json_field data ''default_branch''),
          rm_issues_enabled = bool_or_null (json_field data ''has_issues''),
          rm_permissions = (if is_record_json perms
            then Some \<lparr>rp_admin = bool_or_null (sub_field perms ''admin''), rp_push = bool_or_null (sub_field perms ''push''),
              rp_pull = bool_or_null (sub_field perms ''pull'')\<rparr>
            else None)\<rparr>))"

record protection_state =
  ps_enabled :: bool
  ps_required_approvals :: "json option"
  ps_enforce_admins :: "bool option"
  ps_required_checks :: "string list option"

fun number_or_null :: "json option \<Rightarrow> json option" where
  "number_or_null (Some (JNum n)) = Some (JNum n)"
| "number_or_null (Some (JFrac s)) = Some (JFrac s)"
| "number_or_null _ = None"

text \<open>
  \<^verbatim>\<open>isRecord(x) && typeof x.k === ...\<close>: a field of an array is \<^verbatim>\<open>undefined\<close> as well, so the record test adds nothing
  to \<open>sub_field\<close>.
\<close>

definition gh_protection :: "'w gh_client \<Rightarrow> string \<Rightarrow> string \<Rightarrow> string \<Rightarrow> ('w, err, protection_state) act" where
  "gh_protection gh owner name branch =
     (case argv_protection owner name branch of
        Inl e \<Rightarrow> act_fail e
      | Inr argv \<Rightarrow> act_bind (gh_run gh argv None) (\<lambda>res.
          if gs_exit_code res = 0
          then case gc_parse gh (gs_stdout res) of
              Inl m \<Rightarrow> act_fail (GhError Unknown ''gh returned non-JSON protection metadata'')
            | Inr data \<Rightarrow> act_then (js_object data) (act_return
                \<lparr>ps_enabled = True,
                 ps_required_approvals = number_or_null
                   (sub_field (json_field data ''required_pull_request_reviews'') ''required_approving_review_count''),
                 ps_enforce_admins = bool_or_null (sub_field (json_field data ''enforce_admins'') ''enabled''),
                 ps_required_checks = string_array_or_null (sub_field (json_field data ''required_status_checks'') ''contexts'')\<rparr>)
          else let kind = classify_gh_failure (gs_exit_code res) (gs_stdout res) (gs_stderr res) in
            if kind = Not_Found
            then act_return \<lparr>ps_enabled = False, ps_required_approvals = None, ps_enforce_admins = None, ps_required_checks = None\<rparr>
            else act_fail (GhError kind (gh_failure_text res))))"


section \<open>The version gate\<close>

text \<open>The version gate is the order on versions.\<close>

lemma version_gate_is_order: "gh_version_at_least version least \<longleftrightarrow> least \<le> version"
  by (auto simp: gh_version_at_least_def compare_versions_def less_eq_gh_version_def)

lemma show_nat_unfold: "show_nat n = (if n < 10 then [digit_char n] else show_nat (n div 10) @ [digit_char (n mod 10)])"
proof -
  have acc: "show_nat_acc m acc = show_nat_acc m [] @ acc" for m acc
  proof (induction m arbitrary: acc rule: less_induct)
    case (less m)
    show ?case
    proof (cases "m < 10")
      case False
      then have "m div 10 < m" by simp
      from less.IH[OF this, of "digit_char (m mod 10) # acc"] less.IH[OF this, of "[digit_char (m mod 10)]"] False
      show ?thesis by (simp add: show_nat_acc.simps[of m])
    qed (simp add: show_nat_acc.simps[of m])
  qed
  show ?thesis
    using acc[of "n div 10" "[digit_char (n mod 10)]"] by (simp add: show_nat_def show_nat_acc.simps[of n])
qed

lemma show_nat_digits: "c \<in> set (show_nat n) \<Longrightarrow> is_digit c"
proof (induction n rule: less_induct)
  case (less n)
  from less.prems have "c \<in> set (if n < 10 then [digit_char n] else show_nat (n div 10) @ [digit_char (n mod 10)])"
    using show_nat_unfold[of n] by simp
  with less.IH[of "n div 10"] show ?case by (auto split: if_splits)
qed

lemma show_nat_not_Nil [simp]: "show_nat n \<noteq> []"
  by (subst show_nat_unfold) simp

lemma digits_val_snoc: "digits_val (xs @ [c]) = 10 * digits_val xs + char_digit c"
  by (simp add: digits_val_def)

lemma digits_val_show_nat: "digits_val (show_nat n) = n"
proof (induction n rule: less_induct)
  case (less n)
  show ?case
    by (subst show_nat_unfold) (use less[of "n div 10"] in \<open>auto simp: digits_val_snoc digits_val_def[of "[_]"]\<close>)
qed

lemma takeWhile_show_nat:
  assumes "rest = [] \<or> \<not> is_digit (hd rest)"
  shows "takeWhile is_digit (show_nat n @ rest) = show_nat n" "dropWhile is_digit (show_nat n @ rest) = rest"
proof -
  have "takeWhile is_digit rest = []" "dropWhile is_digit rest = rest" using assms by (cases rest; simp)+
  then show "takeWhile is_digit (show_nat n @ rest) = show_nat n" "dropWhile is_digit (show_nat n @ rest) = rest"
    using show_nat_digits[of _ n] by (simp_all add: takeWhile_append2 dropWhile_append2)
qed

lemma digits_here_show_nat:
  "rest = [] \<or> \<not> is_digit (hd rest) \<Longrightarrow> digits_here (show_nat n @ rest) = Some (n, rest)"
  by (simp add: digits_here_def takeWhile_show_nat digits_val_show_nat)

definition show_version :: "gh_version \<Rightarrow> string" where
  "show_version v = ''gh version '' @ show_nat (major v) @ ''.'' @ show_nat (minor v) @ ''.'' @ show_nat (patch v)"

text \<open>
  Reading a printed version gives it back, whatever follows that is not a digit.
\<close>
theorem parse_gh_version_roundtrip:
  assumes "rest = [] \<or> \<not> is_digit (hd rest)"
  shows "parse_gh_version (show_version v @ rest) = Some v"
proof -
  have dot: "''.'' @ xs = [] \<or> \<not> is_digit (hd (''.'' @ xs))" for xs by (simp add: is_digit_def)
  have "version_here (show_version v @ rest) = Some v"
    using digits_here_show_nat[OF dot, of "major v"] digits_here_show_nat[OF dot, of "minor v"]
      digits_here_show_nat[OF assms, of "patch v"]
    by (cases v) (simp add: version_here_def show_version_def after_dot_def)
  moreover obtain c cs where "show_version v @ rest = c # cs" by (simp add: show_version_def)
  ultimately show ?thesis by (simp add: parse_gh_version_def)
qed

theorem parse_gh_version_roundtrip_witness:
  "parse_gh_version (show_version (Gh_Version 2 98 0) @ '' (2026-08-20)'') = Some (Gh_Version 2 98 0)"
proof -
  have "'' (2026-08-20)'' = [] \<or> \<not> is_digit (hd '' (2026-08-20)'')" by code_simp
  then show ?thesis by (rule parse_gh_version_roundtrip)
qed

section \<open>No argument can be read as an option\<close>

text \<open>The arguments that start with a hyphen and are not the title, which follows its own option.\<close>

fun loose_options :: "string list \<Rightarrow> string list" where
  "loose_options [] = []"
| "loose_options [a] = (if is_prefix ''-'' a then [a] else [])"
| "loose_options (a # b # rest) =
     (if a = ''--title'' then a # loose_options rest
      else (if is_prefix ''-'' a then [a] else []) @ loose_options (b # rest))"

definition known_options :: "string list" where
  "known_options = [''--version'', ''--jq'', ''-R'', ''--state'', ''--limit'', ''--json'', ''--head'', ''--base'', ''--title'',
     ''--body-file'', ''-'', ''--merge'', ''--squash'', ''--rebase'']"

text \<open>The argvs the builders give.\<close>

inductive built :: "string list \<Rightarrow> bool" where
  built_version: "built argv_version"
| built_auth: "built argv_auth_status"
| built_repo_meta: "argv_repo_meta owner name = Inr argv \<Longrightarrow> built argv"
| built_protection: "argv_protection owner name branch = Inr argv \<Longrightarrow> built argv"
| built_issue_list: "argv_issue_list owner name state limit = Inr argv \<Longrightarrow> state \<in> set [''open'', ''closed'', ''all''] \<Longrightarrow> built argv"
| built_issue_view: "argv_issue_view owner name n = Inr argv \<Longrightarrow> built argv"
| built_issue_body: "argv_issue_body owner name n = Inr argv \<Longrightarrow> built argv"
| built_issue_comments: "argv_issue_comments owner name n = Inr argv \<Longrightarrow> built argv"
| built_issue_comment: "argv_issue_comment owner name n = Inr argv \<Longrightarrow> built argv"
| built_issue_close: "argv_issue_close owner name n = Inr argv \<Longrightarrow> built argv"
| built_issue_reopen: "argv_issue_reopen owner name n = Inr argv \<Longrightarrow> built argv"
| built_pr_list: "argv_pr_list owner name state limit = Inr argv \<Longrightarrow> state \<in> set [''open'', ''closed'', ''merged'', ''all''] \<Longrightarrow> built argv"
| built_pr_view: "argv_pr_view owner name n = Inr argv \<Longrightarrow> built argv"
| built_pr_checks: "argv_pr_checks owner name n = Inr argv \<Longrightarrow> built argv"
| built_pr_reviews: "argv_pr_reviews owner name n = Inr argv \<Longrightarrow> built argv"
| built_pr_comments: "argv_pr_comments owner name n = Inr argv \<Longrightarrow> built argv"
| built_pr_create: "argv_pr_create q = Inr argv \<Longrightarrow> built argv"
| built_pr_merge: "argv_pr_merge owner name n meth = Inr argv \<Longrightarrow> built argv"

lemma checked_success:
  "c_guard b m = Inr u \<longleftrightarrow> b"
  "c_then m' k = Inr x \<longleftrightarrow> m' = Inr () \<and> k = Inr x"
  by (auto simp: c_guard_def c_then_def split: sum.splits)

lemma not_option: "s \<noteq> [] \<Longrightarrow> is_alnum (hd s) \<Longrightarrow> \<not> is_prefix ''-'' (s @ t) \<and> s @ t \<noteq> ''--title''"
  by (cases s) (auto simp: is_alnum_def is_upper_def is_lower_def is_digit_def)

lemma slugged_success:
  assumes "slugged owner name check build = Inr argv"
  obtains slug where "argv = build slug" "check = Inr ()" "\<not> is_prefix ''-'' slug" "slug \<noteq> ''--title''"
proof -
  have "owner \<noteq> []" "is_alnum (hd owner)" "check = Inr ()" "argv = build (owner @ ''/'' @ name)"
    using assms by (auto simp: slugged_def repo_slug_def assert_repo_identifier_def checked_success repo_id_re_def split: sum.splits)
  with not_option[of owner "''/'' @ name"] that show thesis by blast
qed

lemma field_lists_not_options:
  "\<not> is_prefix ''-'' JSON_ISSUE_FIELDS" "\<not> is_prefix ''-'' JSON_PR_LIST_FIELDS" "\<not> is_prefix ''-'' JSON_PR_VIEW_FIELDS"
  by code_simp+

lemma show_int_not_option: "0 \<le> n \<Longrightarrow> \<not> is_prefix ''-'' (show_int n) \<and> show_int n \<noteq> ''--title''"
proof -
  assume "0 \<le> n"
  obtain c cs where s: "show_nat (nat n) = c # cs" by (cases "show_nat (nat n)") auto
  then have "is_digit c" using show_nat_digits[of c "nat n"] by simp
  with s \<open>0 \<le> n\<close> show ?thesis by (auto simp: show_int_def is_digit_def)
qed

lemma numbered_success:
  assumes "numbered owner name n field build = Inr argv"
  obtains slug where "argv = build (show_int n) slug" "\<not> is_prefix ''-'' slug" "slug \<noteq> ''--title''"
    "\<not> is_prefix ''-'' (show_int n)" "show_int n \<noteq> ''--title''"
proof -
  from assms obtain slug where "argv = build (show_int n) slug" "\<not> is_prefix ''-'' slug" "slug \<noteq> ''--title''"
    and "assert_numeric_id n field = Inr ()"
    unfolding numbered_def by (rule slugged_success)
  with that show_int_not_option[of n] show thesis by (auto simp: assert_numeric_id_def checked_success)
qed

text \<open>
  C11: No argument of a command the controller builds can be taken for an option by gh: whatever owner,
  name, number, branch, title or merge method goes in, the arguments that start with a hyphen are the fixed options (so
  never \<^verbatim>\<open>--admin\<close>, never \<^verbatim>\<open>--force\<close>), the value of \<^verbatim>\<open>--title\<close> apart.
\<close>
theorem built_argv_option_safe:
  assumes "built argv"
  shows "set (loose_options argv) \<subseteq> set known_options"
  using assms
proof (cases rule: built.cases)
  case (built_repo_meta owner name)
  then show ?thesis unfolding argv_repo_meta_def by (auto elim!: slugged_success simp: known_options_def)
next
  case (built_protection owner name branch)
  then show ?thesis unfolding argv_protection_def by (auto elim!: slugged_success simp: known_options_def)
next
  case (built_issue_list owner name state limit)
  then show ?thesis unfolding argv_issue_list_def
    using show_int_not_option[of limit] field_lists_not_options by (auto elim!: slugged_success simp: known_options_def checked_success)
next
  case (built_pr_list owner name state limit)
  then show ?thesis unfolding argv_pr_list_def
    using show_int_not_option[of limit] field_lists_not_options by (auto elim!: slugged_success simp: known_options_def checked_success)
next
  case (built_pr_create q)
  have head: "\<not> is_prefix ''-'' (pr_head_argument q) \<and> pr_head_argument q \<noteq> ''--title''"
    "\<not> is_prefix ''-'' (pq_base q) \<and> pq_base q \<noteq> ''--title''"
    if "assert_controller_branch (pq_head q) ''head'' = Inr ()"
      "(case pq_head_owner q of None \<Rightarrow> Inr () | Some owner \<Rightarrow> assert_repo_identifier owner ''headOwner'') = Inr ()"
      "assert_branch_ref (pq_base q) ''base'' = Inr ()"
  proof -
    have h: "is_prefix ''tissue/wi_'' (pq_head q)"
      using that(1) by (simp add: assert_controller_branch_def checked_success controller_branch_re_def)
    show "\<not> is_prefix ''-'' (pr_head_argument q) \<and> pr_head_argument q \<noteq> ''--title''"
    proof (cases "pq_head_owner q")
      case None
      with h show ?thesis by (cases "pq_head q") (auto simp: pr_head_argument_def)
    next
      case (Some owner)
      with that(2) have "owner \<noteq> []" "is_alnum (hd owner)" by (auto simp: assert_repo_identifier_def checked_success repo_id_re_def)
      with not_option[of owner] Some show ?thesis by (simp add: pr_head_argument_def)
    qed
    show "\<not> is_prefix ''-'' (pq_base q) \<and> pq_base q \<noteq> ''--title''"
      using that(3) not_option[of "pq_base q" "[]"] by (simp add: assert_branch_ref_def checked_success branch_ref_re_def)
  qed
  from built_pr_create show ?thesis unfolding argv_pr_create_def
    by (elim slugged_success) (use head in \<open>simp add: known_options_def checked_success\<close>)
next
  case (built_pr_merge owner name n meth)
  then show ?thesis unfolding argv_pr_merge_def
    using show_int_not_option[of n] by (auto elim!: slugged_success simp: known_options_def checked_success assert_numeric_id_def)
qed (use field_lists_not_options in \<open>auto elim!: numbered_success simp: known_options_def argv_version_def argv_auth_status_def argv_issue_view_def
    argv_issue_body_def argv_issue_comments_def argv_issue_comment_def argv_issue_close_def argv_issue_reopen_def argv_pr_view_def
    argv_pr_checks_def argv_pr_reviews_def argv_pr_comments_def\<close>)

theorem built_argv_option_safe_witness:
  "\<exists>argv. argv_pr_merge ''acme'' ''tool'' 7 ''squash'' = Inr argv \<and> set (loose_options argv) \<subseteq> set known_options"
proof -
  have "\<not> isl (argv_pr_merge ''acme'' ''tool'' 7 ''squash'')" by code_simp
  then obtain argv where "argv_pr_merge ''acme'' ''tool'' 7 ''squash'' = Inr argv"
    by (cases "argv_pr_merge ''acme'' ''tool'' 7 ''squash''") auto
  with built_argv_option_safe[OF built_pr_merge] show ?thesis by blast
qed

end
