(* ===== verification/Poll.thy ===== *)
theory Poll
  imports Gh
begin

text \<open>
  The level-triggered poll (\<^verbatim>\<open>src/controller/poll.ts\<close>): the typed snapshot, the tolerant parsers of
  the gh projections, the content hash and the reads one poll makes. SHA-256 is the parameter \<open>digest\<close>;
  the reads go through the gh client of the theory Gh. The strings of GitHub are ASCII, upper case is
  ASCII upper case. The two reads per pull request run one after the other.
\<close>

section \<open>Snapshots\<close>

datatype actor_presence = Present | Missing | Malformed_Actor

record actor_projection =
  ap_raw_login :: "string option"
  ap_presence :: actor_presence

record gh_issue_snapshot =
  gi_number :: int
  gi_author :: "actor_projection option"
  gi_title :: string
  gi_state :: string
  gi_updated_at :: string
  gi_created_at :: string
  gi_labels :: "string list"
  gi_snapshot_hash :: string

record gh_pr_snapshot =
  gp_number :: int
  gp_author :: "actor_projection option"
  gp_state :: string
  gp_head_ref_name :: string
  gp_head_ref_oid :: string
  gp_head_owner :: string
  gp_head_repo :: string
  gp_updated_at :: string
  gp_mergeable :: string
  gp_merge_state_status :: string
  gp_is_draft :: bool
  gp_url :: string

record gh_check_snapshot =
  gk_pr_number :: int
  gk_name :: string
  gk_status :: string
  gk_conclusion :: string
  gk_check_key :: string

record gh_review_snapshot =
  gr_pr_number :: int
  gr_review_id :: string
  gr_author :: "actor_projection option"
  gr_state :: string
  gr_submitted_at :: string
  gr_observed_version :: "string option"

datatype comment_target = Issue_Comment | Pr_Comment

record gh_comment_snapshot =
  gc_target :: comment_target
  gc_number :: int
  gc_comment_id :: string
  gc_author :: "string option"
  gc_author_presence :: "actor_presence option"
  gc_raw_author :: "string option"
  gc_created_at :: string
  gc_body_preview :: string
  gc_body_hash :: string

record gh_conflict_snapshot =
  gx_pr_number :: int
  gx_mergeable :: string
  gx_merge_state_status :: string

record gh_snapshot =
  sn_repo_id :: string
  sn_owner :: string
  sn_name :: string
  sn_baseline_at :: "string option"
  sn_cursor :: "string option"
  sn_watermark :: string
  sn_collected_at :: string
  sn_issues :: "gh_issue_snapshot list"
  sn_pull_requests :: "gh_pr_snapshot list"
  sn_checks :: "gh_check_snapshot list"
  sn_reviews :: "gh_review_snapshot list"
  sn_conflicts :: "gh_conflict_snapshot list"
  sn_comments :: "gh_comment_snapshot list"

section \<open>Canonical text\<close>

definition to_upper_char :: "char \<Rightarrow> char" where
  "to_upper_char c = (if is_lower c then char_of (of_char c - (32::nat)) else c)"

definition to_upper :: "string \<Rightarrow> string" where
  "to_upper = map to_upper_char"

definition hex_digit :: "nat \<Rightarrow> char" where
  "hex_digit n = (if n < 10 then digit_char n else char_of (87 + n))"

text \<open>\<^verbatim>\<open>JSON.stringify\<close> of a character of a string.\<close>

definition json_escape :: "char \<Rightarrow> string" where
  "json_escape c =
     (let n = (of_char c :: nat) in
      if c = CHR 0x22 then [CHR 0x5C, CHR 0x22]
      else if c = CHR 0x5C then [CHR 0x5C, CHR 0x5C]
      else if n = 8 then [CHR 0x5C, CHR ''b'']
      else if n = 9 then [CHR 0x5C, CHR ''t'']
      else if n = 10 then [CHR 0x5C, CHR ''n'']
      else if n = 12 then [CHR 0x5C, CHR ''f'']
      else if n = 13 then [CHR 0x5C, CHR ''r'']
      else if n < 32 then CHR 0x5C # ''u00'' @ [hex_digit (n div 16), hex_digit (n mod 16)]
      else [c])"

definition json_string :: "string \<Rightarrow> string" where
  "json_string s = CHR 0x22 # concat (map json_escape s) @ [CHR 0x22]"

fun join :: "string list \<Rightarrow> string" where
  "join [] = []"
| "join [s] = s"
| "join (s # t # ss) = s @ '','' @ join (t # ss)"

lemma size_field: "f \<in> set fs \<Longrightarrow> size (snd f) < size (JObj fs)"
  by (induction fs) auto

lemma size_element: "v \<in> set vs \<Longrightarrow> size v < size (JArr vs)"
  by (induction vs) auto

function stable_stringify :: "json \<Rightarrow> string" where
  "stable_stringify JNull = ''null''"
| "stable_stringify (JBool b) = (if b then ''true'' else ''false'')"
| "stable_stringify (JNum n) = show_int n"
| "stable_stringify (JFrac s) = s"
| "stable_stringify (JStr s) = json_string s"
| "stable_stringify (JArr vs) = ''['' @ join (map stable_stringify vs) @ '']''"
| "stable_stringify (JObj fs) =
     ''{'' @ join (map (\<lambda>f. json_string (fst f) @ '':'' @ stable_stringify (snd f)) (sort_key fst fs)) @ ''}''"
  by pat_completeness auto
termination
proof (relation "measure size")
  show "v \<in> set vs \<Longrightarrow> (v, JArr vs) \<in> measure size" for v vs
    using size_element by simp
  show "f \<in> set (sort_key fst fs) \<Longrightarrow> (snd f, JObj fs) \<in> measure size" for f and fs :: "(string \<times> json) list"
    using size_field[of f fs] by simp
qed simp

definition snapshot_hash :: "(string \<Rightarrow> string) \<Rightarrow> json \<Rightarrow> string" where
  "snapshot_hash digest value = digest (stable_stringify value)"

section \<open>Parsing\<close>

fun as_string :: "json option \<Rightarrow> string \<Rightarrow> string" where
  "as_string (Some (JStr s)) fallback = s"
| "as_string _ fallback = fallback"

fun as_number :: "json option \<Rightarrow> int option" where
  "as_number (Some (JNum n)) = Some n"
| "as_number _ = None"

fun actor_of :: "json option \<Rightarrow> actor_projection" where
  "actor_of None = \<lparr>ap_raw_login = None, ap_presence = Missing\<rparr>"
| "actor_of (Some v) =
     (case json_field v ''login'' of
        Some (JStr login) \<Rightarrow>
          if login = [] \<or> length login > 39 then \<lparr>ap_raw_login = Some (take 39 login), ap_presence = Malformed_Actor\<rparr>
          else \<lparr>ap_raw_login = Some login, ap_presence = Present\<rparr>
      | _ \<Rightarrow> \<lparr>ap_raw_login = None, ap_presence = Malformed_Actor\<rparr>)"

fun label_name :: "json \<Rightarrow> string option" where
  "label_name (JStr s) = Some s"
| "label_name v = string_or_null (json_field v ''name'')"

fun labels_of :: "json option \<Rightarrow> string list" where
  "labels_of (Some (JArr vs)) = List.map_filter label_name vs"
| "labels_of _ = []"

definition actor_json :: "actor_projection \<Rightarrow> json" where
  "actor_json a = JObj [(''rawLogin'', json_opt (ap_raw_login a)),
     (''presence'', JStr (case ap_presence a of Present \<Rightarrow> ''PRESENT'' | Missing \<Rightarrow> ''MISSING'' | Malformed_Actor \<Rightarrow> ''MALFORMED''))]"

text \<open>A row that is \<^verbatim>\<open>null\<close> makes the loop throw; a row that does not parse is skipped.\<close>

definition rows_of :: "(json \<Rightarrow> 'a option) \<Rightarrow> json option \<Rightarrow> err + 'a list" where
  "rows_of f v =
     (case v of
        Some (JArr items) \<Rightarrow>
          if List.member items JNull then Inl (JsError ''TypeError: Cannot read properties of null'')
          else Inr (List.map_filter f items)
      | _ \<Rightarrow> Inr [])"

definition issue_of :: "(string \<Rightarrow> string) \<Rightarrow> json \<Rightarrow> gh_issue_snapshot option" where
  "issue_of digest item =
     (case as_number (json_field item ''number'') of
        None \<Rightarrow> None
      | Some number \<Rightarrow>
          let title = take 200 (as_string (json_field item ''title'') []);
              state = to_upper (as_string (json_field item ''state'') []);
              updated_at = as_string (json_field item ''updatedAt'') [];
              created_at = as_string (json_field item ''createdAt'') updated_at;
              labels = labels_of (json_field item ''labels'') in
          Some \<lparr>gi_number = number, gi_author = Some (actor_of (json_field item ''author'')), gi_title = title,
            gi_state = state, gi_updated_at = updated_at, gi_created_at = created_at, gi_labels = labels,
            gi_snapshot_hash = snapshot_hash digest (JObj [(''number'', JNum number), (''title'', JStr title),
              (''state'', JStr state), (''updatedAt'', JStr updated_at), (''labels'', JArr (map JStr labels))])\<rparr>)"

definition parse_issues :: "(string \<Rightarrow> string) \<Rightarrow> json \<Rightarrow> err + gh_issue_snapshot list" where
  "parse_issues digest raw = rows_of (issue_of digest) (Some raw)"

definition pr_of :: "json \<Rightarrow> gh_pr_snapshot option" where
  "pr_of item =
     (case as_number (json_field item ''number'') of
        None \<Rightarrow> None
      | Some number \<Rightarrow>
          Some \<lparr>gp_number = number, gp_author = Some (actor_of (json_field item ''author'')),
            gp_state = to_upper (as_string (json_field item ''state'') []),
            gp_head_ref_name = as_string (json_field item ''headRefName'') [],
            gp_head_ref_oid = as_string (json_field item ''headRefOid'') [],
            gp_head_owner = as_string (sub_field (json_field item ''headRepositoryOwner'') ''login'') [],
            gp_head_repo = as_string (sub_field (json_field item ''headRepository'') ''nameWithOwner'') [],
            gp_updated_at = as_string (json_field item ''updatedAt'') [],
            gp_mergeable = to_upper (as_string (json_field item ''mergeable'') ''UNKNOWN''),
            gp_merge_state_status = to_upper (as_string (json_field item ''mergeStateStatus'') ''UNKNOWN''),
            gp_is_draft = (json_field item ''isDraft'' = Some (JBool True)),
            gp_url = as_string (json_field item ''url'') []\<rparr>)"

definition parse_prs :: "json \<Rightarrow> err + gh_pr_snapshot list" where
  "parse_prs raw = rows_of pr_of (Some raw)"

definition check_of :: "int \<Rightarrow> json \<Rightarrow> gh_check_snapshot option" where
  "check_of pull item =
     (let name = (if as_string (json_field item ''name'') [] \<noteq> [] then as_string (json_field item ''name'') []
            else as_string (json_field item ''context'') []);
          status = to_upper (as_string (json_field item ''status'') ''UNKNOWN'');
          conclusion = to_upper (as_string (json_field item ''conclusion'') ''PENDING'') in
      if name = [] then None
      else Some \<lparr>gk_pr_number = pull, gk_name = name, gk_status = status, gk_conclusion = conclusion,
        gk_check_key = show_int pull @ '':'' @ name @ '':'' @ status @ '':'' @ conclusion\<rparr>)"

definition parse_checks :: "json \<Rightarrow> int \<Rightarrow> err + gh_check_snapshot list" where
  "parse_checks raw pull = rows_of (check_of pull) (json_field raw ''statusCheckRollup'')"

definition review_of :: "(string \<Rightarrow> string) \<Rightarrow> int \<Rightarrow> json \<Rightarrow> gh_review_snapshot option" where
  "review_of digest pull item =
     (let review_id = as_string (json_field item ''id'') []; author = actor_of (json_field item ''author'');
          state = to_upper (as_string (json_field item ''state'') ''UNKNOWN'');
          submitted_at = as_string (json_field item ''submittedAt'') [] in
      if review_id = [] then None
      else Some \<lparr>gr_pr_number = pull, gr_review_id = review_id, gr_author = Some author, gr_state = state,
        gr_submitted_at = submitted_at,
        gr_observed_version = Some (snapshot_hash digest (JObj [(''reviewId'', JStr review_id), (''author'', actor_json author),
          (''state'', JStr state), (''submittedAt'', JStr submitted_at)]))\<rparr>)"

definition parse_reviews :: "(string \<Rightarrow> string) \<Rightarrow> json \<Rightarrow> int \<Rightarrow> err + gh_review_snapshot list" where
  "parse_reviews digest raw pull = rows_of (review_of digest pull) (json_field raw ''reviews'')"

definition comment_of :: "(string \<Rightarrow> string) \<Rightarrow> comment_target \<Rightarrow> int \<Rightarrow> json \<Rightarrow> gh_comment_snapshot option" where
  "comment_of digest target number item =
     (let comment_id = as_string (json_field item ''id'') []; author = actor_of (json_field item ''author'');
          created_at = as_string (json_field item ''createdAt'') [];
          body = take 2000 (as_string (json_field item ''body'') []) in
      if comment_id = [] then None
      else Some \<lparr>gc_target = target, gc_number = number, gc_comment_id = comment_id, gc_author = ap_raw_login author,
        gc_author_presence = Some (ap_presence author), gc_raw_author = ap_raw_login author, gc_created_at = created_at,
        gc_body_preview = take 400 body,
        gc_body_hash = snapshot_hash digest (JObj [(''commentId'', JStr comment_id), (''body'', JStr body),
          (''createdAt'', JStr created_at)])\<rparr>)"

definition parse_comments ::
  "(string \<Rightarrow> string) \<Rightarrow> json \<Rightarrow> comment_target \<Rightarrow> int \<Rightarrow> err + gh_comment_snapshot list" where
  "parse_comments digest raw target number = rows_of (comment_of digest target number) (json_field raw ''comments'')"

section \<open>The poll\<close>

record repo_poll_ref =
  pf_id :: string
  pf_owner :: string
  pf_name :: string
  pf_baseline_at :: "string option"
  pf_limit :: "int option"

record poll_fetched =
  pl_issues :: nat
  pl_pull_requests :: nat
  pl_checks :: nat
  pl_reviews :: nat

record poll_result =
  pr_snapshot :: gh_snapshot
  pr_fetched :: poll_fetched

definition after :: "string \<Rightarrow> string option \<Rightarrow> bool" where
  "after a watermark \<longleftrightarrow> (case watermark of None \<Rightarrow> True | Some w \<Rightarrow> w \<le> a)"

definition act_lift :: "err + 'a \<Rightarrow> ('w, err, 'a) act" where
  "act_lift v = (case v of Inl e \<Rightarrow> act_fail e | Inr x \<Rightarrow> act_return x)"

fun raw_length :: "json \<Rightarrow> nat" where
  "raw_length (JArr vs) = length vs"
| "raw_length _ = 0"

definition read_pr ::
  "'w gh_client \<Rightarrow> (string \<Rightarrow> string) \<Rightarrow> repo_poll_ref \<Rightarrow> gh_pr_snapshot
    \<Rightarrow> gh_check_snapshot list \<times> gh_review_snapshot list
    \<Rightarrow> ('w, err, gh_check_snapshot list \<times> gh_review_snapshot list) act" where
  "read_pr gh digest repo p acc =
     act_bind (gh_run_json gh (argv_pr_checks (pf_owner repo) (pf_name repo) (gp_number p))) (\<lambda>check_raw.
     act_bind (gh_run_json gh (argv_pr_reviews (pf_owner repo) (pf_name repo) (gp_number p))) (\<lambda>review_raw.
     act_bind (act_lift (parse_checks check_raw (gp_number p))) (\<lambda>checks.
     act_bind (act_lift (parse_reviews digest review_raw (gp_number p))) (\<lambda>reviews.
       act_return (fst acc @ checks, snd acc @ reviews)))))"

definition read_comments ::
  "'w gh_client \<Rightarrow> (string \<Rightarrow> string) \<Rightarrow> string list checked \<Rightarrow> comment_target \<Rightarrow> int
    \<Rightarrow> gh_comment_snapshot list \<Rightarrow> ('w, err, gh_comment_snapshot list) act" where
  "read_comments gh digest argv target number acc =
     act_bind (gh_run_json gh argv) (\<lambda>raw.
     act_bind (act_lift (parse_comments digest raw target number)) (\<lambda>cs. act_return (acc @ cs)))"

definition poll_repository ::
  "'w gh_client \<Rightarrow> (string \<Rightarrow> string) \<Rightarrow> timestamp \<Rightarrow> repo_poll_ref \<Rightarrow> string option \<Rightarrow> ('w, err, poll_result) act" where
  "poll_repository gh digest collected_at repo watermark =
     (let limit = coalesce (pf_limit repo) 100 in
      act_bind (gh_run_json gh (argv_issue_list (pf_owner repo) (pf_name repo) ''all'' limit)) (\<lambda>issue_raw.
      act_bind (gh_run_json gh (argv_pr_list (pf_owner repo) (pf_name repo) ''all'' limit)) (\<lambda>pr_raw.
      act_bind (act_lift (parse_issues digest issue_raw)) (\<lambda>all_issues.
      act_bind (act_lift (parse_prs pr_raw)) (\<lambda>all_prs.
      let seen_issues = filter (\<lambda>i. after (gi_updated_at i) watermark) all_issues;
          seen_prs = filter (\<lambda>p. after (gp_updated_at p) watermark) all_prs in
      act_bind (act_fold (read_pr gh digest repo) seen_prs ([], [])) (\<lambda>cr.
      act_bind (act_fold (\<lambda>i. read_comments gh digest (argv_issue_comments (pf_owner repo) (pf_name repo) (gi_number i))
          Issue_Comment (gi_number i)) seen_issues []) (\<lambda>issue_comments.
      act_bind (act_fold (\<lambda>p. read_comments gh digest (argv_pr_comments (pf_owner repo) (pf_name repo) (gp_number p))
          Pr_Comment (gp_number p)) seen_prs issue_comments) (\<lambda>comments.
      act_return \<lparr>pr_snapshot =
          \<lparr>sn_repo_id = pf_id repo, sn_owner = pf_owner repo, sn_name = pf_name repo, sn_baseline_at = pf_baseline_at repo,
           sn_cursor = watermark, sn_watermark = collected_at, sn_collected_at = collected_at, sn_issues = seen_issues,
           sn_pull_requests = seen_prs, sn_checks = fst cr, sn_reviews = snd cr,
           sn_conflicts = map (\<lambda>p. \<lparr>gx_pr_number = gp_number p, gx_mergeable = gp_mergeable p,
             gx_merge_state_status = gp_merge_state_status p\<rparr>) seen_prs,
           sn_comments = comments\<rparr>,
         pr_fetched = \<lparr>pl_issues = raw_length issue_raw, pl_pull_requests = raw_length pr_raw,
           pl_checks = length (fst cr), pl_reviews = length (snd cr)\<rparr>\<rparr>))))))))"

fun is_transient_poll_error :: "err \<Rightarrow> bool" where
  "is_transient_poll_error (GhError kind m) = (kind = Rate_Limited \<or> kind = Network)"
| "is_transient_poll_error _ = False"


section \<open>What a poll brings in\<close>

definition bounded_snapshot :: "gh_snapshot \<Rightarrow> bool" where
  "bounded_snapshot s \<longleftrightarrow>
     list_all (\<lambda>i. length (gi_title i) \<le> 200 \<and> after (gi_updated_at i) (sn_cursor s)) (sn_issues s) \<and>
     list_all (\<lambda>p. after (gp_updated_at p) (sn_cursor s)) (sn_pull_requests s) \<and>
     list_all (\<lambda>c. length (gc_body_preview c) \<le> 400 \<and> gc_comment_id c \<noteq> [] \<and>
        (\<forall>l \<in> set_option (gc_raw_author c). length l \<le> 39)) (sn_comments s) \<and>
     list_all (\<lambda>r. gr_review_id r \<noteq> []) (sn_reviews s) \<and> list_all (\<lambda>c. gk_name c \<noteq> []) (sn_checks s)"

lemma rows_of_all:
  assumes "rows_of f v = Inr xs" "\<And>j x. f j = Some x \<Longrightarrow> P x"
  shows "list_all P xs"
  using assms by (auto simp: rows_of_def list_all_iff map_filter_def split: option.splits json.splits if_splits)

lemma actor_bounded: "l \<in> set_option (ap_raw_login (actor_of v)) \<Longrightarrow> length l \<le> 39"
  by (cases v) (auto split: option.splits json.splits if_splits)

lemma actor_bounded_Some [simp]: "ap_raw_login (actor_of v) = Some l \<Longrightarrow> length l \<le> 39"
  using actor_bounded by auto

lemma parsed_rows:
  "parse_issues digest raw = Inr iss \<Longrightarrow> list_all (\<lambda>i. length (gi_title i) \<le> 200) iss"
  "parse_checks raw n = Inr ks \<Longrightarrow> list_all (\<lambda>c. gk_name c \<noteq> []) ks"
  "parse_reviews digest raw n = Inr rs \<Longrightarrow> list_all (\<lambda>r. gr_review_id r \<noteq> []) rs"
  "parse_comments digest raw t n = Inr cs \<Longrightarrow> list_all (\<lambda>c. length (gc_body_preview c) \<le> 400 \<and> gc_comment_id c \<noteq> [] \<and>
        (\<forall>l \<in> set_option (gc_raw_author c). length l \<le> 39)) cs"
proof -
  show "parse_issues digest raw = Inr iss \<Longrightarrow> list_all (\<lambda>i. length (gi_title i) \<le> 200) iss" for iss
    unfolding parse_issues_def by (erule rows_of_all) (auto simp: issue_of_def Let_def split: option.splits)
  show "parse_checks raw n = Inr ks \<Longrightarrow> list_all (\<lambda>c. gk_name c \<noteq> []) ks"
    unfolding parse_checks_def by (erule rows_of_all) (auto simp: check_of_def Let_def split: if_splits)
  show "parse_reviews digest raw n = Inr rs \<Longrightarrow> list_all (\<lambda>r. gr_review_id r \<noteq> []) rs"
    unfolding parse_reviews_def by (erule rows_of_all) (auto simp: review_of_def Let_def split: if_splits)
  show "parse_comments digest raw t n = Inr cs \<Longrightarrow> list_all (\<lambda>c. length (gc_body_preview c) \<le> 400 \<and> gc_comment_id c \<noteq> [] \<and>
        (\<forall>l \<in> set_option (gc_raw_author c). length l \<le> 39)) cs"
    unfolding parse_comments_def
    by (erule rows_of_all) (auto simp: comment_of_def Let_def dest: actor_bounded split: if_splits)
qed

lemma act_bind_success: "act_bind m f s = (Inr y, s'') \<longleftrightarrow> (\<exists>x s'. m s = (Inr x, s') \<and> f x s' = (Inr y, s''))"
  by (auto simp: act_bind_def split: sum.splits prod.splits)

lemma act_lift_success: "act_lift v s = (Inr x, s') \<longleftrightarrow> v = Inr x \<and> s' = s"
  by (auto simp: act_lift_def act_simps split: sum.splits)

lemma act_fold_inv:
  assumes "act_fold f xs r s = (Inr r', s')" "P r"
    "\<And>x r s r' s'. x \<in> set xs \<Longrightarrow> P r \<Longrightarrow> f x r s = (Inr r', s') \<Longrightarrow> P r'"
  shows "P r'"
  using assms
proof (induction xs arbitrary: r s)
  case (Cons x xs)
  then obtain r1 s1 where "f x r s = (Inr r1, s1)" "act_fold f xs r1 s1 = (Inr r', s')"
    by (auto simp: act_bind_success)
  with Cons show ?case by (meson list.set_intros)
qed (simp add: act_simps)

text \<open>
  A poll brings in bounded text only (titles of 200 characters, previews of 400, logins of 39), rows
  with an identity, and nothing that was last updated before the watermark it started from.
\<close>
theorem poll_snapshot_bounded:
  assumes "poll_repository gh digest at repo watermark w = (Inr res, w')"
  shows "bounded_snapshot (pr_snapshot res) \<and> sn_cursor (pr_snapshot res) = watermark \<and> sn_watermark (pr_snapshot res) = at"
proof -
  let ?CR = "\<lambda>cr. list_all (\<lambda>c. gk_name c \<noteq> []) (fst cr) \<and> list_all (\<lambda>r. gr_review_id r \<noteq> []) (snd cr)"
  let ?C = "list_all (\<lambda>c. length (gc_body_preview c) \<le> 400 \<and> gc_comment_id c \<noteq> [] \<and>
        (\<forall>l \<in> set_option (gc_raw_author c). length l \<le> 39))"
  obtain ir pr all_is all_ps cr c1 cs w1 w2 w3 w4 w5 where
    issues: "parse_issues digest ir = Inr all_is"
    and cr: "act_fold (read_pr gh digest repo) (filter (\<lambda>p. after (gp_updated_at p) watermark) all_ps) ([], []) w2 = (Inr cr, w3)"
    and c1: "act_fold (\<lambda>i. read_comments gh digest (argv_issue_comments (pf_owner repo) (pf_name repo) (gi_number i))
          Issue_Comment (gi_number i)) (filter (\<lambda>i. after (gi_updated_at i) watermark) all_is) [] w3 = (Inr c1, w4)"
    and cs: "act_fold (\<lambda>p. read_comments gh digest (argv_pr_comments (pf_owner repo) (pf_name repo) (gp_number p))
          Pr_Comment (gp_number p)) (filter (\<lambda>p. after (gp_updated_at p) watermark) all_ps) c1 w4 = (Inr cs, w5)"
    and res: "pr_snapshot res =
          \<lparr>sn_repo_id = pf_id repo, sn_owner = pf_owner repo, sn_name = pf_name repo, sn_baseline_at = pf_baseline_at repo,
           sn_cursor = watermark, sn_watermark = at, sn_collected_at = at,
           sn_issues = filter (\<lambda>i. after (gi_updated_at i) watermark) all_is,
           sn_pull_requests = filter (\<lambda>p. after (gp_updated_at p) watermark) all_ps, sn_checks = fst cr, sn_reviews = snd cr,
           sn_conflicts = map (\<lambda>p. \<lparr>gx_pr_number = gp_number p, gx_mergeable = gp_mergeable p,
             gx_merge_state_status = gp_merge_state_status p\<rparr>) (filter (\<lambda>p. after (gp_updated_at p) watermark) all_ps),
           sn_comments = cs\<rparr>"
    using assms unfolding poll_repository_def Let_def act_bind_success act_lift_success
    by (elim exE conjE) (rule that, assumption, assumption, assumption, assumption, auto simp: act_simps)
  have "?CR cr"
    by (rule act_fold_inv[OF cr]) (auto simp: read_pr_def act_bind_success act_lift_success act_simps dest!: parsed_rows(2,3))
  moreover have "?C c1"
    by (rule act_fold_inv[OF c1]) (auto simp: read_comments_def act_bind_success act_lift_success act_simps dest!: parsed_rows(4))
  then have "?C cs"
    by (rule act_fold_inv[OF cs]) (auto simp: read_comments_def act_bind_success act_lift_success act_simps dest!: parsed_rows(4))
  moreover have "list_all (\<lambda>i. length (gi_title i) \<le> 200) all_is" by (rule parsed_rows(1)[OF issues])
  ultimately show ?thesis by (simp add: res bounded_snapshot_def list_all_iff)
qed


text \<open>A client whose repository has one issue and one pull request.\<close>

definition example_gh :: "unit gh_client" where
  "example_gh = \<lparr>gc_run = (\<lambda>args stdin w. (\<lparr>gs_exit_code = 0, gs_stdout = args ! 0 @ '' '' @ args ! 1, gs_stderr = []\<rparr>, w)),
     gc_parse = (\<lambda>s. Inr (if s = ''issue list'' then JArr [JObj [(''number'', JNum 1), (''title'', JStr ''t''), (''state'', JStr ''open''),
           (''updatedAt'', JStr ''1970-01-02T00:00:00.000Z'')]]
         else if s = ''pr list'' then JArr [JObj [(''number'', JNum 2), (''state'', JStr ''open''), (''headRefName'', JStr ''tissue/wi_b''),
           (''headRefOid'', JStr ''sha''), (''updatedAt'', JStr ''1970-01-02T00:00:00.000Z'')]]
         else JObj [(''comments'', JArr [JObj [(''id'', JStr ''c1''), (''body'', JStr ''hello''),
           (''author'', JObj [(''login'', JStr ''octocat'')])]]),
           (''statusCheckRollup'', JArr [JObj [(''name'', JStr ''build''), (''status'', JStr ''completed''), (''conclusion'', JStr ''success'')]]),
           (''reviews'', JArr [])])),
     gc_binary = ''/usr/bin/gh'', gc_min_version = MIN_GH_VERSION\<rparr>"

definition example_poll_ref :: repo_poll_ref where
  "example_poll_ref = \<lparr>pf_id = ''acme/tool'', pf_owner = ''acme'', pf_name = ''tool'',
     pf_baseline_at = Some ''1970-01-01T00:00:00.000Z'', pf_limit = None\<rparr>"

theorem poll_snapshot_bounded_witness:
  "\<exists>res w'. poll_repository example_gh id ''1970-01-03T00:00:00.000Z'' example_poll_ref None () = (Inr res, w') \<and>
     bounded_snapshot (pr_snapshot res) \<and> length (sn_comments (pr_snapshot res)) = 2"
proof -
  let ?run = "poll_repository example_gh id ''1970-01-03T00:00:00.000Z'' example_poll_ref None ()"
  have "case ?run of (Inl e, w) \<Rightarrow> False | (Inr res, w) \<Rightarrow> length (sn_comments (pr_snapshot res)) = 2" by code_simp
  then obtain res w' where "?run = (Inr res, w')" "length (sn_comments (pr_snapshot res)) = 2" by (rule act_caseE)
  with poll_snapshot_bounded[OF this(1)] show ?thesis by blast
qed

end
