(* ===== verification/Ledger.thy ===== *)
theory Ledger
  imports Store
begin

text \<open>
  The audit ledger: the accessors of \<^verbatim>\<open>state_transitions\<close> in \<^verbatim>\<open>src/db/repositories.ts\<close> and the
  legality gate \<^verbatim>\<open>recordTransition\<close> of \<^verbatim>\<open>src/domain/transitions.ts\<close>. The lemmas say that the ledger is
  append-only, that a successful \<open>record_transition\<close> appends one row whose triple is in the table, and
  that a refused one leaves the database as it was. \<open>replay\<close> reads the ledger of one entity
  back as a run of its state machine.
\<close>

section \<open>Accessors\<close>

definition append_transition ::
  "entity_type \<Rightarrow> string \<Rightarrow> string option \<Rightarrow> string \<Rightarrow> string \<Rightarrow> json_text option \<Rightarrow> string
    \<Rightarrow> timestamp option \<Rightarrow> unit db_tx" where
  "append_transition ety eid from to event reason actor at =
     tx_then (assert_json_if_set reason ''reason_json'')
       (tx_modify (\<lambda>d. d\<lparr>state_transitions := state_transitions d @
          [\<lparr>t_entity_type = ety, t_entity_id = eid, t_from_state = from, t_to_state = to,
            t_event = event, t_reason_json = reason, t_actor = actor,
            t_at = coalesce at (db_now d)\<rparr>]\<rparr>))"

definition list_transitions :: "db \<Rightarrow> entity_type \<Rightarrow> string \<Rightarrow> transition_row list" where
  "list_transitions d ety eid =
     filter (\<lambda>r. t_entity_type r = ety \<and> t_entity_id r = eid) (state_transitions d)"

text \<open>\<^verbatim>\<open>ORDER BY id DESC LIMIT 1\<close>.\<close>

definition latest_transition_at ::
  "db \<Rightarrow> entity_type \<Rightarrow> string \<Rightarrow> string option \<Rightarrow> timestamp option" where
  "latest_transition_at d ety eid event =
     (case event of
        None \<Rightarrow> map_option t_at (List.find (\<lambda>r. t_entity_type r = ety \<and> t_entity_id r = eid)
                  (rev (state_transitions d)))
      | Some ev \<Rightarrow> map_option t_at (List.find (\<lambda>r. t_entity_type r = ety \<and> t_entity_id r = eid \<and> t_event r = ev)
                  (rev (state_transitions d))))"

definition list_recent_transitions :: "db \<Rightarrow> nat \<Rightarrow> transition_row list" where
  "list_recent_transitions d limit = take limit (rev (state_transitions d))"

section \<open>The legality gate\<close>

definition record_transition ::
  "entity_type \<Rightarrow> string \<Rightarrow> string option \<Rightarrow> string \<Rightarrow> string \<Rightarrow> json option \<Rightarrow> string
    \<Rightarrow> timestamp option \<Rightarrow> transition_row db_tx" where
  "record_transition ety eid from to event reason actor at =
     tx_then
       (case from of
          Some f \<Rightarrow> if is_known_state ety f then tx_return () else tx_fail (UnknownStateError ety f)
        | None \<Rightarrow> tx_return ())
       (if \<not> is_known_state ety to then tx_fail (UnknownStateError ety to)
        else if \<not> is_legal_transition ety (coalesce from []) to event
        then tx_fail (IllegalTransitionError ety (coalesce from []) to event)
        else tx_then (append_transition ety eid from to event (map_option Text reason) actor at)
          (tx_bind (tx_get (\<lambda>d. list_transitions d ety eid))
            (\<lambda>rows. if rows = [] then tx_fail (IllegalTransitionError ety (coalesce from []) to event)
                    else tx_return (last rows))))"

section \<open>The ledger is append-only and legal\<close>

definition ledger_row ::
  "entity_type \<Rightarrow> string \<Rightarrow> string option \<Rightarrow> string \<Rightarrow> string \<Rightarrow> json_text option \<Rightarrow> string
    \<Rightarrow> timestamp \<Rightarrow> transition_row" where
  "ledger_row ety eid from to event reason actor at =
     \<lparr>t_entity_type = ety, t_entity_id = eid, t_from_state = from, t_to_state = to,
      t_event = event, t_reason_json = reason, t_actor = actor, t_at = at\<rparr>"

lemma ledger_row_simps [simp]:
  "t_entity_type (ledger_row ety eid f t ev r a at) = ety"
  "t_entity_id (ledger_row ety eid f t ev r a at) = eid"
  "t_from_state (ledger_row ety eid f t ev r a at) = f"
  "t_to_state (ledger_row ety eid f t ev r a at) = t"
  "t_event (ledger_row ety eid f t ev r a at) = ev"
  "t_reason_json (ledger_row ety eid f t ev r a at) = r"
  "t_actor (ledger_row ety eid f t ev r a at) = a"
  "t_at (ledger_row ety eid f t ev r a at) = at"
  by (simp_all add: ledger_row_def)

lemma append_transition_Text:
  "append_transition ety eid f t ev (map_option Text reason) a at d =
     Inr ((), d\<lparr>state_transitions := state_transitions d @
       [ledger_row ety eid f t ev (map_option Text reason) a (coalesce at (db_now d))]\<rparr>)"
  by (cases reason) (simp_all add: append_transition_def tx_simps ledger_row_def)

lemma append_transition_Some_Text [simp]:
  "append_transition ety eid f t ev (Some (Text j)) a at d =
     Inr ((), d\<lparr>state_transitions := state_transitions d @
       [ledger_row ety eid f t ev (Some (Text j)) a (coalesce at (db_now d))]\<rparr>)"
  using append_transition_Text[of ety eid f t ev "Some j"] by simp

lemma append_transition_None [simp]:
  "append_transition ety eid f t ev None a at d =
     Inr ((), d\<lparr>state_transitions := state_transitions d @
       [ledger_row ety eid f t ev None a (coalesce at (db_now d))]\<rparr>)"
  using append_transition_Text[of ety eid f t ev None] by simp

lemma append_transition_success:
  "append_transition ety eid f t ev reason a at d = Inr (x, d') \<Longrightarrow>
     d' = d\<lparr>state_transitions := state_transitions d @
       [ledger_row ety eid f t ev reason a (coalesce at (db_now d))]\<rparr>"
  by (auto simp: append_transition_def tx_success tx_simps ledger_row_def dest!: assert_json_if_set_state)

text \<open>The gate, from a named source state: one row when the triple is legal, an error otherwise.\<close>

lemma record_transition_Some:
  "record_transition ety eid (Some f) t ev reason a at d =
     (if \<not> is_known_state ety f then Inl (UnknownStateError ety f)
      else if \<not> is_known_state ety t then Inl (UnknownStateError ety t)
      else if is_legal_transition ety f t ev
      then let row = ledger_row ety eid (Some f) t ev (map_option Text reason) a (coalesce at (db_now d))
        in Inr (row, d\<lparr>state_transitions := state_transitions d @ [row]\<rparr>)
      else Inl (IllegalTransitionError ety f t ev))"
  by (simp add: record_transition_def tx_then_def tx_bind_def tx_simps append_transition_Text
      list_transitions_def Let_def)

lemma record_transition_legal [simp]:
  assumes "is_legal_transition ety f t ev"
  shows "record_transition ety eid (Some f) t ev reason a at d =
    (let row = ledger_row ety eid (Some f) t ev (map_option Text reason) a (coalesce at (db_now d))
     in Inr (row, d\<lparr>state_transitions := state_transitions d @ [row]\<rparr>))"
  using legal_known[OF assms] assms by (simp add: record_transition_Some)

lemma record_transition_success:
  assumes "record_transition ety eid (Some f) t ev reason a at d = Inr (row, d')"
  shows "is_legal_transition ety f t ev \<and>
    row = ledger_row ety eid (Some f) t ev (map_option Text reason) a (coalesce at (db_now d)) \<and>
    d' = d\<lparr>state_transitions := state_transitions d @ [row]\<rparr>"
  using assms by (auto simp: record_transition_Some Let_def split: if_splits)

lemma no_legal_from_empty: "\<not> is_legal_transition ety [] t ev"
proof
  assume "is_legal_transition ety [] t ev"
  then have "is_known_state ety []" by (blast dest: legal_known)
  moreover have "\<not> is_known_state ety []" by (cases ety; simp only:; code_simp)
  ultimately show False by blast
qed

text \<open>A transition with no source state is never recorded: \<^verbatim>\<open>from ?? ""\<close> is in no table.\<close>

lemma record_transition_None: "record_transition ety eid None t ev reason a at d \<noteq> Inr (row, d')"
  by (auto simp: record_transition_def tx_then_def tx_bind_def tx_simps no_legal_from_empty
      split: if_splits)

section \<open>Replaying the ledger\<close>

text \<open>
  Rows that record evidence without moving the entity: duplicate envelopes, absorbed or observed
  drift and session loss, released triage sessions.
\<close>

definition evidence_events :: "string list" where
  "evidence_events = [''noop_duplicate_envelope'', ''drift_absorbed'', ''drift_observed'',
     ''session_loss_absorbed'', ''session_loss_observed'', ''triage_session_released'']"

definition is_evidence :: "transition_row \<Rightarrow> bool" where
  "is_evidence r = List.member evidence_events (t_event r)"

fun replay_row :: "entity_type \<Rightarrow> string option \<Rightarrow> transition_row \<Rightarrow> string option" where
  "replay_row ety None r = None"
| "replay_row ety (Some s) r =
     (if is_evidence r then Some s
      else if t_from_state r = Some s \<and> is_legal_transition ety s (t_to_state r) (t_event r)
      then Some (t_to_state r) else None)"

text \<open>The state a list of ledger rows leads to from \<open>s\<close>; \<open>None\<close> when a row does not fit.\<close>

definition replay :: "entity_type \<Rightarrow> string \<Rightarrow> transition_row list \<Rightarrow> string option" where
  "replay ety s rows = foldl (replay_row ety) (Some s) rows"

lemma replay_Nil [simp]: "replay ety s [] = Some s"
  by (simp add: replay_def)

lemma foldl_replay_None: "foldl (replay_row ety) None rows = None"
  by (induction rows) auto

lemma replay_append:
  "replay ety s (xs @ ys) = (case replay ety s xs of None \<Rightarrow> None | Some t \<Rightarrow> replay ety t ys)"
  by (auto simp: replay_def foldl_replay_None split: option.splits)

lemma replay_single:
  "replay ety s [r] =
     (if is_evidence r then Some s
      else if t_from_state r = Some s \<and> is_legal_transition ety s (t_to_state r) (t_event r)
      then Some (t_to_state r) else None)"
  by (simp add: replay_def)

lemma legal_not_evidence: "is_legal_transition ety f t ev \<Longrightarrow> \<not> List.member evidence_events ev"
proof -
  have "list_all (\<lambda>r. list_all (\<lambda>ev. \<not> List.member evidence_events ev) (rule_events r))
      (sm_transitions (get_state_machine ety))"
    by (cases ety; simp only:; code_simp)
  moreover assume "is_legal_transition ety f t ev"
  ultimately show ?thesis by (auto simp: is_legal_transition_def list_ex_iff list_all_iff)
qed

lemma replay_terminal: "is_terminal_state ety s \<Longrightarrow> replay ety s rows = Some t \<Longrightarrow> t = s"
proof (induction rows arbitrary: t rule: rev_induct)
  case (snoc r rows)
  then show ?case
    using legal_not_terminal by (auto simp: replay_append replay_single split: option.splits if_splits)
qed simp

lemma replay_known: "is_known_state ety s \<Longrightarrow> replay ety s rows = Some t \<Longrightarrow> is_known_state ety t"
proof (induction rows arbitrary: t rule: rev_induct)
  case (snoc r rows)
  then show ?case
    using legal_known by (auto simp: replay_append replay_single split: option.splits if_splits)
qed simp

end
