(* ===== verification/Schema.thy ===== *)
theory Schema
  imports Ledger
begin

text \<open>
  The declarative constraints of \<^verbatim>\<open>src/db/migrations.ts\<close> as one invariant, \<open>schema_ok\<close>: primary keys,
  UNIQUE columns, the partial unique indexes (at most one ACTIVE link per issue, resolution session,
  worktree and pull request per WorkItem), the foreign keys and the AUTOINCREMENT order of the
  inbox. Every write operation of the theories above keeps it. Also the relations writes are composed
  under: \<open>keeps\<close> an invariant, and \<open>grows\<close>, the append-only ledger.
\<close>

section \<open>Constraints\<close>

definition repository_ids :: "db \<Rightarrow> string set" where
  "repository_ids d = r_id ` set (repositories d)"

definition issue_ids :: "db \<Rightarrow> string set" where
  "issue_ids d = i_id ` set (issues d)"

definition work_item_ids :: "db \<Rightarrow> string set" where
  "work_item_ids d = w_id ` set (work_items d)"

definition repositories_ok :: "db \<Rightarrow> bool" where
  "repositories_ok d \<longleftrightarrow> distinct (map r_id (repositories d)) \<and>
     distinct (map (\<lambda>r. (r_owner r, r_name r)) (repositories d))"

definition issues_ok :: "db \<Rightarrow> bool" where
  "issues_ok d \<longleftrightarrow> distinct (map i_id (issues d)) \<and>
     distinct (map (\<lambda>r. (i_repo_id r, i_number r)) (issues d)) \<and>
     i_repo_id ` set (issues d) \<subseteq> repository_ids d"

definition work_items_ok :: "db \<Rightarrow> bool" where
  "work_items_ok d \<longleftrightarrow> distinct (map w_id (work_items d)) \<and>
     distinct (filter (\<lambda>b. b \<noteq> None) (map w_head_branch (work_items d))) \<and>
     w_repo_id ` set (work_items d) \<subseteq> repository_ids d"

definition active_link :: "issue_link_row \<Rightarrow> bool" where
  "active_link l \<longleftrightarrow> l_state l = ''ACTIVE''"

definition links_ok :: "db \<Rightarrow> bool" where
  "links_ok d \<longleftrightarrow> distinct (map (\<lambda>l. (l_issue_id l, l_work_item_id l)) (issue_work_items d)) \<and>
     distinct (map l_issue_id (filter active_link (issue_work_items d))) \<and>
     l_issue_id ` set (issue_work_items d) \<subseteq> issue_ids d \<and>
     l_work_item_id ` set (issue_work_items d) \<subseteq> work_item_ids d"

definition active_resolution :: "session_row \<Rightarrow> bool" where
  "active_resolution s \<longleftrightarrow> s_kind s = Resolution_Session \<and> s_work_item_id s \<noteq> None \<and> s_state s = ''ACTIVE''"

definition sessions_ok :: "db \<Rightarrow> bool" where
  "sessions_ok d \<longleftrightarrow> distinct (map s_id (opencode_sessions d)) \<and>
     distinct (map s_work_item_id (filter active_resolution (opencode_sessions d))) \<and>
     s_repo_id ` set (opencode_sessions d) \<subseteq> insert None (Some ` repository_ids d) \<and>
     s_work_item_id ` set (opencode_sessions d) \<subseteq> insert None (Some ` work_item_ids d)"

definition active_worktree :: "worktree_row \<Rightarrow> bool" where
  "active_worktree t \<longleftrightarrow> wt_state t = ''ACTIVE''"

definition worktrees_ok :: "db \<Rightarrow> bool" where
  "worktrees_ok d \<longleftrightarrow> distinct (map wt_id (worktrees d)) \<and> distinct (map wt_path (worktrees d)) \<and>
     distinct (map wt_branch (worktrees d)) \<and>
     distinct (map wt_work_item_id (filter active_worktree (worktrees d))) \<and>
     wt_work_item_id ` set (worktrees d) \<subseteq> work_item_ids d"

definition active_pr :: "pull_request_row \<Rightarrow> bool" where
  "active_pr p \<longleftrightarrow> pr_state p = ''ACTIVE''"

definition pull_requests_ok :: "db \<Rightarrow> bool" where
  "pull_requests_ok d \<longleftrightarrow> distinct (map pr_id (pull_requests d)) \<and>
     distinct (map (\<lambda>p. (pr_repo_id p, pr_number p)) (pull_requests d)) \<and>
     distinct (map pr_work_item_id (filter active_pr (pull_requests d))) \<and>
     pr_work_item_id ` set (pull_requests d) \<subseteq> work_item_ids d \<and>
     pr_repo_id ` set (pull_requests d) \<subseteq> repository_ids d"

definition inbox_ok :: "db \<Rightarrow> bool" where
  "inbox_ok d \<longleftrightarrow> distinct (map ib_event_key (inbox d)) \<and> sorted_wrt (<) (map ib_id (inbox d)) \<and>
     (\<forall>r \<in> set (inbox d). ib_id r \<le> inbox_seq d) \<and> ib_issue_id ` set (inbox d) \<subseteq> issue_ids d"

definition side_effects_ok :: "db \<Rightarrow> bool" where
  "side_effects_ok d \<longleftrightarrow> distinct (map fx_id (side_effects d)) \<and> distinct (map fx_effect_key (side_effects d))"

definition leases_ok :: "db \<Rightarrow> bool" where
  "leases_ok d \<longleftrightarrow> distinct (map ls_resource_key (controller_leases d))"

fun dependency_target_exists :: "db \<Rightarrow> dependency_target \<Rightarrow> bool" where
  "dependency_target_exists d (On_Issue i) = (i \<in> issue_ids d)"
| "dependency_target_exists d (On_Work_Item w) = (w \<in> work_item_ids d)"

definition dependencies_ok :: "db \<Rightarrow> bool" where
  "dependencies_ok d \<longleftrightarrow> distinct (map dp_id (work_item_dependencies d)) \<and>
     distinct (map (\<lambda>r. (dp_dependent r, dp_target r)) (work_item_dependencies d)) \<and>
     dp_dependent ` set (work_item_dependencies d) \<subseteq> work_item_ids d \<and>
     (\<forall>r \<in> set (work_item_dependencies d). dependency_target_exists d (dp_target r) \<and>
        List.member [''ACTIVE'', ''SETTLED''] (dp_state r) \<and>
        (dp_settled_at r \<noteq> None \<longrightarrow> dp_state r = ''SETTLED''))"

definition schema_ok :: "db \<Rightarrow> bool" where
  "schema_ok d \<longleftrightarrow> repositories_ok d \<and> issues_ok d \<and> work_items_ok d \<and> links_ok d \<and> sessions_ok d \<and>
     worktrees_ok d \<and> pull_requests_ok d \<and> inbox_ok d \<and> side_effects_ok d \<and> leases_ok d \<and> dependencies_ok d"

lemmas table_ok_defs = repositories_ok_def issues_ok_def work_items_ok_def links_ok_def sessions_ok_def
  worktrees_ok_def pull_requests_ok_def inbox_ok_def side_effects_ok_def leases_ok_def dependencies_ok_def

lemma schema_okI:
  "repositories_ok d \<Longrightarrow> issues_ok d \<Longrightarrow> work_items_ok d \<Longrightarrow> links_ok d \<Longrightarrow> sessions_ok d \<Longrightarrow>
   worktrees_ok d \<Longrightarrow> pull_requests_ok d \<Longrightarrow> inbox_ok d \<Longrightarrow> side_effects_ok d \<Longrightarrow> leases_ok d \<Longrightarrow>
   dependencies_ok d \<Longrightarrow> schema_ok d"
  by (simp add: schema_ok_def)

lemma schema_okD:
  assumes "schema_ok d"
  shows "repositories_ok d" "issues_ok d" "work_items_ok d" "links_ok d" "sessions_ok d" "worktrees_ok d"
    "pull_requests_ok d" "inbox_ok d" "side_effects_ok d" "leases_ok d" "dependencies_ok d"
  using assms by (simp_all add: schema_ok_def)

lemma schema_ok_empty: "schema_ok (empty_db n t)"
  by (simp add: schema_ok_def table_ok_defs empty_db_def)

section \<open>Frames: writes to a table leave the other tables' constraints alone\<close>

lemma ids_frame [simp]:
  "repository_ids (d\<lparr>issues := is\<rparr>) = repository_ids d" "repository_ids (d\<lparr>work_items := ws\<rparr>) = repository_ids d"
  "issue_ids (d\<lparr>repositories := rs\<rparr>) = issue_ids d" "issue_ids (d\<lparr>work_items := ws\<rparr>) = issue_ids d"
  "work_item_ids (d\<lparr>repositories := rs\<rparr>) = work_item_ids d" "work_item_ids (d\<lparr>issues := is\<rparr>) = work_item_ids d"
  by (simp_all add: repository_ids_def issue_ids_def work_item_ids_def)

lemma target_exists_mono:
  "issue_ids d \<subseteq> issue_ids d' \<Longrightarrow> work_item_ids d \<subseteq> work_item_ids d' \<Longrightarrow>
   dependency_target_exists d t \<Longrightarrow> dependency_target_exists d' t"
  by (cases t) auto

lemma optional_fk_mono:
  "f ` S \<subseteq> insert None (Some ` A) \<Longrightarrow> x \<in> S \<Longrightarrow> A \<subseteq> B \<Longrightarrow> f x \<notin> Some ` B \<Longrightarrow> f x = None"
  by auto

lemma fk_mono:
  assumes "repository_ids d \<subseteq> repository_ids d'" "issue_ids d \<subseteq> issue_ids d'" "work_item_ids d \<subseteq> work_item_ids d'"
  shows "issues d' = issues d \<Longrightarrow> issues_ok d \<Longrightarrow> issues_ok d'"
    and "work_items d' = work_items d \<Longrightarrow> work_items_ok d \<Longrightarrow> work_items_ok d'"
    and "issue_work_items d' = issue_work_items d \<Longrightarrow> links_ok d \<Longrightarrow> links_ok d'"
    and "opencode_sessions d' = opencode_sessions d \<Longrightarrow> sessions_ok d \<Longrightarrow> sessions_ok d'"
    and "worktrees d' = worktrees d \<Longrightarrow> worktrees_ok d \<Longrightarrow> worktrees_ok d'"
    and "pull_requests d' = pull_requests d \<Longrightarrow> pull_requests_ok d \<Longrightarrow> pull_requests_ok d'"
    and "inbox d' = inbox d \<Longrightarrow> inbox_seq d' = inbox_seq d \<Longrightarrow> inbox_ok d \<Longrightarrow> inbox_ok d'"
    and "work_item_dependencies d' = work_item_dependencies d \<Longrightarrow> dependencies_ok d \<Longrightarrow> dependencies_ok d'"
  using assms target_exists_mono[OF assms(2,3)] by (auto simp: table_ok_defs intro: optional_fk_mono)

text \<open>One lemma per table: what a new content of the table must satisfy.\<close>

lemma set_repositories_ok:
  assumes "schema_ok d" "repositories_ok (d\<lparr>repositories := rs\<rparr>)" "repository_ids d \<subseteq> r_id ` set rs"
  shows "schema_ok (d\<lparr>repositories := rs\<rparr>)"
proof -
  have "repository_ids d \<subseteq> repository_ids (d\<lparr>repositories := rs\<rparr>)"
    using assms(3) by (simp add: repository_ids_def)
  from fk_mono[OF this] assms(2) schema_okD[OF assms(1)] show ?thesis
    by (intro schema_okI) (simp_all add: side_effects_ok_def leases_ok_def)
qed

lemma set_issues_ok:
  assumes "schema_ok d" "issues_ok (d\<lparr>issues := is\<rparr>)" "issue_ids d \<subseteq> i_id ` set is"
  shows "schema_ok (d\<lparr>issues := is\<rparr>)"
proof -
  have "issue_ids d \<subseteq> issue_ids (d\<lparr>issues := is\<rparr>)" using assms(3) by (simp add: issue_ids_def)
  from fk_mono[OF _ this] assms(2) schema_okD[OF assms(1)] show ?thesis
    by (intro schema_okI) (simp_all add: repositories_ok_def side_effects_ok_def leases_ok_def)
qed

lemma set_work_items_ok:
  assumes "schema_ok d" "work_items_ok (d\<lparr>work_items := ws\<rparr>)" "work_item_ids d \<subseteq> w_id ` set ws"
  shows "schema_ok (d\<lparr>work_items := ws\<rparr>)"
proof -
  have "work_item_ids d \<subseteq> work_item_ids (d\<lparr>work_items := ws\<rparr>)" using assms(3) by (simp add: work_item_ids_def)
  from fk_mono[OF _ _ this] assms(2) schema_okD[OF assms(1)] show ?thesis
    by (intro schema_okI) (simp_all add: repositories_ok_def side_effects_ok_def leases_ok_def)
qed

lemma ids_other_tables [simp]:
  "repository_ids (d\<lparr>issue_work_items := a1\<rparr>) = repository_ids d"
  "repository_ids (d\<lparr>opencode_sessions := a2\<rparr>) = repository_ids d"
  "repository_ids (d\<lparr>worktrees := a3\<rparr>) = repository_ids d"
  "repository_ids (d\<lparr>pull_requests := a4\<rparr>) = repository_ids d"
  "repository_ids (d\<lparr>inbox := a5\<rparr>) = repository_ids d"
  "repository_ids (d\<lparr>inbox_seq := a6\<rparr>) = repository_ids d"
  "repository_ids (d\<lparr>state_transitions := a7\<rparr>) = repository_ids d"
  "repository_ids (d\<lparr>side_effects := a8\<rparr>) = repository_ids d"
  "repository_ids (d\<lparr>controller_leases := a9\<rparr>) = repository_ids d"
  "repository_ids (d\<lparr>work_item_dependencies := a10\<rparr>) = repository_ids d"
  "repository_ids (d\<lparr>db_now := a11\<rparr>) = repository_ids d"
  "issue_ids (d\<lparr>issue_work_items := a1\<rparr>) = issue_ids d"
  "issue_ids (d\<lparr>opencode_sessions := a2\<rparr>) = issue_ids d"
  "issue_ids (d\<lparr>worktrees := a3\<rparr>) = issue_ids d"
  "issue_ids (d\<lparr>pull_requests := a4\<rparr>) = issue_ids d"
  "issue_ids (d\<lparr>inbox := a5\<rparr>) = issue_ids d"
  "issue_ids (d\<lparr>inbox_seq := a6\<rparr>) = issue_ids d"
  "issue_ids (d\<lparr>state_transitions := a7\<rparr>) = issue_ids d"
  "issue_ids (d\<lparr>side_effects := a8\<rparr>) = issue_ids d"
  "issue_ids (d\<lparr>controller_leases := a9\<rparr>) = issue_ids d"
  "issue_ids (d\<lparr>work_item_dependencies := a10\<rparr>) = issue_ids d"
  "issue_ids (d\<lparr>db_now := a11\<rparr>) = issue_ids d"
  "work_item_ids (d\<lparr>issue_work_items := a1\<rparr>) = work_item_ids d"
  "work_item_ids (d\<lparr>opencode_sessions := a2\<rparr>) = work_item_ids d"
  "work_item_ids (d\<lparr>worktrees := a3\<rparr>) = work_item_ids d"
  "work_item_ids (d\<lparr>pull_requests := a4\<rparr>) = work_item_ids d"
  "work_item_ids (d\<lparr>inbox := a5\<rparr>) = work_item_ids d"
  "work_item_ids (d\<lparr>inbox_seq := a6\<rparr>) = work_item_ids d"
  "work_item_ids (d\<lparr>state_transitions := a7\<rparr>) = work_item_ids d"
  "work_item_ids (d\<lparr>side_effects := a8\<rparr>) = work_item_ids d"
  "work_item_ids (d\<lparr>controller_leases := a9\<rparr>) = work_item_ids d"
  "work_item_ids (d\<lparr>work_item_dependencies := a10\<rparr>) = work_item_ids d"
  "work_item_ids (d\<lparr>db_now := a11\<rparr>) = work_item_ids d"
  by (simp_all add: repository_ids_def issue_ids_def work_item_ids_def)

lemma target_exists_iff:
  "dependency_target_exists d t \<longleftrightarrow> t \<in> On_Issue ` issue_ids d \<union> On_Work_Item ` work_item_ids d"
  by (cases t) auto

lemmas leaf_ok_defs = schema_ok_def table_ok_defs target_exists_iff

lemma set_links_ok: "schema_ok d \<Longrightarrow> links_ok (d\<lparr>issue_work_items := a\<rparr>) \<Longrightarrow> schema_ok (d\<lparr>issue_work_items := a\<rparr>)"
  by (simp add: leaf_ok_defs)

lemma set_sessions_ok: "schema_ok d \<Longrightarrow> sessions_ok (d\<lparr>opencode_sessions := a\<rparr>) \<Longrightarrow> schema_ok (d\<lparr>opencode_sessions := a\<rparr>)"
  by (simp add: leaf_ok_defs)

lemma set_worktrees_ok: "schema_ok d \<Longrightarrow> worktrees_ok (d\<lparr>worktrees := a\<rparr>) \<Longrightarrow> schema_ok (d\<lparr>worktrees := a\<rparr>)"
  by (simp add: leaf_ok_defs)

lemma set_pull_requests_ok: "schema_ok d \<Longrightarrow> pull_requests_ok (d\<lparr>pull_requests := a\<rparr>) \<Longrightarrow> schema_ok (d\<lparr>pull_requests := a\<rparr>)"
  by (simp add: leaf_ok_defs)

lemma set_inbox_ok:
  "schema_ok d \<Longrightarrow> inbox_ok (d\<lparr>inbox := a, inbox_seq := n\<rparr>) \<Longrightarrow> schema_ok (d\<lparr>inbox := a, inbox_seq := n\<rparr>)"
  "schema_ok d \<Longrightarrow> inbox_ok (d\<lparr>inbox := a\<rparr>) \<Longrightarrow> schema_ok (d\<lparr>inbox := a\<rparr>)"
  by (simp_all add: leaf_ok_defs)

lemma set_side_effects_ok: "schema_ok d \<Longrightarrow> side_effects_ok (d\<lparr>side_effects := a\<rparr>) \<Longrightarrow> schema_ok (d\<lparr>side_effects := a\<rparr>)"
  by (simp add: leaf_ok_defs)

lemma set_leases_ok: "schema_ok d \<Longrightarrow> leases_ok (d\<lparr>controller_leases := a\<rparr>) \<Longrightarrow> schema_ok (d\<lparr>controller_leases := a\<rparr>)"
  by (simp add: leaf_ok_defs)

lemma set_dependencies_ok:
  "schema_ok d \<Longrightarrow> dependencies_ok (d\<lparr>work_item_dependencies := a\<rparr>) \<Longrightarrow> schema_ok (d\<lparr>work_item_dependencies := a\<rparr>)"
  by (simp add: leaf_ok_defs)

lemma schema_ok_ledger [simp]: "schema_ok (d\<lparr>state_transitions := a\<rparr>) = schema_ok d"
  by (simp add: leaf_ok_defs)

lemma schema_ok_now [simp]: "schema_ok (d\<lparr>db_now := a\<rparr>) = schema_ok d"
  by (simp add: leaf_ok_defs)

section \<open>Relations of writes\<close>

definition keeps :: "(db \<Rightarrow> bool) \<Rightarrow> db \<Rightarrow> db \<Rightarrow> bool" where
  "keeps P d d' \<longleftrightarrow> (P d \<longrightarrow> P d')"

interpretation keeping: tx_preorder "keeps P" for P
  by unfold_locales (auto simp: keeps_def)

text \<open>The ledger only grows, and the clock of the operation stands still.\<close>

definition grows :: "db \<Rightarrow> db \<Rightarrow> bool" where
  "grows d d' \<longleftrightarrow> (\<exists>rows. state_transitions d' = state_transitions d @ rows) \<and> db_now d' = db_now d \<and>
     retention_days d' = retention_days d"

interpretation growing: tx_preorder grows
  by unfold_locales (auto simp: grows_def)

text \<open>A write that does not touch what \<open>f\<close> reads.\<close>

definition frame :: "(db \<Rightarrow> 'x) \<Rightarrow> db \<Rightarrow> db \<Rightarrow> bool" where
  "frame f d d' \<longleftrightarrow> f d' = f d"

interpretation framing: tx_preorder "frame f" for f
  by unfold_locales (auto simp: frame_def)

text \<open>What \<open>g\<close> reads of each row of a table is never changed or dropped; rows may be added.\<close>

definition extends :: "(db \<Rightarrow> 'r list) \<Rightarrow> ('r \<Rightarrow> 'x) \<Rightarrow> db \<Rightarrow> db \<Rightarrow> bool" where
  "extends table g d d' \<longleftrightarrow> (\<exists>new. map g (table d') = map g (table d) @ new)"

interpretation extending: tx_preorder "extends table g" for table g
  by unfold_locales (auto simp: extends_def)

lemmas framing_intros [frame_intros] = framing.rel_intros

lemmas extending_intros [frame_intros] = extending.rel_intros

abbreviation schema_safe :: "'a db_tx \<Rightarrow> bool" where
  "schema_safe m \<equiv> tx_rel (keeps schema_ok) m"

lemma schema_safeI: "(\<And>d x d'. schema_ok d \<Longrightarrow> m d = Inr (x, d') \<Longrightarrow> schema_ok d') \<Longrightarrow> schema_safe m"
  by (auto simp: tx_rel_def keeps_def)

lemma schema_safeD: "schema_safe m \<Longrightarrow> schema_ok d \<Longrightarrow> m d = Inr (x, d') \<Longrightarrow> schema_ok d'"
  by (auto simp: tx_rel_def keeps_def)

lemmas keeping_intros [preserves_intros] = keeping.rel_intros

lemmas growing_intros [grows_intros] = growing.rel_intros

lemma schema_safe_modify [preserves_intros]:
  "(\<And>d. schema_ok d \<Longrightarrow> schema_ok (f d)) \<Longrightarrow> schema_safe (tx_modify f)"
  by (rule schema_safeI) (auto simp: tx_simps)

lemma schema_safe_run: "schema_safe m \<Longrightarrow> schema_ok d \<Longrightarrow> schema_ok (snd (run_write m d))"
  by (auto simp: run_write_def split: sum.splits dest: schema_safeD)

lemma assert_json_safe [preserves_intros]:
  "schema_safe (assert_valid_json_string v f)" "schema_safe (assert_json_if_set w f)"
  by (auto intro!: schema_safeI dest!: assert_valid_json_state assert_json_if_set_state)

lemma append_transition_safe [preserves_intros]: "schema_safe (append_transition ety eid f t ev r a at)"
  by (auto intro!: schema_safeI dest!: append_transition_success)

lemma record_transition_safe [preserves_intros]: "schema_safe (record_transition ety eid f t ev r a at)"
proof (cases f)
  case None
  then show ?thesis by (auto intro!: schema_safeI simp: record_transition_None)
next
  case (Some s)
  then show ?thesis by (auto intro!: schema_safeI dest!: record_transition_success)
qed

end
