(* ===== verification/Trust.thy ===== *)
theory Trust
  imports Config
begin

text \<open>
  The GitHub prose boundary, \<^verbatim>\<open>src/controller/trust.ts\<close>: the allowlist policy built from a configuration
  and the per-operation decision from the configuration file as it is now. A configuration source
  is the file system, the YAML parser and the date test \<open>load_config\<close> uses. The decision is
  characterised exactly: it is TRUSTED when and only when the current configuration loads, lists
  at least one user, and lists this login up to ASCII case; every other input is DENIED.
\<close>

datatype prose_decision = TRUSTED | DENIED

record trusted_policy =
  normalized_users :: "string list"
  usable :: bool

record config_source =
  cs_finite_date :: "string \<Rightarrow> bool"
  cs_parse_yaml :: "string \<Rightarrow> json option"
  cs_read_file :: "string \<Rightarrow> string option"

text \<open>\<^verbatim>\<open>config?.security?.trustedGithubUsers\<close>; the set is kept as its sorted list.\<close>

definition create_trusted_github_policy :: "tissue_config option \<Rightarrow> trusted_policy" where
  "create_trusted_github_policy config =
     (case Option.bind config c_trusted_users of
        None \<Rightarrow> \<lparr>normalized_users = [], usable = False\<rparr>
      | Some raw_users \<Rightarrow>
          if raw_users = [] then \<lparr>normalized_users = [], usable = False\<rparr>
          else let normalized = map (\<lambda>login. normalize_github_login (Some login)) raw_users in
            if list_ex (\<lambda>l. l = None) normalized then \<lparr>normalized_users = [], usable = False\<rparr>
            else let users = sort (remdups (map the normalized)) in
              \<lparr>normalized_users = users, usable = length users > 0\<rparr>)"

definition current_config :: "config_source \<Rightarrow> string \<Rightarrow> tissue_config parsed" where
  "current_config src path = load_config (cs_finite_date src) (cs_parse_yaml src) (cs_read_file src) path"

definition decide_current_github_prose :: "config_source \<Rightarrow> string option \<Rightarrow> string \<Rightarrow> prose_decision" where
  "decide_current_github_prose src raw_login config_path =
     (case normalize_github_login raw_login of
        None \<Rightarrow> DENIED
      | Some normalized_login \<Rightarrow>
          (case current_config src config_path of
             Inl e \<Rightarrow> DENIED
           | Inr current \<Rightarrow>
               let policy = create_trusted_github_policy (Some current) in
               if usable policy \<and> List.member (normalized_users policy) normalized_login
               then TRUSTED else DENIED))"

section \<open>The policy of a configuration\<close>

text \<open>A user list is admissible when it is not empty and every entry is a login.\<close>

definition admissible_users :: "string list \<Rightarrow> bool" where
  "admissible_users us \<longleftrightarrow> us \<noteq> [] \<and> list_all login_re us"

lemma sort_remdups_Nil [simp]: "sort (remdups xs) = [] \<longleftrightarrow> xs = []"
  by (metis remdups_eq_nil_iff set_empty set_sort)

lemma policy_of_users:
  assumes "c_trusted_users c = Some us"
  shows "usable (create_trusted_github_policy (Some c)) \<longleftrightarrow> admissible_users us"
    and "admissible_users us \<Longrightarrow> set (normalized_users (create_trusted_github_policy (Some c))) = to_lower ` set us"
proof -
  have none: "list_ex (\<lambda>l. l = None) (map (\<lambda>login. normalize_github_login (Some login)) us)
      \<longleftrightarrow> \<not> list_all login_re us"
    by (auto simp: list_ex_iff list_all_iff normalize_eq)
  show "usable (create_trusted_github_policy (Some c)) \<longleftrightarrow> admissible_users us"
    using assms none
    by (cases "us = []") (auto simp: create_trusted_github_policy_def admissible_users_def Let_def)
  assume a: "admissible_users us"
  then have "map the (map (\<lambda>login. normalize_github_login (Some login)) us) = map to_lower us"
    by (auto simp: admissible_users_def list_all_iff normalize_eq)
  with a none assms show "set (normalized_users (create_trusted_github_policy (Some c))) = to_lower ` set us"
    by (simp add: create_trusted_github_policy_def admissible_users_def Let_def)
qed

lemma policy_no_users:
  "c_trusted_users c = None \<Longrightarrow> \<not> usable (create_trusted_github_policy (Some c))"
  by (simp add: create_trusted_github_policy_def)

lemma prose_trusted_iff:
  "decide_current_github_prose src raw path = TRUSTED \<longleftrightarrow>
     (\<exists>login cfg users. raw = Some login \<and> login_re login \<and> current_config src path = Inr cfg \<and>
        c_trusted_users cfg = Some users \<and> admissible_users users \<and>
        (\<exists>u \<in> set users. to_lower u = to_lower login))"
proof (cases "normalize_github_login raw")
  case None
  then show ?thesis
    by (cases raw) (auto simp: decide_current_github_prose_def normalize_eq split: if_splits)
next
  case (Some n)
  then obtain login where r: "raw = Some login" "login_re login" "n = to_lower login"
    by (cases raw) (auto simp: normalize_eq split: if_splits)
  show ?thesis
  proof (cases "current_config src path")
    case (Inl e)
    with Some show ?thesis by (simp add: decide_current_github_prose_def)
  next
    case (Inr cfg)
    show ?thesis
    proof (cases "c_trusted_users cfg")
      case None
      with Some Inr policy_no_users[OF None] show ?thesis
        by (simp add: decide_current_github_prose_def Let_def)
    next
      case us: (Some users)
      note p = policy_of_users[OF us]
      have "decide_current_github_prose src raw path = TRUSTED \<longleftrightarrow>
          admissible_users users \<and> to_lower login \<in> to_lower ` set users"
        using Some Inr p r by (auto simp: decide_current_github_prose_def Let_def)
      moreover have "to_lower login \<in> to_lower ` set users \<longleftrightarrow> (\<exists>u \<in> set users. to_lower u = to_lower login)"
        by (metis (no_types, lifting) image_iff)
      ultimately show ?thesis using Inr us r by simp
    qed
  qed
qed

text \<open>An accepted configuration's user list needs only to be non-empty.\<close>

lemma loaded_users_admissible:
  assumes "current_config src path = Inr cfg" and "c_trusted_users cfg = Some users"
  shows "admissible_users users \<longleftrightarrow> users \<noteq> []"
proof -
  from assms(1) obtain doc where "parse_config (cs_finite_date src) doc path = Inr cfg"
    by (auto simp: current_config_def load_config_def split: option.splits)
  from parse_config_safe[OF this] assms(2) show ?thesis
    by (simp add: config_safe_def admissible_users_def)
qed

end
