(* ===== verification/Repositories.thy ===== *)
theory Repositories
  imports Schema Trust "HOL-Library.Product_Lexorder"
begin

text \<open>
  The repository and issue accessors of \<^verbatim>\<open>src/db/repositories.ts\<close>: upsert, synchronisation with the
  configuration, the capability gate before every dispatch, the poll watermark, the triage columns,
  and the issue rows. An \<^verbatim>\<open>undefined\<close> patch key is \<open>None\<close>; a nullable column in a patch is an option
  of an option. SQL text order is the order of the texts.
\<close>

section \<open>Updating rows\<close>

definition update_repositories ::
  "(repository_row \<Rightarrow> bool) \<Rightarrow> (timestamp \<Rightarrow> repository_row \<Rightarrow> repository_row) \<Rightarrow> unit db_tx" where
  "update_repositories p f =
     tx_modify (\<lambda>d. d\<lparr>repositories := update_where p (f (db_now d)) (repositories d)\<rparr>)"

definition update_issues :: "(issue_row \<Rightarrow> bool) \<Rightarrow> (timestamp \<Rightarrow> issue_row \<Rightarrow> issue_row) \<Rightarrow> unit db_tx" where
  "update_issues p f = tx_modify (\<lambda>d. d\<lparr>issues := update_where p (f (db_now d)) (issues d)\<rparr>)"

section \<open>Repositories\<close>

record repository_input =
  ri_id :: string
  ri_owner :: string
  ri_name :: string
  ri_remote :: string
  ri_target_owner :: "string option"
  ri_target_name :: "string option"
  ri_push_owner :: "string option"
  ri_push_name :: "string option"
  ri_push_remote :: "string option"
  ri_local_dir :: string
  ri_baseline_at :: timestamp
  ri_enabled :: "bool option"
  ri_poll_watermark :: "timestamp option"
  ri_poll_interval_seconds :: int
  ri_max_concurrent :: "int option"
  ri_base_branch :: "string option"
  ri_labels_json :: "json_text option"
  ri_auto_merge :: "bool option"
  ri_priority :: "int option"
  ri_triage_session_id :: "string option"
  ri_triage_state :: "string option"
  ri_triage_attempts :: "int option"
  ri_triage_failures :: "int option"
  ri_triage_next_attempt_at :: "timestamp option"
  ri_issues_enabled :: "bool option"
  ri_protection_json :: "json_text option"
  ri_policy_json :: "json_text option"

definition get_repository :: "db \<Rightarrow> string \<Rightarrow> string \<Rightarrow> repository_row option" where
  "get_repository d owner nm = List.find (\<lambda>r. r_owner r = owner \<and> r_name r = nm) (repositories d)"

definition get_repository_by_id :: "db \<Rightarrow> string \<Rightarrow> repository_row option" where
  "get_repository_by_id d rid = List.find (\<lambda>r. r_id r = rid) (repositories d)"

definition list_repositories :: "db \<Rightarrow> repository_row list" where
  "list_repositories d = order_by (\<lambda>r. (r_owner r, r_name r)) (repositories d)"

definition new_repository_row :: "repository_input \<Rightarrow> timestamp \<Rightarrow> repository_row" where
  "new_repository_row input at =
     \<lparr>r_id = ri_id input, r_owner = ri_owner input, r_name = ri_name input, r_remote = ri_remote input,
      r_target_owner = coalesce (ri_target_owner input) (ri_owner input),
      r_target_name = coalesce (ri_target_name input) (ri_name input),
      r_push_owner = coalesce (or_else (ri_push_owner input) (ri_target_owner input)) (ri_owner input),
      r_push_name = coalesce (or_else (ri_push_name input) (ri_target_name input)) (ri_name input),
      r_push_remote = ri_push_remote input, r_local_dir = ri_local_dir input,
      r_enabled = (ri_enabled input \<noteq> Some False), r_baseline_at = ri_baseline_at input,
      r_poll_watermark = ri_poll_watermark input,
      r_poll_interval_seconds = ri_poll_interval_seconds input,
      r_max_concurrent = coalesce (ri_max_concurrent input) 1, r_base_branch = ri_base_branch input,
      r_labels_json = ri_labels_json input, r_auto_merge = (ri_auto_merge input = Some True),
      r_priority = coalesce (ri_priority input) 0, r_triage_session_id = ri_triage_session_id input,
      r_triage_state = coalesce (ri_triage_state input) ''IDLE'',
      r_triage_attempts = coalesce (ri_triage_attempts input) 0,
      r_triage_failures = coalesce (ri_triage_failures input) 0,
      r_triage_next_attempt_at = ri_triage_next_attempt_at input,
      r_issues_enabled = ri_issues_enabled input, r_protection_json = ri_protection_json input,
      r_policy_json = ri_policy_json input, r_config_managed = False, r_capability_state = None,
      r_capability_json = None, r_capability_checked_at = None, r_created_at = at, r_updated_at = at\<rparr>"

text \<open>\<^verbatim>\<open>ON CONFLICT(owner, name) DO UPDATE SET\<close>: the columns the upsert overwrites with \<open>e\<close>, the excluded row.\<close>

definition upsert_repository_row :: "repository_row \<Rightarrow> repository_row \<Rightarrow> repository_row" where
  "upsert_repository_row e r = r\<lparr>r_remote := r_remote e, r_target_owner := r_target_owner e,
     r_target_name := r_target_name e, r_push_owner := r_push_owner e, r_push_name := r_push_name e,
     r_push_remote := r_push_remote e, r_local_dir := r_local_dir e, r_enabled := r_enabled e,
     r_poll_interval_seconds := r_poll_interval_seconds e, r_max_concurrent := r_max_concurrent e,
     r_base_branch := r_base_branch e, r_labels_json := r_labels_json e, r_auto_merge := r_auto_merge e,
     r_priority := r_priority e, r_triage_state := r_triage_state e,
     r_issues_enabled := r_issues_enabled e, r_protection_json := r_protection_json e,
     r_policy_json := r_policy_json e, r_updated_at := r_updated_at e\<rparr>"

definition insert_repository_row :: "repository_row \<Rightarrow> unit db_tx" where
  "insert_repository_row row =
     tx_bind (tx_get id) (\<lambda>d.
       if list_ex (\<lambda>r. r_id r = r_id row) (repositories d)
       then tx_fail (sqlite_unique ''repositories.id'')
       else if list_ex (\<lambda>r. r_owner r = r_owner row \<and> r_name r = r_name row) (repositories d)
       then tx_fail (sqlite_unique ''repositories.owner, repositories.name'')
       else tx_modify (\<lambda>d. d\<lparr>repositories := repositories d @ [row]\<rparr>))"

definition upsert_repository :: "repository_input \<Rightarrow> repository_row db_tx" where
  "upsert_repository input =
     tx_then (assert_json_if_set (ri_labels_json input) ''labels_json'')
     (tx_then (assert_json_if_set (ri_protection_json input) ''protection_json'')
     (tx_then (assert_json_if_set (ri_policy_json input) ''policy_json'')
     (tx_then
       (tx_bind (tx_get id) (\<lambda>d.
          let row = new_repository_row input (db_now d) in
          if get_repository d (ri_owner input) (ri_name input) \<noteq> None
          then update_repositories (\<lambda>r. r_owner r = ri_owner input \<and> r_name r = ri_name input)
                 (\<lambda>now. upsert_repository_row row)
          else insert_repository_row row))
     (tx_bind (tx_get (\<lambda>d. get_repository d (ri_owner input) (ri_name input))) (\<lambda>row.
       case row of
         None \<Rightarrow> tx_fail (TissueDbError (''repository '' @ ri_owner input @ ''/'' @ ri_name input @
                   '' not found after upsert''))
       | Some r \<Rightarrow> tx_return r)))))"

subsection \<open>Synchronisation with the configuration\<close>

record repository_sync_result =
  rs_inserted :: nat
  rs_updated :: nat
  rs_disabled :: nat
  rs_at :: timestamp

definition configured_id :: "repository_config \<Rightarrow> string" where
  "configured_id repo = rc_owner repo @ ''/'' @ rc_name repo"

definition configured_remote :: "repository_config \<Rightarrow> string" where
  "configured_remote repo =
     coalesce (rc_remote repo) (''https://github.com/'' @ rc_owner repo @ ''/'' @ rc_name repo @ ''.git'')"

definition configured_labels :: "repository_config \<Rightarrow> json_text" where
  "configured_labels repo = Text (JArr (map JStr (rc_labels repo)))"

text \<open>The columns both the INSERT and the UPDATE of the synchronisation set.\<close>

definition configure_row :: "repository_config \<Rightarrow> timestamp \<Rightarrow> repository_row \<Rightarrow> repository_row" where
  "configure_row repo at r = r\<lparr>r_remote := configured_remote repo,
     r_target_owner := coalesce (rc_target_owner repo) (rc_owner repo),
     r_target_name := coalesce (rc_target_name repo) (rc_name repo),
     r_push_owner := coalesce (or_else (rc_push_owner repo) (rc_target_owner repo)) (rc_owner repo),
     r_push_name := coalesce (or_else (rc_push_name repo) (rc_target_name repo)) (rc_name repo),
     r_push_remote := rc_push_remote repo, r_local_dir := rc_local_dir repo, r_enabled := rc_enabled repo,
     r_poll_interval_seconds := rc_poll_interval_seconds repo,
     r_max_concurrent := rc_max_concurrent_per_repo repo, r_base_branch := Some (rc_base_branch repo),
     r_labels_json := Some (configured_labels repo), r_auto_merge := rc_auto_merge repo,
     r_priority := rc_priority repo, r_config_managed := True, r_updated_at := at\<rparr>"

definition configured_row :: "repository_config \<Rightarrow> timestamp \<Rightarrow> repository_row" where
  "configured_row repo at = configure_row repo at
     \<lparr>r_id = configured_id repo, r_owner = rc_owner repo, r_name = rc_name repo, r_remote = [],
      r_target_owner = [], r_target_name = [], r_push_owner = [], r_push_name = [], r_push_remote = None,
      r_local_dir = [], r_enabled = True, r_baseline_at = coalesce (rc_baseline_before repo) at,
      r_poll_watermark = None, r_poll_interval_seconds = 300, r_max_concurrent = 1, r_base_branch = None,
      r_labels_json = None, r_auto_merge = False, r_priority = 0, r_triage_session_id = None,
      r_triage_state = ''IDLE'', r_triage_attempts = 0, r_triage_failures = 0,
      r_triage_next_attempt_at = None, r_issues_enabled = None, r_protection_json = None,
      r_policy_json = None, r_config_managed = False, r_capability_state = None,
      r_capability_json = None, r_capability_checked_at = None, r_created_at = at, r_updated_at = at\<rparr>"

definition sync_one :: "timestamp \<Rightarrow> repository_config \<Rightarrow> nat \<times> nat \<Rightarrow> (nat \<times> nat) db_tx" where
  "sync_one at repo counts =
     tx_bind (tx_get (\<lambda>d. get_repository d (rc_owner repo) (rc_name repo))) (\<lambda>existing.
       case existing of
         None \<Rightarrow> tx_then (insert_repository_row (configured_row repo at))
                   (tx_return (Suc (fst counts), snd counts))
       | Some e \<Rightarrow> tx_then (update_repositories (\<lambda>r. r_id r = r_id e) (\<lambda>now. configure_row repo at))
                   (tx_return (fst counts, Suc (snd counts))))"

text \<open>Config-managed rows whose \<^verbatim>\<open>owner/name\<close> is not configured are disabled, never deleted.\<close>

definition disable_unconfigured :: "string list \<Rightarrow> timestamp \<Rightarrow> unit db_tx" where
  "disable_unconfigured configured at =
     tx_bind (tx_get (\<lambda>d. filter r_config_managed (repositories d))) (\<lambda>rows.
       tx_foreach (\<lambda>row. tx_when (\<not> List.member configured (r_owner row @ ''/'' @ r_name row))
           (update_repositories (\<lambda>r. r_id r = r_id row) (\<lambda>now r. r\<lparr>r_enabled := False, r_updated_at := at\<rparr>)))
         rows)"

definition synchronize_configured_repositories ::
  "tissue_config \<Rightarrow> timestamp \<Rightarrow> repository_sync_result db_act" where
  "synchronize_configured_repositories config at =
     act_bind (run_write
         (tx_bind (tx_fold (sync_one at) (c_repos config) (0, 0)) (\<lambda>counts.
            tx_then (disable_unconfigured (map configured_id (c_repos config)) at) (tx_return counts))))
       (\<lambda>counts. act_get (\<lambda>d. \<lparr>rs_inserted = fst counts, rs_updated = snd counts,
          rs_disabled = count_where (\<lambda>r. r_config_managed r \<and> \<not> r_enabled r) (repositories d), rs_at = at\<rparr>))"

subsection \<open>Capability, watermark and triage columns\<close>

definition persist_repository_capability :: "string \<Rightarrow> string \<Rightarrow> json \<Rightarrow> timestamp \<Rightarrow> unit db_tx" where
  "persist_repository_capability repo_id cap_state capability at =
     update_repositories (\<lambda>r. r_id r = repo_id)
       (\<lambda>now r. r\<lparr>r_capability_state := Some cap_state, r_capability_json := Some (Text capability),
          r_capability_checked_at := Some at, r_updated_at := at\<rparr>)"

datatype dispatch_operation = Op_Poll | Op_Triage | Op_Claim | Op_Dispatch | Op_Effect

fun dispatch_operation_name :: "dispatch_operation \<Rightarrow> string" where
  "dispatch_operation_name Op_Poll = ''poll''"
| "dispatch_operation_name Op_Triage = ''triage''"
| "dispatch_operation_name Op_Claim = ''claim''"
| "dispatch_operation_name Op_Dispatch = ''dispatch''"
| "dispatch_operation_name Op_Effect = ''effect''"

definition assert_dispatch_ready :: "string \<Rightarrow> dispatch_operation \<Rightarrow> unit db_tx" where
  "assert_dispatch_ready repo_id operation =
     tx_bind (tx_get (\<lambda>d. get_repository_by_id d repo_id)) (\<lambda>row.
       let refuse = (\<lambda>why. tx_fail (TissueDbError (''repository '' @ repo_id @ '' is not ready for '' @
             dispatch_operation_name operation @ '': '' @ why)))
       in case row of
            None \<Rightarrow> refuse ''unknown repository''
          | Some r \<Rightarrow> if \<not> r_enabled r then refuse ''disabled''
              else if r_capability_state r \<noteq> Some ''ready''
              then refuse (coalesce (r_capability_state r) ''unknown'')
              else tx_return ())"

definition set_poll_watermark :: "string \<Rightarrow> string \<Rightarrow> timestamp option \<Rightarrow> unit db_tx" where
  "set_poll_watermark owner nm watermark =
     update_repositories (\<lambda>r. r_owner r = owner \<and> r_name r = nm)
       (\<lambda>now r. r\<lparr>r_poll_watermark := watermark, r_updated_at := now\<rparr>)"

definition get_poll_watermark :: "db \<Rightarrow> string \<Rightarrow> string \<Rightarrow> timestamp option" where
  "get_poll_watermark d owner nm = Option.bind (get_repository d owner nm) r_poll_watermark"

record triage_state_patch =
  tp_state :: "string option"
  tp_failures :: "int option"
  tp_attempts :: "int option"
  tp_next_attempt_at :: "timestamp option option"
  tp_session_id :: "string option option"

definition no_triage_patch :: triage_state_patch where
  "no_triage_patch = \<lparr>tp_state = None, tp_failures = None, tp_attempts = None, tp_next_attempt_at = None,
     tp_session_id = None\<rparr>"

definition update_triage_state :: "string \<Rightarrow> triage_state_patch \<Rightarrow> unit db_tx" where
  "update_triage_state repo_id patch =
     (if patch = no_triage_patch then tx_return ()
      else update_repositories (\<lambda>r. r_id r = repo_id)
        (\<lambda>now r. r\<lparr>r_triage_state := coalesce (tp_state patch) (r_triage_state r),
           r_triage_failures := coalesce (tp_failures patch) (r_triage_failures r),
           r_triage_attempts := coalesce (tp_attempts patch) (r_triage_attempts r),
           r_triage_next_attempt_at := coalesce (tp_next_attempt_at patch) (r_triage_next_attempt_at r),
           r_triage_session_id := coalesce (tp_session_id patch) (r_triage_session_id r),
           r_updated_at := now\<rparr>))"

section \<open>Issues\<close>

record issue_input =
  ii_id :: string
  ii_repo_id :: string
  ii_number :: int
  ii_title :: string
  ii_body_json :: "json_text option"
  ii_state :: string
  ii_snapshot_hash :: "string option"
  ii_first_seen_at :: "timestamp option"
  ii_updated_at :: timestamp
  ii_disposition_json :: "json_text option"
  ii_blocked_by :: "string option"
  ii_actor_raw_login :: "string option"

definition get_issue_by_id :: "db \<Rightarrow> string \<Rightarrow> issue_row option" where
  "get_issue_by_id d iid = List.find (\<lambda>i. i_id i = iid) (issues d)"

definition get_issue_by_repo_number :: "db \<Rightarrow> string \<Rightarrow> int \<Rightarrow> issue_row option" where
  "get_issue_by_repo_number d repo_id n = List.find (\<lambda>i. i_repo_id i = repo_id \<and> i_number i = n) (issues d)"

definition list_issues_by_repo :: "db \<Rightarrow> string \<Rightarrow> issue_row list" where
  "list_issues_by_repo d repo_id = order_by i_number (filter (\<lambda>i. i_repo_id i = repo_id) (issues d))"

definition new_issue_row :: "issue_input \<Rightarrow> timestamp \<Rightarrow> issue_row" where
  "new_issue_row input now =
     \<lparr>i_id = ii_id input, i_repo_id = ii_repo_id input, i_number = ii_number input, i_title = ii_title input,
      i_body_json = ii_body_json input, i_state = ii_state input, i_snapshot_hash = ii_snapshot_hash input,
      i_first_seen_at = coalesce (ii_first_seen_at input) now, i_updated_at = ii_updated_at input,
      i_disposition_json = ii_disposition_json input, i_blocked_by = ii_blocked_by input,
      i_actor_raw_login = ii_actor_raw_login input\<rparr>"

definition insert_issue_row :: "issue_row \<Rightarrow> unit db_tx" where
  "insert_issue_row row =
     tx_bind (tx_get id) (\<lambda>d.
       if list_ex (\<lambda>i. i_id i = i_id row) (issues d) then tx_fail (sqlite_unique ''issues.id'')
       else if get_issue_by_repo_number d (i_repo_id row) (i_number row) \<noteq> None
       then tx_fail (sqlite_unique ''issues.repo_id, issues.number'')
       else if get_repository_by_id d (i_repo_id row) = None then tx_fail sqlite_foreign_key
       else tx_modify (\<lambda>d. d\<lparr>issues := issues d @ [row]\<rparr>))"

definition insert_issue :: "issue_input \<Rightarrow> issue_row db_tx" where
  "insert_issue input =
     tx_then (assert_json_if_set (ii_body_json input) ''body_json'')
     (tx_then (assert_json_if_set (ii_disposition_json input) ''disposition_json'')
     (tx_bind (tx_get (\<lambda>d. new_issue_row input (db_now d))) (\<lambda>row.
      tx_then (insert_issue_row row) (tx_return row))))"

definition upsert_issue_from_snapshot :: "issue_input \<Rightarrow> issue_row db_tx" where
  "upsert_issue_from_snapshot input =
     tx_then (assert_json_if_set (ii_body_json input) ''body_json'')
     (tx_then (assert_json_if_set (ii_disposition_json input) ''disposition_json'')
     (tx_then
       (tx_bind (tx_get id) (\<lambda>d.
          if get_issue_by_repo_number d (ii_repo_id input) (ii_number input) \<noteq> None
          then update_issues (\<lambda>i. i_repo_id i = ii_repo_id input \<and> i_number i = ii_number input)
                 (\<lambda>now i. i\<lparr>i_title := ii_title input, i_body_json := ii_body_json input,
                    i_snapshot_hash := ii_snapshot_hash input, i_updated_at := ii_updated_at input,
                    i_actor_raw_login := or_else (ii_actor_raw_login input) (i_actor_raw_login i)\<rparr>)
          else insert_issue_row (new_issue_row input (db_now d))))
     (tx_bind (tx_get (\<lambda>d. get_issue_by_repo_number d (ii_repo_id input) (ii_number input))) (\<lambda>row.
       case row of
         None \<Rightarrow> tx_fail (TissueDbError (''issue '' @ ii_repo_id input @ ''#'' @ show_int (ii_number input) @
                   '' not found after upsert''))
       | Some i \<Rightarrow> tx_return i))))"

record issue_snapshot_patch =
  sp_snapshot_hash :: "string option option"
  sp_title :: "string option"
  sp_body_json :: "json_text option option"
  sp_updated_at :: "timestamp option"

definition update_issue_snapshot :: "string \<Rightarrow> issue_snapshot_patch \<Rightarrow> unit db_tx" where
  "update_issue_snapshot issue_id patch =
     tx_then (assert_json_if_set (Option.bind (sp_body_json patch) id) ''body_json'')
       (if sp_snapshot_hash patch = None \<and> sp_title patch = None \<and> sp_body_json patch = None \<and>
           sp_updated_at patch = None
        then tx_return ()
        else update_issues (\<lambda>i. i_id i = issue_id)
          (\<lambda>now i. i\<lparr>i_snapshot_hash := coalesce (sp_snapshot_hash patch) (i_snapshot_hash i),
             i_title := coalesce (sp_title patch) (i_title i),
             i_body_json := coalesce (sp_body_json patch) (i_body_json i),
             i_updated_at := coalesce (sp_updated_at patch) (i_updated_at i)\<rparr>))"

definition update_issue_state ::
  "string \<Rightarrow> string \<Rightarrow> json_text option \<Rightarrow> string option \<Rightarrow> unit db_tx" where
  "update_issue_state issue_id st disposition blocked_by =
     tx_then (assert_json_if_set disposition ''disposition_json'')
       (update_issues (\<lambda>i. i_id i = issue_id)
         (\<lambda>now i. i\<lparr>i_state := st, i_disposition_json := disposition, i_blocked_by := blocked_by,
            i_updated_at := now\<rparr>))"

section \<open>The constraints are kept\<close>

lemma update_repositories_safe [preserves_intros]:
  assumes "\<And>now r. r_id (f now r) = r_id r" "\<And>now r. r_owner (f now r) = r_owner r"
    "\<And>now r. r_name (f now r) = r_name r"
  shows "schema_safe (update_repositories p f)"
  unfolding update_repositories_def
proof (rule schema_safe_modify, rule set_repositories_ok)
  fix d assume d: "schema_ok d"
  show "repositories_ok (d\<lparr>repositories := update_where p (f (db_now d)) (repositories d)\<rparr>)"
    using schema_okD(1)[OF d] by (simp add: repositories_ok_def map_update_where assms)
  show "repository_ids d \<subseteq> r_id ` set (update_where p (f (db_now d)) (repositories d))"
    using map_update_where[of "repositories d" p r_id "f (db_now d)"] assms(1)
    unfolding repository_ids_def list.set_map[symmetric] by simp
qed

lemma update_issues_safe [preserves_intros]:
  assumes "\<And>now i. i_id (f now i) = i_id i" "\<And>now i. i_repo_id (f now i) = i_repo_id i"
    "\<And>now i. i_number (f now i) = i_number i"
  shows "schema_safe (update_issues p f)"
  unfolding update_issues_def
proof (rule schema_safe_modify, rule set_issues_ok)
  fix d assume d: "schema_ok d"
  show "issues_ok (d\<lparr>issues := update_where p (f (db_now d)) (issues d)\<rparr>)"
    using schema_okD(2)[OF d] unfolding issues_ok_def list.set_map[symmetric]
    by (simp add: map_update_where assms del: list.set_map)
  show "issue_ids d \<subseteq> i_id ` set (update_where p (f (db_now d)) (issues d))"
    using map_update_where[of "issues d" p i_id "f (db_now d)"] assms(1)
    unfolding issue_ids_def list.set_map[symmetric] by simp
qed

lemma insert_repository_row_safe [preserves_intros]: "schema_safe (insert_repository_row row)"
proof (rule schema_safeI)
  fix d x d' assume d: "schema_ok d" and i: "insert_repository_row row d = Inr (x, d')"
  then have d': "d' = d\<lparr>repositories := repositories d @ [row]\<rparr>" and
    f: "\<forall>r \<in> set (repositories d). r_id r \<noteq> r_id row \<and> \<not> (r_owner r = r_owner row \<and> r_name r = r_name row)"
    by (auto simp: insert_repository_row_def tx_simps list_ex_iff split: if_splits)
  show "schema_ok d'"
    unfolding d' using schema_okD(1)[OF d] f
    by (intro set_repositories_ok d) (auto simp: repositories_ok_def repository_ids_def)
qed

lemma get_repository_by_id_None: "get_repository_by_id d rid = None \<longleftrightarrow> rid \<notin> repository_ids d"
  by (auto simp: get_repository_by_id_def find_None_set repository_ids_def)

lemma get_repository_by_id_SomeD:
  "get_repository_by_id d rid = Some r \<Longrightarrow> r \<in> set (repositories d) \<and> r_id r = rid"
  by (auto simp: get_repository_by_id_def dest: find_SomeD)

lemma get_issue_by_id_SomeD: "get_issue_by_id d iid = Some i \<Longrightarrow> i \<in> set (issues d) \<and> i_id i = iid"
  by (auto simp: get_issue_by_id_def dest: find_SomeD)

lemma get_issue_by_id_None: "get_issue_by_id d iid = None \<longleftrightarrow> iid \<notin> issue_ids d"
  by (auto simp: get_issue_by_id_def find_None_set issue_ids_def)

lemma insert_issue_row_safe [preserves_intros]: "schema_safe (insert_issue_row row)"
proof (rule schema_safeI)
  fix d x d' assume d: "schema_ok d" and i: "insert_issue_row row d = Inr (x, d')"
  then have d': "d' = d\<lparr>issues := issues d @ [row]\<rparr>" and
    f: "\<forall>i \<in> set (issues d). i_id i \<noteq> i_id row \<and> \<not> (i_repo_id i = i_repo_id row \<and> i_number i = i_number row)"
    and r: "i_repo_id row \<in> repository_ids d"
    by (auto simp: insert_issue_row_def tx_simps list_ex_iff get_issue_by_repo_number_def find_None_set
        dest!: get_repository_by_id_SomeD simp: repository_ids_def intro: rev_image_eqI split: if_splits)
  show "schema_ok d'"
    unfolding d' using schema_okD(2)[OF d] f r
    by (intro set_issues_ok d) (auto simp: issues_ok_def issue_ids_def)
qed

lemma repository_ops_safe [preserves_intros]:
  "schema_safe (upsert_repository input)"
  "schema_safe (sync_one at repo counts)"
  "schema_safe (disable_unconfigured configured at)"
  "schema_safe (persist_repository_capability rid cs cap at)"
  "schema_safe (assert_dispatch_ready rid op)"
  "schema_safe (set_poll_watermark owner nm w)"
  "schema_safe (update_triage_state rid patch)"
  unfolding upsert_repository_def sync_one_def disable_unconfigured_def persist_repository_capability_def
    assert_dispatch_ready_def set_poll_watermark_def update_triage_state_def Let_def
  by - (intro preserves_intros; simp add: upsert_repository_row_def configure_row_def)+

lemma issue_ops_safe [preserves_intros]:
  "schema_safe (insert_issue input)"
  "schema_safe (upsert_issue_from_snapshot input)"
  "schema_safe (update_issue_snapshot iid patch)"
  "schema_safe (update_issue_state iid st disp bl)"
  unfolding insert_issue_def upsert_issue_from_snapshot_def update_issue_snapshot_def update_issue_state_def
  by - (intro preserves_intros; simp)+


section \<open>What an upsert and a synchronisation leave alone\<close>

text \<open>The columns of a repository that only the controller's own progress writes.\<close>

definition runtime_columns ::
  "repository_row \<Rightarrow> string \<times> string \<times> string \<times> timestamp \<times> timestamp option \<times> string option \<times> string option \<times> int \<times> int" where
  "runtime_columns r = (r_id r, r_owner r, r_name r, r_baseline_at r, r_poll_watermark r, r_capability_state r,
     r_triage_session_id r, r_triage_attempts r, r_triage_failures r)"

lemma runtime_columns_upd [simp]:
  "runtime_columns (configure_row repo at r) = runtime_columns r"
  "runtime_columns (upsert_repository_row e r) = runtime_columns r"
  by (simp_all add: runtime_columns_def configure_row_def upsert_repository_row_def)

lemma configure_row_simps [simp]:
  "r_id (configure_row repo at r) = r_id r" "r_owner (configure_row repo at r) = r_owner r"
  "r_name (configure_row repo at r) = r_name r" "r_config_managed (configure_row repo at r)"
  "r_enabled (configure_row repo at r) = rc_enabled repo"
  by (simp_all add: configure_row_def)

lemma configured_row_simps [simp]:
  "r_owner (configured_row repo at) = rc_owner repo" "r_name (configured_row repo at) = rc_name repo"
  "r_config_managed (configured_row repo at)" "r_enabled (configured_row repo at) = rc_enabled repo"
  by (simp_all add: configured_row_def)

lemma update_repositories_extends [frame_intros]:
  "(\<And>now r. g (f now r) = g r) \<Longrightarrow> tx_rel (extends repositories g) (update_repositories p f)"
  by (auto simp: tx_rel_def update_repositories_def tx_simps extends_def map_update_where)

lemma insert_repository_row_extends [frame_intros]:
  "tx_rel (extends repositories g) (insert_repository_row row)"
  by (auto simp: tx_rel_def insert_repository_row_def tx_simps extends_def split: if_splits)

lemma insert_repository_row_success:
  "insert_repository_row row d = Inr (x, d') \<longleftrightarrow>
     (\<forall>r \<in> set (repositories d). r_id r \<noteq> r_id row) \<and> get_repository d (r_owner row) (r_name row) = None \<and>
     d' = d\<lparr>repositories := repositories d @ [row]\<rparr>"
  by (auto simp: insert_repository_row_def tx_simps list_ex_iff repository_ids_def get_repository_def
      find_None_set split: if_splits intro: rev_image_eqI)

lemma get_repository_SomeD:
  "get_repository d o1 n = Some r \<Longrightarrow> r \<in> set (repositories d) \<and> r_owner r = o1 \<and> r_name r = n"
  by (auto simp: get_repository_def dest: find_SomeD)

lemma sync_one_rows:
  assumes "schema_ok d" and s: "sync_one at repo c d = Inr (c', d')"
  shows "\<exists>r. get_repository d' (rc_owner repo) (rc_name repo) = Some r \<and> r_config_managed r \<and>
      r_enabled r = rc_enabled repo"
    and "(o1, n) \<noteq> (rc_owner repo, rc_name repo) \<Longrightarrow> get_repository d' o1 n = get_repository d o1 n"
proof -
  show "\<exists>r. get_repository d' (rc_owner repo) (rc_name repo) = Some r \<and> r_config_managed r \<and>
      r_enabled r = rc_enabled repo"
  proof (cases "get_repository d (rc_owner repo) (rc_name repo)")
    case None
    with s show ?thesis
      by (auto simp: sync_one_def tx_simps tx_success insert_repository_row_success get_repository_def find_append)
  next
    case (Some e)
    then have "get_repository d' (rc_owner repo) (rc_name repo) = Some (configure_row repo at e)"
      using s by (auto simp: sync_one_def tx_simps update_repositories_def get_repository_def find_update_where)
    then show ?thesis by simp
  qed
next
  assume ne: "(o1, n) \<noteq> (rc_owner repo, rc_name repo)"
  show "get_repository d' o1 n = get_repository d o1 n"
  proof (cases "get_repository d (rc_owner repo) (rc_name repo)")
    case None
    with s ne show ?thesis
      by (auto simp: sync_one_def tx_simps tx_success insert_repository_row_success get_repository_def
          find_append split: option.splits)
  next
    case (Some e)
    have "r_id r \<noteq> r_id e" if "get_repository d o1 n = Some r" for r
      using schema_okD(1)[OF assms(1)] get_repository_SomeD[OF Some] get_repository_SomeD[OF that] ne
      by (auto simp: repositories_ok_def distinct_map inj_on_def)
    with s Some show ?thesis
      by (cases "get_repository d o1 n")
        (auto simp: sync_one_def tx_simps update_repositories_def get_repository_def find_update_where)
  qed
qed

lemma sync_fold_rows:
  assumes "schema_ok d" "tx_fold (sync_one at) repos c d = Inr (c', d')"
    "distinct (map (\<lambda>c. (rc_owner c, rc_name c)) repos)"
  shows "repo \<in> set repos \<Longrightarrow> \<exists>r. get_repository d' (rc_owner repo) (rc_name repo) = Some r \<and>
      r_config_managed r \<and> r_enabled r = rc_enabled repo"
    and "(o1, n) \<notin> (\<lambda>c. (rc_owner c, rc_name c)) ` set repos \<Longrightarrow> get_repository d' o1 n = get_repository d o1 n"
proof -
  have "(\<forall>repo \<in> set repos. \<exists>r. get_repository d' (rc_owner repo) (rc_name repo) = Some r \<and>
      r_config_managed r \<and> r_enabled r = rc_enabled repo) \<and>
    (\<forall>o1 n. (o1, n) \<notin> (\<lambda>c. (rc_owner c, rc_name c)) ` set repos \<longrightarrow> get_repository d' o1 n = get_repository d o1 n)"
    using assms
  proof (induction repos arbitrary: c d)
    case Nil
    then show ?case by (simp add: tx_simps)
  next
    case (Cons x xs)
    from Cons.prems(2) obtain c1 d1 where s: "sync_one at x c d = Inr (c1, d1)"
      and f: "tx_fold (sync_one at) xs c1 d1 = Inr (c', d')" by (auto simp: tx_success)
    have d1: "schema_ok d1" by (rule schema_safeD[OF repository_ops_safe(2) Cons.prems(1) s])
    note ih = Cons.IH[OF d1 f] and one = sync_one_rows[OF Cons.prems(1) s]
    have "(rc_owner x, rc_name x) \<notin> (\<lambda>c. (rc_owner c, rc_name c)) ` set xs" using Cons.prems(3) by simp
    with ih one Cons.prems(3) show ?case by auto
  qed
  then show "repo \<in> set repos \<Longrightarrow> \<exists>r. get_repository d' (rc_owner repo) (rc_name repo) = Some r \<and>
      r_config_managed r \<and> r_enabled r = rc_enabled repo"
    and "(o1, n) \<notin> (\<lambda>c. (rc_owner c, rc_name c)) ` set repos \<Longrightarrow> get_repository d' o1 n = get_repository d o1 n"
    by auto
qed

text \<open>The closed form of the disabling loop.\<close>

definition disable_row :: "timestamp \<Rightarrow> repository_row \<Rightarrow> repository_row" where
  "disable_row at r = r\<lparr>r_enabled := False, r_updated_at := at\<rparr>"

lemma disable_row_simps [simp]:
  "r_id (disable_row at r) = r_id r" "r_owner (disable_row at r) = r_owner r" "r_name (disable_row at r) = r_name r"
  "\<not> r_enabled (disable_row at r)" "r_config_managed (disable_row at r) = r_config_managed r"
  "runtime_columns (disable_row at r) = runtime_columns r" "disable_row at (disable_row at r) = disable_row at r"
  by (simp_all add: disable_row_def runtime_columns_def)

lemma disable_update:
  "update_repositories p (\<lambda>now r. r\<lparr>r_enabled := False, r_updated_at := at\<rparr>) d =
     Inr ((), d\<lparr>repositories := update_where p (disable_row at) (repositories d)\<rparr>)"
  unfolding update_repositories_def tx_modify_eq disable_row_def ..

lemma disable_loop:
  "tx_foreach (\<lambda>row. tx_when (P row)
      (update_repositories (\<lambda>r. r_id r = r_id row) (\<lambda>now r. r\<lparr>r_enabled := False, r_updated_at := at\<rparr>))) rows d =
   Inr ((), d\<lparr>repositories := update_where (\<lambda>r. \<exists>row \<in> set rows. P row \<and> r_id r = r_id row) (disable_row at)
      (repositories d)\<rparr>)"
proof (induction rows arbitrary: d)
  case Nil
  then show ?case by (simp add: tx_simps table_simps)
next
  case (Cons row rows)
  show ?case
  proof (cases "P row")
    case True
    then have "update_where (\<lambda>r. \<exists>row \<in> set rows. P row \<and> r_id r = r_id row) (disable_row at)
        (update_where (\<lambda>r. r_id r = r_id row) (disable_row at) (repositories d)) =
      update_where (\<lambda>r. \<exists>row \<in> set (row # rows). P row \<and> r_id r = r_id row) (disable_row at) (repositories d)"
      by (subst update_where_twice) simp_all
    moreover have "tx_when (P row) (update_repositories (\<lambda>r. r_id r = r_id row)
        (\<lambda>now r. r\<lparr>r_enabled := False, r_updated_at := at\<rparr>)) d =
      Inr ((), d\<lparr>repositories := update_where (\<lambda>r. r_id r = r_id row) (disable_row at) (repositories d)\<rparr>)"
      using True by (simp only: tx_when_eq disable_update if_True)
    ultimately show ?thesis
      by (simp add: Cons.IH del: list.set)
  next
    case False
    then have "tx_when (P row) (update_repositories (\<lambda>r. r_id r = r_id row)
        (\<lambda>now r. r\<lparr>r_enabled := False, r_updated_at := at\<rparr>)) d = Inr ((), d)"
      by (simp only: tx_when_eq if_False)
    with False show ?thesis by (simp add: Cons.IH)
  qed
qed

lemma disable_unconfigured_eq:
  assumes "schema_ok d"
  shows "disable_unconfigured configured at d =
    Inr ((), d\<lparr>repositories := update_where
      (\<lambda>r. r_config_managed r \<and> \<not> List.member configured (r_owner r @ ''/'' @ r_name r)) (disable_row at)
      (repositories d)\<rparr>)"
proof -
  let ?u = "\<lambda>r. r_config_managed r \<and> \<not> List.member configured (r_owner r @ ''/'' @ r_name r)"
  have inj: "inj_on r_id (set (repositories d))"
    using schema_okD(1)[OF assms] by (simp add: repositories_ok_def distinct_map)
  have "(\<exists>row \<in> set (filter r_config_managed (repositories d)).
      \<not> List.member configured (r_owner row @ ''/'' @ r_name row) \<and> r_id r = r_id row) \<longleftrightarrow> ?u r"
    if "r \<in> set (repositories d)" for r
    using that inj_onD[OF inj] by fastforce
  then show ?thesis
    unfolding disable_unconfigured_def tx_bind_get_eq disable_loop update_where_def
    by (simp cong: map_cong)
qed


section \<open>Properties\<close>

definition example_repository :: repository_input where
  "example_repository = \<lparr>ri_id = ''acme/tool'', ri_owner = ''acme'', ri_name = ''tool'', ri_remote = ''r'',
     ri_target_owner = None, ri_target_name = None, ri_push_owner = None, ri_push_name = None,
     ri_push_remote = None, ri_local_dir = ''/w'', ri_baseline_at = ''b'', ri_enabled = None,
     ri_poll_watermark = None, ri_poll_interval_seconds = 300, ri_max_concurrent = None,
     ri_base_branch = None, ri_labels_json = None, ri_auto_merge = None, ri_priority = None,
     ri_triage_session_id = None, ri_triage_state = None, ri_triage_attempts = None,
     ri_triage_failures = None, ri_triage_next_attempt_at = None, ri_issues_enabled = None,
     ri_protection_json = None, ri_policy_json = None\<rparr>"

definition example_repository_config :: "string \<Rightarrow> bool \<Rightarrow> repository_config" where
  "example_repository_config nm enabled = \<lparr>rc_owner = ''acme'', rc_name = nm, rc_remote = None,
     rc_target_owner = None, rc_target_name = None, rc_push_owner = None, rc_push_name = None,
     rc_push_remote = None, rc_local_dir = ''/w'', rc_enabled = enabled, rc_poll_interval_seconds = 60,
     rc_max_concurrent_per_repo = 1, rc_base_branch = ''main'', rc_labels = [''bug''], rc_auto_merge = False,
     rc_priority = 0, rc_baseline_before = None\<rparr>"

definition example_config :: "repository_config list \<Rightarrow> tissue_config" where
  "example_config repos = \<lparr>c_trusted_users = Some [''octocat''], c_poll_interval_seconds = 300,
     c_max_concurrent_global = 3, c_retention_days = 90,
     c_triage_agent = \<lparr>ms_agent = Some TISSUE_TRIAGE_AGENT, ms_model = None\<rparr>,
     c_resolution_agent = \<lparr>ms_agent = Some TISSUE_RESOLVE_AGENT, ms_model = None\<rparr>, c_repos = repos\<rparr>"

text \<open>A database with one configured repository, \<^verbatim>\<open>acme/tool\<close>.\<close>

definition example_db :: db where
  "example_db = snd (synchronize_configured_repositories (example_config [example_repository_config ''tool'' True])
     ''2026-01-01T00:00:00.000Z'' (empty_db 90 ''2026-01-01T00:00:00.000Z''))"

lemma synchronize_success:
  assumes "synchronize_configured_repositories config at d = (Inr res, d')" and "schema_ok d"
  obtains c d1 where "tx_fold (sync_one at) (c_repos config) (0, 0) d = Inr (c, d1)" "schema_ok d1"
    "d' = d1\<lparr>repositories := update_where
      (\<lambda>r. r_config_managed r \<and> \<not> List.member (map configured_id (c_repos config)) (r_owner r @ ''/'' @ r_name r))
      (disable_row at) (repositories d1)\<rparr>"
proof -
  have safe: "schema_safe (tx_fold (sync_one at) (c_repos config) (0, 0))" by (intro preserves_intros)
  show thesis
  proof (cases "tx_fold (sync_one at) (c_repos config) (0, 0) d")
    case (Inl e)
    with assms(1) show thesis
      by (simp add: synchronize_configured_repositories_def run_write_def act_bind_def tx_bind_def)
  next
    case (Inr cd)
    obtain c d1 where cd: "cd = (c, d1)" by (cases cd)
    have d1: "schema_ok d1" using schema_safeD[OF safe assms(2)] Inr cd by simp
    show thesis
      by (rule that[of c d1])
        (use assms(1) Inr cd d1 in \<open>auto simp: synchronize_configured_repositories_def run_write_def act_bind_def
          tx_bind_def tx_then_def disable_unconfigured_eq tx_simps\<close>)
  qed
qed

lemma synchronize_rows:
  assumes "schema_ok d" and "distinct (map (\<lambda>c. (rc_owner c, rc_name c)) (c_repos config))"
    and "synchronize_configured_repositories config at d = (Inr res, d')"
  shows "(\<forall>repo \<in> set (c_repos config). \<exists>r \<in> set (repositories d'). r_owner r = rc_owner repo \<and>
        r_name r = rc_name repo \<and> r_config_managed r \<and> r_enabled r = rc_enabled repo)"
    and "\<forall>r \<in> set (repositories d'). r_config_managed r \<and>
        r_owner r @ ''/'' @ r_name r \<notin> set (map configured_id (c_repos config)) \<longrightarrow> \<not> r_enabled r"
    and "\<exists>new. map runtime_columns (repositories d') = map runtime_columns (repositories d) @ new"
proof -
  obtain c d1 where f: "tx_fold (sync_one at) (c_repos config) (0, 0) d = Inr (c, d1)" and d1: "schema_ok d1"
    and d': "d' = d1\<lparr>repositories := update_where
      (\<lambda>r. r_config_managed r \<and> \<not> List.member (map configured_id (c_repos config)) (r_owner r @ ''/'' @ r_name r))
      (disable_row at) (repositories d1)\<rparr>"
    using synchronize_success[OF assms(3,1)] .
  show "\<forall>repo \<in> set (c_repos config). \<exists>r \<in> set (repositories d'). r_owner r = rc_owner repo \<and>
      r_name r = rc_name repo \<and> r_config_managed r \<and> r_enabled r = rc_enabled repo"
  proof
    fix repo assume repo: "repo \<in> set (c_repos config)"
    from sync_fold_rows(1)[OF assms(1) f assms(2) this] obtain r where
      r: "r \<in> set (repositories d1)" "r_owner r = rc_owner repo" "r_name r = rc_name repo"
      "r_config_managed r" "r_enabled r = rc_enabled repo" by (auto dest: get_repository_SomeD)
    moreover have "List.member (map configured_id (c_repos config)) (r_owner r @ ''/'' @ r_name r)"
      using repo r by (auto simp: configured_id_def)
    ultimately show "\<exists>r \<in> set (repositories d'). r_owner r = rc_owner repo \<and>
        r_name r = rc_name repo \<and> r_config_managed r \<and> r_enabled r = rc_enabled repo"
      unfolding d' by (intro bexI[of _ r]) (auto simp: update_where_def)
  qed
  show "\<forall>r \<in> set (repositories d'). r_config_managed r \<and>
      r_owner r @ ''/'' @ r_name r \<notin> set (map configured_id (c_repos config)) \<longrightarrow> \<not> r_enabled r"
    unfolding d' by (auto simp: update_where_def)
  have "tx_rel (extends repositories runtime_columns) (tx_fold (sync_one at) (c_repos config) (0, 0))"
    unfolding sync_one_def by (intro frame_intros) simp
  from tx_relD[OF this f] show "\<exists>new. map runtime_columns (repositories d') = map runtime_columns (repositories d) @ new"
    by (auto simp: d' extends_def map_update_where)
qed



text \<open>
  The gate before every poll, triage, claim, dispatch and effect passes exactly for a repository
  row that is enabled and whose last capability verdict is ready, and it changes nothing.
\<close>
theorem dispatch_gate_exact:
  "assert_dispatch_ready repo_id operation d = Inr (u, d') \<longleftrightarrow>
     d' = d \<and> (\<exists>r. get_repository_by_id d repo_id = Some r \<and> r_enabled r \<and> r_capability_state r = Some ''ready'')"
  by (cases "get_repository_by_id d repo_id")
    (auto simp: assert_dispatch_ready_def tx_simps Let_def)

end
