(* ===== verification/Work_Items.thy ===== *)
theory Work_Items
  imports Repositories
begin

text \<open>
  WorkItems, their dependency edges and their issue links: the accessors of \<^verbatim>\<open>src/db/repositories.ts\<close>.
  A dependency is added only after a depth-first search has found no path from the dependency back
  to the dependent; the search is proved to decide reachability, so the graph of ACTIVE edges stays
  acyclic. \<open>randomUUID()\<close> is an argument of the operation that calls it.
\<close>

section \<open>WorkItems\<close>

record work_item_input =
  wi_id :: string
  wi_repo_id :: string
  wi_state :: string
  wi_title :: "string option"
  wi_base_branch :: string
  wi_head_branch :: "string option"
  wi_lease_token :: "string option"
  wi_lease_until :: "timestamp option"
  wi_attempts :: "int option"
  wi_priority :: "int option"

definition get_work_item :: "db \<Rightarrow> string \<Rightarrow> work_item_row option" where
  "get_work_item d wid = List.find (\<lambda>w. w_id w = wid) (work_items d)"

definition new_work_item_row :: "work_item_input \<Rightarrow> timestamp \<Rightarrow> work_item_row" where
  "new_work_item_row input at =
     \<lparr>w_id = wi_id input, w_repo_id = wi_repo_id input, w_state = wi_state input, w_title = wi_title input,
      w_base_branch = wi_base_branch input, w_head_branch = wi_head_branch input,
      w_lease_token = wi_lease_token input, w_lease_until = wi_lease_until input,
      w_attempts = coalesce (wi_attempts input) 0, w_priority = coalesce (wi_priority input) 0,
      w_created_at = at, w_updated_at = at\<rparr>"

definition insert_work_item :: "work_item_input \<Rightarrow> work_item_row db_tx" where
  "insert_work_item input =
     tx_bind (tx_get id) (\<lambda>d.
       let row = new_work_item_row input (db_now d) in
       if list_ex (\<lambda>w. w_id w = w_id row) (work_items d) then tx_fail (sqlite_unique ''work_items.id'')
       else if w_head_branch row \<noteq> None \<and> list_ex (\<lambda>w. w_head_branch w = w_head_branch row) (work_items d)
       then tx_fail (sqlite_unique ''work_items.head_branch'')
       else if get_repository_by_id d (w_repo_id row) = None then tx_fail sqlite_foreign_key
       else tx_then (tx_modify (\<lambda>d. d\<lparr>work_items := work_items d @ [row]\<rparr>)) (tx_return row))"

definition list_work_items_by_repo :: "db \<Rightarrow> string \<Rightarrow> work_item_row list" where
  "list_work_items_by_repo d repo_id = order_by w_created_at (filter (\<lambda>w. w_repo_id w = repo_id) (work_items d))"

definition list_work_items_by_states :: "db \<Rightarrow> string list \<Rightarrow> work_item_row list" where
  "list_work_items_by_states d sts =
     order_by (\<lambda>w. (w_created_at w, w_id w)) (filter (\<lambda>w. List.member sts (w_state w)) (work_items d))"

record work_item_state_patch =
  wp_lease_token :: "string option option"
  wp_lease_until :: "timestamp option option"

definition no_lease_patch :: work_item_state_patch where
  "no_lease_patch = \<lparr>wp_lease_token = None, wp_lease_until = None\<rparr>"

definition update_work_items ::
  "(work_item_row \<Rightarrow> bool) \<Rightarrow> (timestamp \<Rightarrow> work_item_row \<Rightarrow> work_item_row) \<Rightarrow> unit db_tx" where
  "update_work_items p f = tx_modify (\<lambda>d. d\<lparr>work_items := update_where p (f (db_now d)) (work_items d)\<rparr>)"

definition set_work_item_state :: "string \<Rightarrow> string \<Rightarrow> work_item_state_patch \<Rightarrow> unit db_tx" where
  "set_work_item_state wid st patch =
     update_work_items (\<lambda>w. w_id w = wid)
       (\<lambda>now w. w\<lparr>w_state := st, w_lease_token := coalesce (wp_lease_token patch) (w_lease_token w),
          w_lease_until := coalesce (wp_lease_until patch) (w_lease_until w), w_updated_at := now\<rparr>)"

text \<open>The UNIQUE index on \<^verbatim>\<open>head_branch\<close> is checked against the other rows.\<close>

definition set_work_item_head_branch :: "string \<Rightarrow> string \<Rightarrow> unit db_tx" where
  "set_work_item_head_branch wid branch =
     tx_bind (tx_get id) (\<lambda>d.
       if list_ex (\<lambda>w. w_id w = wid) (work_items d) \<and>
          list_ex (\<lambda>w. w_id w \<noteq> wid \<and> w_head_branch w = Some branch) (work_items d)
       then tx_fail (sqlite_unique ''work_items.head_branch'')
       else update_work_items (\<lambda>w. w_id w = wid) (\<lambda>now w. w\<lparr>w_head_branch := Some branch, w_updated_at := now\<rparr>))"

definition get_work_item_by_head_branch :: "db \<Rightarrow> string \<Rightarrow> work_item_row option" where
  "get_work_item_by_head_branch d head = List.find (\<lambda>w. w_head_branch w = Some head) (work_items d)"

section \<open>Dependencies\<close>

text \<open>The ACTIVE WorkItem-to-WorkItem edges, in rowid order.\<close>

fun work_item_target :: "dependency_target \<Rightarrow> string option" where
  "work_item_target (On_Issue i) = None"
| "work_item_target (On_Work_Item w) = Some w"

definition active_edges :: "dependency_row list \<Rightarrow> (string \<times> string) list" where
  "active_edges rows =
     List.map_filter (\<lambda>r. if dp_state r = ''ACTIVE'' then map_option (Pair (dp_dependent r)) (work_item_target (dp_target r))
                     else None) rows"

definition edges_of :: "(string \<times> string) list \<Rightarrow> string \<Rightarrow> string list" where
  "edges_of es x = map snd (filter (\<lambda>e. fst e = x) es)"

text \<open>
  The recursive \<^verbatim>\<open>visit\<close>: \<open>stack\<close> holds the nodes still to visit, in call order; the result is whether
  the search throws the cycle error.
\<close>

function cycle_search :: "(string \<times> string) list \<Rightarrow> string \<Rightarrow> string list \<Rightarrow> string list \<Rightarrow> bool" where
  "cycle_search es target [] seen = False"
| "cycle_search es target (x # stack) seen =
     (if x = target then True
      else if List.member seen x then cycle_search es target stack seen
      else cycle_search es target (edges_of es x @ stack) (x # seen))"
  by pat_completeness auto

lemma edges_of_Nil: "x \<notin> fst ` set es \<Longrightarrow> edges_of es x = []"
  by (auto simp: edges_of_def filter_empty_conv)

termination cycle_search
proof (relation "measures [\<lambda>(es, t, stack, seen). card (fst ` set es - set seen), \<lambda>(es, t, stack, seen). length stack]")
  fix es target x stack seen
  assume x: "\<not> List.member seen (x :: string)"
  show "((es, target, edges_of es x @ stack, x # seen), (es, target, x # stack, seen))
    \<in> measures [\<lambda>(es, t, stack, seen). card (fst ` set es - set seen), \<lambda>(es, t, stack, seen). length stack]"
  proof (cases "x \<in> fst ` set es")
    case True
    then have "fst ` set es - set (x # seen) \<subset> fst ` set es - set seen" using x by auto
    then have "card (fst ` set es - set (x # seen)) < card (fst ` set es - set seen)"
      by (intro psubset_card_mono) auto
    then show ?thesis by simp
  next
    case False
    then have "fst ` set es - set (x # seen) = fst ` set es - set seen" by auto
    then show ?thesis using edges_of_Nil[OF False] by simp
  qed
qed auto

definition dependency_cycle :: "db \<Rightarrow> string \<Rightarrow> string \<Rightarrow> bool" where
  "dependency_cycle d dependent dependency =
     cycle_search (active_edges (work_item_dependencies d)) dependent [dependency] []"

definition get_dependency :: "db \<Rightarrow> string \<Rightarrow> dependency_row option" where
  "get_dependency d did = List.find (\<lambda>r. dp_id r = did) (work_item_dependencies d)"

fun target_id :: "dependency_target \<Rightarrow> string" where
  "target_id (On_Issue i) = i"
| "target_id (On_Work_Item w) = w"

fun target_row_exists :: "db \<Rightarrow> dependency_target \<Rightarrow> bool" where
  "target_row_exists d (On_Issue i) = (get_issue_by_id d i \<noteq> None)"
| "target_row_exists d (On_Work_Item w) = (get_work_item d w \<noteq> None)"

fun target_closes_cycle :: "db \<Rightarrow> string \<Rightarrow> dependency_target \<Rightarrow> bool" where
  "target_closes_cycle d dependent (On_Issue i) = False"
| "target_closes_cycle d dependent (On_Work_Item w) = dependency_cycle d dependent w"

definition add_work_item_dependency ::
  "string \<Rightarrow> string \<Rightarrow> dependency_target \<Rightarrow> dependency_row db_tx" where
  "add_work_item_dependency uuid dependent dependency =
     tx_bind (tx_get id) (\<lambda>d.
       if dependency = On_Work_Item dependent then tx_fail (TissueDbError ''a WorkItem cannot depend on itself'')
       else if get_work_item d dependent = None
       then tx_fail (TissueDbError (''dependent WorkItem '' @ quoted dependent @ '' was not found''))
       else if \<not> target_row_exists d dependency
       then tx_fail (TissueDbError (''dependency '' @ quoted (target_id dependency) @ '' was not found''))
       else if target_closes_cycle d dependent dependency
       then tx_fail (TissueDbError ''WorkItem dependency cycle detected'')
       else let row = \<lparr>dp_id = ''dep-'' @ uuid, dp_dependent = dependent, dp_target = dependency,
             dp_state = ''ACTIVE'', dp_created_at = db_now d, dp_settled_at = None\<rparr>
         in if list_ex (\<lambda>r. dp_id r = dp_id row) (work_item_dependencies d)
            then tx_fail (sqlite_unique ''work_item_dependencies.id'')
            else if list_ex (\<lambda>r. dp_dependent r = dependent \<and> dp_target r = dependency) (work_item_dependencies d)
            then tx_fail (sqlite_unique ''work_item_dependencies.dependent_work_item_id'')
            else tx_then (tx_modify (\<lambda>d. d\<lparr>work_item_dependencies := work_item_dependencies d @ [row]\<rparr>))
              (tx_bind (tx_get (\<lambda>d. get_dependency d (dp_id row))) (\<lambda>found.
                case found of
                  None \<Rightarrow> tx_fail (TissueDbError (''dependency '' @ quoted (dp_id row) @ '' was not found''))
                | Some r \<Rightarrow> tx_return r)))"

definition list_dependents_for_completed_dependency :: "db \<Rightarrow> dependency_target \<Rightarrow> dependency_row list" where
  "list_dependents_for_completed_dependency d dependency =
     order_by (\<lambda>r. (dp_created_at r, dp_id r))
       (filter (\<lambda>r. dp_target r = dependency \<and> dp_state r = ''ACTIVE'') (work_item_dependencies d))"

definition settle_row :: "timestamp \<Rightarrow> dependency_row \<Rightarrow> dependency_row" where
  "settle_row now r = r\<lparr>dp_state := ''SETTLED'', dp_settled_at := Some now\<rparr>"

definition settle_work_item_dependency :: "string \<Rightarrow> unit db_tx" where
  "settle_work_item_dependency relation_id =
     tx_modify (\<lambda>d. d\<lparr>work_item_dependencies :=
       update_where (\<lambda>r. dp_id r = relation_id \<and> dp_state r = ''ACTIVE'') (settle_row (db_now d))
         (work_item_dependencies d)\<rparr>)"

section \<open>Issue links\<close>

definition attach_issue_to_work_item :: "string \<Rightarrow> string \<Rightarrow> unit db_tx" where
  "attach_issue_to_work_item issue_id wid =
     tx_bind (tx_get id) (\<lambda>d.
       if list_ex (\<lambda>l. l_issue_id l = issue_id \<and> l_work_item_id l = wid) (issue_work_items d)
       then tx_fail (sqlite_unique ''issue_work_items.issue_id, issue_work_items.work_item_id'')
       else if list_ex (\<lambda>l. l_issue_id l = issue_id \<and> active_link l) (issue_work_items d)
       then tx_fail (sqlite_unique ''issue_work_items.issue_id'')
       else if get_issue_by_id d issue_id = None \<or> get_work_item d wid = None then tx_fail sqlite_foreign_key
       else tx_modify (\<lambda>d. d\<lparr>issue_work_items := issue_work_items d @
          [\<lparr>l_issue_id = issue_id, l_work_item_id = wid, l_state = ''ACTIVE'', l_attached_at = db_now d,
            l_detached_at = None\<rparr>]\<rparr>))"

definition detach_issue_from_work_item :: "string \<Rightarrow> string \<Rightarrow> unit db_tx" where
  "detach_issue_from_work_item issue_id wid =
     tx_modify (\<lambda>d. d\<lparr>issue_work_items :=
       update_where (\<lambda>l. l_issue_id l = issue_id \<and> l_work_item_id l = wid \<and> active_link l)
         (\<lambda>l. l\<lparr>l_state := ''DETACHED'', l_detached_at := Some (db_now d)\<rparr>) (issue_work_items d)\<rparr>)"

definition active_issue_links_for_issue :: "db \<Rightarrow> string \<Rightarrow> (string \<times> timestamp) list" where
  "active_issue_links_for_issue d issue_id =
     map (\<lambda>l. (l_work_item_id l, l_attached_at l))
       (filter (\<lambda>l. l_issue_id l = issue_id \<and> active_link l) (issue_work_items d))"

definition active_issue_ids_for_work_item :: "db \<Rightarrow> string \<Rightarrow> string list" where
  "active_issue_ids_for_work_item d wid =
     map l_issue_id (filter (\<lambda>l. l_work_item_id l = wid \<and> active_link l) (issue_work_items d))"

section \<open>The search decides reachability\<close>

lemma edges_of_iff: "y \<in> set (edges_of es x) \<longleftrightarrow> (x, y) \<in> set es"
  by (force simp: edges_of_def)

text \<open>A path from a visited node to an unvisited one leaves the visited set through the stack.\<close>

lemma leaves_seen:
  assumes "(x, t) \<in> (set es)\<^sup>*" "x \<in> S" "t \<notin> S"
    and closed: "\<And>u v. u \<in> S \<Longrightarrow> (u, v) \<in> set es \<Longrightarrow> v \<in> S \<union> B"
  shows "\<exists>y \<in> B. (y, t) \<in> (set es)\<^sup>*"
  using assms(1,2)
proof (induction rule: converse_rtrancl_induct)
  case base
  with assms(3) show ?case by simp
next
  case (step u v)
  with closed[of u v] show ?case by auto
qed

lemma cycle_search_iff:
  assumes "target \<notin> set seen" and "\<And>u v. u \<in> set seen \<Longrightarrow> (u, v) \<in> set es \<Longrightarrow> v \<in> set seen \<union> set stack"
  shows "cycle_search es target stack seen \<longleftrightarrow> (\<exists>x \<in> set stack. (x, target) \<in> (set es)\<^sup>*)"
  using assms
proof (induction es target stack seen rule: cycle_search.induct)
  case (1 es target seen)
  then show ?case by simp
next
  case (2 es target x stack seen)
  consider "x = target" | "x \<noteq> target" "x \<in> set seen" | "x \<noteq> target" "x \<notin> set seen" by blast
  then show ?case
  proof cases
    case 1
    then show ?thesis by auto
  next
    case seen: 2
    have closed: "v \<in> set seen \<union> set stack" if "u \<in> set seen" "(u, v) \<in> set es" for u v
      using "2.prems"(2)[OF that] seen by auto
    have "(\<exists>y \<in> set stack. (y, target) \<in> (set es)\<^sup>*)" if "(x, target) \<in> (set es)\<^sup>*"
      using leaves_seen[OF that seen(2) "2.prems"(1) closed] .
    moreover have "cycle_search es target stack seen \<longleftrightarrow> (\<exists>y \<in> set stack. (y, target) \<in> (set es)\<^sup>*)"
      using "2.IH"(1) seen "2.prems"(1) closed by auto
    ultimately show ?thesis using seen by auto
  next
    case new: 3
    have "v \<in> set (x # seen) \<union> set (edges_of es x @ stack)" if "u \<in> set (x # seen)" "(u, v) \<in> set es" for u v
      using "2.prems"(2)[of u v] that by (auto simp: edges_of_iff)
    then have "cycle_search es target (edges_of es x @ stack) (x # seen) \<longleftrightarrow>
        (\<exists>y \<in> set (edges_of es x @ stack). (y, target) \<in> (set es)\<^sup>*)"
      using "2.IH"(2) new "2.prems"(1) by simp
    moreover have "(x, target) \<in> (set es)\<^sup>* \<longleftrightarrow> (\<exists>y \<in> set (edges_of es x). (y, target) \<in> (set es)\<^sup>*)"
    proof
      assume "(x, target) \<in> (set es)\<^sup>*"
      then show "\<exists>y \<in> set (edges_of es x). (y, target) \<in> (set es)\<^sup>*"
        using new(1) by (cases rule: converse_rtranclE) (auto simp: edges_of_iff)
    qed (auto simp: edges_of_iff intro: converse_rtrancl_into_rtrancl)
    ultimately show ?thesis using new by auto
  qed
qed

abbreviation dependency_graph :: "db \<Rightarrow> (string \<times> string) set" where
  "dependency_graph d \<equiv> set (active_edges (work_item_dependencies d))"

lemma dependency_cycle_iff:
  "dependency_cycle d dependent dependency \<longleftrightarrow> (dependency, dependent) \<in> (dependency_graph d)\<^sup>*"
  unfolding dependency_cycle_def by (subst cycle_search_iff) auto

lemma in_active_edges:
  "(u, v) \<in> set (active_edges rows) \<longleftrightarrow>
     (\<exists>r \<in> set rows. dp_state r = ''ACTIVE'' \<and> dp_dependent r = u \<and> dp_target r = On_Work_Item v)"
proof -
  have "work_item_target t = Some w \<longleftrightarrow> t = On_Work_Item w" for t w by (cases t) auto
  then show ?thesis by (auto simp: active_edges_def map_filter_def image_iff split: if_splits)
qed

lemma active_edges_append: "active_edges (xs @ ys) = active_edges xs @ active_edges ys"
  by (simp add: active_edges_def map_filter_def)

lemma get_work_item_SomeD: "get_work_item d wid = Some w \<Longrightarrow> w \<in> set (work_items d) \<and> w_id w = wid"
  by (auto simp: get_work_item_def dest: find_SomeD)

lemma get_work_item_ids: "get_work_item d wid \<noteq> None \<longleftrightarrow> wid \<in> work_item_ids d"
  by (cases "get_work_item d wid")
    (auto simp: get_work_item_def find_None_set work_item_ids_def dest: find_SomeD)

lemma get_issue_ids: "get_issue_by_id d iid \<noteq> None \<longleftrightarrow> iid \<in> issue_ids d"
  by (cases "get_issue_by_id d iid")
    (auto simp: get_issue_by_id_def find_None_set issue_ids_def dest: find_SomeD)

lemma target_row_exists_iff: "target_row_exists d t = dependency_target_exists d t"
  by (cases t) (simp_all add: get_issue_ids get_work_item_ids del: not_None_eq)

lemma add_dependency_success:
  assumes "add_work_item_dependency uuid dependent t d = Inr (row, d')"
  shows "row = \<lparr>dp_id = ''dep-'' @ uuid, dp_dependent = dependent, dp_target = t, dp_state = ''ACTIVE'',
      dp_created_at = db_now d, dp_settled_at = None\<rparr>"
    and "d' = d\<lparr>work_item_dependencies := work_item_dependencies d @ [row]\<rparr>"
    and "dependent \<in> work_item_ids d" "dependency_target_exists d t" "t \<noteq> On_Work_Item dependent"
    and "\<not> target_closes_cycle d dependent t"
    and "\<forall>r \<in> set (work_item_dependencies d). dp_id r \<noteq> dp_id row \<and>
      \<not> (dp_dependent r = dependent \<and> dp_target r = t)"
proof -
  let ?row = "\<lparr>dp_id = ''dep-'' @ uuid, dp_dependent = dependent, dp_target = t, dp_state = ''ACTIVE'',
      dp_created_at = db_now d, dp_settled_at = None\<rparr>"
  have *: "t \<noteq> On_Work_Item dependent" "get_work_item d dependent \<noteq> None" "target_row_exists d t"
    "\<not> target_closes_cycle d dependent t" "\<not> list_ex (\<lambda>r. dp_id r = ''dep-'' @ uuid) (work_item_dependencies d)"
    "\<not> list_ex (\<lambda>r. dp_dependent r = dependent \<and> dp_target r = t) (work_item_dependencies d)"
    using assms by (auto simp: add_work_item_dependency_def tx_simps Let_def split: if_splits)
  have "List.find (\<lambda>r. dp_id r = dp_id ?row) (work_item_dependencies d @ [?row]) = Some ?row"
    using *(5) by (auto simp: find_append list_ex_iff dest!: find_SomeD split: option.splits)
  then have "row = ?row \<and> d' = d\<lparr>work_item_dependencies := work_item_dependencies d @ [?row]\<rparr>"
    using assms * by (auto simp: add_work_item_dependency_def tx_simps Let_def get_dependency_def)
  then show "row = ?row" "d' = d\<lparr>work_item_dependencies := work_item_dependencies d @ [row]\<rparr>" by auto
  then show "\<forall>r \<in> set (work_item_dependencies d). dp_id r \<noteq> dp_id row \<and> \<not> (dp_dependent r = dependent \<and> dp_target r = t)"
    using *(5,6) by (auto simp: list_ex_iff)
  show "dependent \<in> work_item_ids d" "dependency_target_exists d t" "t \<noteq> On_Work_Item dependent"
    "\<not> target_closes_cycle d dependent t"
    using * by (simp_all add: get_work_item_ids[symmetric] target_row_exists_iff)
qed


section \<open>The constraints are kept\<close>

lemma update_work_items_safe [preserves_intros]:
  assumes "\<And>now w. w_id (f now w) = w_id w" "\<And>now w. w_repo_id (f now w) = w_repo_id w"
    "\<And>now w. w_head_branch (f now w) = w_head_branch w"
  shows "schema_safe (update_work_items p f)"
  unfolding update_work_items_def
proof (rule schema_safe_modify, rule set_work_items_ok)
  fix d assume d: "schema_ok d"
  show "work_items_ok (d\<lparr>work_items := update_where p (f (db_now d)) (work_items d)\<rparr>)"
    using schema_okD(3)[OF d] unfolding work_items_ok_def list.set_map[symmetric]
    by (simp add: map_update_where assms del: list.set_map)
  show "work_item_ids d \<subseteq> w_id ` set (update_where p (f (db_now d)) (work_items d))"
    using map_update_where[of "work_items d" p w_id "f (db_now d)"] assms(1)
    unfolding work_item_ids_def list.set_map[symmetric] by simp
qed

lemma set_work_item_state_safe [preserves_intros]: "schema_safe (set_work_item_state wid st patch)"
  unfolding set_work_item_state_def by (intro preserves_intros) simp_all

lemma insert_work_item_success:
  "insert_work_item input d = Inr (row, d') \<longleftrightarrow>
     row = new_work_item_row input (db_now d) \<and> d' = d\<lparr>work_items := work_items d @ [row]\<rparr> \<and>
     (\<forall>w \<in> set (work_items d). w_id w \<noteq> wi_id input) \<and>
     (wi_head_branch input \<noteq> None \<longrightarrow> (\<forall>w \<in> set (work_items d). w_head_branch w \<noteq> wi_head_branch input)) \<and>
     get_repository_by_id d (wi_repo_id input) \<noteq> None"
  by (auto simp: insert_work_item_def new_work_item_row_def tx_simps Let_def list_ex_iff split: if_splits)

lemma insert_work_item_safe [preserves_intros]: "schema_safe (insert_work_item input)"
proof (rule schema_safeI)
  fix d x d' assume d: "schema_ok d" and i: "insert_work_item input d = Inr (x, d')"
  then have w: "x = new_work_item_row input (db_now d)" "d' = d\<lparr>work_items := work_items d @ [x]\<rparr>"
    "w_id x \<notin> w_id ` set (work_items d)"
    "w_head_branch x \<noteq> None \<Longrightarrow> w_head_branch x \<notin> w_head_branch ` set (work_items d)"
    "w_repo_id x \<in> repository_ids d"
    unfolding insert_work_item_success
    by (auto simp: new_work_item_row_def get_repository_by_id_None simp del: not_None_eq)
  show "schema_ok d'"
    using w schema_okD(3)[OF d]
    by (auto intro!: set_work_items_ok d simp: work_items_ok_def work_item_ids_def simp del: not_None_eq)
qed

lemma distinct_some_update:
  assumes "distinct (map key t)" "distinct (filter (\<lambda>b. b \<noteq> None) (map g t))"
    and "\<And>r. r \<in> set t \<Longrightarrow> key r \<noteq> k \<Longrightarrow> g r \<noteq> v"
  shows "distinct (filter (\<lambda>b. b \<noteq> None) (map (\<lambda>r. if key r = k then v else g r) t))"
  using assms
proof (induction t)
  case (Cons r t)
  show ?case
  proof (cases "key r = k")
    case True
    with Cons.prems(1) have ne: "\<And>x. x \<in> set t \<Longrightarrow> key x \<noteq> k" by (metis distinct.simps(2) image_eqI list.set_map list.simps(9))
    have eq: "map (\<lambda>r. if key r = k then v else g r) t = map g t" using ne by simp
    have v: "v \<notin> g ` set t" using ne Cons.prems(3) by auto
    have "distinct (filter (\<lambda>b. b \<noteq> None) (map g t))"
      using Cons.prems(2) by (cases "g r") simp_all
    with v show ?thesis by (simp add: eq True del: not_None_eq)
  next
    case False
    with Cons.prems have "g r \<noteq> v" by simp
    with Cons False show ?thesis by (auto split: if_splits)
  qed
qed simp

lemma set_work_item_head_branch_safe [preserves_intros]: "schema_safe (set_work_item_head_branch wid branch)"
proof (rule schema_safeI)
  fix d x d' assume d: "schema_ok d" and s: "set_work_item_head_branch wid branch d = Inr (x, d')"
  let ?p = "\<lambda>w. w_id w = wid" and ?f = "\<lambda>w. w\<lparr>w_head_branch := Some branch, w_updated_at := db_now d\<rparr>"
  let ?ws = "update_where ?p ?f (work_items d)"
  have d': "d' = d\<lparr>work_items := ?ws\<rparr>"
    and u: "\<not> (list_ex ?p (work_items d) \<and> list_ex (\<lambda>w. w_id w \<noteq> wid \<and> w_head_branch w = Some branch) (work_items d))"
    using s by (auto simp: set_work_item_head_branch_def tx_simps update_work_items_def split: if_splits)
  have ids: "map w_id ?ws = map w_id (work_items d)" and repos: "map w_repo_id ?ws = map w_repo_id (work_items d)"
    by (simp_all add: map_update_where)
  have "distinct (filter (\<lambda>b. b \<noteq> None) (map w_head_branch ?ws))"
  proof (cases "list_ex ?p (work_items d)")
    case True
    have eq: "map w_head_branch ?ws = map (\<lambda>w. if w_id w = wid then Some branch else w_head_branch w) (work_items d)"
      by (simp add: update_where_def)
    show ?thesis
      unfolding eq using schema_okD(3)[OF d] u True
      by (intro distinct_some_update) (auto simp: work_items_ok_def list_ex_iff)
  next
    case False
    then have "?ws = work_items d" by (intro update_where_none) (auto simp: list_ex_iff)
    then show ?thesis using schema_okD(3)[OF d] by (simp only: work_items_ok_def)
  qed
  moreover have "w_repo_id ` set ?ws = w_repo_id ` set (work_items d)" "w_id ` set ?ws = w_id ` set (work_items d)"
    using arg_cong[OF repos, of set] arg_cong[OF ids, of set] by simp_all
  ultimately show "schema_ok d'"
    unfolding d' using schema_okD(3)[OF d] ids
    by (intro set_work_items_ok d) (simp_all add: work_items_ok_def work_item_ids_def)
qed

lemma add_dependency_safe [preserves_intros]: "schema_safe (add_work_item_dependency uuid dependent t)"
proof (rule schema_safeI)
  fix d x d' assume d: "schema_ok d" and s: "add_work_item_dependency uuid dependent t d = Inr (x, d')"
  note a = add_dependency_success[OF s]
  show "schema_ok d'"
    unfolding a(2) using schema_okD(11)[OF d] a(3,4,7)
    by (intro set_dependencies_ok d) (auto simp: dependencies_ok_def target_exists_iff a(1))
qed

lemma settle_dependency_safe [preserves_intros]: "schema_safe (settle_work_item_dependency rid)"
  unfolding settle_work_item_dependency_def
proof (rule schema_safe_modify, rule set_dependencies_ok)
  fix d assume d: "schema_ok d"
  show "dependencies_ok (d\<lparr>work_item_dependencies :=
      update_where (\<lambda>r. dp_id r = rid \<and> dp_state r = ''ACTIVE'') (settle_row (db_now d)) (work_item_dependencies d)\<rparr>)"
    using schema_okD(11)[OF d]
    by (auto simp: dependencies_ok_def map_update_where settle_row_def target_exists_iff set_update_where
        split: if_splits)
qed

lemma distinct_filter_update_le:
  assumes "distinct (map g (filter P t))" "\<And>r. p r \<Longrightarrow> \<not> P (f r)"
  shows "distinct (map g (filter P (update_where p f t)))"
  using assms by (induction t) (auto simp: table_simps image_iff split: if_splits)

lemma link_ops_safe [preserves_intros]:
  "schema_safe (attach_issue_to_work_item iid wid)"
  "schema_safe (detach_issue_from_work_item iid wid)"
proof -
  show "schema_safe (attach_issue_to_work_item iid wid)"
  proof (rule schema_safeI)
    fix d x d' assume d: "schema_ok d" and s: "attach_issue_to_work_item iid wid d = Inr (x, d')"
    have fk: "iid \<in> issue_ids d" "wid \<in> work_item_ids d"
      using s by (auto simp: attach_issue_to_work_item_def tx_simps get_issue_ids[symmetric]
          get_work_item_ids[symmetric] split: if_splits)
    show "schema_ok d'"
      using s schema_okD(4)[OF d] fk
      by (auto intro!: set_links_ok d simp: attach_issue_to_work_item_def tx_simps links_ok_def list_ex_iff
          active_link_def split: if_splits)
  qed
  show "schema_safe (detach_issue_from_work_item iid wid)"
    unfolding detach_issue_from_work_item_def
  proof (rule schema_safe_modify, rule set_links_ok)
    fix d assume d: "schema_ok d"
    show "links_ok (d\<lparr>issue_work_items := update_where (\<lambda>l. l_issue_id l = iid \<and> l_work_item_id l = wid \<and> active_link l)
        (\<lambda>l. l\<lparr>l_state := ''DETACHED'', l_detached_at := Some (db_now d)\<rparr>) (issue_work_items d)\<rparr>)"
      using schema_okD(4)[OF d]
      by (auto simp: links_ok_def map_update_where set_update_where intro!: distinct_filter_update_le
          simp: active_link_def split: if_splits)
  qed
qed


section \<open>Acyclicity of the dependency graph\<close>

lemma add_dependency_acyclic:
  assumes "add_work_item_dependency uuid dependent t d = Inr (row, d')" "acyclic (dependency_graph d)"
  shows "acyclic (dependency_graph d')"
proof (cases t)
  case (On_Issue i)
  with add_dependency_success(1,2)[OF assms(1)] assms(2) show ?thesis
    by (simp add: active_edges_append active_edges_def map_filter_def)
next
  case (On_Work_Item w)
  with add_dependency_success(6)[OF assms(1)] have "(w, dependent) \<notin> (dependency_graph d)\<^sup>*"
    by (simp add: dependency_cycle_iff)
  moreover have "dependency_graph d' = insert (dependent, w) (dependency_graph d)"
    using add_dependency_success(1,2)[OF assms(1)] On_Work_Item
    by (simp add: active_edges_append) (simp add: active_edges_def map_filter_def)
  ultimately show ?thesis using assms(2) by (simp add: acyclic_insert)
qed

lemma settle_dependency_acyclic:
  assumes "settle_work_item_dependency rid d = Inr (u, d')" "acyclic (dependency_graph d)"
  shows "acyclic (dependency_graph d')"
proof -
  have "dependency_graph d' \<subseteq> dependency_graph d"
    using assms(1) by (auto simp: settle_work_item_dependency_def tx_simps in_active_edges update_where_def
        settle_row_def split: if_splits)
  with assms(2) show ?thesis by (rule acyclic_subset)
qed

text \<open>Operations on other tables do not touch the edges.\<close>

lemma frames_dependencies [frame_intros]:
  "tx_rel (frame work_item_dependencies) (update_repositories p f)"
  "tx_rel (frame work_item_dependencies) (insert_repository_row r)"
  "tx_rel (frame work_item_dependencies) (update_issues pi fi)"
  "tx_rel (frame work_item_dependencies) (insert_issue_row i)"
  "tx_rel (frame work_item_dependencies) (update_work_items pw fw)"
  "tx_rel (frame work_item_dependencies) (insert_work_item input)"
  by (auto simp: tx_rel_def frame_def update_repositories_def insert_repository_row_def update_issues_def
      insert_issue_row_def update_work_items_def insert_work_item_success tx_simps split: if_splits)

lemma accessors_grow [grows_intros]:
  "tx_rel grows (assert_json_if_set v field)" "tx_rel grows (assert_valid_json_string j field)"
  "tx_rel grows (update_repositories p f)" "tx_rel grows (insert_repository_row r)"
  "tx_rel grows (update_issues pi fi)" "tx_rel grows (insert_issue_row i)"
  "tx_rel grows (update_work_items pw fw)" "tx_rel grows (insert_work_item input)"
  "tx_rel grows (add_work_item_dependency uuid dependent t)" "tx_rel grows (settle_work_item_dependency rid)"
  "tx_rel grows (attach_issue_to_work_item iid wid)" "tx_rel grows (detach_issue_from_work_item iid wid)"
  "tx_rel grows (append_transition ety eid fr to ev reason actor at)"
  by (auto simp: tx_rel_def grows_def update_repositories_def insert_repository_row_def update_issues_def
      insert_issue_row_def update_work_items_def insert_work_item_success tx_simps settle_work_item_dependency_def
      attach_issue_to_work_item_def detach_issue_from_work_item_def
      dest!: assert_json_if_set_state assert_valid_json_state add_dependency_success(2) append_transition_success
      split: if_splits)

lemma record_transition_grows [grows_intros]: "tx_rel grows (record_transition ety eid f t ev r a at)"
  by (cases f) (auto simp: tx_rel_def grows_def record_transition_None dest!: record_transition_success)

section \<open>Properties\<close>

text \<open>
  C2: A dependency on another WorkItem is accepted exactly when no chain of ACTIVE dependencies leads
  from that WorkItem back to the dependent (itself included), once both WorkItems exist and the
  relation is new; an accepted dependency is an ACTIVE edge from the dependent to its target.
\<close>
theorem dependency_accepted_iff_no_cycle:
  assumes "get_work_item d dependent = Some w1" and "get_work_item d dependency = Some w2"
    and "\<forall>r \<in> set (work_item_dependencies d). dp_id r \<noteq> ''dep-'' @ uuid \<and>
      \<not> (dp_dependent r = dependent \<and> dp_target r = On_Work_Item dependency)"
  shows "(case add_work_item_dependency uuid dependent (On_Work_Item dependency) d of
      Inr (row, d') \<Rightarrow> (dependency, dependent) \<notin> (dependency_graph d)\<^sup>* \<and>
        dependency_graph d' = insert (dependent, dependency) (dependency_graph d)
    | Inl e \<Rightarrow> (dependency, dependent) \<in> (dependency_graph d)\<^sup>*)"
proof (cases "add_work_item_dependency uuid dependent (On_Work_Item dependency) d")
  case (Inl e)
  have "dependency = dependent \<or> dependency_cycle d dependent dependency"
  proof (rule ccontr)
    assume "\<not> ?thesis"
    moreover from this have "get_dependency (d\<lparr>work_item_dependencies := work_item_dependencies d @
        [\<lparr>dp_id = ''dep-'' @ uuid, dp_dependent = dependent, dp_target = On_Work_Item dependency,
          dp_state = ''ACTIVE'', dp_created_at = db_now d, dp_settled_at = None\<rparr>]\<rparr>) (''dep-'' @ uuid) \<noteq> None"
      by (simp add: get_dependency_def find_append split: option.splits)
    ultimately show False
      using Inl assms by (auto simp: add_work_item_dependency_def tx_simps Let_def list_ex_iff split: if_splits)
  qed
  with Inl show ?thesis by (auto simp: dependency_cycle_iff)
next
  case (Inr r)
  obtain row d' where r: "r = (row, d')" by (cases r)
  note s = add_dependency_success[OF Inr[unfolded r]]
  have "(dependency, dependent) \<notin> (dependency_graph d)\<^sup>*" using s(6) by (simp add: dependency_cycle_iff)
  moreover have "dependency_graph d' = insert (dependent, dependency) (dependency_graph d)"
    using s(1,2) by (simp add: active_edges_append) (simp add: active_edges_def map_filter_def)
  ultimately show ?thesis using Inr r by simp
qed


definition example_work_item :: "string \<Rightarrow> string \<Rightarrow> work_item_input" where
  "example_work_item wid st = \<lparr>wi_id = wid, wi_repo_id = ''acme/tool'', wi_state = st, wi_title = None,
     wi_base_branch = ''main'', wi_head_branch = None, wi_lease_token = None, wi_lease_until = None,
     wi_attempts = None, wi_priority = None\<rparr>"

text \<open>Three WorkItems, \<open>a\<close> waiting for \<open>b\<close> and \<open>b\<close> for \<open>c\<close>.\<close>

definition example_chain_db :: db where
  "example_chain_db = snd (run_write
     (tx_then (tx_foreach (\<lambda>wid. tx_bind (insert_work_item (example_work_item wid ''READY'')) (\<lambda>w. tx_return ()))
         [''a'', ''b'', ''c''])
     (tx_then (tx_bind (add_work_item_dependency ''1'' ''a'' (On_Work_Item ''b'')) (\<lambda>r. tx_return ()))
       (tx_bind (add_work_item_dependency ''2'' ''b'' (On_Work_Item ''c'')) (\<lambda>r. tx_return ())))) example_db)"

theorem dependency_accepted_iff_no_cycle_witness:
  "isl (add_work_item_dependency ''3'' ''c'' (On_Work_Item ''a'') example_chain_db) \<and>
   (''a'', ''c'') \<in> (dependency_graph example_chain_db)\<^sup>*"
proof -
  have refused: "isl (add_work_item_dependency ''3'' ''c'' (On_Work_Item ''a'') example_chain_db)" by code_simp
  have "get_work_item example_chain_db ''c'' \<noteq> None" "get_work_item example_chain_db ''a'' \<noteq> None" by code_simp+
  then obtain w1 w2 where w: "get_work_item example_chain_db ''c'' = Some w1"
    "get_work_item example_chain_db ''a'' = Some w2" by auto
  have fresh: "\<forall>r \<in> set (work_item_dependencies example_chain_db). dp_id r \<noteq> ''dep-'' @ ''3'' \<and>
      \<not> (dp_dependent r = ''c'' \<and> dp_target r = On_Work_Item ''a'')" by code_simp
  show ?thesis
    using dependency_accepted_iff_no_cycle[OF w fresh] refused
    by (auto simp: isl_def)
qed

end
