(* ===== verification/Artifacts.thy ===== *)
theory Artifacts
  imports Work_Items
begin

text \<open>
  The artifacts a WorkItem owns: OpenCode sessions, worktrees and pull requests, with the accessors of
  \<^verbatim>\<open>src/db/repositories.ts\<close>. The partial unique indexes (one ACTIVE resolution session, worktree and
  pull request per WorkItem) are checked by the inserts and by every update that may make a row
  ACTIVE. \<^verbatim>\<open>INSERT OR IGNORE\<close> skips a row that breaks a uniqueness constraint, but a foreign key
  violation is an error as ever.
\<close>

section \<open>Sessions\<close>

record session_input =
  si_id :: string
  si_kind :: session_kind
  si_repo_id :: "string option"
  si_work_item_id :: "string option"
  si_directory :: string
  si_agent :: "string option"
  si_model_json :: "json_text option"
  si_state :: string

definition new_session_row :: "session_input \<Rightarrow> timestamp \<Rightarrow> session_row" where
  "new_session_row input at =
     \<lparr>s_id = si_id input, s_kind = si_kind input, s_repo_id = si_repo_id input,
      s_work_item_id = si_work_item_id input, s_directory = si_directory input, s_agent = si_agent input,
      s_model_json = si_model_json input, s_requested_agent = si_agent input,
      s_requested_model_json = si_model_json input, s_observed_agent = None, s_observed_model_json = None,
      s_observed_at = None, s_state = si_state input, s_created_at = at, s_updated_at = at\<rparr>"

definition optional_fk :: "('a \<Rightarrow> bool) \<Rightarrow> 'a option \<Rightarrow> bool" where
  "optional_fk P v = (case v of None \<Rightarrow> True | Some x \<Rightarrow> P x)"

definition insert_session :: "session_input \<Rightarrow> unit db_tx" where
  "insert_session input =
     tx_then (assert_json_if_set (si_model_json input) ''model_json'')
     (tx_bind (tx_get id) (\<lambda>d.
       let row = new_session_row input (db_now d) in
       if list_ex (\<lambda>s. s_id s = s_id row) (opencode_sessions d) then tx_fail (sqlite_unique ''opencode_sessions.id'')
       else if active_resolution row \<and>
           list_ex (\<lambda>s. active_resolution s \<and> s_work_item_id s = s_work_item_id row) (opencode_sessions d)
       then tx_fail (sqlite_unique ''opencode_sessions.work_item_id'')
       else if \<not> (optional_fk (\<lambda>r. get_repository_by_id d r \<noteq> None) (s_repo_id row) \<and>
                 optional_fk (\<lambda>w. get_work_item d w \<noteq> None) (s_work_item_id row))
       then tx_fail sqlite_foreign_key
       else tx_modify (\<lambda>d. d\<lparr>opencode_sessions := opencode_sessions d @ [row]\<rparr>)))"

definition update_sessions ::
  "(session_row \<Rightarrow> bool) \<Rightarrow> (timestamp \<Rightarrow> session_row \<Rightarrow> session_row) \<Rightarrow> unit db_tx" where
  "update_sessions p f =
     tx_bind (tx_get (\<lambda>d. update_where p (f (db_now d)) (opencode_sessions d))) (\<lambda>rows.
       if distinct (map s_work_item_id (filter active_resolution rows))
       then tx_modify (\<lambda>d. d\<lparr>opencode_sessions := rows\<rparr>)
       else tx_fail (sqlite_unique ''opencode_sessions.work_item_id''))"

record session_observation =
  so_agent :: "string option"
  so_model_json :: "json_text option"
  so_at :: "timestamp option"

definition record_session_observation :: "string \<Rightarrow> session_observation \<Rightarrow> bool db_tx" where
  "record_session_observation sid obs =
     tx_then (assert_json_if_set (so_model_json obs) ''observed_model_json'')
     (tx_bind (tx_get (\<lambda>d. list_ex (\<lambda>s. s_id s = sid) (opencode_sessions d))) (\<lambda>found.
       if \<not> found then tx_return False
       else tx_then (update_sessions (\<lambda>s. s_id s = sid)
           (\<lambda>now s. s\<lparr>s_observed_agent := or_else (so_agent obs) (s_observed_agent s),
              s_observed_model_json := or_else (so_model_json obs) (s_observed_model_json s),
              s_observed_at := Some (coalesce (so_at obs) now), s_updated_at := now\<rparr>))
         (tx_return True)))"

definition set_session_state :: "string \<Rightarrow> string \<Rightarrow> unit db_tx" where
  "set_session_state sid st =
     update_sessions (\<lambda>s. s_id s = sid) (\<lambda>now s. s\<lparr>s_state := st, s_updated_at := now\<rparr>)"

definition get_active_resolution_session :: "db \<Rightarrow> string \<Rightarrow> session_row option" where
  "get_active_resolution_session d wid =
     List.find (\<lambda>s. s_work_item_id s = Some wid \<and> s_kind s = Resolution_Session \<and> s_state s = ''ACTIVE'')
       (opencode_sessions d)"

definition list_sessions :: "db \<Rightarrow> session_row list" where
  "list_sessions d = order_by (\<lambda>s. (s_created_at s, s_id s)) (opencode_sessions d)"

section \<open>Worktrees\<close>

record worktree_input =
  wti_id :: string
  wti_work_item_id :: string
  wti_path :: string
  wti_branch :: string
  wti_state :: string

definition new_worktree_row :: "worktree_input \<Rightarrow> timestamp \<Rightarrow> worktree_row" where
  "new_worktree_row input at =
     \<lparr>wt_id = wti_id input, wt_work_item_id = wti_work_item_id input, wt_path = wti_path input,
      wt_branch = wti_branch input, wt_state = wti_state input, wt_created_at = at, wt_cleaned_at = None\<rparr>"

text \<open>The first uniqueness constraint a new row would break.\<close>

definition worktree_conflict :: "worktree_row \<Rightarrow> worktree_row list \<Rightarrow> string option" where
  "worktree_conflict row rows =
     (if list_ex (\<lambda>t. wt_id t = wt_id row) rows then Some ''worktrees.id''
      else if list_ex (\<lambda>t. wt_path t = wt_path row) rows then Some ''worktrees.path''
      else if list_ex (\<lambda>t. wt_branch t = wt_branch row) rows then Some ''worktrees.branch''
      else if active_worktree row \<and> list_ex (\<lambda>t. active_worktree t \<and> wt_work_item_id t = wt_work_item_id row) rows
      then Some ''worktrees.work_item_id'' else None)"

definition insert_worktree :: "worktree_input \<Rightarrow> unit db_tx" where
  "insert_worktree input =
     tx_bind (tx_get id) (\<lambda>d.
       let row = new_worktree_row input (db_now d) in
       case worktree_conflict row (worktrees d) of
         Some c \<Rightarrow> tx_fail (sqlite_unique c)
       | None \<Rightarrow> if get_work_item d (wt_work_item_id row) = None then tx_fail sqlite_foreign_key
           else tx_modify (\<lambda>d. d\<lparr>worktrees := worktrees d @ [row]\<rparr>))"

definition insert_worktree_if_absent :: "worktree_input \<Rightarrow> bool db_tx" where
  "insert_worktree_if_absent input =
     tx_bind (tx_get id) (\<lambda>d.
       let row = new_worktree_row input (db_now d) in
       if worktree_conflict row (worktrees d) \<noteq> None then tx_return False
       else if get_work_item d (wt_work_item_id row) = None then tx_fail sqlite_foreign_key
       else tx_then (tx_modify (\<lambda>d. d\<lparr>worktrees := worktrees d @ [row]\<rparr>)) (tx_return True))"

definition update_worktrees :: "(worktree_row \<Rightarrow> bool) \<Rightarrow> (worktree_row \<Rightarrow> worktree_row) \<Rightarrow> unit db_tx" where
  "update_worktrees p f =
     tx_bind (tx_get (\<lambda>d. update_where p f (worktrees d))) (\<lambda>rows.
       if distinct (map wt_work_item_id (filter active_worktree rows))
       then tx_modify (\<lambda>d. d\<lparr>worktrees := rows\<rparr>)
       else tx_fail (sqlite_unique ''worktrees.work_item_id''))"

definition set_worktree_state :: "string \<Rightarrow> string \<Rightarrow> timestamp option \<Rightarrow> unit db_tx" where
  "set_worktree_state wtid st cleaned_at =
     update_worktrees (\<lambda>t. wt_id t = wtid) (\<lambda>t. t\<lparr>wt_state := st, wt_cleaned_at := cleaned_at\<rparr>)"

definition list_worktrees_by_work_item :: "db \<Rightarrow> string \<Rightarrow> worktree_row list" where
  "list_worktrees_by_work_item d wid =
     order_by (\<lambda>t. (wt_created_at t, wt_id t)) (filter (\<lambda>t. wt_work_item_id t = wid) (worktrees d))"

definition list_active_worktrees :: "db \<Rightarrow> worktree_row list" where
  "list_active_worktrees d = order_by (\<lambda>t. (wt_created_at t, wt_id t)) (filter active_worktree (worktrees d))"

section \<open>Pull requests\<close>

record pull_request_input =
  pi_id :: string
  pi_work_item_id :: string
  pi_repo_id :: string
  pi_number :: int
  pi_head_ref :: string
  pi_head_sha :: "string option"
  pi_state :: string
  pi_origin :: "string option"
  pi_snapshot_hash :: "string option"

definition new_pull_request_row :: "pull_request_input \<Rightarrow> timestamp \<Rightarrow> pull_request_row" where
  "new_pull_request_row input at =
     \<lparr>pr_id = pi_id input, pr_work_item_id = pi_work_item_id input, pr_repo_id = pi_repo_id input,
      pr_number = pi_number input, pr_head_ref = pi_head_ref input, pr_head_sha = pi_head_sha input,
      pr_state = pi_state input, pr_origin = coalesce (pi_origin input) ''expected'',
      pr_snapshot_hash = pi_snapshot_hash input, pr_created_at = at, pr_updated_at = at\<rparr>"

definition pull_request_conflict :: "pull_request_row \<Rightarrow> pull_request_row list \<Rightarrow> string option" where
  "pull_request_conflict row rows =
     (if list_ex (\<lambda>p. pr_id p = pr_id row) rows then Some ''pull_requests.id''
      else if list_ex (\<lambda>p. pr_repo_id p = pr_repo_id row \<and> pr_number p = pr_number row) rows
      then Some ''pull_requests.repo_id, pull_requests.number''
      else if active_pr row \<and> list_ex (\<lambda>p. active_pr p \<and> pr_work_item_id p = pr_work_item_id row) rows
      then Some ''pull_requests.work_item_id'' else None)"

definition pull_request_fk :: "db \<Rightarrow> pull_request_row \<Rightarrow> bool" where
  "pull_request_fk d row \<longleftrightarrow>
     get_work_item d (pr_work_item_id row) \<noteq> None \<and> get_repository_by_id d (pr_repo_id row) \<noteq> None"

definition insert_pull_request_row :: "pull_request_row \<Rightarrow> unit db_tx" where
  "insert_pull_request_row row =
     tx_bind (tx_get id) (\<lambda>d.
       case pull_request_conflict row (pull_requests d) of
         Some c \<Rightarrow> tx_fail (sqlite_unique c)
       | None \<Rightarrow> if \<not> pull_request_fk d row then tx_fail sqlite_foreign_key
           else tx_modify (\<lambda>d. d\<lparr>pull_requests := pull_requests d @ [row]\<rparr>))"

text \<open>\<^verbatim>\<open>insertPullRequest\<close> and the OR IGNORE variant do not write \<^verbatim>\<open>snapshot_hash\<close>.\<close>

definition insert_pull_request :: "pull_request_input \<Rightarrow> unit db_tx" where
  "insert_pull_request input =
     tx_bind (tx_get (\<lambda>d. new_pull_request_row (input\<lparr>pi_snapshot_hash := None\<rparr>) (db_now d))) insert_pull_request_row"

definition insert_pull_request_if_absent :: "pull_request_input \<Rightarrow> bool db_tx" where
  "insert_pull_request_if_absent input =
     tx_bind (tx_get id) (\<lambda>d.
       let row = new_pull_request_row (input\<lparr>pi_snapshot_hash := None\<rparr>) (db_now d) in
       if pull_request_conflict row (pull_requests d) \<noteq> None then tx_return False
       else tx_then (insert_pull_request_row row) (tx_return True))"

definition update_pull_requests ::
  "(pull_request_row \<Rightarrow> bool) \<Rightarrow> (timestamp \<Rightarrow> pull_request_row \<Rightarrow> pull_request_row) \<Rightarrow> unit db_tx" where
  "update_pull_requests p f =
     tx_bind (tx_get (\<lambda>d. update_where p (f (db_now d)) (pull_requests d))) (\<lambda>rows.
       if distinct (map pr_work_item_id (filter active_pr rows))
       then tx_modify (\<lambda>d. d\<lparr>pull_requests := rows\<rparr>)
       else tx_fail (sqlite_unique ''pull_requests.work_item_id''))"

definition set_pull_request_state :: "string \<Rightarrow> string \<Rightarrow> unit db_tx" where
  "set_pull_request_state prid st =
     update_pull_requests (\<lambda>p. pr_id p = prid) (\<lambda>now p. p\<lparr>pr_state := st, pr_updated_at := now\<rparr>)"

definition mark_pull_request_state :: "string \<Rightarrow> int \<Rightarrow> string \<Rightarrow> unit db_tx" where
  "mark_pull_request_state wid n st =
     update_pull_requests (\<lambda>p. pr_work_item_id p = wid \<and> pr_number p = n)
       (\<lambda>now p. p\<lparr>pr_state := st, pr_updated_at := now\<rparr>)"

definition get_pull_request_by_repo_number :: "db \<Rightarrow> string \<Rightarrow> int \<Rightarrow> pull_request_row option" where
  "get_pull_request_by_repo_number d repo_id n =
     List.find (\<lambda>p. pr_repo_id p = repo_id \<and> pr_number p = n) (pull_requests d)"

definition upsert_pull_request_from_snapshot :: "pull_request_input \<Rightarrow> pull_request_row db_tx" where
  "upsert_pull_request_from_snapshot input =
     tx_then
       (tx_bind (tx_get id) (\<lambda>d.
          let row = new_pull_request_row input (db_now d) in
          if get_pull_request_by_repo_number d (pi_repo_id input) (pi_number input) \<noteq> None
          then update_pull_requests (\<lambda>p. pr_repo_id p = pi_repo_id input \<and> pr_number p = pi_number input)
            (\<lambda>now p. p\<lparr>pr_head_sha := pr_head_sha row, pr_state := pr_state row,
               pr_snapshot_hash := pr_snapshot_hash row, pr_updated_at := now\<rparr>)
          else insert_pull_request_row row))
       (tx_bind (tx_get (\<lambda>d. get_pull_request_by_repo_number d (pi_repo_id input) (pi_number input))) (\<lambda>row.
          case row of
            None \<Rightarrow> tx_fail (TissueDbError (''PR '' @ pi_repo_id input @ ''#'' @ show_int (pi_number input) @
                      '' not found after upsert''))
          | Some p \<Rightarrow> tx_return p))"

definition list_pull_requests_by_work_item :: "db \<Rightarrow> string \<Rightarrow> pull_request_row list" where
  "list_pull_requests_by_work_item d wid =
     order_by (\<lambda>p. (pr_created_at p, pr_id p)) (filter (\<lambda>p. pr_work_item_id p = wid) (pull_requests d))"

definition list_active_pull_requests :: "db \<Rightarrow> pull_request_row list" where
  "list_active_pull_requests d = order_by (\<lambda>p. (pr_created_at p, pr_id p)) (filter active_pr (pull_requests d))"

section \<open>The constraints are kept\<close>

lemma optional_fk_ids:
  "optional_fk (\<lambda>r. get_repository_by_id d r \<noteq> None) v \<longleftrightarrow> v \<in> insert None (Some ` repository_ids d)"
  "optional_fk (\<lambda>w. get_work_item d w \<noteq> None) v \<longleftrightarrow> v \<in> insert None (Some ` work_item_ids d)"
  unfolding get_work_item_ids get_repository_by_id_None by (cases v; auto simp: optional_fk_def)+

lemma insert_session_safe [preserves_intros]: "schema_safe (insert_session input)"
proof (rule schema_safeI)
  fix d x d' assume d: "schema_ok d" and s: "insert_session input d = Inr (x, d')"
  let ?row = "new_session_row input (db_now d)"
  have c: "d' = d\<lparr>opencode_sessions := opencode_sessions d @ [?row]\<rparr>"
    "\<not> list_ex (\<lambda>s. s_id s = s_id ?row) (opencode_sessions d)"
    "active_resolution ?row \<Longrightarrow>
      \<not> list_ex (\<lambda>s. active_resolution s \<and> s_work_item_id s = s_work_item_id ?row) (opencode_sessions d)"
    "s_repo_id ?row \<in> insert None (Some ` repository_ids d)" "s_work_item_id ?row \<in> insert None (Some ` work_item_ids d)"
    using s unfolding optional_fk_ids[symmetric]
    by (auto simp: insert_session_def tx_simps tx_success Let_def dest!: assert_json_if_set_state split: if_splits)
  show "schema_ok d'"
    unfolding c(1) using c(2-)[unfolded list_ex_key] schema_okD(5)[OF d]
    by (intro set_sessions_ok d) (cases "active_resolution ?row"; simp add: sessions_ok_def)
qed

lemma update_sessions_safe [preserves_intros]:
  assumes "\<And>now s. s_id (f now s) = s_id s" "\<And>now s. s_repo_id (f now s) = s_repo_id s"
    "\<And>now s. s_work_item_id (f now s) = s_work_item_id s"
  shows "schema_safe (update_sessions p f)"
proof (rule schema_safeI)
  fix d x d' assume d: "schema_ok d" and s: "update_sessions p f d = Inr (x, d')"
  let ?t = "update_where p (f (db_now d)) (opencode_sessions d)"
  have "map s_id ?t = map s_id (opencode_sessions d)" "map s_repo_id ?t = map s_repo_id (opencode_sessions d)"
    "map s_work_item_id ?t = map s_work_item_id (opencode_sessions d)"
    using assms by (simp_all add: map_update_where)
  then have "map s_id ?t = map s_id (opencode_sessions d)" "s_repo_id ` set ?t = s_repo_id ` set (opencode_sessions d)"
    "s_work_item_id ` set ?t = s_work_item_id ` set (opencode_sessions d)"
    unfolding list.set_map[symmetric] by simp_all
  with s schema_okD(5)[OF d] show "schema_ok d'"
    by (auto simp: update_sessions_def tx_simps sessions_ok_def split: if_splits intro!: set_sessions_ok d)
qed

lemma session_ops_safe [preserves_intros]:
  "schema_safe (record_session_observation sid obs)" "schema_safe (set_session_state sid st)"
  unfolding record_session_observation_def set_session_state_def by - (intro preserves_intros; simp)+

lemma insert_worktree_safe [preserves_intros]:
  "schema_safe (insert_worktree input)" "schema_safe (insert_worktree_if_absent input)"
proof -
  have *: "schema_ok (d\<lparr>worktrees := worktrees d @ [row]\<rparr>)"
    if "schema_ok d" "worktree_conflict row (worktrees d) = None" "get_work_item d (wt_work_item_id row) \<noteq> None" for d row
    using that(2) schema_okD(6)[OF that(1)] that(3)[unfolded get_work_item_ids]
    by (intro set_worktrees_ok that(1)) (auto simp: worktrees_ok_def worktree_conflict_def list_ex_iff split: if_splits)
  show "schema_safe (insert_worktree input)" "schema_safe (insert_worktree_if_absent input)"
    using * by (auto intro!: schema_safeI simp: insert_worktree_def insert_worktree_if_absent_def tx_simps Let_def
        split: option.splits if_splits)
qed

lemma update_worktrees_safe [preserves_intros]:
  assumes "\<And>t. wt_id (f t) = wt_id t" "\<And>t. wt_path (f t) = wt_path t" "\<And>t. wt_branch (f t) = wt_branch t"
    "\<And>t. wt_work_item_id (f t) = wt_work_item_id t"
  shows "schema_safe (update_worktrees p f)"
proof (rule schema_safeI)
  fix d x d' assume d: "schema_ok d" and s: "update_worktrees p f d = Inr (x, d')"
  let ?t = "update_where p f (worktrees d)"
  have keys: "map wt_id ?t = map wt_id (worktrees d)" "map wt_path ?t = map wt_path (worktrees d)"
    "map wt_branch ?t = map wt_branch (worktrees d)" "map wt_work_item_id ?t = map wt_work_item_id (worktrees d)"
    using assms by (simp_all add: table_simps)
  from keys(4) have "wt_work_item_id ` set ?t = wt_work_item_id ` set (worktrees d)" by (metis list.set_map)
  with keys s schema_okD(6)[OF d] show "schema_ok d'"
    by (auto simp: update_worktrees_def tx_simps worktrees_ok_def split: if_splits intro!: set_worktrees_ok d)
qed

lemma set_worktree_state_safe [preserves_intros]: "schema_safe (set_worktree_state wtid st ca)"
  unfolding set_worktree_state_def by (intro preserves_intros) simp_all

lemma insert_pull_request_row_safe [preserves_intros]: "schema_safe (insert_pull_request_row row)"
proof (rule schema_safeI)
  fix d x d' assume d: "schema_ok d" and s: "insert_pull_request_row row d = Inr (x, d')"
  then have c: "pull_request_conflict row (pull_requests d) = None" "pull_request_fk d row"
    "d' = d\<lparr>pull_requests := pull_requests d @ [row]\<rparr>"
    by (auto simp: insert_pull_request_row_def tx_simps split: option.splits if_splits)
  have "pr_work_item_id row \<in> work_item_ids d" "pr_repo_id row \<in> repository_ids d"
    using c(2) unfolding pull_request_fk_def get_work_item_ids get_repository_by_id_None by auto
  with c(1)[unfolded pull_request_conflict_def list_ex_key(3), unfolded list_ex_key(1,2)] schema_okD(7)[OF d]
  have "pull_requests_ok (d\<lparr>pull_requests := pull_requests d @ [row]\<rparr>)"
    by (cases "active_pr row"; simp add: pull_requests_ok_def split: if_splits)
  then show "schema_ok d'" unfolding c(3) by (rule set_pull_requests_ok[OF d])
qed

lemma update_pull_requests_safe [preserves_intros]:
  assumes "\<And>now p. pr_id (f now p) = pr_id p" "\<And>now p. pr_repo_id (f now p) = pr_repo_id p"
    "\<And>now p. pr_number (f now p) = pr_number p" "\<And>now p. pr_work_item_id (f now p) = pr_work_item_id p"
  shows "schema_safe (update_pull_requests q f)"
proof (rule schema_safeI)
  fix d x d' assume d: "schema_ok d" and s: "update_pull_requests q f d = Inr (x, d')"
  let ?t = "update_where q (f (db_now d)) (pull_requests d)"
  have m: "map pr_id ?t = map pr_id (pull_requests d)" "map pr_repo_id ?t = map pr_repo_id (pull_requests d)"
    "map pr_work_item_id ?t = map pr_work_item_id (pull_requests d)"
    "map (\<lambda>p. (pr_repo_id p, pr_number p)) ?t = map (\<lambda>p. (pr_repo_id p, pr_number p)) (pull_requests d)"
    using assms by (simp_all add: map_update_where)
  from m(2,3) have "pr_repo_id ` set ?t = pr_repo_id ` set (pull_requests d)"
    "pr_work_item_id ` set ?t = pr_work_item_id ` set (pull_requests d)"
    unfolding list.set_map[symmetric] by simp_all
  with m s schema_okD(7)[OF d] show "schema_ok d'"
    by (auto simp: update_pull_requests_def tx_simps pull_requests_ok_def split: if_splits intro!: set_pull_requests_ok d)
qed

lemma pull_request_ops_safe [preserves_intros]:
  "schema_safe (insert_pull_request i)" "schema_safe (insert_pull_request_if_absent i)"
  "schema_safe (set_pull_request_state prid st)" "schema_safe (mark_pull_request_state wid n st)"
  "schema_safe (upsert_pull_request_from_snapshot i)"
  unfolding insert_pull_request_def insert_pull_request_if_absent_def set_pull_request_state_def
    mark_pull_request_state_def upsert_pull_request_from_snapshot_def Let_def
  by - (intro preserves_intros; simp)+

end
