(* ===== verification/Inbox.thy ===== *)
theory Inbox
  imports Artifacts
begin

text \<open>
  The inbox: an ordered, deduplicated queue of issue events (\<^verbatim>\<open>src/db/repositories.ts\<close>). An event is
  inserted once per event key, is re-parented onto a WorkItem when its issue is attached, and moves
  PENDING, DELIVERING, DELIVERED, or back to PENDING. Events of terminal, unattached issues are
  marked by housekeeping (also \<^verbatim>\<open>src/controller/housekeeping.ts\<close>, less its log lines). The AUTOINCREMENT
  counter also advances when \<^verbatim>\<open>INSERT OR IGNORE\<close> skips a row. \<open>insert_if_absent\<close> is the contract
  this insertion shares with the outbox.
\<close>

section \<open>The contract of an idempotent insertion\<close>

locale insert_if_absent =
  fixes ins :: "'i \<Rightarrow> 'r db_tx" and fresh :: "'r \<Rightarrow> bool" and key :: "'i \<Rightarrow> string"
    and keys :: "db \<Rightarrow> string list"
  assumes inserted: "ins i d = Inr (r, d') \<Longrightarrow> fresh r \<Longrightarrow> key i \<notin> set (keys d) \<and> keys d' = keys d @ [key i]"
    and skipped: "ins i d = Inr (r, d') \<Longrightarrow> \<not> fresh r \<Longrightarrow> keys d' = keys d"
    and known_skipped: "ins i d = Inr (r, d') \<Longrightarrow> key i \<in> set (keys d) \<Longrightarrow> \<not> fresh r"
begin

text \<open>A repeat of an insertion, or an insertion of the same key, adds nothing.\<close>

lemma repeat_adds_nothing:
  assumes "ins i d = Inr (r, d')" "fresh r" "ins j d' = Inr (r', d'')" "key j = key i"
  shows "\<not> fresh r' \<and> keys d'' = keys d'"
  using inserted[OF assms(1,2)] known_skipped[OF assms(3)] skipped[OF assms(3)] assms(4) by auto

primrec insert_all :: "'i list \<Rightarrow> unit db_tx" where
  "insert_all [] = tx_return ()"
| "insert_all (i # is) = tx_bind (ins i) (\<lambda>r. insert_all is)"

text \<open>A batch of insertions keeps the keys distinct and only appends keys of the batch.\<close>

lemma insert_all_keys:
  assumes "insert_all is d = Inr (u, d')"
  shows "\<exists>new. keys d' = keys d @ new \<and> set new \<subseteq> key ` set is \<and> distinct new \<and> set new \<inter> set (keys d) = {}"
  using assms
proof (induction "is" arbitrary: d)
  case Nil
  then show ?case by (simp add: tx_simps)
next
  case (Cons i "is")
  then obtain r d1 where i: "ins i d = Inr (r, d1)" and rest: "insert_all is d1 = Inr (u, d')"
    by (auto simp: tx_success)
  obtain new where n: "keys d' = keys d1 @ new" "set new \<subseteq> key ` set is" "distinct new" "set new \<inter> set (keys d1) = {}"
    using Cons.IH[OF rest] by blast
  show ?case
  proof (cases "fresh r")
    case True
    with inserted[OF i] n show ?thesis by (intro exI[of _ "key i # new"]) auto
  next
    case False
    with skipped[OF i] n show ?thesis by auto
  qed
qed

end

section \<open>Events\<close>

record inbox_input =
  bi_work_item_id :: "string option"
  bi_issue_id :: string
  bi_event_key :: string
  bi_kind :: string
  bi_payload_json :: json_text
  bi_state :: "string option"
  bi_created_at :: "timestamp option"
  bi_actor_raw_login :: "string option"

definition new_inbox_row :: "inbox_input \<Rightarrow> nat \<Rightarrow> timestamp \<Rightarrow> inbox_row" where
  "new_inbox_row input n now =
     \<lparr>ib_id = n, ib_work_item_id = bi_work_item_id input, ib_issue_id = bi_issue_id input,
      ib_event_key = bi_event_key input, ib_kind = bi_kind input, ib_payload_json = bi_payload_json input,
      ib_state = coalesce (bi_state input) ''PENDING'', ib_delivery_nonce = None,
      ib_created_at = coalesce (bi_created_at input) now, ib_delivered_at = None, ib_terminal_action = None,
      ib_terminal_reason = None, ib_retention_deadline = None, ib_housekept_at = None,
      ib_actor_raw_login = bi_actor_raw_login input\<rparr>"

definition append_inbox_row :: "inbox_input \<Rightarrow> nat db_tx" where
  "append_inbox_row input =
     tx_bind (tx_get id) (\<lambda>d.
       if get_issue_by_id d (bi_issue_id input) = None then tx_fail sqlite_foreign_key
       else let n = Suc (inbox_seq d) in
         tx_then (tx_modify (\<lambda>d. d\<lparr>inbox := inbox d @ [new_inbox_row input n (db_now d)], inbox_seq := n\<rparr>))
           (tx_return n))"

definition known_event :: "db \<Rightarrow> string \<Rightarrow> bool" where
  "known_event d ek = list_ex (\<lambda>r. ib_event_key r = ek) (inbox d)"

definition insert_inbox_event :: "inbox_input \<Rightarrow> nat db_tx" where
  "insert_inbox_event input =
     tx_then (assert_valid_json_string (bi_payload_json input) ''payload_json'')
       (tx_bind (tx_get (\<lambda>d. known_event d (bi_event_key input))) (\<lambda>dup.
         if dup then tx_fail (sqlite_unique ''inbox.event_key'') else append_inbox_row input))"

record inbox_insertion =
  in_id :: int
  in_inserted :: bool

text \<open>
  The state column is always PENDING here. The assertion is skipped for an empty payload text, which
  would then be stored as it is.
\<close>

definition insert_inbox_event_if_absent :: "inbox_input \<Rightarrow> inbox_insertion db_tx" where
  "insert_inbox_event_if_absent input =
     tx_then (assert_json_if_set (Some (bi_payload_json input)) ''payload_json'')
       (tx_bind (tx_get id) (\<lambda>d.
         if known_event d (bi_event_key input)
         then tx_then (tx_modify (\<lambda>d. d\<lparr>inbox_seq := Suc (inbox_seq d)\<rparr>))
           (tx_return \<lparr>in_id = (case List.find (\<lambda>r. ib_event_key r = bi_event_key input) (inbox d) of
                None \<Rightarrow> -1 | Some r \<Rightarrow> int (ib_id r)), in_inserted = False\<rparr>)
         else tx_bind (append_inbox_row (input\<lparr>bi_state := None\<rparr>)) (\<lambda>n.
           tx_return \<lparr>in_id = int n, in_inserted = True\<rparr>)))"

definition list_inbox_by_work_item :: "db \<Rightarrow> string \<Rightarrow> inbox_row list" where
  "list_inbox_by_work_item d wid = order_by ib_id (filter (\<lambda>r. ib_work_item_id r = Some wid) (inbox d))"

definition list_null_work_item_inbox_by_issue :: "db \<Rightarrow> string \<Rightarrow> inbox_row list" where
  "list_null_work_item_inbox_by_issue d iid =
     order_by ib_id (filter (\<lambda>r. ib_issue_id r = iid \<and> ib_work_item_id r = None) (inbox d))"

definition list_pending_inbox_by_work_item :: "db \<Rightarrow> string \<Rightarrow> inbox_row list" where
  "list_pending_inbox_by_work_item d wid =
     order_by ib_id (filter (\<lambda>r. ib_work_item_id r = Some wid \<and> ib_state r = ''PENDING'') (inbox d))"

definition list_delivering_inbox_by_work_item :: "db \<Rightarrow> string \<Rightarrow> inbox_row list" where
  "list_delivering_inbox_by_work_item d wid =
     order_by ib_id (filter (\<lambda>r. ib_work_item_id r = Some wid \<and> ib_state r = ''DELIVERING'') (inbox d))"

definition get_inbox_by_id :: "db \<Rightarrow> nat \<Rightarrow> inbox_row option" where
  "get_inbox_by_id d n = List.find (\<lambda>r. ib_id r = n) (inbox d)"

definition count_inbox_by_state :: "db \<Rightarrow> (string \<times> nat) list" where
  "count_inbox_by_state d =
     map (\<lambda>st. (st, count_where (\<lambda>r. ib_state r = st) (inbox d))) (remdups (map ib_state (inbox d)))"

text \<open>An UPDATE of the inbox returns the number of rows it changed.\<close>

definition update_inbox :: "(inbox_row \<Rightarrow> bool) \<Rightarrow> (inbox_row \<Rightarrow> inbox_row) \<Rightarrow> nat db_tx" where
  "update_inbox p f =
     tx_bind (tx_get (\<lambda>d. count_where p (inbox d))) (\<lambda>n.
       tx_then (tx_modify (\<lambda>d. d\<lparr>inbox := update_where p f (inbox d)\<rparr>)) (tx_return n))"

definition reparent_inbox_by_issue :: "string \<Rightarrow> string \<Rightarrow> nat db_tx" where
  "reparent_inbox_by_issue iid wid =
     update_inbox (\<lambda>r. ib_issue_id r = iid \<and> ib_work_item_id r = None \<and> ib_terminal_action r = None)
       (\<lambda>r. r\<lparr>ib_work_item_id := Some wid\<rparr>)"

definition update_inbox_ids :: "nat list \<Rightarrow> string \<Rightarrow> (inbox_row \<Rightarrow> inbox_row) \<Rightarrow> nat db_tx" where
  "update_inbox_ids ids st f =
     tx_fold (\<lambda>n changed. tx_bind (update_inbox (\<lambda>r. ib_id r = n \<and> ib_state r = st) f)
         (\<lambda>k. tx_return (changed + k))) ids 0"

definition mark_inbox_delivering :: "nat list \<Rightarrow> string \<Rightarrow> nat db_tx" where
  "mark_inbox_delivering ids nonce =
     update_inbox_ids ids ''PENDING'' (\<lambda>r. r\<lparr>ib_state := ''DELIVERING'', ib_delivery_nonce := Some nonce\<rparr>)"

definition mark_inbox_delivered :: "nat list \<Rightarrow> timestamp \<Rightarrow> nat db_tx" where
  "mark_inbox_delivered ids at =
     update_inbox_ids ids ''DELIVERING'' (\<lambda>r. r\<lparr>ib_state := ''DELIVERED'', ib_delivered_at := Some at\<rparr>)"

definition recycle_inbox_to_pending :: "nat list \<Rightarrow> nat db_tx" where
  "recycle_inbox_to_pending ids =
     update_inbox_ids ids ''DELIVERING'' (\<lambda>r. r\<lparr>ib_state := ''PENDING'', ib_delivery_nonce := None\<rparr>)"

section \<open>Housekeeping of terminal, unattached issues\<close>

definition TERMINAL_UNATTACHED_ISSUE_STATES :: "string list" where
  "TERMINAL_UNATTACHED_ISSUE_STATES = [''REJECTED'', ''DUPLICATE'', ''BASELINE_EXCLUDED'']"

text \<open>\<^verbatim>\<open>addDaysIso\<close>; \<^verbatim>\<open>new Date(NaN).toISOString()\<close> throws.\<close>

definition add_days_iso :: "timestamp \<Rightarrow> nat \<Rightarrow> timestamp option" where
  "add_days_iso at days =
     (case date_parse at of None \<Rightarrow> None | Some t \<Rightarrow> Some (to_iso (t + days * ms_per_day)))"

record housekeeping_result =
  hk_checked :: nat
  hk_terminal_marked :: nat
  hk_pruned :: nat
  hk_issue_ids :: "string list"
  hk_at :: timestamp

definition housekeeping_candidate :: "db \<Rightarrow> inbox_row \<Rightarrow> bool" where
  "housekeeping_candidate d r \<longleftrightarrow> ib_work_item_id r = None \<and> ib_terminal_action r = None \<and>
     (case get_issue_by_id d (ib_issue_id r) of
        None \<Rightarrow> False | Some i \<Rightarrow> List.member TERMINAL_UNATTACHED_ISSUE_STATES (i_state i))"

definition housekeeping_reason :: "issue_row option \<Rightarrow> string" where
  "housekeeping_reason i =
     (case i of
        Some row \<Rightarrow> ''issue terminal ('' @ i_state row @ ''), no future attachment path''
      | None \<Rightarrow> ''issue terminal, no future attachment path'')"

definition mark_terminal_row :: "string \<Rightarrow> timestamp \<Rightarrow> timestamp \<Rightarrow> inbox_row \<Rightarrow> inbox_row" where
  "mark_terminal_row reason deadline at r = r\<lparr>ib_state := ''TERMINAL'',
     ib_terminal_action := Some ''terminal_marked'', ib_terminal_reason := Some reason,
     ib_retention_deadline := Some deadline, ib_housekept_at := Some at\<rparr>"

definition housekeep_one :: "timestamp \<Rightarrow> timestamp \<Rightarrow> inbox_row \<Rightarrow> string list \<times> nat \<Rightarrow> (string list \<times> nat) db_tx" where
  "housekeep_one deadline at c acc =
     tx_bind (tx_get (\<lambda>d. housekeeping_reason (get_issue_by_id d (ib_issue_id c)))) (\<lambda>reason.
     tx_bind (update_inbox (\<lambda>r. ib_id r = ib_id c \<and> ib_terminal_action r = None)
         (mark_terminal_row reason deadline at)) (\<lambda>n.
     tx_then (append_transition Inbox (show_nat (ib_id c)) (Some ''PENDING'') ''TERMINAL''
         ''terminal_unattached_housekeeping''
         (Some (Text (JObj [(''issue_id'', JStr (ib_issue_id c)), (''action'', JStr ''terminal_marked''),
            (''retention_deadline'', JStr deadline)])))
         ''controller.housekeeping'' None)
       (tx_return (if List.member (fst acc) (ib_issue_id c) then fst acc else fst acc @ [ib_issue_id c],
          Suc (snd acc)))))"

definition housekeep_terminal_unattached_inbox :: "timestamp \<Rightarrow> housekeeping_result db_act" where
  "housekeep_terminal_unattached_inbox at =
     act_bind (act_get (\<lambda>d. add_days_iso at (retention_days d))) (\<lambda>deadline.
       case deadline of
         None \<Rightarrow> act_fail (JsError ''Invalid time value'')
       | Some dl \<Rightarrow> run_write
           (tx_bind (tx_get (\<lambda>d. filter (housekeeping_candidate d) (inbox d))) (\<lambda>candidates.
            tx_bind (tx_fold (housekeep_one dl at) candidates ([], 0)) (\<lambda>acc.
            tx_return \<lparr>hk_checked = length candidates, hk_terminal_marked = snd acc, hk_pruned = 0,
              hk_issue_ids = fst acc, hk_at = at\<rparr>))))"

record housekeeping_counters =
  hc_terminal_marked :: nat
  hc_pruned :: nat
  hc_last_at :: "timestamp option"

definition housekeeping_counters_of :: "db \<Rightarrow> housekeeping_counters" where
  "housekeeping_counters_of d =
     \<lparr>hc_terminal_marked = count_where (\<lambda>r. ib_terminal_action r = Some ''terminal_marked'') (inbox d),
      hc_pruned = count_where (\<lambda>r. ib_terminal_action r = Some ''pruned'') (inbox d),
      hc_last_at = (let ats = map t_at (filter (\<lambda>r. t_event r = ''terminal_unattached_housekeeping'') (state_transitions d))
        in if ats = [] then None else Some (foldl max (hd ats) (tl ats)))\<rparr>"

record housekeeping_action =
  ha_at :: timestamp
  ha_entity_id :: string
  ha_issue_id :: "string option"
  ha_action :: "string option"
  ha_retention_deadline :: "timestamp option"

definition reason_string :: "json_text option \<Rightarrow> string \<Rightarrow> string option" where
  "reason_string reason k =
     (case Option.bind (Option.bind reason json_parse) (\<lambda>j. json_field j k) of
        Some (JStr s) \<Rightarrow> Some s | _ \<Rightarrow> None)"

definition list_housekeeping_actions :: "db \<Rightarrow> nat \<Rightarrow> housekeeping_action list" where
  "list_housekeeping_actions d limit =
     map (\<lambda>r. \<lparr>ha_at = t_at r, ha_entity_id = t_entity_id r, ha_issue_id = reason_string (t_reason_json r) ''issue_id'',
        ha_action = reason_string (t_reason_json r) ''action'',
        ha_retention_deadline = reason_string (t_reason_json r) ''retention_deadline''\<rparr>)
       (take limit (rev (filter (\<lambda>r. t_event r = ''terminal_unattached_housekeeping'') (state_transitions d))))"

definition run_terminal_unattached_housekeeping ::
  "timestamp \<Rightarrow> (housekeeping_result \<times> housekeeping_counters \<times> housekeeping_action option) db_act" where
  "run_terminal_unattached_housekeeping now =
     act_bind (housekeep_terminal_unattached_inbox now) (\<lambda>result.
       act_get (\<lambda>d. (result, housekeeping_counters_of d,
         case list_housekeeping_actions d 1 of [] \<Rightarrow> None | a # _ \<Rightarrow> Some a)))"

definition housekeeping_observability :: "db \<Rightarrow> housekeeping_counters \<times> housekeeping_action option" where
  "housekeeping_observability d =
     (housekeeping_counters_of d, case list_housekeeping_actions d 1 of [] \<Rightarrow> None | a # _ \<Rightarrow> Some a)"


section \<open>The constraints are kept, and insertion is idempotent\<close>

lemma append_inbox_row_success:
  "append_inbox_row input d = Inr (n, d') \<longleftrightarrow>
     n = Suc (inbox_seq d) \<and> bi_issue_id input \<in> issue_ids d \<and>
     d' = d\<lparr>inbox := inbox d @ [new_inbox_row input n (db_now d)], inbox_seq := n\<rparr>"
  unfolding get_issue_ids[symmetric] by (auto simp: append_inbox_row_def tx_simps Let_def split: if_splits)

lemma append_inbox_ok:
  assumes "schema_ok d" "\<not> known_event d (bi_event_key input)" "append_inbox_row input d = Inr (n, d')"
  shows "schema_ok d'"
  using assms(2,3) schema_okD(8)[OF assms(1)] unfolding append_inbox_row_success known_event_def list_ex_key
  by (auto intro!: set_inbox_ok assms(1) simp: inbox_ok_def new_inbox_row_def sorted_wrt_append less_Suc_eq_le
      le_Suc_eq)

lemma insert_inbox_event_safe [preserves_intros]: "schema_safe (insert_inbox_event input)"
  by (auto intro!: schema_safeI simp: insert_inbox_event_def tx_success tx_simps
      dest!: assert_valid_json_state intro: append_inbox_ok split: if_splits)

lemma insert_inbox_event_if_absent_success:
  assumes "insert_inbox_event_if_absent input d = Inr (r, d')"
  shows "if known_event d (bi_event_key input)
    then \<not> in_inserted r \<and> d' = d\<lparr>inbox_seq := Suc (inbox_seq d)\<rparr>
    else in_inserted r \<and> bi_issue_id input \<in> issue_ids d \<and>
      d' = d\<lparr>inbox := inbox d @ [new_inbox_row (input\<lparr>bi_state := None\<rparr>) (Suc (inbox_seq d)) (db_now d)],
        inbox_seq := Suc (inbox_seq d)\<rparr>"
  using assms by (auto simp: insert_inbox_event_if_absent_def tx_success tx_simps append_inbox_row_success
      dest!: assert_json_if_set_state split: if_splits)

lemma insert_inbox_event_if_absent_safe [preserves_intros]: "schema_safe (insert_inbox_event_if_absent input)"
proof (rule schema_safeI)
  fix d r d' assume d: "schema_ok d" and s: "insert_inbox_event_if_absent input d = Inr (r, d')"
  show "schema_ok d'"
  proof (cases "known_event d (bi_event_key input)")
    case True
    then have "d' = d\<lparr>inbox := inbox d, inbox_seq := Suc (inbox_seq d)\<rparr>"
      using insert_inbox_event_if_absent_success[OF s] by simp
    then show ?thesis
      using schema_okD(8)[OF d] by (simp only:) (rule set_inbox_ok(1)[OF d], auto simp: inbox_ok_def)
  next
    case False
    with s obtain n where "append_inbox_row (input\<lparr>bi_state := None\<rparr>) d = Inr (n, d')"
      by (auto simp: insert_inbox_event_if_absent_def tx_success tx_simps dest!: assert_json_if_set_state)
    with False show ?thesis by (intro append_inbox_ok[OF d]) auto
  qed
qed

interpretation inbox_events: insert_if_absent insert_inbox_event_if_absent in_inserted bi_event_key
  "\<lambda>d. map ib_event_key (inbox d)"
proof
  fix i d r d'
  assume "insert_inbox_event_if_absent i d = Inr (r, d')"
  note s = insert_inbox_event_if_absent_success[OF this]
  show "in_inserted r \<Longrightarrow> bi_event_key i \<notin> set (map ib_event_key (inbox d)) \<and>
      map ib_event_key (inbox d') = map ib_event_key (inbox d) @ [bi_event_key i]"
    and "\<not> in_inserted r \<Longrightarrow> map ib_event_key (inbox d') = map ib_event_key (inbox d)"
    and "bi_event_key i \<in> set (map ib_event_key (inbox d)) \<Longrightarrow> \<not> in_inserted r"
    using s by (auto simp: known_event_def list_ex_key new_inbox_row_def split: if_splits)
qed

lemma update_inbox_success:
  "update_inbox p f d = Inr (n, d') \<longleftrightarrow>
     n = count_where p (inbox d) \<and> d' = d\<lparr>inbox := update_where p f (inbox d)\<rparr>"
  by (auto simp: update_inbox_def tx_simps)

lemma update_inbox_safe [preserves_intros]:
  assumes "\<And>r. ib_id (f r) = ib_id r" "\<And>r. ib_event_key (f r) = ib_event_key r"
    "\<And>r. ib_issue_id (f r) = ib_issue_id r"
  shows "schema_safe (update_inbox p f)"
proof (rule schema_safeI)
  fix d n d' assume d: "schema_ok d" and s: "update_inbox p f d = Inr (n, d')"
  let ?t = "update_where p f (inbox d)"
  have m: "map ib_event_key ?t = map ib_event_key (inbox d)" "map ib_id ?t = map ib_id (inbox d)"
    "map ib_issue_id ?t = map ib_issue_id (inbox d)" using assms by (simp_all add: map_update_where)
  from m(2,3) have i: "ib_issue_id ` set ?t = ib_issue_id ` set (inbox d)" and n: "ib_id ` set ?t = ib_id ` set (inbox d)"
    unfolding list.set_map[symmetric] by simp_all
  have "\<forall>k \<in> ib_id ` set ?t. k \<le> inbox_seq d"
    unfolding n using schema_okD(8)[OF d] by (simp add: inbox_ok_def)
  then have "\<forall>r \<in> set ?t. ib_id r \<le> inbox_seq d" by simp
  moreover have "ib_issue_id ` set ?t \<subseteq> issue_ids d"
    unfolding i using schema_okD(8)[OF d] by (simp add: inbox_ok_def)
  ultimately show "schema_ok d'"
    using m s schema_okD(8)[OF d]
    by (auto simp: update_inbox_success inbox_ok_def intro!: set_inbox_ok(2) d)
qed

lemma update_inbox_ids_safe [preserves_intros]:
  assumes "\<And>r. ib_id (f r) = ib_id r" "\<And>r. ib_event_key (f r) = ib_event_key r"
    "\<And>r. ib_issue_id (f r) = ib_issue_id r"
  shows "schema_safe (update_inbox_ids ids st f)"
  unfolding update_inbox_ids_def
  by (rule keeping.rel_fold, rule keeping.rel_bind[OF update_inbox_safe[OF assms] keeping.rel_return])

lemma inbox_ops_safe [preserves_intros]:
  "schema_safe (reparent_inbox_by_issue iid wid)" "schema_safe (mark_inbox_delivering ids nonce)"
  "schema_safe (mark_inbox_delivered ids at)" "schema_safe (recycle_inbox_to_pending ids)"
  "schema_safe (housekeep_one dl at c acc)"
  unfolding reparent_inbox_by_issue_def mark_inbox_delivering_def mark_inbox_delivered_def
    recycle_inbox_to_pending_def housekeep_one_def
  by - (intro preserves_intros; simp add: mark_terminal_row_def)+

text \<open>The closed form of an update by a list of ids that takes the rows out of the state \<open>st\<close>.\<close>

lemma update_inbox_ids_success:
  assumes "update_inbox_ids ids st f d = Inr (n, d')" "\<And>r. ib_id (f r) = ib_id r" "\<And>r. ib_state (f r) \<noteq> st"
  shows "d' = d\<lparr>inbox := update_where (\<lambda>r. ib_id r \<in> set ids \<and> ib_state r = st) f (inbox d)\<rparr>"
proof -
  have "d' = d\<lparr>inbox := update_where (\<lambda>r. ib_id r \<in> set ids \<and> ib_state r = st) f (inbox d)\<rparr>"
    if "tx_fold (\<lambda>n changed. tx_bind (update_inbox (\<lambda>r. ib_id r = n \<and> ib_state r = st) f)
         (\<lambda>k. tx_return (changed + k))) ids k d = Inr (n, d')" for k n
    using that
  proof (induction ids arbitrary: d k)
    case Nil
    then show ?case by (simp add: tx_simps update_where_none)
  next
    case (Cons i ids)
    let ?d1 = "d\<lparr>inbox := update_where (\<lambda>r. ib_id r = i \<and> ib_state r = st) f (inbox d)\<rparr>"
    have step: "update_inbox (\<lambda>r. ib_id r = i \<and> ib_state r = st) f d =
        Inr (count_where (\<lambda>r. ib_id r = i \<and> ib_state r = st) (inbox d), ?d1)"
      by (simp add: update_inbox_success)
    have "d' = ?d1\<lparr>inbox := update_where (\<lambda>r. ib_id r \<in> set ids \<and> ib_state r = st) f (inbox ?d1)\<rparr>"
      using Cons.prems by (simp only: tx_fold.simps tx_bind_def[of _ _ d] step sum.case prod.case tx_return_eq[of _ ?d1]) (rule Cons.IH)
    moreover have "update_where (\<lambda>r. ib_id r \<in> set ids \<and> ib_state r = st) f
        (update_where (\<lambda>r. ib_id r = i \<and> ib_state r = st) f (inbox d)) =
      update_where (\<lambda>r. ib_id r \<in> set (i # ids) \<and> ib_state r = st) f (inbox d)"
      using assms(2,3) by (auto simp: update_where_def)
    ultimately show ?case by simp
  qed
  with assms(1) show ?thesis unfolding update_inbox_ids_def by blast
qed


lemma inbox_ops_grow [grows_intros]:
  "tx_rel grows (insert_inbox_event input)" "tx_rel grows (insert_inbox_event_if_absent input)"
  "tx_rel grows (update_inbox p f)"
proof -
  have a: "grows d d'" if "append_inbox_row input d = Inr (n, d')" for d d' input n
    using that by (auto simp: append_inbox_row_success grows_def)
  show "tx_rel grows (insert_inbox_event input)"
    by (auto intro!: tx_relI simp: insert_inbox_event_def tx_success tx_simps dest!: assert_valid_json_state
        intro: a split: if_splits)
  show "tx_rel grows (insert_inbox_event_if_absent input)"
    by (rule tx_relI, drule insert_inbox_event_if_absent_success) (auto simp: grows_def split: if_splits)
  show "tx_rel grows (update_inbox p f)" by (auto intro!: tx_relI simp: update_inbox_success grows_def)
qed

section \<open>Housekeeping\<close>

lemma housekeep_one_success:
  assumes "housekeep_one dl at c acc d = Inr (acc1, d1)"
  shows "inbox d1 = update_where (\<lambda>r. ib_id r = ib_id c \<and> ib_terminal_action r = None)
      (mark_terminal_row (housekeeping_reason (get_issue_by_id d (ib_issue_id c))) dl at) (inbox d)"
    and "length (state_transitions d1) = Suc (length (state_transitions d))"
    and "issues d1 = issues d" and "db_now d1 = db_now d" and "snd acc1 = Suc (snd acc)"
  using assms unfolding housekeep_one_def tx_bind_get_eq tx_bind_success tx_then_success update_inbox_success
    append_transition_Some_Text tx_return_eq
  by - (elim exE conjE, simp only: sum.inject prod.inject, elim conjE, hypsubst, simp)+

lemma housekeep_fold:
  assumes "tx_fold (housekeep_one dl at) cs acc d = Inr (acc', d')"
    and "distinct (map ib_id cs)"
  shows "length (state_transitions d') = length (state_transitions d) + length cs"
    and "snd acc' = snd acc + length cs"
    and "issues d' = issues d" "db_now d' = db_now d" "map ib_id (inbox d') = map ib_id (inbox d)"
    and "map ib_work_item_id (inbox d') = map ib_work_item_id (inbox d)"
    and "map ib_issue_id (inbox d') = map ib_issue_id (inbox d)"
    and "r' \<in> set (inbox d') \<Longrightarrow> ib_id r' \<in> ib_id ` set cs \<Longrightarrow> ib_terminal_action r' \<noteq> None"
    and "r' \<in> set (inbox d') \<Longrightarrow> ib_id r' \<notin> ib_id ` set cs \<Longrightarrow> r' \<in> set (inbox d)"
    and "r' \<in> set (inbox d) \<Longrightarrow> ib_id r' \<notin> ib_id ` set cs \<Longrightarrow> r' \<in> set (inbox d')"
proof -
  have "length (state_transitions d') = length (state_transitions d) + length cs \<and>
    snd acc' = snd acc + length cs \<and> issues d' = issues d \<and> db_now d' = db_now d \<and>
    map ib_id (inbox d') = map ib_id (inbox d) \<and>
    map ib_work_item_id (inbox d') = map ib_work_item_id (inbox d) \<and>
    map ib_issue_id (inbox d') = map ib_issue_id (inbox d) \<and>
    (\<forall>r' \<in> set (inbox d'). if ib_id r' \<in> ib_id ` set cs then ib_terminal_action r' \<noteq> None
       else r' \<in> set (inbox d)) \<and>
    (\<forall>r' \<in> set (inbox d). ib_id r' \<notin> ib_id ` set cs \<longrightarrow> r' \<in> set (inbox d'))"
    using assms
  proof (induction cs arbitrary: acc d)
    case Nil
    then show ?case by (simp add: tx_simps)
  next
    case (Cons c cs)
    let ?reason = "housekeeping_reason (get_issue_by_id d (ib_issue_id c))"
    let ?u = "update_where (\<lambda>r. ib_id r = ib_id c \<and> ib_terminal_action r = None) (mark_terminal_row ?reason dl at) (inbox d)"
    from Cons.prems(1) obtain acc1 d1 where step: "housekeep_one dl at c acc d = Inr (acc1, d1)"
      and rest: "tx_fold (housekeep_one dl at) cs acc1 d1 = Inr (acc', d')" by (auto simp: tx_success)
    have s1: "inbox d1 = ?u" "length (state_transitions d1) = Suc (length (state_transitions d))"
      "issues d1 = issues d" "db_now d1 = db_now d" "snd acc1 = Suc (snd acc)"
      using housekeep_one_success[OF step] by simp_all
    have m: "map ib_id ?u = map ib_id (inbox d)" "map ib_work_item_id ?u = map ib_work_item_id (inbox d)"
      "map ib_issue_id ?u = map ib_issue_id (inbox d)"
      by (simp_all add: map_update_where mark_terminal_row_def)
    have marked: "ib_terminal_action r \<noteq> None" if "r \<in> set ?u" "ib_id r = ib_id c" for r
      using that by (auto simp: set_update_where mark_terminal_row_def split: if_splits)
    have other: "r \<in> set (inbox d)" if "r \<in> set ?u" "ib_id r \<noteq> ib_id c" for r
      using that by (auto simp: set_update_where mark_terminal_row_def split: if_splits)
    have kept: "r \<in> set ?u" if "r \<in> set (inbox d)" "ib_id r \<noteq> ib_id c" for r
      using that by (auto simp: set_update_where image_iff)
    have dist: "distinct (map ib_id cs)" "ib_id c \<notin> ib_id ` set cs" using Cons.prems(2) by auto
    note ih = Cons.IH[OF rest dist(1)]
    have "if ib_id r' \<in> ib_id ` set (c # cs) then ib_terminal_action r' \<noteq> None else r' \<in> set (inbox d)"
      if r': "r' \<in> set (inbox d')" for r'
    proof (cases "ib_id r' \<in> ib_id ` set cs")
      case True
      have "\<forall>r' \<in> set (inbox d'). if ib_id r' \<in> ib_id ` set cs then ib_terminal_action r' \<noteq> None
          else r' \<in> set (inbox d1)" using ih by (elim conjE)
      with r' True have "ib_terminal_action r' \<noteq> None" by (auto dest: bspec)
      with True show ?thesis by simp
    next
      case False
      have "\<forall>r' \<in> set (inbox d'). if ib_id r' \<in> ib_id ` set cs then ib_terminal_action r' \<noteq> None
          else r' \<in> set (inbox d1)" using ih by (elim conjE)
      with r' False have u: "r' \<in> set ?u" unfolding s1(1) by (auto dest: bspec)
      show ?thesis
      proof (cases "ib_id r' = ib_id c")
        case True
        with marked[OF u] show ?thesis by simp
      next
        case ne: False
        with False other[OF u] show ?thesis by simp
      qed
    qed
    moreover have "r' \<in> set (inbox d')" if "r' \<in> set (inbox d)" "ib_id r' \<notin> ib_id ` set (c # cs)" for r'
    proof -
      have "\<forall>r' \<in> set (inbox d1). ib_id r' \<notin> ib_id ` set cs \<longrightarrow> r' \<in> set (inbox d')" using ih by (elim conjE)
      moreover have "r' \<in> set (inbox d1)" unfolding s1(1) using kept that by simp
      ultimately show ?thesis using that(2) by simp
    qed
    moreover have ih7: "length (state_transitions d') = length (state_transitions d1) + length cs"
      "snd acc' = snd acc1 + length cs" "issues d' = issues d1" "db_now d' = db_now d1"
      "map ib_id (inbox d') = map ib_id (inbox d1)" "map ib_work_item_id (inbox d') = map ib_work_item_id (inbox d1)"
      "map ib_issue_id (inbox d') = map ib_issue_id (inbox d1)"
      by (insert ih) (elim conjE, assumption)+
    moreover have "length (state_transitions d') = length (state_transitions d) + length (c # cs)"
      "snd acc' = snd acc + length (c # cs)" "issues d' = issues d" "db_now d' = db_now d"
      "map ib_id (inbox d') = map ib_id (inbox d)" "map ib_work_item_id (inbox d') = map ib_work_item_id (inbox d)"
      "map ib_issue_id (inbox d') = map ib_issue_id (inbox d)"
      using s1(2-) ih7(1-4) ih7(5-)[unfolded s1(1) m] by simp_all
    ultimately show ?case by blast
  qed
  note all = this
  show "length (state_transitions d') = length (state_transitions d) + length cs"
    "snd acc' = snd acc + length cs" "issues d' = issues d" "db_now d' = db_now d"
    "map ib_id (inbox d') = map ib_id (inbox d)" "map ib_work_item_id (inbox d') = map ib_work_item_id (inbox d)"
    "map ib_issue_id (inbox d') = map ib_issue_id (inbox d)"
    by (insert all) (elim conjE, assumption)+
  have r: "\<forall>r' \<in> set (inbox d'). if ib_id r' \<in> ib_id ` set cs then ib_terminal_action r' \<noteq> None
      else r' \<in> set (inbox d)" using all by (elim conjE)
  from r show "r' \<in> set (inbox d') \<Longrightarrow> ib_id r' \<in> ib_id ` set cs \<Longrightarrow> ib_terminal_action r' \<noteq> None"
    by (metis (full_types))
  from r show "r' \<in> set (inbox d') \<Longrightarrow> ib_id r' \<notin> ib_id ` set cs \<Longrightarrow> r' \<in> set (inbox d)"
    by (metis (full_types))
  show "r' \<in> set (inbox d) \<Longrightarrow> ib_id r' \<notin> ib_id ` set cs \<Longrightarrow> r' \<in> set (inbox d')"
    using all by (elim conjE) blast
qed


lemma inbox_ids_inj:
  assumes "schema_ok d" "r \<in> set (inbox d)" "r' \<in> set (inbox d)" "ib_id r = ib_id r'"
  shows "r = r'"
proof -
  have "distinct (map ib_id (inbox d))"
    using schema_okD(8)[OF assms(1)] by (simp add: inbox_ok_def strict_sorted_iff)
  then show ?thesis using assms(2-) by (auto simp: distinct_map inj_on_def)
qed

lemma housekeep_none:
  assumes "\<And>r. r \<in> set (inbox d) \<Longrightarrow> \<not> housekeeping_candidate d r" "add_days_iso at (retention_days d) \<noteq> None"
  shows "housekeep_terminal_unattached_inbox at d =
    (Inr \<lparr>hk_checked = 0, hk_terminal_marked = 0, hk_pruned = 0, hk_issue_ids = [], hk_at = at\<rparr>, d)"
proof -
  have "filter (housekeeping_candidate d) (inbox d) = []" using assms(1) by (simp add: filter_empty_conv)
  with assms(2) show ?thesis
    by (auto simp: housekeep_terminal_unattached_inbox_def tx_simps run_write_def)
qed

section \<open>Properties\<close>

definition example_event :: "string \<Rightarrow> inbox_input" where
  "example_event k = \<lparr>bi_work_item_id = None, bi_issue_id = ''i1'', bi_event_key = k, bi_kind = ''comment'',
     bi_payload_json = Text (JObj []), bi_state = None, bi_created_at = None, bi_actor_raw_login = None\<rparr>"

definition example_issue :: "string \<Rightarrow> issue_input" where
  "example_issue st = \<lparr>ii_id = ''i1'', ii_repo_id = ''acme/tool'', ii_number = 1, ii_title = ''t'', ii_body_json = None,
     ii_state = st, ii_snapshot_hash = None, ii_first_seen_at = None, ii_updated_at = ''2026-01-01T00:00:00.000Z'',
     ii_disposition_json = None, ii_blocked_by = None, ii_actor_raw_login = Some ''octocat''\<rparr>"

text \<open>An issue in the given state with two events, not attached to a WorkItem.\<close>

definition example_issue_db :: "string \<Rightarrow> db" where
  "example_issue_db st = snd (run_write
     (tx_bind (insert_issue (example_issue st)) (\<lambda>i.
      tx_foreach (\<lambda>k. tx_bind (insert_inbox_event_if_absent (example_event k)) (\<lambda>r. tx_return ())) [''e1'', ''e2'']))
     example_db)"

lemma housekeeping_pass:
  assumes "schema_ok d" and "housekeep_terminal_unattached_inbox at d = (Inr res, d')"
  shows "hk_terminal_marked res = count_where (housekeeping_candidate d) (inbox d)"
    and "length (state_transitions d') = length (state_transitions d) + hk_terminal_marked res"
    and "r \<in> set (inbox d) \<Longrightarrow> \<not> housekeeping_candidate d r \<Longrightarrow> r \<in> set (inbox d')"
    and "housekeep_terminal_unattached_inbox at d' =
      (Inr \<lparr>hk_checked = 0, hk_terminal_marked = 0, hk_pruned = 0, hk_issue_ids = [], hk_at = at\<rparr>, d')"
proof -
  let ?cs = "filter (housekeeping_candidate d) (inbox d)"
  obtain dl acc where dl: "add_days_iso at (retention_days d) = Some dl"
    and f: "tx_fold (housekeep_one dl at) ?cs ([], 0) d = Inr (acc, d')"
    and res: "hk_terminal_marked res = snd acc"
    using assms(2) by (auto simp: housekeep_terminal_unattached_inbox_def tx_simps run_write_def tx_success tx_bind_def
        split: option.splits sum.splits)
  have "distinct (map ib_id (inbox d))"
    using schema_okD(8)[OF assms(1)] by (simp add: inbox_ok_def strict_sorted_iff)
  then have "distinct (map ib_id ?cs)" by (simp add: distinct_map_filter)
  note fold = housekeep_fold[OF f this]
  show marked: "hk_terminal_marked res = count_where (housekeeping_candidate d) (inbox d)"
    using fold(2) res by (simp add: count_where_def)
  show "length (state_transitions d') = length (state_transitions d) + hk_terminal_marked res"
    using fold(1) marked by (simp add: count_where_def)
  have ids: "ib_id r \<in> ib_id ` set ?cs \<longleftrightarrow> housekeeping_candidate d r" if "r \<in> set (inbox d)" for r
    using that inbox_ids_inj[OF assms(1)] by (force simp: image_iff)
  show "r \<in> set (inbox d) \<Longrightarrow> \<not> housekeeping_candidate d r \<Longrightarrow> r \<in> set (inbox d')"
    using fold(10) ids by blast
  have "\<not> housekeeping_candidate d' r" if "r \<in> set (inbox d')" for r
  proof (cases "ib_id r \<in> ib_id ` set ?cs")
    case True
    then show ?thesis using fold(8)[OF that] by (auto simp: housekeeping_candidate_def)
  next
    case False
    then have "r \<in> set (inbox d)" "\<not> housekeeping_candidate d r" using fold(9)[OF that] ids by auto
    then show ?thesis using fold(3) by (simp add: housekeeping_candidate_def get_issue_by_id_def)
  qed
  moreover have "retention_days d' = retention_days d"
  proof -
    have "tx_rel grows (tx_fold (housekeep_one dl at) ?cs ([], 0))"
      unfolding housekeep_one_def by (intro grows_intros)
    from tx_relD[OF this f] show ?thesis by (simp add: grows_def)
  qed
  ultimately show "housekeep_terminal_unattached_inbox at d' =
      (Inr \<lparr>hk_checked = 0, hk_terminal_marked = 0, hk_pruned = 0, hk_issue_ids = [], hk_at = at\<rparr>, d')"
    using dl by (intro housekeep_none) auto
qed



text \<open>
  An event key enters the inbox once: after an event was inserted, any insertion of an event with
  the same key is reported as not inserted and leaves the rows of the inbox as they are.
\<close>
theorem inbox_insertion_idempotent:
  assumes "insert_inbox_event_if_absent input d = Inr (r, d')" "in_inserted r"
    and "insert_inbox_event_if_absent again d' = Inr (r', d'')" "bi_event_key again = bi_event_key input"
  shows "\<not> in_inserted r' \<and> inbox d'' = inbox d' \<and> length (inbox d') = Suc (length (inbox d))"
proof -
  have "\<not> in_inserted r'" using inbox_events.repeat_adds_nothing[OF assms] by blast
  with insert_inbox_event_if_absent_success[OF assms(3)] insert_inbox_event_if_absent_success[OF assms(1)] assms(2)
  show ?thesis by (auto split: if_splits)
qed

theorem inbox_insertion_idempotent_witness:
  "\<exists>r d' r' d''. insert_inbox_event_if_absent (example_event ''e3'') (example_issue_db ''NEW'') = Inr (r, d') \<and>
     insert_inbox_event_if_absent ((example_event ''e3'')\<lparr>bi_kind := ''label''\<rparr>) d' = Inr (r', d'') \<and> \<not> in_inserted r'"
proof -
  let ?d = "example_issue_db ''NEW''"
  let ?one = "insert_inbox_event_if_absent (example_event ''e3'') ?d"
  have "case ?one of Inl e \<Rightarrow> False | Inr (r, d') \<Rightarrow> in_inserted r \<and>
      \<not> isl (insert_inbox_event_if_absent ((example_event ''e3'')\<lparr>bi_kind := ''label''\<rparr>) d')" by code_simp
  then obtain r d' where one: "?one = Inr (r, d')" "in_inserted r"
    and two: "\<not> isl (insert_inbox_event_if_absent ((example_event ''e3'')\<lparr>bi_kind := ''label''\<rparr>) d')"
    by (auto split: sum.splits)
  from two obtain r' d'' where "insert_inbox_event_if_absent ((example_event ''e3'')\<lparr>bi_kind := ''label''\<rparr>) d' = Inr (r', d'')"
    by (rule tx_okE)
  moreover have "bi_event_key ((example_event ''e3'')\<lparr>bi_kind := ''label''\<rparr>) = bi_event_key (example_event ''e3'')" by simp
  ultimately show ?thesis using inbox_insertion_idempotent[OF one] one by blast
qed

end
