(* ===== verification/Outbox.thy ===== *)
theory Outbox
  imports Inbox
begin

text \<open>
  The transactional outbox and the controller leases (\<^verbatim>\<open>src/db/repositories.ts\<close>). An intent is inserted once
  per effect key; every \<^verbatim>\<open>setSideEffectState\<close> counts an attempt, a requeue does not. A lease excludes
  every other owner until it expires or its owner releases it; \<open>lease_until\<close> is compared as text,
  which is the order of the instants below \<open>max_instant\<close>. Also the status summary.
\<close>

section \<open>Side effects\<close>

record side_effect_input =
  ei_id :: string
  ei_kind :: string
  ei_effect_key :: string
  ei_state :: string
  ei_payload_json :: json_text

definition new_side_effect_row :: "side_effect_input \<Rightarrow> timestamp \<Rightarrow> side_effect_row" where
  "new_side_effect_row input now =
     \<lparr>fx_id = ei_id input, fx_kind = ei_kind input, fx_effect_key = ei_effect_key input, fx_state = ei_state input,
      fx_payload_json = ei_payload_json input, fx_attempt = 0, fx_next_attempt_at = None, fx_last_error = None,
      fx_created_at = now, fx_completed_at = None\<rparr>"

definition side_effect_conflict :: "side_effect_input \<Rightarrow> side_effect_row list \<Rightarrow> bool" where
  "side_effect_conflict input rows \<longleftrightarrow>
     list_ex (\<lambda>e. fx_id e = ei_id input) rows \<or> list_ex (\<lambda>e. fx_effect_key e = ei_effect_key input) rows"

definition append_side_effect :: "side_effect_input \<Rightarrow> unit db_tx" where
  "append_side_effect input =
     tx_modify (\<lambda>d. d\<lparr>side_effects := side_effects d @ [new_side_effect_row input (db_now d)]\<rparr>)"

definition insert_side_effect :: "side_effect_input \<Rightarrow> unit db_tx" where
  "insert_side_effect input =
     tx_then (assert_valid_json_string (ei_payload_json input) ''payload_json'')
       (tx_bind (tx_get (\<lambda>d. side_effect_conflict input (side_effects d))) (\<lambda>dup.
         if dup then tx_fail (sqlite_unique ''side_effects.effect_key'') else append_side_effect input))"

text \<open>The result is \<^verbatim>\<open>inserted\<close>.\<close>

definition insert_side_effect_if_absent :: "side_effect_input \<Rightarrow> bool db_tx" where
  "insert_side_effect_if_absent input =
     tx_then (assert_valid_json_string (ei_payload_json input) ''payload_json'')
       (tx_bind (tx_get (\<lambda>d. side_effect_conflict input (side_effects d))) (\<lambda>dup.
         if dup then tx_return False else tx_then (append_side_effect input) (tx_return True)))"

definition get_side_effect :: "db \<Rightarrow> string \<Rightarrow> (string \<times> nat) option" where
  "get_side_effect d eid =
     map_option (\<lambda>e. (fx_state e, fx_attempt e)) (List.find (\<lambda>e. fx_id e = eid) (side_effects d))"

definition get_side_effect_full :: "db \<Rightarrow> string \<Rightarrow> side_effect_row option" where
  "get_side_effect_full d eid = List.find (\<lambda>e. fx_id e = eid) (side_effects d)"

definition update_side_effects ::
  "(side_effect_row \<Rightarrow> bool) \<Rightarrow> (timestamp \<Rightarrow> side_effect_row \<Rightarrow> side_effect_row) \<Rightarrow> unit db_tx" where
  "update_side_effects p f = tx_modify (\<lambda>d. d\<lparr>side_effects := update_where p (f (db_now d)) (side_effects d)\<rparr>)"

record side_effect_patch =
  ep_next_attempt_at :: "timestamp option"
  ep_last_error :: "string option"

definition no_effect_patch :: side_effect_patch where
  "no_effect_patch = \<lparr>ep_next_attempt_at = None, ep_last_error = None\<rparr>"

definition set_side_effect_state :: "string \<Rightarrow> string \<Rightarrow> side_effect_patch \<Rightarrow> unit db_tx" where
  "set_side_effect_state eid st patch =
     update_side_effects (\<lambda>e. fx_id e = eid)
       (\<lambda>now e. e\<lparr>fx_state := st, fx_attempt := fx_attempt e + 1, fx_next_attempt_at := ep_next_attempt_at patch,
          fx_last_error := ep_last_error patch,
          fx_completed_at := (if st = ''DONE'' then Some now else fx_completed_at e)\<rparr>)"

text \<open>\<^verbatim>\<open>requeueSideEffect\<close>: back to PENDING without counting an attempt.\<close>

definition requeue_side_effect :: "string \<Rightarrow> side_effect_patch \<Rightarrow> unit db_tx" where
  "requeue_side_effect eid patch =
     update_side_effects (\<lambda>e. fx_id e = eid)
       (\<lambda>now e. e\<lparr>fx_state := ''PENDING'', fx_next_attempt_at := ep_next_attempt_at patch,
          fx_last_error := ep_last_error patch\<rparr>)"

definition due_side_effect :: "timestamp \<Rightarrow> side_effect_row \<Rightarrow> bool" where
  "due_side_effect now e \<longleftrightarrow> List.member [''PENDING'', ''FAILED''] (fx_state e) \<and>
     (case fx_next_attempt_at e of None \<Rightarrow> True | Some t \<Rightarrow> t \<le> now)"

definition list_due_side_effects :: "db \<Rightarrow> timestamp \<Rightarrow> nat \<Rightarrow> side_effect_row list" where
  "list_due_side_effects d now limit =
     take limit (order_by (\<lambda>e. (fx_created_at e, fx_id e)) (filter (due_side_effect now) (side_effects d)))"

section \<open>Leases\<close>

definition get_lease :: "db \<Rightarrow> string \<Rightarrow> lease_row option" where
  "get_lease d k = List.find (\<lambda>l. ls_resource_key l = k) (controller_leases d)"

record lease_result =
  lr_acquired :: bool
  lr_owner_token :: "string option"
  lr_lease_until :: "timestamp option"
  lr_reason :: string

text \<open>
  \<^verbatim>\<open>acquireLease(db, key, owner, now, ttlMs)\<close>. The transaction holds the write lock from its start, so
  the insert of a key that was absent cannot lose a race.
\<close>

definition acquire_lease :: "string \<Rightarrow> string \<Rightarrow> instant \<Rightarrow> nat \<Rightarrow> lease_result db_tx" where
  "acquire_lease k owner now ttl =
     (let until = to_iso (now + ttl); acquired_at = to_iso now;
          acquired = tx_return \<lparr>lr_acquired = True, lr_owner_token = Some owner, lr_lease_until = Some until,
            lr_reason = ''acquired''\<rparr>
      in tx_bind (tx_get (\<lambda>d. get_lease d k)) (\<lambda>existing.
        case existing of
          Some l \<Rightarrow>
            if ls_lease_until l > acquired_at
            then tx_return \<lparr>lr_acquired = False, lr_owner_token = None, lr_lease_until = None, lr_reason = ''held''\<rparr>
            else tx_then (tx_modify (\<lambda>d. d\<lparr>controller_leases :=
                update_where (\<lambda>r. ls_resource_key r = k \<and> ls_lease_until r \<le> acquired_at)
                  (\<lambda>r. r\<lparr>ls_owner_token := owner, ls_acquired_at := acquired_at, ls_lease_until := until\<rparr>)
                  (controller_leases d)\<rparr>)) acquired
        | None \<Rightarrow> tx_then (tx_modify (\<lambda>d. d\<lparr>controller_leases := controller_leases d @
                [\<lparr>ls_resource_key = k, ls_owner_token = owner, ls_acquired_at = acquired_at,
                  ls_lease_until = until\<rparr>]\<rparr>)) acquired))"

text \<open>A DELETE keeps the rows that do not match and reports whether it removed any.\<close>

definition delete_leases :: "(lease_row \<Rightarrow> bool) \<Rightarrow> nat db_tx" where
  "delete_leases p =
     tx_bind (tx_get (\<lambda>d. count_where p (controller_leases d))) (\<lambda>n.
       tx_then (tx_modify (\<lambda>d. d\<lparr>controller_leases := filter (\<lambda>l. \<not> p l) (controller_leases d)\<rparr>)) (tx_return n))"

definition release_lease :: "string \<Rightarrow> string \<Rightarrow> bool db_tx" where
  "release_lease k owner =
     tx_bind (delete_leases (\<lambda>l. ls_resource_key l = k \<and> ls_owner_token l = owner)) (\<lambda>n. tx_return (n > 0))"

definition expire_leases :: "timestamp \<Rightarrow> nat db_tx" where
  "expire_leases now = delete_leases (\<lambda>l. ls_lease_until l \<le> now)"

section \<open>Status\<close>

record status_summary =
  ss_repositories :: nat
  ss_issues :: nat
  ss_work_items :: "(string \<times> nat) list"
  ss_inbox :: "(string \<times> nat) list"
  ss_side_effects_pending :: nat
  ss_active_leases :: nat
  ss_housekeeping :: housekeeping_counters

definition status_summary_of :: "db \<Rightarrow> status_summary" where
  "status_summary_of d =
     \<lparr>ss_repositories = length (repositories d), ss_issues = length (issues d),
      ss_work_items = map (\<lambda>st. (st, count_where (\<lambda>w. w_state w = st) (work_items d)))
        (remdups (map w_state (work_items d))),
      ss_inbox = count_inbox_by_state d,
      ss_side_effects_pending = count_where (\<lambda>e. fx_state e \<noteq> ''DONE'') (side_effects d),
      ss_active_leases = length (controller_leases d), ss_housekeeping = housekeeping_counters_of d\<rparr>"

section \<open>The constraints are kept\<close>

lemma append_side_effect_ok:
  "schema_ok d \<Longrightarrow> \<not> side_effect_conflict input (side_effects d) \<Longrightarrow>
   schema_ok (d\<lparr>side_effects := side_effects d @ [new_side_effect_row input (db_now d)]\<rparr>)"
  using schema_okD(9)[of d] unfolding side_effect_conflict_def list_ex_key
  by (intro set_side_effects_ok) (auto simp: side_effects_ok_def new_side_effect_row_def)

lemma insert_side_effect_if_absent_success:
  "insert_side_effect_if_absent input d = Inr (b, d') \<Longrightarrow>
     b = (\<not> side_effect_conflict input (side_effects d)) \<and>
     d' = (if b then d\<lparr>side_effects := side_effects d @ [new_side_effect_row input (db_now d)]\<rparr> else d)"
  by (auto simp: insert_side_effect_if_absent_def append_side_effect_def tx_success tx_simps
      dest!: assert_valid_json_state split: if_splits)

lemma insert_side_effect_safe [preserves_intros]:
  "schema_safe (insert_side_effect input)" "schema_safe (insert_side_effect_if_absent input)"
  by (auto intro!: schema_safeI append_side_effect_ok simp: insert_side_effect_def append_side_effect_def tx_success tx_simps
      dest!: assert_valid_json_state insert_side_effect_if_absent_success split: if_splits)

interpretation outbox: insert_if_absent insert_side_effect_if_absent "\<lambda>b. b" ei_effect_key
  "\<lambda>d. map fx_effect_key (side_effects d)"
  by unfold_locales
    (auto dest!: insert_side_effect_if_absent_success simp: side_effect_conflict_def list_ex_iff new_side_effect_row_def)

lemma update_side_effects_safe [preserves_intros]:
  assumes "\<And>now e. fx_id (f now e) = fx_id e" "\<And>now e. fx_effect_key (f now e) = fx_effect_key e"
  shows "schema_safe (update_side_effects p f)"
  unfolding update_side_effects_def
  using assms by (intro schema_safe_modify set_side_effects_ok)
    (auto simp: side_effects_ok_def map_update_where dest: schema_okD(9))

lemma side_effect_ops_safe [preserves_intros]:
  "schema_safe (set_side_effect_state eid st patch)" "schema_safe (requeue_side_effect eid patch)"
  unfolding set_side_effect_state_def requeue_side_effect_def by - (intro preserves_intros; simp)+

lemma delete_leases_success:
  "delete_leases p d = Inr (n, d') \<longleftrightarrow> n = count_where p (controller_leases d) \<and>
     d' = d\<lparr>controller_leases := filter (\<lambda>l. \<not> p l) (controller_leases d)\<rparr>"
  by (auto simp: delete_leases_def tx_simps)

lemma delete_leases_safe [preserves_intros]: "schema_safe (delete_leases p)"
proof (rule schema_safeI)
  fix d x d' assume d: "schema_ok d" and "delete_leases p d = Inr (x, d')"
  with schema_okD(10)[OF d] show "schema_ok d'"
    by (auto intro!: set_leases_ok d simp: delete_leases_success leases_ok_def distinct_map_filter)
qed

lemma acquire_lease_success:
  assumes "acquire_lease k owner now ttl d = Inr (res, d')"
  shows "if (\<exists>l. get_lease d k = Some l \<and> ls_lease_until l > to_iso now)
    then \<not> lr_acquired res \<and> d' = d
    else lr_acquired res \<and> lr_owner_token res = Some owner \<and> lr_lease_until res = Some (to_iso (now + ttl)) \<and>
      get_lease d' k = Some \<lparr>ls_resource_key = k, ls_owner_token = owner, ls_acquired_at = to_iso now,
        ls_lease_until = to_iso (now + ttl)\<rparr> \<and>
      (\<forall>k'. k' \<noteq> k \<longrightarrow> get_lease d' k' = get_lease d k')"
proof (cases "get_lease d k")
  case None
  with assms show ?thesis
    by (auto simp: acquire_lease_def Let_def tx_simps get_lease_def find_append split: option.splits)
next
  case (Some l)
  show ?thesis
  proof (cases "ls_lease_until l > to_iso now")
    case True
    with Some assms show ?thesis by (auto simp: acquire_lease_def Let_def tx_simps)
  next
    case False
    let ?p = "\<lambda>r. ls_resource_key r = k \<and> ls_lease_until r \<le> to_iso now"
    let ?f = "\<lambda>r. r\<lparr>ls_owner_token := owner, ls_acquired_at := to_iso now, ls_lease_until := to_iso (now + ttl)\<rparr>"
    have d': "d' = d\<lparr>controller_leases := update_where ?p ?f (controller_leases d)\<rparr>" "lr_acquired res"
      "lr_owner_token res = Some owner" "lr_lease_until res = Some (to_iso (now + ttl))"
      using False Some assms by (auto simp: acquire_lease_def Let_def tx_simps)
    have "get_lease d' k' = map_option (\<lambda>r. if ?p r then ?f r else r) (get_lease d k')" for k'
      unfolding d'(1) get_lease_def by (simp add: find_update_where)
    moreover have "ls_resource_key r = k'" if "get_lease d k' = Some r" for k' r
      using that by (auto simp: get_lease_def dest: find_SomeD)
    ultimately show ?thesis
      using Some False d'(2-) by (auto simp: not_less option.map_comp intro!: option.map_ident_strong)
  qed
qed

lemma acquire_lease_safe [preserves_intros]: "schema_safe (acquire_lease k owner now ttl)"
proof (rule schema_safeI)
  fix d x d' assume d: "schema_ok d" and s: "acquire_lease k owner now ttl d = Inr (x, d')"
  have "leases_ok d'"
    using s schema_okD(10)[OF d]
    by (auto simp: acquire_lease_def Let_def tx_simps leases_ok_def map_update_where get_lease_def find_None_set
        split: option.splits if_splits)
  moreover have "\<exists>ls. d' = d\<lparr>controller_leases := ls\<rparr>"
    using s by (auto simp: acquire_lease_def Let_def tx_simps split: option.splits if_splits intro: exI[of _ "controller_leases d"])
  ultimately show "schema_ok d'" by (auto intro: set_leases_ok d)
qed

lemma lease_ops_safe [preserves_intros]: "schema_safe (release_lease k owner)" "schema_safe (expire_leases at)"
  unfolding release_lease_def expire_leases_def by - (intro preserves_intros)+

lemma outbox_grow [grows_intros]:
  "tx_rel grows (insert_side_effect_if_absent input)" "tx_rel grows (update_side_effects p f)"
  "tx_rel grows (delete_leases q)"
  by (auto intro!: tx_relI dest!: insert_side_effect_if_absent_success
      simp: update_side_effects_def tx_simps grows_def delete_leases_success split: if_splits)


section \<open>Mutual exclusion of leases\<close>

text \<open>
  What anyone may do to the lease table before the instant \<open>limit\<close>, other than the owner releasing its own
  lease on \<open>k\<close>.
\<close>

inductive lease_step :: "string \<Rightarrow> string \<Rightarrow> instant \<Rightarrow> db \<Rightarrow> db \<Rightarrow> bool" for k owner limit where
  acquire: "acquire_lease k' other t ttl d = Inr (res, d') \<Longrightarrow> t < limit \<Longrightarrow> lease_step k owner limit d d'"
| release: "release_lease k' other d = Inr (b, d') \<Longrightarrow> k' \<noteq> k \<or> other \<noteq> owner \<Longrightarrow> lease_step k owner limit d d'"
| expire: "expire_leases (to_iso t) d = Inr (n, d') \<Longrightarrow> t < limit \<Longrightarrow> lease_step k owner limit d d'"

lemma find_filter_kept:
  "List.find p t = Some r \<Longrightarrow> q r \<Longrightarrow> List.find p (filter q t) = Some r"
  by (induction t) (auto split: if_splits)

lemma lease_step_keeps:
  assumes "lease_step k owner limit d d'" "get_lease d k = Some l" "ls_owner_token l = owner"
    "ls_lease_until l = to_iso limit" "limit < max_instant"
  shows "get_lease d' k = Some l"
  using assms(1)
proof cases
  case (acquire k' other t ttl res)
  have later: "ls_lease_until l > to_iso t" using acquire(2) assms(4,5) by (simp add: to_iso_mono)
  show ?thesis
    using acquire_lease_success[OF acquire(1)] assms(2) later by (cases "k' = k") (auto split: if_splits)
next
  case (release k' other b)
  have k: "ls_resource_key l = k" using assms(2) by (auto simp: get_lease_def dest: find_SomeD)
  have "d' = d\<lparr>controller_leases := filter (\<lambda>l. \<not> (ls_resource_key l = k' \<and> ls_owner_token l = other)) (controller_leases d)\<rparr>"
    using release(1) by (auto simp: release_lease_def tx_success delete_leases_success tx_simps)
  with k release(2) assms(2,3) show ?thesis
    unfolding get_lease_def by (auto intro!: find_filter_kept)
next
  case (expire t n)
  have "\<not> ls_lease_until l \<le> to_iso t" using expire(2) assms(4,5) by (simp add: to_iso_mono not_le)
  with expire(1) assms(2) show ?thesis
    by (auto simp: expire_leases_def delete_leases_success get_lease_def intro!: find_filter_kept)
qed

lemma lease_steps_keep:
  assumes "(lease_step k owner limit)\<^sup>*\<^sup>* d d'" "get_lease d k = Some l" "ls_owner_token l = owner"
    "ls_lease_until l = to_iso limit" "limit < max_instant"
  shows "get_lease d' k = Some l"
  using assms(1)
proof (induction rule: rtranclp_induct)
  case base
  show ?case by (rule assms(2))
next
  case (step y z)
  show ?case by (rule lease_step_keeps[OF step(2) step(3) assms(3-5)])
qed

section \<open>Properties\<close>

text \<open>
  C4: A lease that was granted at \<open>now\<close> for \<open>ttl\<close> milliseconds excludes everyone: whatever acquisitions,
  releases by others and expiry sweeps happen before it lapses, an acquisition of the same key
  before then is refused and changes nothing.
\<close>
theorem lease_excludes_others:
  assumes "acquire_lease k owner now ttl d = Inr (res, d1)" "lr_acquired res" "now + ttl < max_instant"
    and "(lease_step k owner (now + ttl))\<^sup>*\<^sup>* d1 d2"
    and "t < now + ttl" "acquire_lease k other t ttl' d2 = Inr (res', d3)"
  shows "\<not> lr_acquired res' \<and> d3 = d2"
proof -
  let ?l = "\<lparr>ls_resource_key = k, ls_owner_token = owner, ls_acquired_at = to_iso now, ls_lease_until = to_iso (now + ttl)\<rparr>"
  have "get_lease d1 k = Some ?l" using acquire_lease_success[OF assms(1)] assms(2) by (auto split: if_splits)
  from lease_steps_keep[OF assms(4) this _ _ assms(3)] have "get_lease d2 k = Some ?l" by simp
  moreover have "to_iso (now + ttl) > to_iso t" using assms(3,5) by (simp add: to_iso_mono)
  ultimately show ?thesis using acquire_lease_success[OF assms(6)] by (auto split: if_splits)
qed

theorem lease_excludes_others_witness:
  "\<exists>res d1 res' d3. acquire_lease ''controller'' ''a'' 1000 60000 example_db = Inr (res, d1) \<and>
     acquire_lease ''controller'' ''b'' 2000 60000 d1 = Inr (res', d3) \<and> \<not> lr_acquired res'"
proof -
  let ?one = "acquire_lease ''controller'' ''a'' 1000 60000 example_db"
  have "case ?one of Inl e \<Rightarrow> False | Inr (res, d1) \<Rightarrow> lr_acquired res \<and>
      \<not> isl (acquire_lease ''controller'' ''b'' 2000 60000 d1)" by code_simp
  then obtain res d1 where one: "?one = Inr (res, d1)" "lr_acquired res"
    and two: "\<not> isl (acquire_lease ''controller'' ''b'' 2000 60000 d1)" by (auto split: sum.splits)
  from two obtain res' d3 where two: "acquire_lease ''controller'' ''b'' 2000 60000 d1 = Inr (res', d3)" by (rule tx_okE)
  have "\<not> lr_acquired res' \<and> d3 = d1"
    by (rule lease_excludes_others[OF one _ rtranclp.rtrancl_refl _ two]) (simp_all add: max_instant_def ms_per_day_def)
  with one two show ?thesis by blast
qed

text \<open>
  An intent enters the outbox once: after it was recorded, recording an intent with the same effect key
  again (whatever its id, kind and payload) is reported as not inserted and leaves the database unchanged.
\<close>
theorem outbox_intent_once:
  assumes "insert_side_effect_if_absent intent d = Inr (True, d')"
    and "insert_side_effect_if_absent again d' = Inr (b, d'')" "ei_effect_key again = ei_effect_key intent"
  shows "\<not> b \<and> d'' = d'"
proof -
  have "\<not> b" using outbox.repeat_adds_nothing[OF assms(1) TrueI assms(2,3)] by simp
  then show ?thesis using insert_side_effect_if_absent_success[OF assms(2)] by simp
qed

definition example_effect :: "string \<Rightarrow> side_effect_input" where
  "example_effect eid = \<lparr>ei_id = eid, ei_kind = ''pr.merge'', ei_effect_key = ''pr.merge:acme/tool:7'', ei_state = ''PENDING'',
     ei_payload_json = Text (JObj [(''number'', JNum 7)])\<rparr>"

theorem outbox_intent_once_witness:
  "\<exists>d' d''. insert_side_effect_if_absent (example_effect ''fx1'') example_db = Inr (True, d') \<and>
     insert_side_effect_if_absent (example_effect ''fx2'') d' = Inr (False, d'') \<and> d'' = d'"
proof -
  let ?one = "insert_side_effect_if_absent (example_effect ''fx1'') example_db"
  have "case ?one of Inl e \<Rightarrow> False | Inr (b, d') \<Rightarrow> b \<and>
      \<not> isl (insert_side_effect_if_absent (example_effect ''fx2'') d')" by code_simp
  then obtain d' where one: "?one = Inr (True, d')"
    and two: "\<not> isl (insert_side_effect_if_absent (example_effect ''fx2'') d')" by (auto split: sum.splits)
  from two obtain b d'' where two: "insert_side_effect_if_absent (example_effect ''fx2'') d' = Inr (b, d'')" by (rule tx_okE)
  have "\<not> b \<and> d'' = d'" by (rule outbox_intent_once[OF one two]) (simp add: example_effect_def)
  with one two show ?thesis by auto
qed

end
