(* ===== verification/Audited.thy ===== *)
theory Audited
  imports Outbox
begin

text \<open>
  The agreement of the ledger with the rows: replaying the audit rows of an entity from its initial
  state gives the state its row holds (\<open>ledger_consistent\<close>). \<open>audited_entity\<close> is the contract of an entity whose state
  column is written by one operation; it is interpreted on WorkItems and on issues. \<open>store_ok\<close> collects the
  invariants every transaction of the controller keeps.
\<close>

section \<open>Ledger and rows\<close>

definition ledger_consistent ::
  "entity_type \<Rightarrow> string list \<Rightarrow> (db \<Rightarrow> (string \<times> string) list) \<Rightarrow> db \<Rightarrow> bool" where
  "ledger_consistent ety inits tab d \<longleftrightarrow>
     (\<forall>is \<in> set (tab d). \<exists>s0 \<in> set inits. replay ety s0 (list_transitions d ety (fst is)) = Some (snd is)) \<and>
     (\<forall>r \<in> set (state_transitions d). t_entity_type r = ety \<longrightarrow> t_entity_id r \<in> fst ` set (tab d))"

definition set_state_of :: "string \<Rightarrow> string \<Rightarrow> (string \<times> string) list \<Rightarrow> (string \<times> string) list" where
  "set_state_of eid t tab = map (\<lambda>is. if fst is = eid then (eid, t) else is) tab"

lemma map_fst_set_state_of [simp]: "map fst (set_state_of eid t tab) = map fst tab"
  by (simp add: set_state_of_def)

lemma fst_set_state_of: "fst ` set (set_state_of eid t tab) = fst ` set tab"
  by (metis map_fst_set_state_of list.set_map)

lemma ledger_consistent_frame:
  "tab d' = tab d \<Longrightarrow> state_transitions d' = state_transitions d \<Longrightarrow>
   ledger_consistent ety inits tab d' = ledger_consistent ety inits tab d"
  by (simp add: ledger_consistent_def list_transitions_def)

lemma replay_no_rows:
  assumes "ledger_consistent ety inits tab d" "eid \<notin> fst ` set (tab d)"
  shows "list_transitions d ety eid = []"
  using assms by (auto simp: ledger_consistent_def list_transitions_def filter_empty_conv)

text \<open>Rows about other entities, and evidence about this one, change nothing.\<close>

definition harmless_row :: "entity_type \<Rightarrow> string set \<Rightarrow> transition_row \<Rightarrow> bool" where
  "harmless_row ety ids r \<longleftrightarrow> t_entity_type r \<noteq> ety \<or> (is_evidence r \<and> t_entity_id r \<in> ids)"

lemma replay_evidence: "\<forall>r \<in> set rs. is_evidence r \<Longrightarrow> replay ety s rs = Some s"
  by (induction rs rule: rev_induct) (auto simp: replay_append replay_single)

lemma ledger_consistent_harmless:
  assumes "ledger_consistent ety inits tab d" "tab d' = tab d"
    "state_transitions d' = state_transitions d @ rs" "\<forall>r \<in> set rs. harmless_row ety (fst ` set (tab d)) r"
  shows "ledger_consistent ety inits tab d'"
proof -
  have "replay ety s0 (list_transitions d' ety i) = Some s"
    if "replay ety s0 (list_transitions d ety i) = Some s" for s0 i s
  proof -
    have "list_transitions d' ety i = list_transitions d ety i @
        filter (\<lambda>r. t_entity_type r = ety \<and> t_entity_id r = i) rs"
      by (simp add: list_transitions_def assms(3))
    moreover have "\<forall>r \<in> set (filter (\<lambda>r. t_entity_type r = ety \<and> t_entity_id r = i) rs). is_evidence r"
      using assms(4) by (auto simp: harmless_row_def)
    ultimately show ?thesis using that by (simp add: replay_append replay_evidence)
  qed
  moreover have "\<forall>r \<in> set (state_transitions d'). t_entity_type r = ety \<longrightarrow> t_entity_id r \<in> fst ` set (tab d')"
    using assms by (auto simp: ledger_consistent_def harmless_row_def)
  ultimately show ?thesis using assms(1,2) unfolding ledger_consistent_def by metis
qed

text \<open>An audited move of one entity.\<close>

lemma ledger_consistent_move:
  assumes "ledger_consistent ety inits tab d" "(eid, f) \<in> set (tab d)" "distinct (map fst (tab d))"
    "is_legal_transition ety f t ev"
    "tab d' = set_state_of eid t (tab d)"
    "state_transitions d' = state_transitions d @ [ledger_row ety eid (Some f) t ev r a at]"
  shows "ledger_consistent ety inits tab d'"
proof -
  let ?row = "ledger_row ety eid (Some f) t ev r a at"
  have ne: "\<not> is_evidence ?row" using legal_not_evidence[OF assms(4)] by (simp add: is_evidence_def)
  have rows: "list_transitions d' ety i = list_transitions d ety i @ (if i = eid then [?row] else [])" for i
    by (simp add: list_transitions_def assms(6))
  have "\<exists>s0 \<in> set inits. replay ety s0 (list_transitions d' ety i) = Some s" if mem: "(i, s) \<in> set (tab d')" for i s
  proof (cases "i = eid")
    case True
    with mem assms(5) have "s = t" by (auto simp: set_state_of_def split: if_splits)
    moreover obtain s0 where "s0 \<in> set inits" "replay ety s0 (list_transitions d ety eid) = Some f"
      using assms(1,2) by (fastforce simp: ledger_consistent_def)
    ultimately show ?thesis
      using True assms(4) ne by (auto simp: rows replay_append replay_single intro!: bexI[of _ s0])
  next
    case False
    with mem assms(5) have "(i, s) \<in> set (tab d)" by (auto simp: set_state_of_def split: if_splits)
    with False assms(1) show ?thesis by (fastforce simp: rows ledger_consistent_def)
  qed
  moreover have "eid \<in> fst ` set (tab d)" using assms(2) by force
  ultimately show ?thesis
    using assms(1) unfolding ledger_consistent_def assms(5) fst_set_state_of assms(6) by auto
qed

lemma ledger_consistent_insert:
  assumes "ledger_consistent ety inits tab d" "i \<notin> fst ` set (tab d)" "s0 \<in> set inits"
    "tab d' = tab d @ [(i, s0)]" "state_transitions d' = state_transitions d"
  shows "ledger_consistent ety inits tab d'"
  using assms replay_no_rows[OF assms(1,2)]
  by (auto simp: ledger_consistent_def list_transitions_def)

section \<open>The contract of an audited entity\<close>

locale audited_entity =
  fixes ety :: entity_type and inits :: "string list" and tab :: "db \<Rightarrow> (string \<times> string) list"
    and set_state :: "string \<Rightarrow> string \<Rightarrow> 'p \<Rightarrow> unit db_tx"
  assumes set_tab: "set_state eid t p d = Inr (u, d') \<Longrightarrow> tab d' = set_state_of eid t (tab d)"
    and set_ledger: "set_state eid t p d = Inr (u, d') \<Longrightarrow> state_transitions d' = state_transitions d"
    and tab_ledger: "tab (d\<lparr>state_transitions := ts\<rparr>) = tab d"
begin

abbreviation "consistent \<equiv> ledger_consistent ety inits tab"

text \<open>Recording the transition and writing the column, in either order.\<close>

lemma record_then_set:
  assumes "consistent d" "distinct (map fst (tab d))" "(eid, f) \<in> set (tab d)"
    "record_transition ety eid (Some f) t ev reason actor at d = Inr (row, d1)"
    "set_state eid t p d1 = Inr (u, d2)"
  shows "consistent d2"
proof -
  note r = record_transition_success[OF assms(4)]
  then have d1: "d1 = d\<lparr>state_transitions := state_transitions d @ [row]\<rparr>" by blast
  show ?thesis
    using r set_tab[OF assms(5)] set_ledger[OF assms(5)] assms(1-3)
    by (intro ledger_consistent_move[of ety inits tab d eid f t ev d2]) (auto simp: d1 tab_ledger)
qed

lemma set_then_record:
  assumes "consistent d" "distinct (map fst (tab d))" "(eid, f) \<in> set (tab d)"
    "set_state eid t p d = Inr (u, d1)"
    "record_transition ety eid (Some f) t ev reason actor at d1 = Inr (row, d2)"
  shows "consistent d2"
proof -
  note r = record_transition_success[OF assms(5)]
  then have d2: "d2 = d1\<lparr>state_transitions := state_transitions d1 @ [row]\<rparr>" by blast
  show ?thesis
    using r set_tab[OF assms(4)] set_ledger[OF assms(4)] assms(1-3)
    by (intro ledger_consistent_move[of ety inits tab d eid f t ev d2]) (auto simp: d2 tab_ledger)
qed

text \<open>A terminal entity keeps its state for good.\<close>

lemma terminal_forever:
  assumes "consistent d" "(eid, s) \<in> set (tab d)" "is_terminal_state ety s" "distinct (map fst (tab d'))"
    "consistent d'" "state_transitions d' = state_transitions d @ rs" "(eid, s') \<in> set (tab d')" "length inits = 1"
  shows "s' = s"
proof -
  obtain s0 where inits: "inits = [s0]" using assms(8) by (cases inits) auto
  have "replay ety s0 (list_transitions d ety eid) = Some s" "replay ety s0 (list_transitions d' ety eid) = Some s'"
    using assms(1,2,5,7) inits by (fastforce simp: ledger_consistent_def)+
  moreover have "list_transitions d' ety eid = list_transitions d ety eid @ filter (\<lambda>r. t_entity_type r = ety \<and> t_entity_id r = eid) rs"
    by (simp add: list_transitions_def assms(6))
  ultimately show ?thesis using replay_terminal[OF assms(3)] by (simp add: replay_append)
qed

end

section \<open>WorkItems and issues\<close>

definition work_item_column :: "db \<Rightarrow> (string \<times> string) list" where
  "work_item_column d = map (\<lambda>w. (w_id w, w_state w)) (work_items d)"

definition issue_column :: "db \<Rightarrow> (string \<times> string) list" where
  "issue_column d = map (\<lambda>i. (i_id i, i_state i)) (issues d)"

interpretation audited_work_item: audited_entity Work_Item "[''READY'']" work_item_column set_work_item_state
  by unfold_locales (auto simp: set_work_item_state_def update_work_items_def tx_simps work_item_column_def
      set_state_of_def update_where_def)

interpretation audited_issue: audited_entity Issue "[''NEW'', ''BASELINE_EXCLUDED'']" issue_column
  "\<lambda>eid t p. update_issue_state eid t (fst p) (snd p)"
  by unfold_locales (auto simp: update_issue_state_def update_issues_def tx_simps tx_success issue_column_def
      set_state_of_def update_where_def dest!: assert_json_if_set_state)

definition work_items_audited :: "db \<Rightarrow> bool" where
  "work_items_audited = ledger_consistent Work_Item [''READY''] work_item_column"

definition issues_audited :: "db \<Rightarrow> bool" where
  "issues_audited = ledger_consistent Issue [''NEW'', ''BASELINE_EXCLUDED''] issue_column"

section \<open>The invariant of the store\<close>

text \<open>Every issue row has the id the ingest derives from its repository and number (\<^verbatim>\<open>issueIdFor\<close>).\<close>

definition issue_id_for :: "string \<Rightarrow> int \<Rightarrow> string" where
  "issue_id_for repo_id number = ''issue-'' @ repo_id @ ''-'' @ show_int number"

definition issue_keys :: "db \<Rightarrow> (string \<times> string \<times> int) list" where
  "issue_keys d = map (\<lambda>i. (i_id i, i_repo_id i, i_number i)) (issues d)"

definition issues_canonical :: "db \<Rightarrow> bool" where
  "issues_canonical d \<longleftrightarrow> list_all (\<lambda>k. fst k = issue_id_for (fst (snd k)) (snd (snd k))) (issue_keys d)"

definition store_ok :: "db \<Rightarrow> bool" where
  "store_ok d \<longleftrightarrow> schema_ok d \<and> work_items_audited d \<and> issues_audited d \<and> acyclic (dependency_graph d) \<and>
     issues_canonical d"

lemma issues_canonical_frame [simp]:
  "issues_canonical (d\<lparr>work_items := ws\<rparr>) = issues_canonical d"
  "issues_canonical (d\<lparr>work_item_dependencies := ds\<rparr>) = issues_canonical d"
  "issues_canonical (d\<lparr>state_transitions := ts\<rparr>) = issues_canonical d"
  by (simp_all add: issues_canonical_def issue_keys_def)

lemma issues_canonical_eq: "issue_keys d' = issue_keys d \<Longrightarrow> issues_canonical d' = issues_canonical d"
  by (simp add: issues_canonical_def)

abbreviation store_safe :: "'a db_tx \<Rightarrow> bool" where
  "store_safe m \<equiv> tx_rel (keeps store_ok) m"

lemma store_safeI: "(\<And>d x d'. store_ok d \<Longrightarrow> m d = Inr (x, d') \<Longrightarrow> store_ok d') \<Longrightarrow> store_safe m"
  by (auto simp: tx_rel_def keeps_def)

lemma store_safeD: "store_safe m \<Longrightarrow> store_ok d \<Longrightarrow> m d = Inr (x, d') \<Longrightarrow> store_ok d'"
  by (auto simp: tx_rel_def keeps_def)

lemma store_ok_empty: "store_ok (empty_db n t)"
proof -
  have "dependency_graph (empty_db n t) = {}" by (simp add: active_edges_def empty_db_def map_filter_simps)
  then show ?thesis
    using schema_ok_empty[of n t]
    by (simp add: store_ok_def work_items_audited_def issues_audited_def ledger_consistent_def acyclic_def empty_db_def
        work_item_column_def issue_column_def issues_canonical_def issue_keys_def)
qed

text \<open>
  A transaction that keeps the schema, does not touch the two state columns, the ledger and the
  dependencies.
\<close>

definition audit_view :: "db \<Rightarrow> (string \<times> string) list \<times> (string \<times> string) list \<times> transition_row list \<times>
    dependency_row list \<times> (string \<times> string \<times> int) list" where
  "audit_view d = (work_item_column d, issue_column d, state_transitions d, work_item_dependencies d, issue_keys d)"

lemma store_safe_quiet:
  assumes "schema_safe m" "tx_rel (frame audit_view) m"
  shows "store_safe m"
proof (rule store_safeI)
  fix d x d' assume d: "store_ok d" and s: "m d = Inr (x, d')"
  have ok: "schema_ok d'" using schema_safeD[OF assms(1) _ s] d by (simp add: store_ok_def)
  have "audit_view d' = audit_view d" using tx_relD[OF assms(2) s] by (simp add: frame_def)
  then have v: "work_item_column d' = work_item_column d" "issue_column d' = issue_column d"
    "state_transitions d' = state_transitions d" "work_item_dependencies d' = work_item_dependencies d"
    "issue_keys d' = issue_keys d"
    by (simp_all add: audit_view_def)
  have w: "work_items_audited d' = work_items_audited d"
    unfolding work_items_audited_def by (rule ledger_consistent_frame[OF v(1,3)])
  have i: "issues_audited d' = issues_audited d"
    unfolding issues_audited_def by (rule ledger_consistent_frame[OF v(2,3)])
  show "store_ok d'" using d ok unfolding store_ok_def w i v(4) issues_canonical_def v(5) by blast
qed


lemma quiet_ops [frame_intros]:
  "tx_rel (frame audit_view) (assert_json_if_set v field)"
  "tx_rel (frame audit_view) (assert_valid_json_string j field)"
  "tx_rel (frame audit_view) (update_repositories p f)"
  "tx_rel (frame audit_view) (insert_repository_row r)"
  "tx_rel (frame audit_view) (set_work_item_head_branch wid br)"
  "tx_rel (frame audit_view) (attach_issue_to_work_item iid wid)"
  "tx_rel (frame audit_view) (detach_issue_from_work_item iid wid)"
  "tx_rel (frame audit_view) (update_sessions ps fs)"
  "tx_rel (frame audit_view) (insert_worktree wi)"
  "tx_rel (frame audit_view) (insert_worktree_if_absent wi)"
  "tx_rel (frame audit_view) (update_worktrees pw fw)"
  "tx_rel (frame audit_view) (insert_pull_request_row pr)"
  "tx_rel (frame audit_view) (update_pull_requests pp fp)"
  "tx_rel (frame audit_view) (append_inbox_row ib)"
  "tx_rel (frame audit_view) (update_inbox pb fb)"
  "tx_rel (frame audit_view) (append_side_effect se)"
  "tx_rel (frame audit_view) (update_side_effects pe fe)"
  "tx_rel (frame audit_view) (acquire_lease k owner now ttl)"
  "tx_rel (frame audit_view) (delete_leases pl)"
proof -
  show "tx_rel (frame audit_view) (assert_json_if_set v field)"
    "tx_rel (frame audit_view) (assert_valid_json_string j field)"
    by (auto simp: tx_rel_def frame_def dest!: assert_json_if_set_state assert_valid_json_state)
  show "tx_rel (frame audit_view) (set_work_item_head_branch wid br)"
    by (auto simp: tx_rel_def frame_def audit_view_def work_item_column_def issue_column_def issue_keys_def tx_simps
        set_work_item_head_branch_def update_work_items_def update_where_def split: if_splits)
  show "tx_rel (frame audit_view) (append_inbox_row ib)" "tx_rel (frame audit_view) (update_inbox pb fb)"
    "tx_rel (frame audit_view) (delete_leases pl)"
    by (auto simp: tx_rel_def frame_def audit_view_def work_item_column_def issue_column_def issue_keys_def
        append_inbox_row_success update_inbox_success delete_leases_success)
  show "tx_rel (frame audit_view) (acquire_lease k owner now ttl)"
    by (auto simp: tx_rel_def frame_def audit_view_def work_item_column_def issue_column_def issue_keys_def acquire_lease_def
        Let_def tx_simps split: option.splits if_splits)
qed (auto simp: tx_rel_def frame_def audit_view_def work_item_column_def issue_column_def issue_keys_def tx_simps Let_def
    update_repositories_def insert_repository_row_def attach_issue_to_work_item_def detach_issue_from_work_item_def
    update_sessions_def insert_worktree_def insert_worktree_if_absent_def update_worktrees_def
    insert_pull_request_row_def update_pull_requests_def append_side_effect_def update_side_effects_def
    split: option.splits if_splits)

lemma quiet_inbox_insert [frame_intros]:
  "tx_rel (frame audit_view) (insert_inbox_event_if_absent ib)" "tx_rel (frame audit_view) (insert_inbox_event ib)"
  "tx_rel (frame audit_view) (insert_session si)"
proof -
  show "tx_rel (frame audit_view) (insert_inbox_event_if_absent ib)"
    by (rule tx_relI, drule insert_inbox_event_if_absent_success)
      (auto simp: frame_def audit_view_def work_item_column_def issue_column_def issue_keys_def split: if_splits)
  show "tx_rel (frame audit_view) (insert_inbox_event ib)"
    unfolding insert_inbox_event_def by (intro frame_intros)
  show "tx_rel (frame audit_view) (insert_session si)"
    by (auto simp: tx_rel_def frame_def insert_session_def tx_success tx_simps Let_def audit_view_def work_item_column_def
        issue_column_def issue_keys_def dest!: assert_json_if_set_state split: if_splits)
qed

lemma quiet_composites [frame_intros]:
  "tx_rel (frame audit_view) (set_session_state sid st)" "tx_rel (frame audit_view) (record_session_observation sid obs)"
  "tx_rel (frame audit_view) (set_worktree_state wtid st ca)" "tx_rel (frame audit_view) (insert_pull_request pri)"
  "tx_rel (frame audit_view) (insert_pull_request_if_absent pri)" "tx_rel (frame audit_view) (set_pull_request_state prid st)"
  "tx_rel (frame audit_view) (mark_pull_request_state wid n st)" "tx_rel (frame audit_view) (upsert_pull_request_from_snapshot pri)"
  "tx_rel (frame audit_view) (reparent_inbox_by_issue iid wid)" "tx_rel (frame audit_view) (mark_inbox_delivering ids nonce)"
  "tx_rel (frame audit_view) (mark_inbox_delivered ids at)" "tx_rel (frame audit_view) (recycle_inbox_to_pending ids)"
  "tx_rel (frame audit_view) (insert_side_effect se)" "tx_rel (frame audit_view) (insert_side_effect_if_absent se)"
  "tx_rel (frame audit_view) (set_side_effect_state eid st ep)" "tx_rel (frame audit_view) (requeue_side_effect eid ep)"
  "tx_rel (frame audit_view) (release_lease k owner)" "tx_rel (frame audit_view) (expire_leases at)"
  "tx_rel (frame audit_view) (persist_repository_capability rid cs cap at)" "tx_rel (frame audit_view) (assert_dispatch_ready rid op)"
  "tx_rel (frame audit_view) (set_poll_watermark owner nm w)" "tx_rel (frame audit_view) (update_triage_state rid patch)"
  "tx_rel (frame audit_view) (upsert_repository ri)" "tx_rel (frame audit_view) (sync_one at repo counts)"
  "tx_rel (frame audit_view) (disable_unconfigured configured at)"
  unfolding set_session_state_def record_session_observation_def set_worktree_state_def insert_pull_request_def
    insert_pull_request_if_absent_def set_pull_request_state_def mark_pull_request_state_def
    upsert_pull_request_from_snapshot_def reparent_inbox_by_issue_def mark_inbox_delivering_def mark_inbox_delivered_def
    recycle_inbox_to_pending_def update_inbox_ids_def insert_side_effect_def insert_side_effect_if_absent_def
    set_side_effect_state_def requeue_side_effect_def release_lease_def expire_leases_def
    persist_repository_capability_def assert_dispatch_ready_def set_poll_watermark_def update_triage_state_def
    upsert_repository_def sync_one_def disable_unconfigured_def Let_def
  by - (intro frame_intros)+

lemma store_safe_leaf_ops [preserves_intros]:
  "store_safe (assert_json_if_set v field)" "store_safe (assert_valid_json_string j field)"
  "store_safe (insert_repository_row r)" "store_safe (set_work_item_head_branch wid br)"
  "store_safe (attach_issue_to_work_item iid wid)" "store_safe (detach_issue_from_work_item iid wid)"
  "store_safe (insert_session si)" "store_safe (insert_worktree wi)" "store_safe (insert_worktree_if_absent wi)"
  "store_safe (insert_inbox_event ib)" "store_safe (insert_inbox_event_if_absent ib)"
  "store_safe (acquire_lease k owner now ttl)"
  "store_safe (set_session_state sid st)" "store_safe (record_session_observation sid obs)"
  "store_safe (set_worktree_state wtid st ca)" "store_safe (insert_pull_request pri)"
  "store_safe (insert_pull_request_if_absent pri)" "store_safe (set_pull_request_state prid st)"
  "store_safe (mark_pull_request_state wid n st)" "store_safe (upsert_pull_request_from_snapshot pri)"
  "store_safe (reparent_inbox_by_issue iid wid)" "store_safe (mark_inbox_delivering ids nonce)"
  "store_safe (mark_inbox_delivered ids at)" "store_safe (recycle_inbox_to_pending ids)"
  "store_safe (insert_side_effect se)" "store_safe (insert_side_effect_if_absent se)"
  "store_safe (set_side_effect_state eid st ep)" "store_safe (requeue_side_effect eid ep)"
  "store_safe (release_lease k owner)" "store_safe (expire_leases at)"
  "store_safe (persist_repository_capability rid cs cap at)" "store_safe (assert_dispatch_ready rid op)"
  "store_safe (set_poll_watermark owner nm w)" "store_safe (update_triage_state rid patch)"
  "store_safe (upsert_repository ri)" "store_safe (sync_one at repo counts)"
  "store_safe (disable_unconfigured configured at)"
  by - (rule store_safe_quiet; (rule preserves_intros | rule frame_intros))+


section \<open>Inserting and moving audited entities\<close>

lemma store_okD:
  assumes "store_ok d"
  shows "schema_ok d" "work_items_audited d" "issues_audited d" "acyclic (dependency_graph d)" "issues_canonical d"
  using assms by (simp_all add: store_ok_def)

lemma distinct_columns:
  assumes "schema_ok d"
  shows "distinct (map fst (work_item_column d))" "distinct (map fst (issue_column d))"
  using schema_okD(2,3)[OF assms] by (simp_all add: work_item_column_def issue_column_def work_items_ok_def issues_ok_def
      comp_def)

lemma column_ids:
  "fst ` set (work_item_column d) = work_item_ids d" "fst ` set (issue_column d) = issue_ids d"
  by (auto simp: work_item_column_def issue_column_def work_item_ids_def issue_ids_def image_iff)

lemma column_mem:
  "get_work_item d wid = Some w \<Longrightarrow> (wid, w_state w) \<in> set (work_item_column d)"
  "get_issue_by_id d iid = Some i \<Longrightarrow> (iid, i_state i) \<in> set (issue_column d)"
  by (auto simp: work_item_column_def issue_column_def dest!: get_work_item_SomeD get_issue_by_id_SomeD)

lemma insert_work_item_store_safe [preserves_intros]:
  assumes "wi_state input = ''READY''"
  shows "store_safe (insert_work_item input)"
proof (rule store_safeI)
  fix d x d' assume d: "store_ok d" and s: "insert_work_item input d = Inr (x, d')"
  have n: "wi_id input \<notin> fst ` set (work_item_column d)"
    and d': "d' = d\<lparr>work_items := work_items d @ [new_work_item_row input (db_now d)]\<rparr>"
    using s unfolding insert_work_item_success column_ids by (auto simp: work_item_ids_def)
  have "work_items_audited d'"
    unfolding work_items_audited_def
    by (rule ledger_consistent_insert[OF store_okD(2)[OF d, unfolded work_items_audited_def] n, of "''READY''"])
      (simp_all add: d' work_item_column_def new_work_item_row_def assms)
  moreover have "issues_audited d'"
    using store_okD(3)[OF d] unfolding issues_audited_def by (subst ledger_consistent_frame) (simp_all add: d' issue_column_def)
  ultimately show "store_ok d'"
    using schema_safeD[OF insert_work_item_safe store_okD(1)[OF d] s] store_okD(4,5)[OF d] by (simp add: store_ok_def d')
qed

lemma insert_issue_row_store_safe [preserves_intros]:
  assumes "List.member [''NEW'', ''BASELINE_EXCLUDED''] (i_state row)" "i_id row = issue_id_for (i_repo_id row) (i_number row)"
  shows "store_safe (insert_issue_row row)"
proof (rule store_safeI)
  fix d x d' assume d: "store_ok d" and s: "insert_issue_row row d = Inr (x, d')"
  then have n: "i_id row \<notin> fst ` set (issue_column d)" and d': "d' = d\<lparr>issues := issues d @ [row]\<rparr>"
    unfolding column_ids by (auto simp: insert_issue_row_def tx_simps list_ex_iff issue_ids_def split: if_splits)
  have "issues_audited d'"
    unfolding issues_audited_def
    by (rule ledger_consistent_insert[OF store_okD(3)[OF d, unfolded issues_audited_def] n, of "i_state row"])
      (use assms in \<open>auto simp: d' issue_column_def\<close>)
  moreover have "work_items_audited d'"
    using store_okD(2)[OF d] unfolding work_items_audited_def
    by (subst ledger_consistent_frame) (simp_all add: d' work_item_column_def)
  moreover have "issues_canonical d'"
    using store_okD(5)[OF d] assms(2) by (simp add: d' issues_canonical_def issue_keys_def)
  ultimately show "store_ok d'"
    using schema_safeD[OF insert_issue_row_safe store_okD(1)[OF d] s] store_okD(4)[OF d] by (simp add: store_ok_def d')
qed

lemma quiet_update_issues [frame_intros]:
  "(\<And>now i. i_id (f now i) = i_id i) \<Longrightarrow> (\<And>now i. i_state (f now i) = i_state i) \<Longrightarrow>
   (\<And>now i. i_repo_id (f now i) = i_repo_id i) \<Longrightarrow> (\<And>now i. i_number (f now i) = i_number i) \<Longrightarrow>
   tx_rel (frame audit_view) (update_issues p f)"
  by (auto simp: tx_rel_def frame_def update_issues_def tx_simps audit_view_def issue_column_def work_item_column_def
      issue_keys_def update_where_def)

lemma update_issues_store_safe [preserves_intros]:
  "(\<And>now i. i_id (f now i) = i_id i) \<Longrightarrow> (\<And>now i. i_state (f now i) = i_state i) \<Longrightarrow>
   (\<And>now i. i_repo_id (f now i) = i_repo_id i) \<Longrightarrow> (\<And>now i. i_number (f now i) = i_number i) \<Longrightarrow>
   store_safe (update_issues p f)"
  by (rule store_safe_quiet) (auto intro: update_issues_safe quiet_update_issues)

lemma update_worktrees_store_safe [preserves_intros]:
  "(\<And>t. wt_id (f t) = wt_id t) \<Longrightarrow> (\<And>t. wt_path (f t) = wt_path t) \<Longrightarrow> (\<And>t. wt_branch (f t) = wt_branch t) \<Longrightarrow>
   (\<And>t. wt_work_item_id (f t) = wt_work_item_id t) \<Longrightarrow> store_safe (update_worktrees p f)"
  by (rule store_safe_quiet) (auto intro: update_worktrees_safe quiet_ops)

lemma upsert_issue_store_safe [preserves_intros]:
  assumes "List.member [''NEW'', ''BASELINE_EXCLUDED''] (ii_state input)"
    "ii_id input = issue_id_for (ii_repo_id input) (ii_number input)"
  shows "store_safe (upsert_issue_from_snapshot input)"
  unfolding upsert_issue_from_snapshot_def
  by (intro preserves_intros) (use assms in \<open>auto simp: new_issue_row_def\<close>)

lemma update_issue_snapshot_store_safe [preserves_intros]: "store_safe (update_issue_snapshot iid patch)"
  unfolding update_issue_snapshot_def by (intro preserves_intros) simp_all

lemma columns_dependencies [simp]:
  "work_item_column (d\<lparr>work_item_dependencies := ds\<rparr>) = work_item_column d"
  "issue_column (d\<lparr>work_item_dependencies := ds\<rparr>) = issue_column d"
  "work_items_audited (d\<lparr>work_item_dependencies := ds\<rparr>) = work_items_audited d"
  "issues_audited (d\<lparr>work_item_dependencies := ds\<rparr>) = issues_audited d"
  unfolding work_items_audited_def issues_audited_def
  by (simp_all add: work_item_column_def issue_column_def ledger_consistent_def list_transitions_def)

lemma dependency_ops_store_safe [preserves_intros]:
  "store_safe (add_work_item_dependency uuid dependent t)" "store_safe (settle_work_item_dependency rid)"
proof -
  show "store_safe (add_work_item_dependency uuid dependent t)"
  proof (rule store_safeI)
    fix d x d' assume d: "store_ok d" and s: "add_work_item_dependency uuid dependent t d = Inr (x, d')"
    show "store_ok d'"
      using schema_safeD[OF add_dependency_safe store_okD(1)[OF d] s] add_dependency_acyclic[OF s store_okD(4)[OF d]]
        store_okD(2,3,5)[OF d] unfolding store_ok_def add_dependency_success(2)[OF s] by simp
  qed
  show "store_safe (settle_work_item_dependency rid)"
  proof (rule store_safeI)
    fix d x d' assume d: "store_ok d" and s: "settle_work_item_dependency rid d = Inr (x, d')"
    have "work_items_audited d'" "issues_audited d'" "issues_canonical d'"
      using s store_okD(2,3,5)[OF d] by (auto simp: settle_work_item_dependency_def tx_simps)
    then show "store_ok d'"
      using schema_safeD[OF settle_dependency_safe store_okD(1)[OF d] s] settle_dependency_acyclic[OF s store_okD(4)[OF d]]
      by (simp add: store_ok_def)
  qed
qed

lemma columns_ledger [simp]:
  "work_item_column (d\<lparr>state_transitions := ts\<rparr>) = work_item_column d"
  "issue_column (d\<lparr>state_transitions := ts\<rparr>) = issue_column d"
  by (simp_all add: work_item_column_def issue_column_def)

text \<open>A ledger row that is harmless for both columns.\<close>

lemma append_harmless:
  assumes "store_ok d" "harmless_row Work_Item (work_item_ids d) r" "harmless_row Issue (issue_ids d) r"
  shows "store_ok (d\<lparr>state_transitions := state_transitions d @ [r]\<rparr>)"
proof -
  let ?d = "d\<lparr>state_transitions := state_transitions d @ [r]\<rparr>"
  have "work_items_audited ?d"
    unfolding work_items_audited_def
    by (rule ledger_consistent_harmless[OF store_okD(2)[OF assms(1), unfolded work_items_audited_def], of _ "[r]"])
      (use assms(2) in \<open>simp_all add: column_ids\<close>)
  moreover have "issues_audited ?d"
    unfolding issues_audited_def
    by (rule ledger_consistent_harmless[OF store_okD(3)[OF assms(1), unfolded issues_audited_def], of _ "[r]"])
      (use assms(3) in \<open>simp_all add: column_ids\<close>)
  ultimately show ?thesis using assms(1) by (simp add: store_ok_def)
qed

lemma append_other_entity_safe [preserves_intros]:
  assumes "ety \<noteq> Work_Item" "ety \<noteq> Issue"
  shows "store_safe (append_transition ety eid f t ev r a at)"
    and "store_safe (record_transition ety eid f t ev reason a at)"
proof -
  show "store_safe (append_transition ety eid f t ev r a at)"
    using assms by (auto intro!: store_safeI append_harmless dest!: append_transition_success simp: harmless_row_def)
  show "store_safe (record_transition ety eid f t ev reason a at)"
  proof (cases f)
    case None
    then show ?thesis by (auto intro!: store_safeI simp: record_transition_None)
  next
    case (Some s)
    with assms show ?thesis
      by (auto intro!: store_safeI append_harmless dest!: record_transition_success simp: harmless_row_def)
  qed
qed

lemma append_evidence_ok:
  assumes "store_ok d" "append_transition ety eid f t ev r a at d = Inr (u, d')" "List.member evidence_events ev"
    "ety = Work_Item \<Longrightarrow> eid \<in> work_item_ids d" "ety = Issue \<Longrightarrow> eid \<in> issue_ids d"
  shows "store_ok d'"
  using assms by (auto intro!: append_harmless dest!: append_transition_success simp: harmless_row_def is_evidence_def)

section \<open>Audited moves\<close>

lemma store_ok_after_work_item_move:
  assumes "store_ok d" "schema_ok d'" "work_items_audited d'" "issue_column d' = issue_column d"
    "state_transitions d' = state_transitions d @ [r]" "t_entity_type r = Work_Item"
    "work_item_dependencies d' = work_item_dependencies d" "issue_keys d' = issue_keys d"
  shows "store_ok d'"
proof -
  have "issues_audited d'"
    unfolding issues_audited_def
    by (rule ledger_consistent_harmless[OF store_okD(3)[OF assms(1), unfolded issues_audited_def] assms(4), of "[r]"])
      (simp_all add: assms(5,6) harmless_row_def)
  with assms store_okD(4,5)[OF assms(1)] issues_canonical_eq[OF assms(8)] show ?thesis by (simp add: store_ok_def)
qed

lemma set_work_item_state_eq:
  "set_work_item_state wid st patch d = Inr ((), d\<lparr>work_items := update_where (\<lambda>w. w_id w = wid)
     (\<lambda>w. w\<lparr>w_state := st, w_lease_token := coalesce (wp_lease_token patch) (w_lease_token w),
        w_lease_until := coalesce (wp_lease_until patch) (w_lease_until w), w_updated_at := db_now d\<rparr>) (work_items d)\<rparr>)"
  unfolding set_work_item_state_def update_work_items_def tx_modify_eq ..

lemma work_item_record_set_ok:
  assumes "store_ok d" "get_work_item d wid = Some w" "w_state w = f"
    "record_transition Work_Item wid (Some f) t ev reason actor at d = Inr (row, d1)"
    "set_work_item_state wid t patch d1 = Inr (u, d2)"
  shows "store_ok d2"
proof (rule store_ok_after_work_item_move[OF assms(1)])
  show "schema_ok d2"
    using schema_safeD[OF record_transition_safe store_okD(1)[OF assms(1)] assms(4)]
    by (rule schema_safeD[OF set_work_item_state_safe _ assms(5)])
  show "work_items_audited d2"
    using audited_work_item.record_then_set[OF store_okD(2)[OF assms(1), unfolded work_items_audited_def]
        distinct_columns(1)[OF store_okD(1)[OF assms(1)]] _ assms(4,5)] column_mem(1)[OF assms(2)] assms(3)
    by (simp add: work_items_audited_def)
  show "issue_column d2 = issue_column d" "state_transitions d2 = state_transitions d @ [row]"
    "t_entity_type row = Work_Item" "work_item_dependencies d2 = work_item_dependencies d" "issue_keys d2 = issue_keys d"
    using record_transition_success[OF assms(4)] assms(5) by (auto simp: set_work_item_state_eq issue_column_def issue_keys_def)
qed

lemma work_item_set_record_ok:
  assumes "store_ok d" "get_work_item d wid = Some w" "w_state w = f"
    "set_work_item_state wid t patch d = Inr (u, d1)"
    "record_transition Work_Item wid (Some f) t ev reason actor at d1 = Inr (row, d2)"
  shows "store_ok d2"
proof (rule store_ok_after_work_item_move[OF assms(1)])
  show "schema_ok d2"
    using schema_safeD[OF set_work_item_state_safe store_okD(1)[OF assms(1)] assms(4)]
    by (rule schema_safeD[OF record_transition_safe _ assms(5)])
  show "work_items_audited d2"
    using audited_work_item.set_then_record[OF store_okD(2)[OF assms(1), unfolded work_items_audited_def]
        distinct_columns(1)[OF store_okD(1)[OF assms(1)]] _ assms(4,5)] column_mem(1)[OF assms(2)] assms(3)
    by (simp add: work_items_audited_def)
  show "issue_column d2 = issue_column d" "state_transitions d2 = state_transitions d @ [row]"
    "t_entity_type row = Work_Item" "work_item_dependencies d2 = work_item_dependencies d" "issue_keys d2 = issue_keys d"
    using record_transition_success[OF assms(5)] assms(4) by (auto simp: set_work_item_state_eq issue_column_def issue_keys_def)
qed

lemma update_issue_state_success:
  "update_issue_state iid st disp bl d = Inr (u, d') \<Longrightarrow>
     d' = d\<lparr>issues := update_where (\<lambda>i. i_id i = iid)
       (\<lambda>i. i\<lparr>i_state := st, i_disposition_json := disp, i_blocked_by := bl, i_updated_at := db_now d\<rparr>) (issues d)\<rparr>"
  by (auto simp: update_issue_state_def tx_success update_issues_def tx_simps dest!: assert_json_if_set_state)

lemma store_ok_after_issue_move:
  assumes "store_ok d" "schema_ok d'" "issues_audited d'" "work_item_column d' = work_item_column d"
    "state_transitions d' = state_transitions d @ [r]" "t_entity_type r = Issue"
    "work_item_dependencies d' = work_item_dependencies d" "issue_keys d' = issue_keys d"
  shows "store_ok d'"
proof -
  have "work_items_audited d'"
    unfolding work_items_audited_def
    by (rule ledger_consistent_harmless[OF store_okD(2)[OF assms(1), unfolded work_items_audited_def] assms(4), of "[r]"])
      (simp_all add: assms(5,6) harmless_row_def)
  with assms store_okD(4,5)[OF assms(1)] issues_canonical_eq[OF assms(8)] show ?thesis by (simp add: store_ok_def)
qed

lemma issue_record_set_ok:
  assumes "store_ok d" "get_issue_by_id d iid = Some i" "i_state i = f"
    "record_transition Issue iid (Some f) t ev reason actor at d = Inr (row, d1)"
    "update_issue_state iid t disp bl d1 = Inr (u, d2)"
  shows "store_ok d2"
proof (rule store_ok_after_issue_move[OF assms(1)])
  show "schema_ok d2"
    using schema_safeD[OF record_transition_safe store_okD(1)[OF assms(1)] assms(4)]
    by (rule schema_safeD[OF issue_ops_safe(4) _ assms(5)])
  show "issues_audited d2"
    using audited_issue.record_then_set[OF store_okD(3)[OF assms(1), unfolded issues_audited_def]
        distinct_columns(2)[OF store_okD(1)[OF assms(1)]] _ assms(4), of "(disp, bl)"] assms(5)
      column_mem(2)[OF assms(2)] assms(3)
    by (simp add: issues_audited_def)
  show "work_item_column d2 = work_item_column d" "state_transitions d2 = state_transitions d @ [row]"
    "t_entity_type row = Issue" "work_item_dependencies d2 = work_item_dependencies d" "issue_keys d2 = issue_keys d"
    using record_transition_success[OF assms(4)] update_issue_state_success[OF assms(5)]
    by (auto simp: work_item_column_def issue_keys_def update_where_def)
qed

lemma issue_set_record_ok:
  assumes "store_ok d" "get_issue_by_id d iid = Some i" "i_state i = f"
    "update_issue_state iid t disp bl d = Inr (u, d1)"
    "record_transition Issue iid (Some f) t ev reason actor at d1 = Inr (row, d2)"
  shows "store_ok d2"
proof (rule store_ok_after_issue_move[OF assms(1)])
  show "schema_ok d2"
    using schema_safeD[OF issue_ops_safe(4) store_okD(1)[OF assms(1)] assms(4)]
    by (rule schema_safeD[OF record_transition_safe _ assms(5)])
  show "issues_audited d2"
    using audited_issue.set_then_record[OF store_okD(3)[OF assms(1), unfolded issues_audited_def]
        distinct_columns(2)[OF store_okD(1)[OF assms(1)]] _ _ assms(5), of "(disp, bl)"] assms(4)
      column_mem(2)[OF assms(2)] assms(3)
    by (simp add: issues_audited_def)
  show "work_item_column d2 = work_item_column d" "state_transitions d2 = state_transitions d @ [row]"
    "t_entity_type row = Issue" "work_item_dependencies d2 = work_item_dependencies d" "issue_keys d2 = issue_keys d"
    using record_transition_success[OF assms(5)] update_issue_state_success[OF assms(4)]
    by (auto simp: work_item_column_def issue_keys_def update_where_def)
qed


text \<open>The state a WorkItem row holds, and an audited move of it.\<close>

definition item_state :: "db \<Rightarrow> string \<Rightarrow> string option" where
  "item_state d wid = map_option w_state (get_work_item d wid)"

lemma item_state_ids: "item_state d wid \<noteq> None \<longleftrightarrow> wid \<in> work_item_ids d"
  by (simp add: item_state_def get_work_item_ids[symmetric])

lemma item_state_set:
  assumes "set_work_item_state wid t patch d = Inr (u, d')"
  shows "item_state d' i = (if i = wid \<and> item_state d wid \<noteq> None then Some t else item_state d i)"
proof -
  have "get_work_item d' i = map_option (\<lambda>w. if w_id w = wid then w\<lparr>w_state := t, w_lease_token := coalesce (wp_lease_token patch) (w_lease_token w),
        w_lease_until := coalesce (wp_lease_until patch) (w_lease_until w), w_updated_at := db_now d\<rparr> else w) (get_work_item d i)"
    using assms by (auto simp: set_work_item_state_eq get_work_item_def intro!: find_update_where)
  then show ?thesis
    by (cases "get_work_item d i") (auto simp: item_state_def dest: get_work_item_SomeD)
qed

lemma item_state_record: "record_transition Work_Item wid f t ev reason actor at d = Inr (row, d') \<Longrightarrow> item_state d' i = item_state d i"
  by (cases f) (auto simp: item_state_def get_work_item_def record_transition_None dest!: record_transition_success)

lemma work_item_move_ok:
  assumes "store_ok d" "item_state d wid = Some f"
    "record_transition Work_Item wid (Some f) t ev reason actor at d = Inr (row, d1)"
    "set_work_item_state wid t patch d1 = Inr (u, d2)"
  shows "store_ok d2" "item_state d2 i = (if i = wid then Some t else item_state d i)"
    "work_item_dependencies d2 = work_item_dependencies d"
proof -
  show "store_ok d2" using assms(2) work_item_record_set_ok[OF assms(1) _ _ assms(3,4)] by (auto simp: item_state_def)
  show "item_state d2 i = (if i = wid then Some t else item_state d i)"
    using item_state_set[OF assms(4)] item_state_record[OF assms(3)] assms(2) by simp
  show "work_item_dependencies d2 = work_item_dependencies d"
    using record_transition_success[OF assms(3)] assms(4) by (auto simp: set_work_item_state_eq)
qed

lemma work_item_move:
  assumes "store_ok d" "item_state d wid = Some f"
    "tx_bind (record_transition Work_Item wid (Some f) t ev reason actor at) (\<lambda>row. set_work_item_state wid t patch) d = Inr (u, d2)"
  shows "store_ok d2 \<and> item_state d2 = (item_state d)(wid \<mapsto> t) \<and> work_item_dependencies d2 = work_item_dependencies d"
proof -
  obtain row d1 where r: "record_transition Work_Item wid (Some f) t ev reason actor at d = Inr (row, d1)"
    and s: "set_work_item_state wid t patch d1 = Inr (u, d2)" using assms(3) unfolding tx_bind_success by blast
  note m = work_item_move_ok[OF assms(1,2) r s]
  have "item_state d2 = (item_state d)(wid \<mapsto> t)" using m(2) by (auto intro!: ext)
  with m show ?thesis by blast
qed

lemma tx_return_success: "tx_return x s = Inr (y, s') \<longleftrightarrow> y = x \<and> s' = s"
  by (auto simp: tx_return_eq)

lemma tx_bind_then: "tx_bind m (\<lambda>x. tx_then (k x) h) = tx_then (tx_bind m k) h"
  by (auto simp: tx_then_def tx_bind_def intro!: ext split: sum.splits)

lemma quiet_item_state: "tx_rel (frame audit_view) m \<Longrightarrow> m d = Inr (x, d') \<Longrightarrow> item_state d' = item_state d"
proof (rule ext)
  fix i assume "tx_rel (frame audit_view) m" "m d = Inr (x, d')"
  then have c: "work_item_column d' = work_item_column d" by (auto simp: tx_rel_def frame_def audit_view_def)
  have "map_option w_state (List.find (\<lambda>w. w_id w = i) ws) = map_of (map (\<lambda>w. (w_id w, w_state w)) ws) i" for ws
    by (induction ws) auto
  then have "item_state d i = map_of (work_item_column d) i" for d
    by (simp add: item_state_def get_work_item_def work_item_column_def)
  with c show "item_state d' i = item_state d i" by simp
qed

section \<open>Controller code\<close>

text \<open>Code that runs transactions keeps the invariant however it ends; also beside an outside world.\<close>

abbreviation act_safe :: "'a db_act \<Rightarrow> bool" where
  "act_safe m \<equiv> act_rel (keeps store_ok) m"

definition keeps_fst :: "(db \<Rightarrow> bool) \<Rightarrow> db \<times> 'w \<Rightarrow> db \<times> 'w \<Rightarrow> bool" where
  "keeps_fst P s s' \<longleftrightarrow> keeps P (fst s) (fst s')"

interpretation keeping_fst: tx_preorder "keeps_fst P" for P
  by unfold_locales (auto simp: keeps_fst_def keeps_def)

abbreviation world_safe :: "(db \<times> 'w, err, 'a) act \<Rightarrow> bool" where
  "world_safe m \<equiv> act_rel (keeps_fst store_ok) m"

text \<open>A transaction inside code that also talks to the outside world.\<close>

type_synonym ('w, 'a) world_act = "(db \<times> 'w, err, 'a) act"

definition write_tx :: "'a db_tx \<Rightarrow> ('w, 'a) world_act" where
  "write_tx m = on_fst (run_write m)"

lemma act_outsideE:
  assumes "act_bind (on_snd m) f (d, w) = (r, (d', w'))"
  obtains (failed) "d' = d" | (returned) x w1 where "f x (d, w1) = (r, (d', w'))"
  using assms by (auto simp: act_bind_def on_snd_def split: prod.splits sum.splits)

lemma write_tx_thenE:
  assumes "act_then (write_tx m) k (d, w) = (r, (d', w'))"
  obtains (failed) "d' = d" | (returned) x d1 where "m d = Inr (x, d1)" "k (d1, w) = (r, (d', w'))"
  using assms by (auto simp: act_then_def act_bind_def write_tx_def on_fst_def run_write_def split: sum.splits)

lemma store_safe_run: "store_safe m \<Longrightarrow> store_ok d \<Longrightarrow> store_ok (snd (run_write m d))"
  by (auto simp: run_write_def split: sum.splits dest: store_safeD)

lemma act_safe_run [act_intros]: "store_safe m \<Longrightarrow> act_safe (run_write m)"
  by (rule act_relI) (simp add: keeps_def store_safe_run)

lemma act_safeD: "act_safe m \<Longrightarrow> store_ok d \<Longrightarrow> m d = (r, d') \<Longrightarrow> store_ok d'"
  by (auto simp: keeps_def dest: act_relD)

lemma world_safeD: "world_safe m \<Longrightarrow> store_ok d \<Longrightarrow> m (d, w) = (r, (d', w')) \<Longrightarrow> store_ok d'"
  by (auto simp: keeps_fst_def keeps_def dest: act_relD)

lemma world_safe_on_fst [act_intros]: "act_safe m \<Longrightarrow> world_safe (on_fst m)"
  by (rule act_relI) (auto simp: keeps_fst_def on_fst_def split: prod.splits dest: act_relD)

lemma world_safe_on_snd [act_intros]: "world_safe (on_snd m)"
  by (rule act_relI) (auto simp: keeps_fst_def keeps_def on_snd_def split: prod.splits)

lemma world_safe_write [act_intros]: "store_safe m \<Longrightarrow> world_safe (write_tx m)"
  unfolding write_tx_def by (intro act_intros)

lemmas keeping_act_intros [act_intros] = keeping.act_rel_intros

lemmas keeping_fst_act_intros [act_intros] = keeping_fst.act_rel_intros

lemma synchronize_store_safe [act_intros]: "act_safe (synchronize_configured_repositories c at)"
  unfolding synchronize_configured_repositories_def by (intro act_intros preserves_intros)

lemma example_db_ok: "store_ok example_db"
  using synchronize_store_safe store_ok_empty by (simp add: example_db_def act_rel_def keeps_def)

text \<open>WorkItem b runs, a is deferred on b.\<close>

definition example_move :: "string \<Rightarrow> string \<Rightarrow> string \<Rightarrow> unit db_tx" where
  "example_move wid t ev = tx_bind (tx_get (\<lambda>d. item_state d wid)) (\<lambda>st. case st of None \<Rightarrow> tx_return ()
     | Some f \<Rightarrow> tx_bind (record_transition Work_Item wid (Some f) t ev None ''example'' None) (\<lambda>row. set_work_item_state wid t no_lease_patch))"

lemma example_move_store_safe [preserves_intros]: "store_safe (example_move wid t ev)"
proof (rule store_safeI)
  fix d x d' assume d: "store_ok d" and run: "example_move wid t ev d = Inr (x, d')"
  show "store_ok d'"
  proof (cases "item_state d wid")
    case None
    with d run show ?thesis by (simp add: example_move_def tx_bind_get_eq tx_return_eq)
  next
    case (Some f)
    with run have "tx_bind (record_transition Work_Item wid (Some f) t ev None ''example'' None) (\<lambda>row. set_work_item_state wid t no_lease_patch) d = Inr (x, d')"
      by (simp add: example_move_def tx_bind_get_eq)
    from work_item_move[OF d Some this] show ?thesis by blast
  qed
qed

lemma example_chain_db_ok: "store_ok example_chain_db"
  unfolding example_chain_db_def
  by (rule store_safe_run[OF _ example_db_ok]) (intro keeping.rel_intros preserves_intros; simp add: example_work_item_def)

definition example_working_db :: db where
  "example_working_db = snd (run_write (tx_foreach (\<lambda>m. example_move (fst m) (fst (snd m)) (snd (snd m)))
     [(''a'', ''QUEUED'', ''queue''), (''a'', ''RUNNING'', ''claim''), (''a'', ''DEFERRED'', ''defer''),
      (''b'', ''QUEUED'', ''queue''), (''b'', ''RUNNING'', ''claim'')]) example_chain_db)"

lemma example_working_db_ok: "store_ok example_working_db"
  unfolding example_working_db_def
  by (rule store_safe_run[OF _ example_chain_db_ok]) (intro preserves_intros keeping.rel_intros)

end
