(* ===== verification/Envelopes.thy ===== *)
theory Envelopes
  imports Audited
begin

text \<open>
  Agent envelopes (\<^verbatim>\<open>src/domain/envelopes.ts\<close>): bounded validation, duplicate detection against the ledger,
  and the single state disposition an envelope applies. An \<^verbatim>\<open>undefined\<close> key is \<open>None\<close>. The lemmas say that
  an application keeps the store invariant, that it is legal, and that an envelope
  takes effect once, however often and however late it is delivered again.
\<close>

section \<open>Envelopes\<close>

record triage_envelope =
  te_envelope_id :: string
  te_issue_id :: string
  te_disposition :: string
  te_canonical_work_item_id :: "string option"
  te_blocked_by :: "string option"
  te_reason :: "string option"

record resolution_dependency =
  rd_kind :: string
  rd_id :: string

record resolution_envelope =
  re_envelope_id :: string
  re_work_item_id :: string
  re_outcome :: string
  re_dependency :: "resolution_dependency option"
  re_reason :: "string option"

text \<open>An envelope whose \<^verbatim>\<open>kind\<close> is neither is \<open>Other_Envelope\<close>.\<close>

datatype agent_envelope =
    Triage_Envelope triage_envelope
  | Resolution_Envelope resolution_envelope
  | Other_Envelope string

datatype apply_status = Applied | Noop_Duplicate

record apply_result =
  ar_status :: apply_status
  ar_entity_type :: entity_type
  ar_entity_id :: string
  ar_from_state :: string
  ar_to_state :: string
  ar_envelope_id :: string

section \<open>Validation\<close>

text \<open>\<^verbatim>\<open>/^[A-Za-z0-9._/:-]+$/\<close>\<close>

definition identifier_char :: "char \<Rightarrow> bool" where
  "identifier_char c \<longleftrightarrow> is_alnum c \<or> List.member ''._/:-'' c"

definition validate_identifier :: "string \<Rightarrow> string \<Rightarrow> unit db_tx" where
  "validate_identifier v field =
     (if v = [] then tx_fail (EnvelopeValidationError (field @ '': must be a non-empty string''))
      else if length v > 160 then tx_fail (EnvelopeValidationError (field @ '': exceeds 160 characters''))
      else if \<not> list_all identifier_char v
      then tx_fail (EnvelopeValidationError (field @ '': contains characters that are not identifier-safe''))
      else tx_return ())"

definition validate_optional_identifier :: "string option \<Rightarrow> string \<Rightarrow> unit db_tx" where
  "validate_optional_identifier v field = (case v of None \<Rightarrow> tx_return () | Some s \<Rightarrow> validate_identifier s field)"

definition validate_reason :: "string option \<Rightarrow> unit db_tx" where
  "validate_reason v =
     (case v of None \<Rightarrow> tx_return ()
      | Some s \<Rightarrow> tx_guard (length s \<le> 2000) (EnvelopeValidationError ''reason: exceeds 2000 characters''))"

definition validate_triage_envelope :: "triage_envelope \<Rightarrow> unit db_tx" where
  "validate_triage_envelope e =
     tx_then (validate_identifier (te_envelope_id e) ''envelope_id'')
     (tx_then (validate_identifier (te_issue_id e) ''issue_id'')
     (tx_then (tx_guard (List.member ISSUE_TRIAGE_DISPOSITIONS (te_disposition e))
         (EnvelopeValidationError (''disposition: '' @ quoted (te_disposition e) @ '' is not a triage disposition'')))
     (tx_then (validate_optional_identifier (te_canonical_work_item_id e) ''canonical_work_item_id'')
     (tx_then (validate_optional_identifier (te_blocked_by e) ''blocked_by'')
       (validate_reason (te_reason e))))))"

definition resolution_outcomes :: "string list" where
  "resolution_outcomes = [''completed'', ''awaiting_review'', ''needs_changes'', ''awaiting_decision'', ''deferred'']"

definition validate_dependency :: "resolution_dependency option \<Rightarrow> unit db_tx" where
  "validate_dependency v =
     (case v of None \<Rightarrow> tx_return ()
      | Some dep \<Rightarrow> tx_then (tx_guard (List.member [''issue'', ''work_item''] (rd_kind dep))
            (EnvelopeValidationError (''dependency: kind must be '' @ quoted ''issue'' @ '' or '' @ quoted ''work_item'')))
          (validate_identifier (rd_id dep) ''dependency.id''))"

definition validate_resolution_envelope :: "resolution_envelope \<Rightarrow> unit db_tx" where
  "validate_resolution_envelope e =
     tx_then (validate_identifier (re_envelope_id e) ''envelope_id'')
     (tx_then (validate_identifier (re_work_item_id e) ''work_item_id'')
     (tx_then (tx_guard (List.member resolution_outcomes (re_outcome e))
         (EnvelopeValidationError (''outcome: '' @ quoted (re_outcome e) @ '' is not a resolution outcome'')))
     (tx_then (validate_dependency (re_dependency e))
     (tx_then (tx_guard (\<not> (re_outcome e = ''deferred'' \<and> re_dependency e = None))
         (EnvelopeValidationError ''dependency: exactly one target is required for deferred outcome''))
     (tx_then (tx_guard (\<not> (re_outcome e \<noteq> ''deferred'' \<and> re_dependency e \<noteq> None))
         (EnvelopeValidationError ''dependency: only deferred outcome may include a dependency''))
       (validate_reason (re_reason e)))))))"

definition validate_envelope :: "agent_envelope \<Rightarrow> unit db_tx" where
  "validate_envelope envelope =
     (case envelope of
        Triage_Envelope e \<Rightarrow> validate_triage_envelope e
      | Resolution_Envelope e \<Rightarrow> validate_resolution_envelope e
      | Other_Envelope k \<Rightarrow> tx_fail (EnvelopeValidationError (''envelope kind '' @ quoted k @ '' is unsupported'')))"

section \<open>Duplicates\<close>

definition mentions_envelope :: "string \<Rightarrow> transition_row \<Rightarrow> bool" where
  "mentions_envelope envelope_id r \<longleftrightarrow> t_event r \<noteq> ''noop_duplicate_envelope'' \<and>
     (case Option.bind (t_reason_json r) json_parse of
        None \<Rightarrow> False | Some j \<Rightarrow> json_field j ''envelope_id'' = Some (JStr envelope_id))"

definition is_duplicate :: "db \<Rightarrow> entity_type \<Rightarrow> string \<Rightarrow> string \<Rightarrow> string \<Rightarrow> string \<Rightarrow> bool" where
  "is_duplicate d ety eid envelope_id current_state target_state \<longleftrightarrow>
     current_state = target_state \<or> list_ex (mentions_envelope envelope_id) (list_transitions d ety eid)"

definition record_noop ::
  "entity_type \<Rightarrow> string \<Rightarrow> string \<Rightarrow> string \<Rightarrow> string \<Rightarrow> string option \<Rightarrow> unit db_tx" where
  "record_noop ety eid from_state target_state envelope_id reason_text =
     append_transition ety eid (Some from_state) target_state ''noop_duplicate_envelope''
       (Some (Text (JObj [(''envelope_id'', JStr envelope_id), (''duplicate'', JBool True),
          (''reason'', JStr (coalesce reason_text ''envelope already applied or target state already reached''))])))
       ''controller.applyEnvelope'' None"

section \<open>Application\<close>

definition apply_triage_envelope :: "triage_envelope \<Rightarrow> apply_result db_tx" where
  "apply_triage_envelope e =
     tx_then (validate_triage_envelope e)
     (tx_bind (tx_get (\<lambda>d. get_issue_by_id d (te_issue_id e))) (\<lambda>found.
       case found of
         None \<Rightarrow> tx_fail (EnvelopeValidationError (''issue '' @ quoted (te_issue_id e) @ '' does not exist''))
       | Some issue \<Rightarrow>
         let target = te_disposition e; event = coalesce (ISSUE_DISPOSITION_EVENT (te_disposition e)) [];
             result = (\<lambda>st. \<lparr>ar_status = st, ar_entity_type = Issue, ar_entity_id = i_id issue,
               ar_from_state = i_state issue, ar_to_state = target, ar_envelope_id = te_envelope_id e\<rparr>) in
         tx_bind (tx_get (\<lambda>d. is_duplicate d Issue (i_id issue) (te_envelope_id e) (i_state issue) target)) (\<lambda>dup.
         if dup
         then tx_then (record_noop Issue (i_id issue) (i_state issue) target (te_envelope_id e) (te_reason e))
           (tx_return (result Noop_Duplicate))
         else if \<not> is_legal_transition Issue (i_state issue) target event
         then tx_fail (EnvelopeValidationError (''issue '' @ quoted (i_id issue) @ '' is in state '' @
           quoted (i_state issue) @ '' which cannot legally become '' @ quoted target))
         else tx_then (update_issue_state (i_id issue) target
             (Some (Text (JObj [(''disposition'', JStr target),
                (''canonical_work_item_id'', json_opt (te_canonical_work_item_id e)),
                (''envelope_id'', JStr (te_envelope_id e))]))) (te_blocked_by e))
           (tx_bind (record_transition Issue (i_id issue) (Some (i_state issue)) target event
             (Some (JObj [(''envelope_id'', JStr (te_envelope_id e)), (''disposition'', JStr target),
                (''canonical_work_item_id'', json_opt (te_canonical_work_item_id e)),
                (''blocked_by'', json_opt (te_blocked_by e)), (''reason'', json_opt (te_reason e))]))
             ''controller.applyEnvelope'' None)
             (\<lambda>row. tx_return (result Applied))))))"

definition RESOLUTION_OUTCOME_TO :: "string \<rightharpoonup> string" where
  "RESOLUTION_OUTCOME_TO = map_of [(''completed'', ''COMPLETED''), (''awaiting_review'', ''WAITING''),
     (''needs_changes'', ''RUNNING''), (''awaiting_decision'', ''AWAITING_DECISION''), (''deferred'', ''DEFERRED'')]"

definition RESOLUTION_OUTCOME_EVENT :: "string \<rightharpoonup> string" where
  "RESOLUTION_OUTCOME_EVENT = map_of [(''completed'', ''completed''), (''awaiting_review'', ''await_review''),
     (''needs_changes'', ''resume''), (''awaiting_decision'', ''await_decision''), (''deferred'', ''defer'')]"

definition dependency_target_of :: "resolution_dependency \<Rightarrow> dependency_target" where
  "dependency_target_of dep = (if rd_kind dep = ''issue'' then On_Issue (rd_id dep) else On_Work_Item (rd_id dep))"

definition dependency_json :: "resolution_dependency option \<Rightarrow> json" where
  "dependency_json v =
     (case v of None \<Rightarrow> JNull | Some dep \<Rightarrow> JObj [(''kind'', JStr (rd_kind dep)), (''id'', JStr (rd_id dep))])"

definition defer_on :: "string \<Rightarrow> string \<Rightarrow> resolution_dependency option \<Rightarrow> unit db_tx" where
  "defer_on uuid wid v =
     (case v of None \<Rightarrow> tx_return ()
      | Some dep \<Rightarrow> tx_bind (add_work_item_dependency uuid wid (dependency_target_of dep)) (\<lambda>r. tx_return ()))"

definition apply_resolution_envelope :: "string \<Rightarrow> resolution_envelope \<Rightarrow> apply_result db_tx" where
  "apply_resolution_envelope uuid e =
     tx_then (validate_resolution_envelope e)
     (tx_bind (tx_get (\<lambda>d. get_work_item d (re_work_item_id e))) (\<lambda>found.
       case found of
         None \<Rightarrow> tx_fail (EnvelopeValidationError (''work item '' @ quoted (re_work_item_id e) @ '' does not exist''))
       | Some wi \<Rightarrow>
         let target = coalesce (RESOLUTION_OUTCOME_TO (re_outcome e)) [];
             event = coalesce (RESOLUTION_OUTCOME_EVENT (re_outcome e)) [];
             result = (\<lambda>st. \<lparr>ar_status = st, ar_entity_type = Work_Item, ar_entity_id = w_id wi,
               ar_from_state = w_state wi, ar_to_state = target, ar_envelope_id = re_envelope_id e\<rparr>) in
         tx_bind (tx_get (\<lambda>d. is_duplicate d Work_Item (w_id wi) (re_envelope_id e) (w_state wi) target)) (\<lambda>dup.
         if dup
         then tx_then (record_noop Work_Item (w_id wi) (w_state wi) target (re_envelope_id e) (re_reason e))
           (tx_return (result Noop_Duplicate))
         else if \<not> is_legal_transition Work_Item (w_state wi) target event
         then tx_fail (EnvelopeValidationError (''work item '' @ quoted (w_id wi) @ '' is in state '' @
           quoted (w_state wi) @ '' which cannot legally become '' @ quoted target @ '' via '' @ quoted (re_outcome e)))
         else tx_then (if re_outcome e = ''deferred'' then defer_on uuid (w_id wi) (re_dependency e) else tx_return ())
           (tx_then (set_work_item_state (w_id wi) target no_lease_patch)
           (tx_bind (record_transition Work_Item (w_id wi) (Some (w_state wi)) target event
             (Some (JObj [(''envelope_id'', JStr (re_envelope_id e)), (''outcome'', JStr (re_outcome e)),
                (''dependency'', dependency_json (re_dependency e)), (''reason'', json_opt (re_reason e))]))
             ''controller.applyEnvelope'' None)
             (\<lambda>row. tx_return (result Applied)))))))"

definition apply_envelope :: "string \<Rightarrow> agent_envelope \<Rightarrow> apply_result db_tx" where
  "apply_envelope uuid envelope =
     tx_then (validate_envelope envelope)
       (case envelope of
          Triage_Envelope e \<Rightarrow> apply_triage_envelope e
        | Resolution_Envelope e \<Rightarrow> apply_resolution_envelope uuid e
        | Other_Envelope k \<Rightarrow> tx_fail (EnvelopeValidationError (''envelope kind '' @ quoted k @ '' is unsupported'')))"


section \<open>What an application does\<close>

lemma validators_read_only [frame_intros]:
  "tx_rel (frame (\<lambda>d. d)) (validate_identifier v field)"
  "tx_rel (frame (\<lambda>d. d)) (validate_optional_identifier ov field)"
  "tx_rel (frame (\<lambda>d. d)) (validate_reason rv)"
  "tx_rel (frame (\<lambda>d. d)) (validate_dependency dv)"
  unfolding validate_identifier_def validate_optional_identifier_def validate_reason_def validate_dependency_def
  by - (intro frame_intros)+

lemma validate_envelopes_read_only [frame_intros]:
  "tx_rel (frame (\<lambda>d. d)) (validate_triage_envelope te)"
  "tx_rel (frame (\<lambda>d. d)) (validate_resolution_envelope re)"
  unfolding validate_triage_envelope_def validate_resolution_envelope_def by - (intro frame_intros)+

lemma validate_state:
  "validate_triage_envelope te d = Inr (u, d') \<Longrightarrow> d' = d"
  "validate_resolution_envelope re d = Inr (u, d') \<Longrightarrow> d' = d"
  "validate_envelope env d = Inr (u, d') \<Longrightarrow> d' = d"
proof -
  show 1: "validate_triage_envelope te d = Inr (u, d') \<Longrightarrow> d' = d" for te d d'
    using tx_relD[OF validate_envelopes_read_only(1)] by (auto simp: frame_def)
  show 2: "validate_resolution_envelope re d = Inr (u, d') \<Longrightarrow> d' = d" for re d d'
    using tx_relD[OF validate_envelopes_read_only(2)] by (auto simp: frame_def)
  show "validate_envelope env d = Inr (u, d') \<Longrightarrow> d' = d"
    using 1 2 by (cases env) (auto simp: validate_envelope_def tx_simps)
qed

lemma apply_triage_success:
  assumes "apply_triage_envelope e d = Inr (res, d')"
  obtains (noop) issue where "get_issue_by_id d (te_issue_id e) = Some issue"
      "is_duplicate d Issue (i_id issue) (te_envelope_id e) (i_state issue) (te_disposition e)"
      "record_noop Issue (i_id issue) (i_state issue) (te_disposition e) (te_envelope_id e) (te_reason e) d = Inr ((), d')"
      "ar_status res = Noop_Duplicate"
    | (applied) issue disp reason d1 row where "get_issue_by_id d (te_issue_id e) = Some issue"
      "\<not> is_duplicate d Issue (i_id issue) (te_envelope_id e) (i_state issue) (te_disposition e)"
      "update_issue_state (i_id issue) (te_disposition e) disp (te_blocked_by e) d = Inr ((), d1)"
      "record_transition Issue (i_id issue) (Some (i_state issue)) (te_disposition e)
         (coalesce (ISSUE_DISPOSITION_EVENT (te_disposition e)) [])
         (Some (JObj ((''envelope_id'', JStr (te_envelope_id e)) # reason))) ''controller.applyEnvelope'' None d1 = Inr (row, d')"
      "res = \<lparr>ar_status = Applied, ar_entity_type = Issue, ar_entity_id = i_id issue, ar_from_state = i_state issue,
         ar_to_state = te_disposition e, ar_envelope_id = te_envelope_id e\<rparr>"
proof -
  obtain issue where i: "get_issue_by_id d (te_issue_id e) = Some issue"
    using assms by (auto simp: apply_triage_envelope_def tx_success tx_simps dest!: validate_state split: option.splits)
  show thesis
  proof (cases "is_duplicate d Issue (i_id issue) (te_envelope_id e) (i_state issue) (te_disposition e)")
    case True
    show thesis
      by (rule noop[OF i True])
        (use assms i True in \<open>auto simp: apply_triage_envelope_def tx_success tx_simps Let_def dest!: validate_state\<close>)
  next
    case False
    have "\<exists>disp reason d1 row. update_issue_state (i_id issue) (te_disposition e) disp (te_blocked_by e) d = Inr ((), d1) \<and>
        record_transition Issue (i_id issue) (Some (i_state issue)) (te_disposition e)
         (coalesce (ISSUE_DISPOSITION_EVENT (te_disposition e)) [])
         (Some (JObj ((''envelope_id'', JStr (te_envelope_id e)) # reason))) ''controller.applyEnvelope'' None d1 = Inr (row, d') \<and>
        res = \<lparr>ar_status = Applied, ar_entity_type = Issue, ar_entity_id = i_id issue, ar_from_state = i_state issue,
         ar_to_state = te_disposition e, ar_envelope_id = te_envelope_id e\<rparr>"
      using assms i False
      by (auto simp only: apply_triage_envelope_def tx_success tx_simps Let_def option.case apply_result.simps
          unit_all_eq1 sum.inject prod.inject dest!: validate_state split: if_splits) blast
    then show thesis using applied[OF i False] by blast
  qed
qed

lemma defer_on_success:
  assumes "defer_on uuid wid v d = Inr (u, d')"
  shows "\<exists>ds. d' = d\<lparr>work_item_dependencies := work_item_dependencies d @ ds\<rparr>"
proof (cases v)
  case None
  with assms show ?thesis by (auto simp: defer_on_def tx_simps intro!: exI[of _ "[]"])
next
  case (Some dep)
  with assms obtain row where "add_work_item_dependency uuid wid (dependency_target_of dep) d = Inr (row, d')"
    by (auto simp: defer_on_def tx_success tx_simps)
  from add_dependency_success(2)[OF this] show ?thesis by blast
qed

lemma apply_resolution_success:
  assumes "apply_resolution_envelope uuid e d = Inr (res, d')"
  obtains (noop) wi where "get_work_item d (re_work_item_id e) = Some wi"
      "is_duplicate d Work_Item (w_id wi) (re_envelope_id e) (w_state wi) (coalesce (RESOLUTION_OUTCOME_TO (re_outcome e)) [])"
      "record_noop Work_Item (w_id wi) (w_state wi) (coalesce (RESOLUTION_OUTCOME_TO (re_outcome e)) [])
         (re_envelope_id e) (re_reason e) d = Inr ((), d')"
      "ar_status res = Noop_Duplicate"
    | (applied) wi d1 d2 reason row where "get_work_item d (re_work_item_id e) = Some wi"
      "\<not> is_duplicate d Work_Item (w_id wi) (re_envelope_id e) (w_state wi) (coalesce (RESOLUTION_OUTCOME_TO (re_outcome e)) [])"
      "(if re_outcome e = ''deferred'' then defer_on uuid (w_id wi) (re_dependency e) else tx_return ()) d = Inr ((), d1)"
      "set_work_item_state (w_id wi) (coalesce (RESOLUTION_OUTCOME_TO (re_outcome e)) []) no_lease_patch d1 = Inr ((), d2)"
      "record_transition Work_Item (w_id wi) (Some (w_state wi)) (coalesce (RESOLUTION_OUTCOME_TO (re_outcome e)) [])
         (coalesce (RESOLUTION_OUTCOME_EVENT (re_outcome e)) [])
         (Some (JObj ((''envelope_id'', JStr (re_envelope_id e)) # reason))) ''controller.applyEnvelope'' None d2 = Inr (row, d')"
      "res = \<lparr>ar_status = Applied, ar_entity_type = Work_Item, ar_entity_id = w_id wi, ar_from_state = w_state wi,
         ar_to_state = coalesce (RESOLUTION_OUTCOME_TO (re_outcome e)) [], ar_envelope_id = re_envelope_id e\<rparr>"
proof -
  obtain wi where i: "get_work_item d (re_work_item_id e) = Some wi"
    using assms by (auto simp: apply_resolution_envelope_def tx_success tx_simps dest!: validate_state split: option.splits)
  let ?to = "coalesce (RESOLUTION_OUTCOME_TO (re_outcome e)) []" and ?ev = "coalesce (RESOLUTION_OUTCOME_EVENT (re_outcome e)) []"
  let ?defer = "if re_outcome e = ''deferred'' then defer_on uuid (w_id wi) (re_dependency e) else tx_return ()"
  show thesis
  proof (cases "is_duplicate d Work_Item (w_id wi) (re_envelope_id e) (w_state wi) ?to")
    case True
    show thesis
      by (rule noop[OF i True])
        (use assms i True in \<open>auto simp: apply_resolution_envelope_def tx_success tx_simps Let_def dest!: validate_state\<close>)
  next
    case False
    have v: "validate_resolution_envelope e d = Inr ((), d)"
      using assms by (auto simp: apply_resolution_envelope_def tx_then_success dest: validate_state)
    have legal: "is_legal_transition Work_Item (w_state wi) ?to ?ev"
      by (rule ccontr) (use assms i False v in \<open>simp add: apply_resolution_envelope_def Let_def tx_bind_get_eq tx_fail_eq\<close>)
    define dfr where "dfr = ?defer"
    have run: "tx_then dfr (tx_then (set_work_item_state (w_id wi) ?to no_lease_patch)
        (tx_bind (record_transition Work_Item (w_id wi) (Some (w_state wi)) ?to ?ev
           (Some (JObj [(''envelope_id'', JStr (re_envelope_id e)), (''outcome'', JStr (re_outcome e)),
              (''dependency'', dependency_json (re_dependency e)), (''reason'', json_opt (re_reason e))]))
           ''controller.applyEnvelope'' None)
        (\<lambda>row. tx_return \<lparr>ar_status = Applied, ar_entity_type = Work_Item, ar_entity_id = w_id wi,
           ar_from_state = w_state wi, ar_to_state = ?to, ar_envelope_id = re_envelope_id e\<rparr>))) d = Inr (res, d')"
      using assms i False v legal unfolding dfr_def by (simp add: apply_resolution_envelope_def Let_def tx_bind_get_eq)
    then have "\<exists>d1 d2 reason row. dfr d = Inr ((), d1) \<and> set_work_item_state (w_id wi) ?to no_lease_patch d1 = Inr ((), d2) \<and>
        record_transition Work_Item (w_id wi) (Some (w_state wi)) ?to ?ev
         (Some (JObj ((''envelope_id'', JStr (re_envelope_id e)) # reason))) ''controller.applyEnvelope'' None d2 = Inr (row, d') \<and>
        res = \<lparr>ar_status = Applied, ar_entity_type = Work_Item, ar_entity_id = w_id wi, ar_from_state = w_state wi,
         ar_to_state = coalesce (RESOLUTION_OUTCOME_TO (re_outcome e)) [], ar_envelope_id = re_envelope_id e\<rparr>"
      unfolding tx_success by (elim exE conjE) (simp only: unit_all_eq1, fastforce simp: tx_return_eq[of _ d'] tx_return_eq)
    then show thesis using applied[OF i False] unfolding dfr_def by blast
  qed
qed

lemma record_noop_success:
  "record_noop ety eid f t env why d = Inr (u, d') \<Longrightarrow>
     \<exists>r. d' = d\<lparr>state_transitions := state_transitions d @ [r]\<rparr> \<and> t_entity_type r = ety \<and> t_entity_id r = eid \<and> is_evidence r"
  by (auto simp: record_noop_def is_evidence_def evidence_events_def)

section \<open>An application keeps the invariant\<close>

lemma record_noop_ok:
  assumes "store_ok d" "record_noop ety eid f t env why d = Inr (u, d')"
    "ety = Work_Item \<Longrightarrow> eid \<in> work_item_ids d" "ety = Issue \<Longrightarrow> eid \<in> issue_ids d"
  shows "store_ok d'"
  using assms unfolding record_noop_def
  by (intro append_evidence_ok[OF assms(1) assms(2)[unfolded record_noop_def]]) (simp_all add: evidence_events_def)

lemma apply_triage_store_safe [preserves_intros]: "store_safe (apply_triage_envelope e)"
proof (rule store_safeI)
  fix d res d' assume d: "store_ok d" and s: "apply_triage_envelope e d = Inr (res, d')"
  from s show "store_ok d'"
  proof (cases rule: apply_triage_success)
    case (noop issue)
    then show ?thesis
      using record_noop_ok[OF d noop(3)] by (auto simp: issue_ids_def dest!: get_issue_by_id_SomeD)
  next
    case (applied issue disp reason d1 row)
    then have "get_issue_by_id d (i_id issue) = Some issue"
      using get_issue_by_id_SomeD[OF applied(1)] by simp
    from issue_set_record_ok[OF d this refl applied(3,4)] show ?thesis .
  qed
qed

lemma defer_on_store_safe [preserves_intros]: "store_safe (defer_on uuid wid v)"
  unfolding defer_on_def by (intro preserves_intros)

lemma apply_resolution_store_safe [preserves_intros]: "store_safe (apply_resolution_envelope uuid e)"
proof (rule store_safeI)
  fix d res d' assume d: "store_ok d" and s: "apply_resolution_envelope uuid e d = Inr (res, d')"
  from s show "store_ok d'"
  proof (cases rule: apply_resolution_success)
    case (noop wi)
    then show ?thesis
      using record_noop_ok[OF d noop(3)] by (auto simp: work_item_ids_def dest!: get_work_item_SomeD)
  next
    case (applied wi d1 d2 reason row)
    have "store_safe (if re_outcome e = ''deferred'' then defer_on uuid (w_id wi) (re_dependency e) else tx_return ())"
      by (intro preserves_intros)
    from store_safeD[OF this d applied(3)] have d1: "store_ok d1" .
    have "work_items d1 = work_items d"
      using applied(3) defer_on_success[of uuid "w_id wi" "re_dependency e" d "()" d1] by (auto simp: tx_simps split: if_splits)
    with get_work_item_SomeD[OF applied(1)] applied(1) have "get_work_item d1 (w_id wi) = Some wi"
      by (simp add: get_work_item_def)
    from work_item_set_record_ok[OF d1 this refl applied(4,5)] show ?thesis .
  qed
qed

lemma apply_envelope_cases:
  assumes "apply_envelope uuid envelope d = Inr (res, d')"
  obtains (triage) e where "envelope = Triage_Envelope e" "apply_triage_envelope e d = Inr (res, d')"
    | (resolution) e where "envelope = Resolution_Envelope e" "apply_resolution_envelope uuid e d = Inr (res, d')"
  using assms unfolding apply_envelope_def tx_then_success
  by (elim exE conjE, drule_tac validate_state(3)) (cases envelope, simp_all add: tx_fail_eq)

lemma apply_envelope_store_safe [preserves_intros]: "store_safe (apply_envelope uuid envelope)"
proof (rule store_safeI)
  fix d res d' assume d: "store_ok d" and "apply_envelope uuid envelope d = Inr (res, d')"
  from this(2) show "store_ok d'"
    by (cases rule: apply_envelope_cases)
      (rule store_safeD[OF apply_triage_store_safe d] store_safeD[OF apply_resolution_store_safe d], assumption)+
qed

lemma record_noop_grows [grows_intros]: "tx_rel grows (record_noop ety eid f t env why)"
  by (auto simp: tx_rel_def grows_def dest!: record_noop_success)

section \<open>An envelope takes effect once\<close>

lemma mentions_recorded:
  assumes "record_transition ety eid (Some f) t ev (Some (JObj ((''envelope_id'', JStr env) # reason))) a at d = Inr (row, d')"
    "state_transitions d2 = state_transitions d' @ rows"
  shows "is_duplicate d2 ety eid env s t'"
proof -
  note r = record_transition_success[OF assms(1)]
  then have "ev \<noteq> ''noop_duplicate_envelope''"
    using legal_not_evidence[of ety f t ev] by (auto simp: evidence_events_def)
  with r have "mentions_envelope env row" by (simp add: mentions_envelope_def)
  moreover have "row \<in> set (list_transitions d2 ety eid)"
    using r assms(2) by (auto simp: list_transitions_def)
  ultimately show ?thesis by (auto simp: is_duplicate_def list_ex_iff)
qed

lemma recorded_once:
  assumes "apply_envelope uuid env d = Inr (res, d')" "ar_status res = Applied"
  obtains (triage) e f ev reason d1 row where "env = Triage_Envelope e"
      "record_transition Issue (te_issue_id e) (Some f) (te_disposition e) ev
         (Some (JObj ((''envelope_id'', JStr (te_envelope_id e)) # reason))) ''controller.applyEnvelope'' None d1 = Inr (row, d')"
    | (resolution) e f t ev reason d1 row where "env = Resolution_Envelope e"
      "record_transition Work_Item (re_work_item_id e) (Some f) t ev
         (Some (JObj ((''envelope_id'', JStr (re_envelope_id e)) # reason))) ''controller.applyEnvelope'' None d1 = Inr (row, d')"
  using assms(1)
proof (cases rule: apply_envelope_cases)
  case tri: (triage e)
  from tri(2) show thesis
  proof (cases rule: apply_triage_success)
    case (applied issue disp reason d1 row)
    with get_issue_by_id_SomeD[OF applied(1)] show thesis using triage[OF tri(1)] by metis
  qed (use assms(2) in simp)
next
  case rsl: (resolution e)
  from rsl(2) show thesis
  proof (cases rule: apply_resolution_success)
    case (applied wi d1 d2 reason row)
    with get_work_item_SomeD[OF applied(1)] show thesis using resolution[OF rsl(1)] by metis
  qed (use assms(2) in simp)
qed

text \<open>
  C5: An agent envelope takes effect once. After an envelope was applied, any later delivery of the same
  envelope, in any database whose ledger extends the one it left, whatever happened in between, is
  a duplicate: it appends one evidence row and touches nothing else.
\<close>
theorem envelope_takes_effect_once:
  assumes "apply_envelope uuid envelope d = Inr (res, d')" "ar_status res = Applied"
    and "state_transitions later = state_transitions d' @ rows"
    and "apply_envelope uuid' envelope later = Inr (res', later')"
  shows "ar_status res' = Noop_Duplicate \<and>
    (\<exists>r. is_evidence r \<and> later' = later\<lparr>state_transitions := state_transitions later @ [r]\<rparr>)"
  using assms(1,2)
proof (cases rule: recorded_once)
  case tri: (triage e f ev reason d1 row)
  have dup: "is_duplicate later Issue (te_issue_id e) (te_envelope_id e) s t" for s t
    by (rule mentions_recorded[OF tri(2) assms(3)])
  from assms(4) tri(1) have "apply_triage_envelope e later = Inr (res', later')"
    by (auto elim: apply_envelope_cases)
  then show ?thesis
  proof (cases rule: apply_triage_success)
    case (noop issue)
    with record_noop_success show ?thesis by blast
  next
    case (applied issue disp reason d1 row)
    with dup get_issue_by_id_SomeD[OF applied(1)] show ?thesis by simp
  qed
next
  case rsl: (resolution e f t ev reason d1 row)
  have dup: "is_duplicate later Work_Item (re_work_item_id e) (re_envelope_id e) s t" for s t
    by (rule mentions_recorded[OF rsl(2) assms(3)])
  from assms(4) rsl(1) have "apply_resolution_envelope uuid' e later = Inr (res', later')"
    by (auto elim: apply_envelope_cases)
  then show ?thesis
  proof (cases rule: apply_resolution_success)
    case (noop wi)
    with record_noop_success show ?thesis by blast
  next
    case (applied wi d1 d2 reason row)
    with dup get_work_item_SomeD[OF applied(1)] show ?thesis by simp
  qed
qed

definition example_resolution :: "string \<Rightarrow> string \<Rightarrow> agent_envelope" where
  "example_resolution env outcome = Resolution_Envelope \<lparr>re_envelope_id = env, re_work_item_id = ''b'', re_outcome = outcome,
     re_dependency = None, re_reason = Some ''ready''\<rparr>"

definition example_step :: "string \<Rightarrow> string \<times> string \<times> string \<Rightarrow> unit db_tx" where
  "example_step wid m = tx_bind (record_transition Work_Item wid (Some (fst m)) (fst (snd m)) (snd (snd m)) None ''example'' None)
     (\<lambda>r. set_work_item_state wid (fst (snd m)) no_lease_patch)"

definition example_running_db :: db where
  "example_running_db = snd (run_write (tx_foreach (example_step ''b'')
     [(''READY'', ''QUEUED'', ''queue''), (''QUEUED'', ''RUNNING'', ''claim'')]) example_chain_db)"

text \<open>The same envelope again, after a second one moved the WorkItem on.\<close>

theorem envelope_takes_effect_once_witness:
  "\<exists>res d1 res1 d2 res2 d3.
     apply_envelope ''u'' (example_resolution ''env-1'' ''awaiting_review'') example_running_db = Inr (res, d1) \<and>
     apply_envelope ''u'' (example_resolution ''env-2'' ''needs_changes'') d1 = Inr (res1, d2) \<and>
     apply_envelope ''u'' (example_resolution ''env-1'' ''awaiting_review'') d2 = Inr (res2, d3) \<and>
     ar_status res = Applied \<and> ar_status res1 = Applied \<and> ar_status res2 = Noop_Duplicate"
proof -
  let ?e1 = "example_resolution ''env-1'' ''awaiting_review''" and ?e2 = "example_resolution ''env-2'' ''needs_changes''"
  have "case apply_envelope ''u'' ?e1 example_running_db of Inl e \<Rightarrow> False | Inr (res, d1) \<Rightarrow>
      ar_status res = Applied \<and> (case apply_envelope ''u'' ?e2 d1 of Inl e \<Rightarrow> False | Inr (res1, d2) \<Rightarrow>
      ar_status res1 = Applied \<and> \<not> isl (apply_envelope ''u'' ?e1 d2) \<and>
      state_transitions d2 = state_transitions d1 @ [last (state_transitions d2)])"
    by code_simp
  then obtain res d1 res1 d2 where one: "apply_envelope ''u'' ?e1 example_running_db = Inr (res, d1)" "ar_status res = Applied"
    and two: "apply_envelope ''u'' ?e2 d1 = Inr (res1, d2)" "ar_status res1 = Applied"
      "state_transitions d2 = state_transitions d1 @ [last (state_transitions d2)]"
    and again: "\<not> isl (apply_envelope ''u'' ?e1 d2)"
    by (elim tx_caseE conjE)
  from again obtain res2 d3 where three: "apply_envelope ''u'' ?e1 d2 = Inr (res2, d3)" by (rule tx_okE)
  from envelope_takes_effect_once[OF one two(3) three] one two three show ?thesis by blast
qed



end
