(* ===== verification/Queue.thy ===== *)
theory Queue
  imports Envelopes
begin

text \<open>
  The durable claim of a WorkItem (\<^verbatim>\<open>src/controller/queue.ts\<close>): candidates in priority order, the two
  capacity limits, the move QUEUED to RUNNING with a fresh lease, and the bounded retries around a
  busy database. The lemmas say that a claim keeps the limits, takes the first item that fits, and that
  no other audited move takes a slot.
\<close>

definition DEFAULT_CLAIM_LEASE_TTL_MS :: nat where "DEFAULT_CLAIM_LEASE_TTL_MS = 300000"

definition CLAIM_BUSY_MAX_ATTEMPTS :: nat where "CLAIM_BUSY_MAX_ATTEMPTS = 5"

record work_claim =
  wc_work_item_id :: string
  wc_repo_id :: string
  wc_lease_token :: string
  wc_lease_until :: timestamp
  wc_priority :: int

record claim_options =
  co_global_limit :: "int option"
  co_lease_ttl_ms :: "nat option"
  co_busy_max_attempts :: "nat option"

definition default_claim_options :: claim_options where
  "default_claim_options = \<lparr>co_global_limit = None, co_lease_ttl_ms = None, co_busy_max_attempts = None\<rparr>"

definition CAPACITY_HOLDING_STATES :: "string list" where
  "CAPACITY_HOLDING_STATES = [''RUNNING'', ''WAITING'', ''AWAITING_DECISION'']"

definition holds_slot :: "work_item_row \<Rightarrow> bool" where
  "holds_slot w = List.member CAPACITY_HOLDING_STATES (w_state w)"

text \<open>The two COUNT subqueries.\<close>

definition repo_running :: "db \<Rightarrow> string \<Rightarrow> nat" where
  "repo_running d repo_id = count_where (\<lambda>w. w_repo_id w = repo_id \<and> holds_slot w) (work_items d)"

definition global_running :: "db \<Rightarrow> nat" where
  "global_running d = count_where holds_slot (work_items d)"

record candidate_row =
  ca_id :: string
  ca_repo_id :: string
  ca_priority :: int
  ca_created_at :: timestamp
  ca_max_concurrent :: int
  ca_repo_running :: int
  ca_global_running :: int

definition candidate_of :: "db \<Rightarrow> work_item_row \<Rightarrow> candidate_row option" where
  "candidate_of d w =
     (case get_repository_by_id d (w_repo_id w) of
        None \<Rightarrow> None
      | Some r \<Rightarrow>
          if w_state w = ''QUEUED'' \<and> (\<not> r_config_managed r \<or> r_capability_state r = Some ''ready'')
          then Some \<lparr>ca_id = w_id w, ca_repo_id = w_repo_id w, ca_priority = w_priority w,
            ca_created_at = w_created_at w, ca_max_concurrent = r_max_concurrent r,
            ca_repo_running = int (repo_running d (w_repo_id w)), ca_global_running = int (global_running d)\<rparr>
          else None)"

definition candidates :: "db \<Rightarrow> candidate_row list" where
  "candidates d = take 100 (order_by (\<lambda>c. - ca_priority c) (order_by ca_created_at
     (List.map_filter (candidate_of d) (work_items d))))"

definition fits_capacity :: "candidate_row \<Rightarrow> int \<Rightarrow> bool" where
  "fits_capacity row global_limit \<longleftrightarrow>
     ca_repo_running row < ca_max_concurrent row \<and> ca_global_running row < global_limit"

definition claim_candidate :: "instant \<Rightarrow> string \<Rightarrow> int \<Rightarrow> nat \<Rightarrow> candidate_row \<Rightarrow> work_claim db_tx" where
  "claim_candidate now uuid global_limit ttl c =
     (let lease_until = to_iso (now + ttl) in
      tx_then (set_work_item_state (ca_id c) ''RUNNING''
          \<lparr>wp_lease_token = Some (Some uuid), wp_lease_until = Some (Some lease_until)\<rparr>)
      (tx_bind (record_transition Work_Item (ca_id c) (Some ''QUEUED'') ''RUNNING'' ''claim''
          (Some (JObj [(''repo_id'', JStr (ca_repo_id c)), (''priority'', JNum (ca_priority c)),
             (''lease_token'', JStr uuid), (''lease_until'', JStr lease_until), (''global_limit'', JNum global_limit)]))
          ''controller.queue.claimNextWorkItem'' None)
        (\<lambda>row. tx_return \<lparr>wc_work_item_id = ca_id c, wc_repo_id = ca_repo_id c, wc_lease_token = uuid,
           wc_lease_until = lease_until, wc_priority = ca_priority c\<rparr>)))"

text \<open>\<^verbatim>\<open>for (const candidate of candidates) { if (!fitsCapacity(...)) continue; ... return }\<close>\<close>

definition claim_body :: "instant \<Rightarrow> string \<Rightarrow> int \<Rightarrow> nat \<Rightarrow> work_claim option db_tx" where
  "claim_body now uuid global_limit ttl =
     tx_bind (expire_leases (to_iso now)) (\<lambda>n.
     tx_bind (tx_get candidates) (\<lambda>cs.
     case List.find (\<lambda>c. fits_capacity c global_limit) cs of
       None \<Rightarrow> tx_return None
     | Some c \<Rightarrow> tx_bind (claim_candidate now uuid global_limit ttl c) (\<lambda>claim. tx_return (Some claim))))"

text \<open>
  The retry loop. \<open>busy k\<close> says that the \<open>k\<close>-th BEGIN IMMEDIATE finds the database locked; a loop that
  makes no attempt throws \<^verbatim>\<open>null\<close>.
\<close>

fun claim_attempts :: "(nat \<Rightarrow> bool) \<Rightarrow> work_claim option db_tx \<Rightarrow> nat \<Rightarrow> nat \<Rightarrow> err \<Rightarrow> work_claim option db_act" where
  "claim_attempts busy body k 0 last_error = act_fail last_error"
| "claim_attempts busy body k (Suc n) last_error =
     act_try (if busy k then act_fail (SqliteError SQLITE_BUSY ''database is locked'') else run_write body)
       (\<lambda>e. if \<not> is_busy_error e then act_fail e else claim_attempts busy body (Suc k) n e)"

definition claim_next_work_item ::
  "(nat \<Rightarrow> bool) \<Rightarrow> string \<Rightarrow> instant \<Rightarrow> claim_options \<Rightarrow> work_claim option db_act" where
  "claim_next_work_item busy uuid now opts =
     (let global_limit = coalesce (co_global_limit opts) DEFAULT_MAX_CONCURRENT_GLOBAL;
          ttl = coalesce (co_lease_ttl_ms opts) DEFAULT_CLAIM_LEASE_TTL_MS;
          max_attempts = coalesce (co_busy_max_attempts opts) CLAIM_BUSY_MAX_ATTEMPTS in
      claim_attempts busy (claim_body now uuid global_limit ttl) 0 max_attempts (JsError ''null''))"

section \<open>Only a claim takes a slot\<close>

lemma slot_taken_by_claim:
  assumes "is_legal_transition Work_Item f t ev" "List.member CAPACITY_HOLDING_STATES t"
    "\<not> List.member CAPACITY_HOLDING_STATES f"
  shows "f = ''QUEUED'' \<and> t = ''RUNNING'' \<and> ev = ''claim''"
proof -
  have "list_all (\<lambda>r. List.member CAPACITY_HOLDING_STATES (rule_to r) \<longrightarrow> \<not> List.member CAPACITY_HOLDING_STATES (rule_from r) \<longrightarrow>
      rule_from r = ''QUEUED'' \<and> rule_to r = ''RUNNING'' \<and> rule_events r = [''claim'']) work_item_transitions"
    by code_simp
  with assms show ?thesis by (auto simp: is_legal_transition_def list_ex_iff list_all_iff)
qed

section \<open>What a claim does\<close>

lemma candidate_of_Some:
  assumes "candidate_of d w = Some c"
  obtains r where "get_repository_by_id d (w_repo_id w) = Some r" "w_state w = ''QUEUED''"
    "\<not> r_config_managed r \<or> r_capability_state r = Some ''ready''"
    "c = \<lparr>ca_id = w_id w, ca_repo_id = w_repo_id w, ca_priority = w_priority w, ca_created_at = w_created_at w,
       ca_max_concurrent = r_max_concurrent r, ca_repo_running = int (repo_running d (w_repo_id w)),
       ca_global_running = int (global_running d)\<rparr>"
  using assms by (auto simp: candidate_of_def split: option.splits if_splits)

lemma set_map_filter: "set (List.map_filter f xs) = {y. \<exists>x \<in> set xs. f x = Some y}"
  by (induction xs) (auto simp: map_filter_simps split: option.splits)

lemma candidates_sound:
  assumes "c \<in> set (candidates d)"
  obtains w where "w \<in> set (work_items d)" "candidate_of d w = Some c"
  using assms by (auto simp: candidates_def set_map_filter table_simps dest!: in_set_takeD)

lemma expire_leases_frame:
  "expire_leases at d = Inr (n, d') \<Longrightarrow> \<exists>ls. d' = d\<lparr>controller_leases := ls\<rparr>"
  by (auto simp: expire_leases_def delete_leases_success)

lemma expire_leases_total: "\<exists>n d'. expire_leases at d = Inr (n, d')"
  by (simp add: expire_leases_def delete_leases_def tx_simps tx_success)

lemma leases_frame [simp]:
  "repo_running (d\<lparr>controller_leases := ls\<rparr>) = repo_running d"
  "global_running (d\<lparr>controller_leases := ls\<rparr>) = global_running d"
  "candidate_of (d\<lparr>controller_leases := ls\<rparr>) = candidate_of d"
  "candidates (d\<lparr>controller_leases := ls\<rparr>) = candidates d"
proof -
  show a: "repo_running (d\<lparr>controller_leases := ls\<rparr>) = repo_running d"
    "global_running (d\<lparr>controller_leases := ls\<rparr>) = global_running d"
    by (simp_all add: repo_running_def global_running_def fun_eq_iff)
  show "candidate_of (d\<lparr>controller_leases := ls\<rparr>) = candidate_of d"
    by (auto simp: candidate_of_def fun_eq_iff get_repository_by_id_def a split: option.splits)
  then show "candidates (d\<lparr>controller_leases := ls\<rparr>) = candidates d"
    by (simp add: candidates_def)
qed

lemma claim_body_success:
  assumes "claim_body now uuid limit ttl d = Inr (res, d')"
  obtains (none) ls where "res = None" "d' = d\<lparr>controller_leases := ls\<rparr>"
      "List.find (\<lambda>c. fits_capacity c limit) (candidates d) = None"
    | (claimed) ls c claim where "res = Some claim" "List.find (\<lambda>c. fits_capacity c limit) (candidates d) = Some c"
      "claim_candidate now uuid limit ttl c (d\<lparr>controller_leases := ls\<rparr>) = Inr (claim, d')"
proof -
  from assms obtain n d1 where e: "expire_leases (to_iso now) d = Inr (n, d1)"
    and rest: "(case List.find (\<lambda>c. fits_capacity c limit) (candidates d1) of
       None \<Rightarrow> tx_return None
     | Some c \<Rightarrow> tx_bind (claim_candidate now uuid limit ttl c) (\<lambda>claim. tx_return (Some claim))) d1 = Inr (res, d')"
    by (auto simp: claim_body_def tx_bind_success tx_get_eq)
  obtain ls where d1: "d1 = d\<lparr>controller_leases := ls\<rparr>" using expire_leases_frame[OF e] by blast
  show thesis
  proof (cases "List.find (\<lambda>c. fits_capacity c limit) (candidates d)")
    case None
    with rest d1 none show thesis by (auto simp: tx_simps)
  next
    case (Some c)
    with rest d1 claimed show thesis by (auto simp: tx_success tx_simps)
  qed
qed

lemma claim_candidate_success:
  assumes "claim_candidate now uuid limit ttl c d = Inr (claim, d')"
  shows "\<exists>d1 row. set_work_item_state (ca_id c) ''RUNNING''
      \<lparr>wp_lease_token = Some (Some uuid), wp_lease_until = Some (Some (to_iso (now + ttl)))\<rparr> d = Inr ((), d1) \<and>
    record_transition Work_Item (ca_id c) (Some ''QUEUED'') ''RUNNING'' ''claim''
      (Some (JObj [(''repo_id'', JStr (ca_repo_id c)), (''priority'', JNum (ca_priority c)),
             (''lease_token'', JStr uuid), (''lease_until'', JStr (to_iso (now + ttl))), (''global_limit'', JNum limit)]))
      ''controller.queue.claimNextWorkItem'' None d1 = Inr (row, d') \<and>
    claim = \<lparr>wc_work_item_id = ca_id c, wc_repo_id = ca_repo_id c, wc_lease_token = uuid,
      wc_lease_until = to_iso (now + ttl), wc_priority = ca_priority c\<rparr>"
  using assms by (auto simp: claim_candidate_def Let_def tx_success tx_return_eq)

lemma work_item_unique:
  assumes "schema_ok d" "w \<in> set (work_items d)"
  shows "get_work_item d (w_id w) = Some w"
  unfolding get_work_item_def
  by (rule find_key_unique) (use assms schema_okD(3) in \<open>auto simp: work_items_ok_def\<close>)

lemma claim_body_store_safe [preserves_intros]: "store_safe (claim_body now uuid limit ttl)"
proof (rule store_safeI)
  fix d res d' assume d: "store_ok d" and s: "claim_body now uuid limit ttl d = Inr (res, d')"
  obtain n d1 where e: "expire_leases (to_iso now) d = Inr (n, d1)" using expire_leases_total by blast
  have "store_safe (expire_leases (to_iso now))" by (intro preserves_intros)
  from store_safeD[OF this d e] have d1: "store_ok d1" .
  from s e have rest: "(case List.find (\<lambda>c. fits_capacity c limit) (candidates d1) of
       None \<Rightarrow> tx_return None
     | Some c \<Rightarrow> tx_bind (claim_candidate now uuid limit ttl c) (\<lambda>claim. tx_return (Some claim))) d1 = Inr (res, d')"
    by (auto simp: claim_body_def tx_bind_success tx_get_eq)
  show "store_ok d'"
  proof (cases "List.find (\<lambda>c. fits_capacity c limit) (candidates d1)")
    case None
    with rest d1 show ?thesis by (simp add: tx_simps)
  next
    case (Some c)
    then have "c \<in> set (candidates d1)" by (auto dest: find_SomeD)
    then obtain w where w: "w \<in> set (work_items d1)" "candidate_of d1 w = Some c" by (rule candidates_sound)
    from w(2) have cw: "ca_id c = w_id w" "w_state w = ''QUEUED''" by (auto elim: candidate_of_Some)
    from Some rest obtain claim where "claim_candidate now uuid limit ttl c d1 = Inr (claim, d')"
      by (auto simp: tx_success tx_return_eq)
    from claim_candidate_success[OF this] work_item_set_record_ok[OF d1 work_item_unique cw(2)] w(1) store_okD(1)[OF d1] cw(1)
    show ?thesis by metis
  qed
qed


lemma claim_attempts_success:
  "claim_attempts busy body k n e d = (Inr x, d') \<Longrightarrow> body d = Inr (x, d')"
proof (induction n arbitrary: k e)
  case (Suc n)
  then show ?case
    by (cases "body d") (auto simp: act_try_def act_simps split: if_splits)
qed (simp add: act_simps)

lemma claim_attempts_failure:
  "claim_attempts busy body k n e d = (Inl e', d') \<Longrightarrow> d' = d"
proof (induction n arbitrary: k e)
  case (Suc n)
  then show ?case
    by (cases "body d") (auto simp: act_try_def act_simps split: if_splits)
qed (simp add: act_simps)

lemma claim_next_store_safe [act_intros]: "act_safe (claim_next_work_item busy uuid now opts)"
proof (rule act_relI)
  fix d
  obtain r d' where run: "claim_next_work_item busy uuid now opts d = (r, d')" by (cases "claim_next_work_item busy uuid now opts d")
  then show "keeps store_ok d (snd (claim_next_work_item busy uuid now opts d))"
    by (cases r) (auto simp: claim_next_work_item_def Let_def keeps_def
        dest!: claim_attempts_success claim_attempts_failure intro: store_safeD[OF claim_body_store_safe])
qed

lemma count_update_enters:
  assumes "distinct (map key t)" "r \<in> set t" "key r = k" "\<not> q r" "q (f r)"
  shows "count_where q (update_where (\<lambda>x. key x = k) f t) = Suc (count_where q t)"
  using assms
proof (induction t)
  case (Cons x t)
  show ?case
  proof (cases "key x = k")
    case True
    with Cons.prems have "x = r" by (auto simp: image_iff)
    moreover from True Cons.prems have "update_where (\<lambda>x. key x = k) f t = t"
      by (intro update_where_none) (auto simp: image_iff)
    ultimately show ?thesis using True Cons.prems by (simp add: table_simps)
  next
    case False
    with Cons show ?thesis by (auto simp: table_simps)
  qed
qed simp

text \<open>Everything a granted claim guarantees.\<close>

lemma claim_granted:
  assumes "schema_ok d" "claim_next_work_item busy uuid now opts d = (Inr (Some claim), d')"
    "limit = coalesce (co_global_limit opts) DEFAULT_MAX_CONCURRENT_GLOBAL"
  obtains w c r where "w \<in> set (work_items d)" "candidate_of d w = Some c" "w_state w = ''QUEUED''"
    "List.find (\<lambda>c. fits_capacity c limit) (candidates d) = Some c" "wc_work_item_id claim = w_id w"
    "wc_repo_id claim = w_repo_id w" "wc_priority claim = w_priority w"
    "get_repository_by_id d (w_repo_id w) = Some r" "int (repo_running d (w_repo_id w)) < r_max_concurrent r"
    "int (global_running d) < limit" "work_item_column d' = set_state_of (w_id w) ''RUNNING'' (work_item_column d)"
    "repo_running d' (w_repo_id w) = Suc (repo_running d (w_repo_id w))"
    "global_running d' = Suc (global_running d)" "repositories d' = repositories d"
proof -
  let ?ttl = "coalesce (co_lease_ttl_ms opts) DEFAULT_CLAIM_LEASE_TTL_MS"
  have body: "claim_body now uuid limit ?ttl d = Inr (Some claim, d')"
    using assms(2,3) by (auto simp: claim_next_work_item_def Let_def dest: claim_attempts_success)
  then obtain ls c where f: "List.find (\<lambda>c. fits_capacity c limit) (candidates d) = Some c"
    and s: "claim_candidate now uuid limit ?ttl c (d\<lparr>controller_leases := ls\<rparr>) = Inr (claim, d')"
    by (rule claim_body_success) auto
  have c: "c \<in> set (candidates d)" "fits_capacity c limit" using find_SomeD[OF f] by auto
  obtain w where w: "w \<in> set (work_items d)" "candidate_of d w = Some c" using c(1) by (rule candidates_sound)
  obtain r where r: "get_repository_by_id d (w_repo_id w) = Some r" "w_state w = ''QUEUED''"
    and cc: "c = \<lparr>ca_id = w_id w, ca_repo_id = w_repo_id w, ca_priority = w_priority w, ca_created_at = w_created_at w,
       ca_max_concurrent = r_max_concurrent r, ca_repo_running = int (repo_running d (w_repo_id w)),
       ca_global_running = int (global_running d)\<rparr>"
    using w(2) by (rule candidate_of_Some)
  obtain d1 row where set: "set_work_item_state (ca_id c) ''RUNNING''
      \<lparr>wp_lease_token = Some (Some uuid), wp_lease_until = Some (Some (to_iso (now + ?ttl)))\<rparr> (d\<lparr>controller_leases := ls\<rparr>) = Inr ((), d1)"
    and rec: "record_transition Work_Item (ca_id c) (Some ''QUEUED'') ''RUNNING'' ''claim''
      (Some (JObj [(''repo_id'', JStr (ca_repo_id c)), (''priority'', JNum (ca_priority c)),
         (''lease_token'', JStr uuid), (''lease_until'', JStr (to_iso (now + ?ttl))), (''global_limit'', JNum limit)]))
      ''controller.queue.claimNextWorkItem'' None d1 = Inr (row, d')"
    and cl: "claim = \<lparr>wc_work_item_id = ca_id c, wc_repo_id = ca_repo_id c, wc_lease_token = uuid,
      wc_lease_until = to_iso (now + ?ttl), wc_priority = ca_priority c\<rparr>"
    using claim_candidate_success[OF s] by blast
  define g where "g = (\<lambda>x :: work_item_row. x\<lparr>w_state := ''RUNNING'', w_lease_token := Some uuid,
        w_lease_until := Some (to_iso (now + ?ttl)), w_updated_at := db_now d\<rparr>)"
  have items: "work_items d' = update_where (\<lambda>x. w_id x = w_id w) g (work_items d)" "repositories d' = repositories d"
    using set record_transition_success[OF rec] by (auto simp: set_work_item_state_eq cc g_def)
  have "work_item_column d' = set_state_of (w_id w) ''RUNNING'' (work_item_column d)"
    using audited_work_item.set_tab[OF set] record_transition_success[OF rec] by (simp add: cc work_item_column_def)
  moreover have "repo_running d' (w_repo_id w) = Suc (repo_running d (w_repo_id w))"
    unfolding repo_running_def items
    by (rule count_update_enters[of w_id _ w])
      (use schema_okD(3)[OF assms(1)] w(1) r(2) in \<open>auto simp: work_items_ok_def holds_slot_def CAPACITY_HOLDING_STATES_def g_def\<close>)
  moreover have "global_running d' = Suc (global_running d)"
    unfolding global_running_def items
    by (rule count_update_enters[of w_id _ w])
      (use schema_okD(3)[OF assms(1)] w(1) r(2) in \<open>auto simp: work_items_ok_def holds_slot_def CAPACITY_HOLDING_STATES_def g_def\<close>)
  ultimately show thesis
    using that[OF w r(2) f] c(2) items(2) r(1) by (simp add: cc cl fits_capacity_def)
qed


section \<open>Priority and capacity\<close>

definition dispatchable :: "db \<Rightarrow> work_item_row list" where
  "dispatchable d = filter (\<lambda>w. candidate_of d w \<noteq> None) (work_items d)"

definition fits_now :: "db \<Rightarrow> int \<Rightarrow> work_item_row \<Rightarrow> bool" where
  "fits_now d limit w = (case candidate_of d w of None \<Rightarrow> False | Some c \<Rightarrow> fits_capacity c limit)"

lemma length_dispatchable: "length (List.map_filter (candidate_of d) (work_items d)) = length (dispatchable d)"
proof -
  have "length (List.map_filter (candidate_of d) ws) = length (filter (\<lambda>w. candidate_of d w \<noteq> None) ws)" for ws
    by (induction ws) (auto simp: map_filter_simps split: option.splits)
  then show ?thesis by (simp add: dispatchable_def)
qed

lemma find_sorted:
  "List.find P xs = Some x \<Longrightarrow> sorted (map k xs) \<Longrightarrow> y \<in> set xs \<Longrightarrow> P y \<Longrightarrow> k x \<le> k y"
  by (induction xs) (auto split: if_splits)

lemma find_filter:
  "List.find P xs = Some x \<Longrightarrow> Q x \<Longrightarrow> List.find P (filter Q xs) = Some x"
  by (induction xs) (auto split: if_splits)

lemma all_candidates:
  assumes "length (dispatchable d) \<le> 100"
  shows "candidates d = order_by (\<lambda>c. - ca_priority c) (order_by ca_created_at (List.map_filter (candidate_of d) (work_items d)))"
  using assms by (simp add: candidates_def order_by_def length_dispatchable)

text \<open>The first candidate that fits is the best that fits.\<close>

lemma first_fit_is_best:
  assumes "length (dispatchable d) \<le> 100" "List.find (\<lambda>c. fits_capacity c limit) (candidates d) = Some c"
    "w \<in> set (work_items d)" "candidate_of d w = Some c'" "fits_capacity c' limit"
  shows "ca_priority c' < ca_priority c \<or> ca_priority c' = ca_priority c \<and> ca_created_at c \<le> ca_created_at c'"
proof -
  let ?cs = "List.map_filter (candidate_of d) (work_items d)"
  let ?P = "\<lambda>c. fits_capacity c limit"
  note eq = all_candidates[OF assms(1)]
  have mem: "c' \<in> set (candidates d)" using assms(3,4) by (auto simp: eq table_simps set_map_filter)
  have le: "- ca_priority c \<le> - ca_priority c'"
    using find_sorted[OF assms(2) _ mem assms(5)] sorted_order_by by (metis (no_types) eq)
  have "ca_created_at c \<le> ca_created_at c'" if "ca_priority c' = ca_priority c"
  proof -
    have "filter (\<lambda>x. - ca_priority x = - ca_priority c) (candidates d)
        = filter (\<lambda>x. - ca_priority x = - ca_priority c) (order_by ca_created_at ?cs)"
      unfolding eq by (simp only: order_by_def sort_key_stable)
    moreover have "List.find ?P (filter (\<lambda>x. - ca_priority x = - ca_priority c) (candidates d)) = Some c"
      by (rule find_filter[OF assms(2)]) simp
    ultimately have "List.find ?P (filter (\<lambda>x. - ca_priority x = - ca_priority c) (order_by ca_created_at ?cs)) = Some c"
      by simp
    moreover have "sorted (map ca_created_at (filter (\<lambda>x. - ca_priority x = - ca_priority c) (order_by ca_created_at ?cs)))"
      by (rule sorted_filter) (rule sorted_order_by)
    moreover have "c' \<in> set (filter (\<lambda>x. - ca_priority x = - ca_priority c) (order_by ca_created_at ?cs))"
      using mem that by (auto simp: eq table_simps)
    ultimately show ?thesis using assms(5) by (rule find_sorted)
  qed
  with le show ?thesis by linarith
qed

text \<open>
  C7: A granted claim respects both limits: the claimed WorkItem was QUEUED, its repository and the
  whole queue had a free slot, it takes exactly one, so neither the repository's limit nor the global
  one is exceeded, and no other WorkItem changes state.
\<close>
theorem claim_respects_capacity:
  assumes "schema_ok d" and "claim_next_work_item busy uuid now opts d = (Inr (Some claim), d')"
  shows "\<exists>w r. w \<in> set (work_items d) \<and> w_id w = wc_work_item_id claim \<and> w_state w = ''QUEUED'' \<and>
    get_repository_by_id d (w_repo_id w) = Some r \<and>
    repo_running d' (w_repo_id w) = Suc (repo_running d (w_repo_id w)) \<and>
    int (repo_running d' (w_repo_id w)) \<le> r_max_concurrent r \<and>
    global_running d' = Suc (global_running d) \<and>
    int (global_running d') \<le> coalesce (co_global_limit opts) DEFAULT_MAX_CONCURRENT_GLOBAL \<and>
    work_item_column d' = set_state_of (w_id w) ''RUNNING'' (work_item_column d)"
proof -
  obtain w c r where "w \<in> set (work_items d)" "w_state w = ''QUEUED''" "wc_work_item_id claim = w_id w"
    "get_repository_by_id d (w_repo_id w) = Some r" "int (repo_running d (w_repo_id w)) < r_max_concurrent r"
    "int (global_running d) < coalesce (co_global_limit opts) DEFAULT_MAX_CONCURRENT_GLOBAL"
    "work_item_column d' = set_state_of (w_id w) ''RUNNING'' (work_item_column d)"
    "repo_running d' (w_repo_id w) = Suc (repo_running d (w_repo_id w))" "global_running d' = Suc (global_running d)"
    using claim_granted[OF assms refl] by metis
  then show ?thesis by (intro exI[of _ w] exI[of _ r]) simp
qed

definition example_queue_db :: db where
  "example_queue_db = snd (run_write
     (tx_then (tx_foreach (\<lambda>p. tx_bind (insert_work_item ((example_work_item (fst p) ''READY'')\<lparr>wi_priority := Some (snd p)\<rparr>))
           (\<lambda>w. tx_return ())) [(''low'', 1), (''high'', 5)])
     (tx_then (tx_foreach (\<lambda>wid. example_step wid (''READY'', ''QUEUED'', ''enqueue'')) [''low'', ''high''])
        (persist_repository_capability ''acme/tool'' ''ready'' (JObj []) ''1970-01-01T00:00:00.000Z''))) example_db)"

theorem claim_respects_capacity_witness:
  "\<exists>claim d'. claim_next_work_item (\<lambda>k. k = 0) ''lease-1'' 5000 default_claim_options example_queue_db = (Inr (Some claim), d') \<and>
     wc_work_item_id claim = ''high'' \<and> int (global_running d') \<le> 3"
proof -
  let ?run = "claim_next_work_item (\<lambda>k. k = 0) ''lease-1'' 5000 default_claim_options example_queue_db"
  have ok: "schema_ok example_queue_db" by code_simp
  have "case ?run of (Inl e, d) \<Rightarrow> False | (Inr v, d) \<Rightarrow> (case v of None \<Rightarrow> False | Some c \<Rightarrow> wc_work_item_id c = ''high'')"
    by code_simp
  then obtain claim d' where run: "?run = (Inr (Some claim), d')" "wc_work_item_id claim = ''high''"
    by (elim act_caseE) (auto split: option.splits)
  from claim_respects_capacity[OF ok run(1)] run show ?thesis
    by (auto simp: default_claim_options_def DEFAULT_MAX_CONCURRENT_GLOBAL_def)
qed

text \<open>
  C8: A claim takes the best item that fits: while at most 100 WorkItems are dispatchable, every WorkItem
  that could have been claimed has a lower priority than the claimed one, or the same and
  was not created earlier.
\<close>
theorem claim_takes_best_fitting:
  assumes "schema_ok d" and "claim_next_work_item busy uuid now opts d = (Inr (Some claim), d')"
    and "length (dispatchable d) \<le> 100"
  shows "\<exists>w. get_work_item d (wc_work_item_id claim) = Some w \<and>
    (\<forall>v \<in> set (work_items d). fits_now d (coalesce (co_global_limit opts) DEFAULT_MAX_CONCURRENT_GLOBAL) v \<longrightarrow>
       w_priority v < w_priority w \<or> w_priority v = w_priority w \<and> w_created_at w \<le> w_created_at v)"
proof -
  let ?limit = "coalesce (co_global_limit opts) DEFAULT_MAX_CONCURRENT_GLOBAL"
  obtain w c where w: "w \<in> set (work_items d)" "candidate_of d w = Some c" "wc_work_item_id claim = w_id w"
    and f: "List.find (\<lambda>c. fits_capacity c ?limit) (candidates d) = Some c"
    using claim_granted[OF assms(1,2) refl] by metis
  have "w_priority v < w_priority w \<or> w_priority v = w_priority w \<and> w_created_at w \<le> w_created_at v"
    if v: "v \<in> set (work_items d)" "fits_now d ?limit v" for v
  proof -
    obtain c' where c': "candidate_of d v = Some c'" "fits_capacity c' ?limit"
      using v(2) by (auto simp: fits_now_def split: option.splits)
    have "ca_priority c = w_priority w" "ca_created_at c = w_created_at w" "ca_priority c' = w_priority v"
      "ca_created_at c' = w_created_at v"
      using w(2) c'(1) by (auto elim!: candidate_of_Some)
    with first_fit_is_best[OF assms(3) f v(1) c'] show ?thesis by simp
  qed
  with work_item_unique[OF assms(1) w(1)] w(3) show ?thesis by auto
qed

theorem claim_takes_best_fitting_witness:
  "\<exists>claim d' w. claim_next_work_item (\<lambda>k. False) ''lease-1'' 5000 default_claim_options example_queue_db = (Inr (Some claim), d') \<and>
     get_work_item example_queue_db (wc_work_item_id claim) = Some w \<and> 1 < w_priority w"
proof -
  let ?run = "claim_next_work_item (\<lambda>k. False) ''lease-1'' 5000 default_claim_options example_queue_db"
  have ok: "schema_ok example_queue_db" by code_simp
  have few: "length (dispatchable example_queue_db) \<le> 100" by code_simp
  have "case ?run of (Inl e, d) \<Rightarrow> False | (Inr v, d) \<Rightarrow> (case v of None \<Rightarrow> False | Some c \<Rightarrow> True)" by code_simp
  then obtain claim d' where run: "?run = (Inr (Some claim), d')"
    by (elim act_caseE) (auto split: option.splits)
  have "list_ex (\<lambda>v. fits_now example_queue_db (coalesce (co_global_limit default_claim_options) DEFAULT_MAX_CONCURRENT_GLOBAL) v \<and>
      w_priority v = 5) (work_items example_queue_db)" by code_simp
  then obtain v where "v \<in> set (work_items example_queue_db)"
    "fits_now example_queue_db (coalesce (co_global_limit default_claim_options) DEFAULT_MAX_CONCURRENT_GLOBAL) v" "w_priority v = 5"
    by (auto simp: list_ex_iff)
  with claim_takes_best_fitting[OF ok run few] run show ?thesis by fastforce
qed


section \<open>A claim answers\<close>

lemma claim_candidate_total: "\<exists>claim d'. claim_candidate now uuid limit ttl c d = Inr (claim, d')"
proof -
  have "is_legal_transition Work_Item ''QUEUED'' ''RUNNING'' ''claim''" by code_simp
  then show ?thesis by (simp add: claim_candidate_def Let_def set_work_item_state_eq tx_then_def tx_bind_def tx_return_eq)
qed

lemma claim_body_total: "\<exists>res d'. claim_body now uuid limit ttl d = Inr (res, d')"
proof -
  obtain n d1 where e: "expire_leases (to_iso now) d = Inr (n, d1)" using expire_leases_total by blast
  show ?thesis
  proof (cases "List.find (\<lambda>c. fits_capacity c limit) (candidates d1)")
    case None
    with e show ?thesis by (simp add: claim_body_def tx_simps)
  next
    case (Some c)
    obtain claim d' where "claim_candidate now uuid limit ttl c d1 = Inr (claim, d')" using claim_candidate_total by blast
    with e Some show ?thesis by (simp add: claim_body_def tx_simps)
  qed
qed

lemma claim_attempts_answer:
  assumes "body d = Inr (res, d')" "\<exists>i < n. \<not> busy (k + i)"
  shows "claim_attempts busy body k n e d = (Inr res, d')"
  using assms(2)
proof (induction n arbitrary: k e)
  case (Suc n)
  show ?case
  proof (cases "busy k")
    case True
    have "\<exists>i < n. \<not> busy (Suc k + i)"
    proof -
      obtain i where i: "i < Suc n" "\<not> busy (k + i)" using Suc.prems by blast
      with True have "i \<noteq> 0" by (intro notI) simp
      with i show ?thesis by (intro exI[of _ "i - 1"]) auto
    qed
    from Suc.IH[OF this] True show ?thesis by (simp add: act_try_def act_simps)
  qed (simp add: act_try_def assms(1))
qed simp

text \<open>
  A claim answers as soon as one of its bounded attempts gets the write lock; when it answers that
  there is nothing to claim, while at most 100 WorkItems are dispatchable, none of them fits the limits.
\<close>
theorem claim_answers:
  assumes "i < coalesce (co_busy_max_attempts opts) CLAIM_BUSY_MAX_ATTEMPTS" and "\<not> busy i"
  shows "\<exists>res d'. claim_next_work_item busy uuid now opts d = (Inr res, d') \<and>
    (res = None \<longrightarrow> length (dispatchable d) \<le> 100 \<longrightarrow>
      (\<forall>v \<in> set (work_items d). \<not> fits_now d (coalesce (co_global_limit opts) DEFAULT_MAX_CONCURRENT_GLOBAL) v))"
proof -
  let ?limit = "coalesce (co_global_limit opts) DEFAULT_MAX_CONCURRENT_GLOBAL"
  let ?body = "claim_body now uuid ?limit (coalesce (co_lease_ttl_ms opts) DEFAULT_CLAIM_LEASE_TTL_MS)"
  obtain res d' where body: "?body d = Inr (res, d')" using claim_body_total by blast
  have "claim_next_work_item busy uuid now opts d = (Inr res, d')"
    unfolding claim_next_work_item_def Let_def by (rule claim_attempts_answer[where body = ?body and d = d, OF body]) (use assms in auto)
  moreover have "\<not> fits_now d ?limit v"
    if "res = None" "length (dispatchable d) \<le> 100" "v \<in> set (work_items d)" for v
  proof -
    from body that(1) have "List.find (\<lambda>c. fits_capacity c ?limit) (candidates d) = None"
      by (auto elim: claim_body_success)
    then have "\<forall>c \<in> set (candidates d). \<not> fits_capacity c ?limit" by (auto simp: find_None_set)
    then show ?thesis
      using that(3) by (auto simp: fits_now_def all_candidates[OF that(2)] table_simps set_map_filter split: option.splits)
  qed
  ultimately show ?thesis by blast
qed

theorem claim_answers_witness:
  "\<exists>res d'. claim_next_work_item (\<lambda>k. k < 4) ''lease-1'' 5000 default_claim_options example_queue_db = (Inr res, d')"
proof -
  have "(4::nat) < coalesce (co_busy_max_attempts default_claim_options) CLAIM_BUSY_MAX_ATTEMPTS"
    by (simp add: default_claim_options_def CLAIM_BUSY_MAX_ATTEMPTS_def)
  from claim_answers[OF this, of "\<lambda>k. k < 4" "''lease-1''" 5000 example_queue_db] show ?thesis by auto
qed

end
