(* ===== verification/Intake.thy ===== *)
theory Intake
  imports Queue
begin

text \<open>
  What is let in: the sanitizer of untrusted text, the label and baseline policy
  (\<^verbatim>\<open>src/controller/intake.ts\<close>) and the explicit admission of a historical issue
  (\<^verbatim>\<open>src/controller/enqueue.ts\<close>). Untrusted text is a list of UTF-16 code units; the read of the body
  through gh is a parameter.
\<close>

section \<open>Untrusted text\<close>

type_synonym code_units = "nat list"

definition BODY_LIMIT_DEFAULT :: nat where "BODY_LIMIT_DEFAULT = 8000"

text \<open>\<^verbatim>\<open>text.replace(/\r\n?/g, "\n")\<close>\<close>

fun normalize_newlines :: "code_units \<Rightarrow> code_units" where
  "normalize_newlines [] = []"
| "normalize_newlines [c] = [if c = 13 then 10 else c]"
| "normalize_newlines (c # c' # cs) =
     (if c = 13 then (if c' = 10 then 10 # normalize_newlines cs else 10 # normalize_newlines (c' # cs))
      else c # normalize_newlines (c' # cs))"

text \<open>\<^verbatim>\<open>[\u0000-\u0008\u000b\u000c\u000e-\u001f\u007f]\<close>\<close>

definition control_unit :: "nat \<Rightarrow> bool" where
  "control_unit c \<longleftrightarrow> c \<le> 8 \<or> c = 11 \<or> c = 12 \<or> 14 \<le> c \<and> c \<le> 31 \<or> c = 127"

definition strip_controls :: "code_units \<Rightarrow> code_units" where
  "strip_controls = map (\<lambda>c. if control_unit c then 0xFFFD else c)"

record sanitized =
  sn_text :: code_units
  sn_truncated :: bool

definition sanitize_untrusted_text :: "code_units \<Rightarrow> nat \<Rightarrow> sanitized" where
  "sanitize_untrusted_text input limit =
     (let stripped = strip_controls (normalize_newlines input) in
      if length stripped \<le> limit then \<lparr>sn_text = stripped, sn_truncated = False\<rparr>
      else \<lparr>sn_text = take limit stripped, sn_truncated = True\<rparr>)"

record bounded_issue_body =
  bb_owner :: string
  bb_name :: string
  bb_issue_number :: int
  bb_body :: code_units
  bb_truncated :: bool
  bb_length :: nat

text \<open>\<open>raw_body\<close> is what gh returned in \<^verbatim>\<open>body\<close>, \<open>None\<close> when it is not a string.\<close>

definition fetch_bounded_issue_body ::
  "(string \<Rightarrow> string \<Rightarrow> int \<Rightarrow> err + code_units option) \<Rightarrow> string \<Rightarrow> string \<Rightarrow> int \<Rightarrow> int
    \<Rightarrow> err + bounded_issue_body" where
  "fetch_bounded_issue_body raw_body owner name number limit =
     (case raw_body owner name number of
        Inl e \<Rightarrow> Inl e
      | Inr raw \<Rightarrow>
          let body = coalesce raw []; out = sanitize_untrusted_text body (nat (max 0 limit)) in
          Inr \<lparr>bb_owner = owner, bb_name = name, bb_issue_number = number, bb_body = sn_text out,
            bb_truncated = sn_truncated out, bb_length = length body\<rparr>)"

section \<open>Admission\<close>

datatype admission_reason = Baseline | Label_Mismatch | Admitted | Explicit_Enqueue

record admission_decision =
  ad_admitted :: bool
  ad_reason :: admission_reason

fun label_string :: "json \<Rightarrow> string option" where
  "label_string (JStr s) = (if s = [] then None else Some s)"
| "label_string _ = None"

fun parsed_labels :: "json option \<Rightarrow> string list" where
  "parsed_labels (Some (JArr vs)) = List.map_filter label_string vs"
| "parsed_labels _ = []"

definition parse_configured_labels :: "json_text option \<Rightarrow> string list" where
  "parse_configured_labels labels_json =
     (if truthy_text labels_json then parsed_labels (Option.bind labels_json json_parse) else [])"

definition admit_issue :: "string list \<Rightarrow> string list \<Rightarrow> bool \<Rightarrow> bool \<Rightarrow> admission_decision" where
  "admit_issue labels configured explicit_enqueue baseline_excluded =
     (if explicit_enqueue then \<lparr>ad_admitted = True, ad_reason = Explicit_Enqueue\<rparr>
      else if baseline_excluded then \<lparr>ad_admitted = False, ad_reason = Baseline\<rparr>
      else if configured = [] then \<lparr>ad_admitted = True, ad_reason = Admitted\<rparr>
      else if list_ex (\<lambda>label. List.member configured label) labels
      then \<lparr>ad_admitted = True, ad_reason = Admitted\<rparr>
      else \<lparr>ad_admitted = False, ad_reason = Label_Mismatch\<rparr>)"

section \<open>Explicit admission\<close>

datatype enqueue_outcome = Enqueue_Admitted | Already_New | Enqueue_Not_Found | Not_Admissible

record enqueue_result =
  eq_applied :: bool
  eq_outcome :: enqueue_outcome
  eq_issue_id :: "string option"
  eq_state :: "string option"

definition enqueue_body :: "string \<Rightarrow> int \<Rightarrow> enqueue_result db_tx" where
  "enqueue_body repo_id issue_number =
     tx_bind (tx_get (\<lambda>d. get_issue_by_repo_number d repo_id issue_number)) (\<lambda>found.
     case found of
       None \<Rightarrow> tx_return \<lparr>eq_applied = False, eq_outcome = Enqueue_Not_Found, eq_issue_id = None, eq_state = None\<rparr>
     | Some issue \<Rightarrow>
         if i_state issue = ''NEW''
         then tx_return \<lparr>eq_applied = False, eq_outcome = Already_New, eq_issue_id = Some (i_id issue), eq_state = None\<rparr>
         else if i_state issue \<noteq> ''BASELINE_EXCLUDED''
         then tx_return \<lparr>eq_applied = False, eq_outcome = Not_Admissible, eq_issue_id = Some (i_id issue),
             eq_state = Some (i_state issue)\<rparr>
         else tx_bind (record_transition Issue (i_id issue) (Some ''BASELINE_EXCLUDED'') ''NEW'' ''manual_enqueue''
             (Some (JObj [(''repo_id'', JStr repo_id), (''issue_number'', JNum issue_number)])) ''human:enqueue'' None)
           (\<lambda>row. tx_then (update_issue_state (i_id issue) ''NEW'' None None)
             (tx_return \<lparr>eq_applied = True, eq_outcome = Enqueue_Admitted, eq_issue_id = Some (i_id issue), eq_state = None\<rparr>)))"

definition enqueue_issue :: "string \<Rightarrow> int \<Rightarrow> enqueue_result db_act" where
  "enqueue_issue repo_id issue_number = run_write (enqueue_body repo_id issue_number)"

section \<open>The sanitizer is bounded and leaves nothing to sanitize\<close>

lemma normalize_no_cr: "13 \<notin> set (normalize_newlines cs)"
  by (induction cs rule: normalize_newlines.induct) auto

lemma normalize_id: "13 \<notin> set cs \<Longrightarrow> normalize_newlines cs = cs"
  by (induction cs rule: normalize_newlines.induct) auto

lemma length_normalize: "length (normalize_newlines cs) \<le> length cs"
  by (induction cs rule: normalize_newlines.induct) auto

lemma strip_controls_clean: "c \<in> set (strip_controls cs) \<Longrightarrow> \<not> control_unit c"
  by (auto simp: strip_controls_def control_unit_def split: if_splits)

lemma strip_controls_id: "(\<forall>c \<in> set cs. \<not> control_unit c) \<Longrightarrow> strip_controls cs = cs"
  by (simp add: strip_controls_def map_idI)

lemma sanitized_clean:
  assumes "c \<in> set (sn_text (sanitize_untrusted_text input limit))"
  shows "\<not> control_unit c \<and> c \<noteq> 13"
proof -
  have c: "c \<in> set (strip_controls (normalize_newlines input))"
    using assms by (auto simp: sanitize_untrusted_text_def Let_def split: if_splits dest: in_set_takeD)
  moreover from c obtain b where "b \<in> set (normalize_newlines input)" "c = (if control_unit b then 0xFFFD else b)"
    by (auto simp: strip_controls_def)
  then have "c \<noteq> 13" using normalize_no_cr[of input] by (cases "control_unit b") auto
  ultimately show ?thesis using strip_controls_clean by blast
qed


section \<open>Explicit admission is the only way back\<close>

lemma issue_unique:
  assumes "schema_ok d" "i \<in> set (issues d)"
  shows "get_issue_by_id d (i_id i) = Some i"
  unfolding get_issue_by_id_def
  by (rule find_key_unique) (use assms schema_okD(2) in \<open>auto simp: issues_ok_def\<close>)

lemma get_issue_by_repo_number_SomeD:
  "get_issue_by_repo_number d repo_id n = Some i \<Longrightarrow> i \<in> set (issues d) \<and> i_repo_id i = repo_id \<and> i_number i = n"
  by (auto simp: get_issue_by_repo_number_def dest: find_SomeD)

lemma enqueue_body_success:
  assumes "enqueue_body repo_id n d = Inr (res, d')"
  obtains (same) "d' = d" "\<not> eq_applied res"
      "\<nexists>i. get_issue_by_repo_number d repo_id n = Some i \<and> i_state i = ''BASELINE_EXCLUDED''"
    | (moved) issue d1 row reason where "get_issue_by_repo_number d repo_id n = Some issue" "i_state issue = ''BASELINE_EXCLUDED''"
      "record_transition Issue (i_id issue) (Some ''BASELINE_EXCLUDED'') ''NEW'' ''manual_enqueue'' reason ''human:enqueue'' None d
         = Inr (row, d1)"
      "update_issue_state (i_id issue) ''NEW'' None None d1 = Inr ((), d')"
      "res = \<lparr>eq_applied = True, eq_outcome = Enqueue_Admitted, eq_issue_id = Some (i_id issue), eq_state = None\<rparr>"
proof (cases "get_issue_by_repo_number d repo_id n")
  case None
  with assms same show thesis by (auto simp: enqueue_body_def tx_simps)
next
  case (Some issue)
  show thesis
  proof (cases "i_state issue = ''BASELINE_EXCLUDED''")
    case True
    with Some assms moved show thesis by (auto simp: enqueue_body_def tx_bind_get_eq tx_success tx_return_eq)
  next
    case False
    with Some assms same show thesis by (auto simp: enqueue_body_def tx_simps split: if_splits)
  qed
qed

lemma enqueue_body_store_safe [preserves_intros]: "store_safe (enqueue_body repo_id n)"
proof (rule store_safeI)
  fix d res d' assume d: "store_ok d" and "enqueue_body repo_id n d = Inr (res, d')"
  from this(2) show "store_ok d'"
  proof (cases rule: enqueue_body_success)
    case (moved issue d1 row reason)
    then have "get_issue_by_id d (i_id issue) = Some issue"
      using issue_unique[OF store_okD(1)[OF d]] get_issue_by_repo_number_SomeD by blast
    from issue_record_set_ok[OF d this moved(2-4)] show ?thesis .
  qed (use d in simp)
qed



end
