(* ===== verification/Ingest.thy ===== *)
theory Ingest
  imports Poll Intake
begin

text \<open>
  The transactional ingest of one polled snapshot (\<^verbatim>\<open>src/controller/ingest.ts\<close>): issues with the baseline
  and label policy, pull requests with the foreign-head rule, checks, reviews, conflicts and comments
  as inbox events, the outbox intents and the watermark, all in one write transaction. The lemmas say that it keeps
  the store invariant and that no excluded issue gets in.
\<close>

section \<open>Results\<close>

record side_effect_intent =
  it_id :: string
  it_kind :: string
  it_effect_key :: string
  it_payload_json :: json_text

record ingest_result =
  ig_repo_id :: string
  ig_issues_seen :: nat
  ig_issues_new :: nat
  ig_issues_changed :: nat
  ig_issues_excluded_baseline :: nat
  ig_issues_excluded_label :: nat
  ig_inbox_inserted :: nat
  ig_inbox_duplicates :: nat
  ig_reparented :: nat
  ig_prs_seen :: nat
  ig_prs_linked :: nat
  ig_prs_unlinked :: nat
  ig_prs_rogue :: nat
  ig_checks_seen :: nat
  ig_reviews_seen :: nat
  ig_conflicts_seen :: nat
  ig_comments_seen :: nat
  ig_side_effects_inserted :: nat
  ig_side_effects_duplicate :: nat
  ig_watermark :: string

definition initial_result :: "gh_snapshot \<Rightarrow> ingest_result" where
  "initial_result s = \<lparr>ig_repo_id = sn_repo_id s, ig_issues_seen = length (sn_issues s), ig_issues_new = 0,
     ig_issues_changed = 0, ig_issues_excluded_baseline = 0, ig_issues_excluded_label = 0, ig_inbox_inserted = 0,
     ig_inbox_duplicates = 0, ig_reparented = 0, ig_prs_seen = length (sn_pull_requests s), ig_prs_linked = 0,
     ig_prs_unlinked = 0, ig_prs_rogue = 0, ig_checks_seen = 0, ig_reviews_seen = 0, ig_conflicts_seen = 0,
     ig_comments_seen = 0, ig_side_effects_inserted = 0, ig_side_effects_duplicate = 0, ig_watermark = sn_watermark s\<rparr>"

definition pr_id_for :: "string \<Rightarrow> int \<Rightarrow> string" where
  "pr_id_for repo_id number = ''pr-'' @ repo_id @ ''-'' @ show_int number"

definition map_pr_state :: "string \<Rightarrow> string" where
  "map_pr_state gh_state = (if gh_state = ''MERGED'' then ''MERGED'' else if gh_state = ''CLOSED'' then ''CLOSED'' else ''ACTIVE'')"

definition is_baseline :: "string \<Rightarrow> string option \<Rightarrow> bool" where
  "is_baseline created_at baseline_at =
     (case baseline_at of None \<Rightarrow> False | Some b \<Rightarrow> created_at \<noteq> [] \<and> created_at < b)"

definition record_event :: "inbox_input \<Rightarrow> ingest_result \<Rightarrow> ingest_result db_tx" where
  "record_event input res =
     tx_bind (insert_inbox_event_if_absent input) (\<lambda>r.
       tx_return (if in_inserted r then res\<lparr>ig_inbox_inserted := Suc (ig_inbox_inserted res)\<rparr>
         else res\<lparr>ig_inbox_duplicates := Suc (ig_inbox_duplicates res)\<rparr>))"

definition active_link_of :: "db \<Rightarrow> string \<Rightarrow> string option" where
  "active_link_of d issue_id = (case active_issue_links_for_issue d issue_id of [] \<Rightarrow> None | l # ls \<Rightarrow> Some (fst l))"

section \<open>Issues\<close>

definition issue_snapshot_input :: "gh_snapshot \<Rightarrow> gh_issue_snapshot \<Rightarrow> string \<Rightarrow> string \<Rightarrow> issue_input" where
  "issue_snapshot_input s issue iid state =
     \<lparr>ii_id = iid, ii_repo_id = sn_repo_id s, ii_number = gi_number issue, ii_title = gi_title issue, ii_body_json = None,
      ii_state = state, ii_snapshot_hash = Some (gi_snapshot_hash issue), ii_first_seen_at = None,
      ii_updated_at = gi_updated_at issue, ii_disposition_json = None, ii_blocked_by = None,
      ii_actor_raw_login = Option.bind (gi_author issue) ap_raw_login\<rparr>"

definition issue_event ::
  "gh_snapshot \<Rightarrow> gh_issue_snapshot \<Rightarrow> string \<Rightarrow> string option \<Rightarrow> string \<Rightarrow> string \<Rightarrow> inbox_input" where
  "issue_event s issue iid link kind state =
     \<lparr>bi_work_item_id = link, bi_issue_id = iid,
      bi_event_key = ''issue:'' @ sn_repo_id s @ '':'' @ show_int (gi_number issue) @ '':'' @ gi_snapshot_hash issue,
      bi_kind = kind,
      bi_payload_json = Text (JObj [(''issue_id'', JStr iid), (''number'', JNum (gi_number issue)), (''state'', JStr state),
        (''snapshot_hash'', JStr (gi_snapshot_hash issue))]),
      bi_state = None, bi_created_at = Some (sn_collected_at s), bi_actor_raw_login = None\<rparr>"

definition reparent_linked :: "string \<Rightarrow> string option \<Rightarrow> ingest_result \<Rightarrow> ingest_result db_tx" where
  "reparent_linked iid link res =
     (case link of None \<Rightarrow> tx_return res
      | Some wid \<Rightarrow> if wid = [] then tx_return res
          else tx_bind (reparent_inbox_by_issue iid wid) (\<lambda>n. tx_return (res\<lparr>ig_reparented := ig_reparented res + n\<rparr>)))"

definition changed_if :: "bool \<Rightarrow> ingest_result \<Rightarrow> ingest_result" where
  "changed_if b res = (if b then res\<lparr>ig_issues_changed := Suc (ig_issues_changed res)\<rparr> else res)"

definition hash_changed :: "issue_row \<Rightarrow> gh_issue_snapshot \<Rightarrow> bool" where
  "hash_changed existing issue \<longleftrightarrow> i_snapshot_hash existing \<noteq> Some (gi_snapshot_hash issue)"

definition upsert_if :: "bool \<Rightarrow> issue_input \<Rightarrow> unit db_tx" where
  "upsert_if b input = (if b then tx_bind (upsert_issue_from_snapshot input) (\<lambda>row. tx_return ()) else tx_return ())"

text \<open>\<^verbatim>\<open>existing && existing.state === "NEW"\<close>\<close>

definition ingest_new_issue ::
  "gh_snapshot \<Rightarrow> gh_issue_snapshot \<Rightarrow> issue_row \<Rightarrow> string option \<Rightarrow> ingest_result \<Rightarrow> ingest_result db_tx" where
  "ingest_new_issue s issue existing link res =
     (let iid = issue_id_for (sn_repo_id s) (gi_number issue) in
      tx_then (upsert_if (hash_changed existing issue) (issue_snapshot_input s issue (i_id existing) ''NEW''))
      (tx_bind (record_transition Issue iid (Some ''NEW'') ''TRIAGE_PENDING'' ''schedule_triage''
          (Some (JObj [(''number'', JNum (gi_number issue)), (''snapshot_hash'', JStr (gi_snapshot_hash issue)),
             (''reason'', JStr ''explicit_enqueue'')])) ''controller.ingest'' None) (\<lambda>row.
      tx_then (update_issue_state iid ''TRIAGE_PENDING'' None None)
      (tx_bind (record_event (issue_event s issue iid link ''issue_discovered'' ''NEW'') (changed_if (hash_changed existing issue) res))
        (reparent_linked iid link)))))"

definition ingest_excluded_issue ::
  "gh_snapshot \<Rightarrow> gh_issue_snapshot \<Rightarrow> issue_row option \<Rightarrow> admission_reason \<Rightarrow> ingest_result \<Rightarrow> ingest_result db_tx" where
  "ingest_excluded_issue s issue existing reason res =
     (case existing of
        Some i \<Rightarrow> tx_return res
      | None \<Rightarrow> tx_bind (upsert_issue_from_snapshot
            (issue_snapshot_input s issue (issue_id_for (sn_repo_id s) (gi_number issue)) ''BASELINE_EXCLUDED'')) (\<lambda>row.
          tx_return (if reason = Label_Mismatch then res\<lparr>ig_issues_excluded_label := Suc (ig_issues_excluded_label res)\<rparr>
            else res\<lparr>ig_issues_excluded_baseline := Suc (ig_issues_excluded_baseline res)\<rparr>)))"

definition discover_issue ::
  "gh_snapshot \<Rightarrow> gh_issue_snapshot \<Rightarrow> string option \<Rightarrow> ingest_result \<Rightarrow> ingest_result db_tx" where
  "discover_issue s issue link res =
     (let iid = issue_id_for (sn_repo_id s) (gi_number issue) in
      tx_bind (upsert_issue_from_snapshot (issue_snapshot_input s issue iid ''NEW'')) (\<lambda>i.
      tx_bind (record_transition Issue iid (Some ''NEW'') ''TRIAGE_PENDING'' ''discovery''
          (Some (JObj [(''number'', JNum (gi_number issue)), (''snapshot_hash'', JStr (gi_snapshot_hash issue))]))
          ''controller.poll'' None) (\<lambda>row.
      tx_then (update_issue_state iid ''TRIAGE_PENDING'' None None)
        (record_event (issue_event s issue iid link ''issue_discovered'' ''NEW'')
          (res\<lparr>ig_issues_new := Suc (ig_issues_new res)\<rparr>)))))"

definition refresh_issue ::
  "gh_snapshot \<Rightarrow> gh_issue_snapshot \<Rightarrow> issue_row \<Rightarrow> string option \<Rightarrow> ingest_result \<Rightarrow> ingest_result db_tx" where
  "refresh_issue s issue existing link res =
     (if i_state existing = ''BASELINE_EXCLUDED''
      then tx_then (upsert_if (hash_changed existing issue) (issue_snapshot_input s issue (i_id existing) ''BASELINE_EXCLUDED''))
        (tx_return (changed_if (hash_changed existing issue) res))
      else if hash_changed existing issue
      then tx_then (upsert_if True (issue_snapshot_input s issue (i_id existing) (i_state existing)))
        (record_event (issue_event s issue (i_id existing) link ''issue_updated'' (i_state existing)) (changed_if True res))
      else tx_return res)"

definition ingest_issue ::
  "gh_snapshot \<Rightarrow> string list \<Rightarrow> gh_issue_snapshot \<Rightarrow> ingest_result \<Rightarrow> ingest_result db_tx" where
  "ingest_issue s configured issue res =
     (let iid = issue_id_for (sn_repo_id s) (gi_number issue); baseline = is_baseline (gi_created_at issue) (sn_baseline_at s) in
      tx_bind (tx_get (\<lambda>d. get_issue_by_repo_number d (sn_repo_id s) (gi_number issue))) (\<lambda>existing.
      tx_bind (tx_get (\<lambda>d. active_link_of d iid)) (\<lambda>link.
        if map_option i_state existing = Some ''NEW'' then ingest_new_issue s issue (the existing) link res
        else let decision = admit_issue (gi_labels issue) configured False baseline in
          if \<not> ad_admitted decision then ingest_excluded_issue s issue existing (ad_reason decision) res
          else tx_bind (case existing of None \<Rightarrow> discover_issue s issue link res | Some i \<Rightarrow> refresh_issue s issue i link res)
            (reparent_linked iid link))))"

section \<open>Pull requests\<close>

text \<open>\<^verbatim>\<open>linkedPrs\<close>: the pull requests adopted in this snapshot, the latest entry of a number first.\<close>

type_synonym linked_prs = "(int \<times> string \<times> string option) list"

text \<open>\<^verbatim>\<open>a || b\<close> on strings.\<close>

definition or_string :: "string \<Rightarrow> string \<Rightarrow> string" where
  "or_string a b = (if a \<noteq> [] then a else b)"

definition is_foreign_head :: "gh_pr_snapshot \<Rightarrow> repository_row option \<Rightarrow> bool" where
  "is_foreign_head p repo =
     (case repo of
        None \<Rightarrow> False
      | Some r \<Rightarrow>
          let owner = or_string (r_push_owner r) (or_string (r_target_owner r) (r_owner r));
              name = or_string (r_push_name r) (or_string (r_target_name r) (r_name r)) in
          if gp_head_repo p \<noteq> [] then to_lower (gp_head_repo p) \<noteq> to_lower (owner @ ''/'' @ name)
          else if gp_head_owner p \<noteq> [] then to_lower (gp_head_owner p) \<noteq> to_lower owner
          else False)"

definition linked_issue_id :: "db \<Rightarrow> string \<Rightarrow> string option" where
  "linked_issue_id d wid = (case order_by id (active_issue_ids_for_work_item d wid) of [] \<Rightarrow> None | i # rest \<Rightarrow> Some i)"

definition pr_snapshot_hash_of :: "gh_pr_snapshot \<Rightarrow> string" where
  "pr_snapshot_hash_of p = gp_head_ref_oid p @ '':'' @ gp_state p @ '':'' @ gp_mergeable p @ '':'' @ gp_merge_state_status p"

definition pr_input :: "gh_snapshot \<Rightarrow> gh_pr_snapshot \<Rightarrow> string \<Rightarrow> string \<Rightarrow> string \<Rightarrow> pull_request_input" where
  "pr_input s p wid state origin =
     \<lparr>pi_id = pr_id_for (sn_repo_id s) (gp_number p), pi_work_item_id = wid, pi_repo_id = sn_repo_id s,
      pi_number = gp_number p, pi_head_ref = gp_head_ref_name p, pi_head_sha = Some (gp_head_ref_oid p), pi_state = state,
      pi_origin = Some origin, pi_snapshot_hash = Some (pr_snapshot_hash_of p)\<rparr>"

definition snapshot_event ::
  "gh_snapshot \<Rightarrow> string option \<Rightarrow> string \<Rightarrow> string \<Rightarrow> string \<Rightarrow> json \<Rightarrow> string option \<Rightarrow> inbox_input" where
  "snapshot_event s wid iid key kind payload actor =
     \<lparr>bi_work_item_id = wid, bi_issue_id = iid, bi_event_key = key, bi_kind = kind, bi_payload_json = Text payload,
      bi_state = None, bi_created_at = Some (sn_collected_at s), bi_actor_raw_login = actor\<rparr>"

definition ingest_pr ::
  "gh_snapshot \<Rightarrow> repository_row option \<Rightarrow> gh_pr_snapshot \<Rightarrow> linked_prs \<times> ingest_result
    \<Rightarrow> (linked_prs \<times> ingest_result) db_tx" where
  "ingest_pr s repo p acc =
     (let linked = fst acc; res = snd acc in
      tx_bind (tx_get (\<lambda>d. get_work_item_by_head_branch d (gp_head_ref_name p))) (\<lambda>found.
      case found of
        None \<Rightarrow> tx_return (linked, res\<lparr>ig_prs_unlinked := Suc (ig_prs_unlinked res)\<rparr>)
      | Some wi \<Rightarrow>
          if is_foreign_head p repo
          then tx_bind (upsert_pull_request_from_snapshot (pr_input s p (w_id wi) ''ROGUE'' ''rogue'')) (\<lambda>row.
            tx_return (linked, res\<lparr>ig_prs_rogue := Suc (ig_prs_rogue res)\<rparr>))
          else tx_bind (tx_get (\<lambda>d. linked_issue_id d (w_id wi))) (\<lambda>issue_id.
            tx_bind (upsert_pull_request_from_snapshot (pr_input s p (w_id wi) (map_pr_state (gp_state p)) ''expected'')) (\<lambda>row.
            let linked' = (gp_number p, w_id wi, issue_id) # linked;
                res' = res\<lparr>ig_prs_linked := Suc (ig_prs_linked res)\<rparr> in
            case issue_id of
              None \<Rightarrow> tx_return (linked', res')
            | Some iid \<Rightarrow> tx_bind (if iid = [] then tx_return res' else record_event (snapshot_event s (Some (w_id wi)) iid
                  (''pr:'' @ sn_repo_id s @ '':'' @ show_int (gp_number p) @ '':'' @ gp_head_ref_oid p @ '':'' @ gp_state p) ''pr_updated''
                  (JObj [(''pr_number'', JNum (gp_number p)), (''state'', JStr (gp_state p)), (''head_sha'', JStr (gp_head_ref_oid p))])
                  None) res') (\<lambda>r. tx_return (linked', r))))))"

section \<open>Checks, reviews, conflicts, comments\<close>

text \<open>\<^verbatim>\<open>link && link.issueId\<close>: the WorkItem and issue an event of a pull request goes to.\<close>

definition event_target :: "linked_prs \<Rightarrow> int \<Rightarrow> (string \<times> string) option" where
  "event_target linked n =
     (case map_of linked n of
        Some (wid, Some iid) \<Rightarrow> if iid = [] then None else Some (wid, iid)
      | _ \<Rightarrow> None)"

definition ingest_check :: "gh_snapshot \<Rightarrow> linked_prs \<Rightarrow> gh_check_snapshot \<Rightarrow> ingest_result \<Rightarrow> ingest_result db_tx" where
  "ingest_check s linked c res =
     (case event_target linked (gk_pr_number c) of
        None \<Rightarrow> tx_return res
      | Some t \<Rightarrow> record_event (snapshot_event s (Some (fst t)) (snd t) (''check:'' @ sn_repo_id s @ '':'' @ gk_check_key c) ''check_updated''
          (JObj [(''pr_number'', JNum (gk_pr_number c)), (''name'', JStr (gk_name c)), (''status'', JStr (gk_status c)),
             (''conclusion'', JStr (gk_conclusion c))]) None) (res\<lparr>ig_checks_seen := Suc (ig_checks_seen res)\<rparr>))"

definition ingest_review :: "gh_snapshot \<Rightarrow> linked_prs \<Rightarrow> gh_review_snapshot \<Rightarrow> ingest_result \<Rightarrow> ingest_result db_tx" where
  "ingest_review s linked r res =
     (case event_target linked (gr_pr_number r) of
        None \<Rightarrow> tx_return res
      | Some t \<Rightarrow> record_event (snapshot_event s (Some (fst t)) (snd t)
          (''review:'' @ sn_repo_id s @ '':'' @ show_int (gr_pr_number r) @ '':'' @ gr_review_id r @ '':'' @ gr_state r) ''review_updated''
          (JObj [(''pr_number'', JNum (gr_pr_number r)), (''review_id'', JStr (gr_review_id r)), (''state'', JStr (gr_state r))]) None)
          (res\<lparr>ig_reviews_seen := Suc (ig_reviews_seen res)\<rparr>))"

definition dirty_conflict :: "gh_conflict_snapshot \<Rightarrow> bool" where
  "dirty_conflict c \<longleftrightarrow> gx_mergeable c = ''CONFLICTING'' \<or> gx_merge_state_status c = ''DIRTY'' \<or> gx_merge_state_status c = ''BEHIND''"

definition ingest_conflict :: "gh_snapshot \<Rightarrow> linked_prs \<Rightarrow> gh_conflict_snapshot \<Rightarrow> ingest_result \<Rightarrow> ingest_result db_tx" where
  "ingest_conflict s linked c res =
     (case event_target linked (gx_pr_number c) of
        None \<Rightarrow> tx_return res
      | Some t \<Rightarrow> if \<not> dirty_conflict c then tx_return res
          else record_event (snapshot_event s (Some (fst t)) (snd t)
            (''conflict:'' @ sn_repo_id s @ '':'' @ show_int (gx_pr_number c) @ '':'' @ gx_merge_state_status c) ''pr_conflict''
            (JObj [(''pr_number'', JNum (gx_pr_number c)), (''mergeable'', JStr (gx_mergeable c)),
               (''merge_state_status'', JStr (gx_merge_state_status c))]) None)
            (res\<lparr>ig_conflicts_seen := Suc (ig_conflicts_seen res)\<rparr>))"

definition comment_link ::
  "db \<Rightarrow> string \<Rightarrow> gh_comment_snapshot \<Rightarrow> linked_prs \<Rightarrow> (string option \<times> string) option" where
  "comment_link d repo_id c linked =
     (case gc_target c of
        Pr_Comment \<Rightarrow> map_option (\<lambda>t. (Some (fst t), snd t)) (event_target linked (gc_number c))
      | Issue_Comment \<Rightarrow>
          let iid = issue_id_for repo_id (gc_number c); link = active_link_of d iid in
          if get_issue_by_repo_number d repo_id (gc_number c) = None \<and> link = None then None
          else Some (link, iid))"

fun comment_target_name :: "comment_target \<Rightarrow> string" where
  "comment_target_name Issue_Comment = ''issue''"
| "comment_target_name Pr_Comment = ''pr''"

definition ingest_comment :: "gh_snapshot \<Rightarrow> linked_prs \<Rightarrow> gh_comment_snapshot \<Rightarrow> ingest_result \<Rightarrow> ingest_result db_tx" where
  "ingest_comment s linked c res =
     tx_bind (tx_get (\<lambda>d. comment_link d (sn_repo_id s) c linked)) (\<lambda>link.
       case link of
         None \<Rightarrow> tx_return res
       | Some t \<Rightarrow> record_event (snapshot_event s (fst t) (snd t)
           (''comment:'' @ sn_repo_id s @ '':'' @ comment_target_name (gc_target c) @ '':'' @ show_int (gc_number c) @ '':'' @
             gc_comment_id c @ '':'' @ gc_body_hash c)
           (comment_target_name (gc_target c) @ ''_comment'')
           (JObj [(''target'', JStr (comment_target_name (gc_target c))), (''number'', JNum (gc_number c)),
              (''comment_id'', JStr (gc_comment_id c)), (''author'', json_opt (gc_author c)), (''body_preview'', JStr (gc_body_preview c))])
           (or_else (gc_raw_author c) (gc_author c))) (res\<lparr>ig_comments_seen := Suc (ig_comments_seen res)\<rparr>))"

definition ingest_intent :: "side_effect_intent \<Rightarrow> ingest_result \<Rightarrow> ingest_result db_tx" where
  "ingest_intent intent res =
     tx_bind (insert_side_effect_if_absent \<lparr>ei_id = it_id intent, ei_kind = it_kind intent, ei_effect_key = it_effect_key intent,
         ei_state = ''PENDING'', ei_payload_json = it_payload_json intent\<rparr>) (\<lambda>inserted.
       tx_return (if inserted then res\<lparr>ig_side_effects_inserted := Suc (ig_side_effects_inserted res)\<rparr>
         else res\<lparr>ig_side_effects_duplicate := Suc (ig_side_effects_duplicate res)\<rparr>))"

section \<open>The snapshot\<close>

definition ingest_snapshot :: "gh_snapshot \<Rightarrow> side_effect_intent list \<Rightarrow> ingest_result db_tx" where
  "ingest_snapshot s intents =
     tx_bind (tx_get (\<lambda>d. get_repository_by_id d (sn_repo_id s))) (\<lambda>repo.
     let configured = parse_configured_labels (Option.bind repo r_labels_json) in
     tx_bind (tx_fold (ingest_issue s configured) (sn_issues s) (initial_result s)) (\<lambda>r1.
     tx_bind (tx_fold (ingest_pr s repo) (sn_pull_requests s) ([], r1)) (\<lambda>lr.
     let linked = fst lr in
     tx_bind (tx_fold (ingest_check s linked) (sn_checks s) (snd lr)) (\<lambda>r2.
     tx_bind (tx_fold (ingest_review s linked) (sn_reviews s) r2) (\<lambda>r3.
     tx_bind (tx_fold (ingest_conflict s linked) (sn_conflicts s) r3) (\<lambda>r4.
     tx_bind (tx_fold (ingest_comment s linked) (sn_comments s) r4) (\<lambda>r5.
     tx_bind (tx_fold ingest_intent intents r5) (\<lambda>r6.
     tx_then (set_poll_watermark (sn_owner s) (sn_name s) (Some (sn_watermark s)))
       (tx_return r6)))))))))"

definition ingest_repository_snapshot :: "gh_snapshot \<Rightarrow> side_effect_intent list \<Rightarrow> ingest_result db_act" where
  "ingest_repository_snapshot s intents = run_write (ingest_snapshot s intents)"


section \<open>The ingest keeps the store invariant\<close>

lemma get_by_repo_number_update:
  assumes "\<And>i. i_repo_id (f i) = i_repo_id i" "\<And>i. i_number (f i) = i_number i"
  shows "List.find (\<lambda>i. i_repo_id i = rid \<and> i_number i = n) (update_where (\<lambda>i. i_repo_id i = rid \<and> i_number i = n) f t)
    = map_option f (List.find (\<lambda>i. i_repo_id i = rid \<and> i_number i = n) t)"
  using assms by (induction t) (auto simp: table_simps)

lemma upsert_issue_success:
  assumes "upsert_issue_from_snapshot input d = Inr (row, d')"
  shows "get_issue_by_repo_number d' (ii_repo_id input) (ii_number input) = Some row"
    and "state_transitions d' = state_transitions d"
    and "case get_issue_by_repo_number d (ii_repo_id input) (ii_number input) of
       None \<Rightarrow> i_id row = ii_id input \<and> i_state row = ii_state input
     | Some i \<Rightarrow> i_id row = i_id i \<and> i_state row = i_state i"
proof -
  let ?get = "\<lambda>d. get_issue_by_repo_number d (ii_repo_id input) (ii_number input)"
  show g: "?get d' = Some row"
    using assms by (auto simp: upsert_issue_from_snapshot_def tx_success tx_simps dest!: assert_json_if_set_state
        split: option.splits if_splits)
  show "state_transitions d' = state_transitions d"
    using assms by (auto simp: upsert_issue_from_snapshot_def tx_success tx_simps update_issues_def insert_issue_row_def
        dest!: assert_json_if_set_state split: option.splits if_splits)
  show "case ?get d of None \<Rightarrow> i_id row = ii_id input \<and> i_state row = ii_state input
     | Some i \<Rightarrow> i_id row = i_id i \<and> i_state row = i_state i"
  proof (cases "?get d")
    case None
    with assms g show ?thesis
      by (auto simp: upsert_issue_from_snapshot_def tx_success tx_simps insert_issue_row_def get_issue_by_repo_number_def find_append
          new_issue_row_def dest!: assert_json_if_set_state split: option.splits if_splits)
  next
    case (Some i)
    define f where "f = (\<lambda>i::issue_row. i\<lparr>i_title := ii_title input, i_body_json := ii_body_json input,
       i_snapshot_hash := ii_snapshot_hash input, i_updated_at := ii_updated_at input,
       i_actor_raw_login := or_else (ii_actor_raw_login input) (i_actor_raw_login i)\<rparr>)"
    have "d' = d\<lparr>issues := update_where (\<lambda>i. i_repo_id i = ii_repo_id input \<and> i_number i = ii_number input) f (issues d)\<rparr>"
      using assms Some by (auto simp: upsert_issue_from_snapshot_def tx_success tx_simps update_issues_def f_def
          dest!: assert_json_if_set_state split: option.splits if_splits)
    with g Some show ?thesis
      by (auto simp: get_issue_by_repo_number_def get_by_repo_number_update f_def)
  qed
qed

lemma upsert_existing_ok:
  assumes "store_ok d" "get_issue_by_repo_number d (ii_repo_id input) (ii_number input) = Some i"
    "upsert_issue_from_snapshot input d = Inr (row, d')"
  shows "store_ok d'"
proof -
  let ?p = "\<lambda>i. i_repo_id i = ii_repo_id input \<and> i_number i = ii_number input"
  let ?f = "\<lambda>now i. i\<lparr>i_title := ii_title input, i_body_json := ii_body_json input,
       i_snapshot_hash := ii_snapshot_hash input, i_updated_at := ii_updated_at input,
       i_actor_raw_login := or_else (ii_actor_raw_login input) (i_actor_raw_login i)\<rparr>"
  have "update_issues ?p ?f d = Inr ((), d')"
    using assms(2,3) by (auto simp: upsert_issue_from_snapshot_def tx_success tx_simps update_issues_def
        dest!: assert_json_if_set_state split: option.splits if_splits)
  moreover have "store_safe (update_issues ?p ?f)" by (intro preserves_intros) simp_all
  ultimately show ?thesis using assms(1) by (rule store_safeD[rotated 2])
qed

lemma upsert_if_existing:
  assumes "store_ok d" "get_issue_by_repo_number d (ii_repo_id input) (ii_number input) = Some i"
    "upsert_if b input d = Inr (u, d')"
  shows "store_ok d' \<and> (\<exists>i'. get_issue_by_repo_number d' (ii_repo_id input) (ii_number input) = Some i' \<and> i_id i' = i_id i \<and> i_state i' = i_state i)"
proof (cases b)
  case True
  with assms(3) obtain row where u: "upsert_issue_from_snapshot input d = Inr (row, d')"
    by (auto simp: upsert_if_def tx_success tx_return_eq)
  from upsert_existing_ok[OF assms(1,2) u] upsert_issue_success(1,3)[OF u] assms(2) show ?thesis by simp
qed (use assms in \<open>simp add: upsert_if_def tx_simps\<close>)

lemma canonical_id:
  assumes "store_ok d" "get_issue_by_repo_number d repo_id n = Some i"
  shows "i_id i = issue_id_for repo_id n"
  using get_issue_by_repo_number_SomeD[OF assms(2)] store_okD(5)[OF assms(1)]
  by (auto simp: issues_canonical_def issue_keys_def list_all_iff)

lemma record_event_store_safe [preserves_intros]: "store_safe (record_event input res)"
  unfolding record_event_def by (intro preserves_intros)

lemma reparent_linked_store_safe [preserves_intros]: "store_safe (reparent_linked iid link res)"
  unfolding reparent_linked_def by (intro preserves_intros)

lemma new_issue_move:
  assumes "store_ok d" "get_issue_by_repo_number d repo_id n = Some i" "i_state i = ''NEW''"
    "record_transition Issue (issue_id_for repo_id n) (Some ''NEW'') t ev reason actor at d = Inr (row, d1)"
    "update_issue_state (issue_id_for repo_id n) t disp bl d1 = Inr (u, d2)"
  shows "store_ok d2"
proof -
  have "get_issue_by_id d (issue_id_for repo_id n) = Some i"
    using issue_unique[OF store_okD(1)[OF assms(1)]] get_issue_by_repo_number_SomeD[OF assms(2)] canonical_id[OF assms(1,2)] by metis
  from issue_record_set_ok[OF assms(1) this assms(3-5)] show ?thesis .
qed

lemma ingest_new_issue_ok:
  assumes "store_ok d" "get_issue_by_repo_number d (sn_repo_id s) (gi_number issue) = Some i" "i_state i = ''NEW''"
    "ingest_new_issue s issue i link res d = Inr (res', d')"
  shows "store_ok d'"
proof -
  let ?iid = "issue_id_for (sn_repo_id s) (gi_number issue)"
  let ?input = "issue_snapshot_input s issue (i_id i) ''NEW''"
  from assms(4) obtain d1 d2 d3 row reason u1 u2 res1 d4 where
    u: "upsert_if (hash_changed i issue) ?input d = Inr (u1, d1)"
    and r: "record_transition Issue ?iid (Some ''NEW'') ''TRIAGE_PENDING'' ''schedule_triage'' reason ''controller.ingest'' None d1 = Inr (row, d2)"
    and m: "update_issue_state ?iid ''TRIAGE_PENDING'' None None d2 = Inr (u2, d3)"
    and e: "record_event (issue_event s issue ?iid link ''issue_discovered'' ''NEW'') (changed_if (hash_changed i issue) res) d3 = Inr (res1, d4)"
    and rest: "reparent_linked ?iid link res1 d4 = Inr (res', d')"
    unfolding ingest_new_issue_def Let_def tx_bind_success tx_then_success by (elim exE conjE) (rule that)
  have "get_issue_by_repo_number d (ii_repo_id ?input) (ii_number ?input) = Some i" using assms(2) by (simp add: issue_snapshot_input_def)
  from upsert_if_existing[OF assms(1) this u] assms(3) obtain i1 where d1: "store_ok d1"
    "get_issue_by_repo_number d1 (sn_repo_id s) (gi_number issue) = Some i1" "i_state i1 = ''NEW''"
    by (auto simp: issue_snapshot_input_def)
  from new_issue_move[OF d1 r m] have d3: "store_ok d3" .
  from store_safeD[OF reparent_linked_store_safe store_safeD[OF record_event_store_safe d3 e] rest] show ?thesis .
qed

lemma discover_issue_ok:
  assumes "store_ok d" "get_issue_by_repo_number d (sn_repo_id s) (gi_number issue) = None"
    "discover_issue s issue link res d = Inr (res', d')"
  shows "store_ok d'"
proof -
  let ?iid = "issue_id_for (sn_repo_id s) (gi_number issue)"
  let ?input = "issue_snapshot_input s issue ?iid ''NEW''"
  from assms(3) obtain i d1 d2 d3 row reason u2 where
    u: "upsert_issue_from_snapshot ?input d = Inr (i, d1)"
    and r: "record_transition Issue ?iid (Some ''NEW'') ''TRIAGE_PENDING'' ''discovery'' reason ''controller.poll'' None d1 = Inr (row, d2)"
    and m: "update_issue_state ?iid ''TRIAGE_PENDING'' None None d2 = Inr (u2, d3)"
    and rest: "record_event (issue_event s issue ?iid link ''issue_discovered'' ''NEW'') (res\<lparr>ig_issues_new := Suc (ig_issues_new res)\<rparr>) d3
       = Inr (res', d')"
    unfolding discover_issue_def Let_def tx_bind_success tx_then_success by (elim exE conjE) (rule that)
  have "store_safe (upsert_issue_from_snapshot ?input)" by (rule upsert_issue_store_safe) (simp_all add: issue_snapshot_input_def)
  from store_safeD[OF this assms(1) u] have d1: "store_ok d1" .
  from upsert_issue_success(1,3)[OF u] assms(2) have "get_issue_by_repo_number d1 (sn_repo_id s) (gi_number issue) = Some i"
    "i_state i = ''NEW''" by (simp_all add: issue_snapshot_input_def)
  from new_issue_move[OF d1 this r m] have d3: "store_ok d3" .
  from store_safeD[OF record_event_store_safe d3 rest] show ?thesis .
qed

lemma refresh_issue_ok:
  assumes "store_ok d" "get_issue_by_repo_number d (sn_repo_id s) (gi_number issue) = Some i"
    "refresh_issue s issue i link res d = Inr (res', d')"
  shows "store_ok d'"
proof -
  have up: "store_ok d1" if "upsert_if b (issue_snapshot_input s issue (i_id i) st) d = Inr (u, d1)" for b st u d1
    using upsert_if_existing[OF assms(1) _ that] assms(2) by (simp add: issue_snapshot_input_def)
  from assms(1,3) show ?thesis
    by (auto simp: refresh_issue_def tx_success tx_return_eq split: if_splits
        dest: up intro: store_safeD[OF record_event_store_safe])
qed

lemma ingest_excluded_store_safe [preserves_intros]: "store_safe (ingest_excluded_issue s issue existing reason res)"
  unfolding ingest_excluded_issue_def
  by (intro preserves_intros) (simp_all add: issue_snapshot_input_def)

lemma ingest_issue_store_safe [preserves_intros]: "store_safe (ingest_issue s configured issue res)"
proof (rule store_safeI)
  fix d res' d' assume d: "store_ok d" and s: "ingest_issue s configured issue res d = Inr (res', d')"
  let ?iid = "issue_id_for (sn_repo_id s) (gi_number issue)"
  let ?decision = "admit_issue (gi_labels issue) configured False (is_baseline (gi_created_at issue) (sn_baseline_at s))"
  define existing where "existing = get_issue_by_repo_number d (sn_repo_id s) (gi_number issue)"
  define link where "link = active_link_of d ?iid"
  consider (new) i where "existing = Some i" "i_state i = ''NEW''" "ingest_new_issue s issue i link res d = Inr (res', d')"
    | (excluded) reason where "ingest_excluded_issue s issue existing reason res d = Inr (res', d')"
    | (known) res1 d1 where
        "(case existing of None \<Rightarrow> discover_issue s issue link res | Some i \<Rightarrow> refresh_issue s issue i link res) d = Inr (res1, d1)"
        "reparent_linked ?iid link res1 d1 = Inr (res', d')"
    using s unfolding ingest_issue_def Let_def tx_bind_get_eq existing_def[symmetric] link_def[symmetric]
    by (auto simp: tx_success split: if_splits)
  then show "store_ok d'"
  proof cases
    case new
    then show ?thesis using ingest_new_issue_ok[OF d] by (simp add: existing_def)
  next
    case excluded
    then show ?thesis using store_safeD[OF ingest_excluded_store_safe d] by blast
  next
    case known
    then have "store_ok d1"
      using discover_issue_ok[OF d] refresh_issue_ok[OF d] by (auto simp: existing_def split: option.splits)
    with known(2) show ?thesis using store_safeD[OF reparent_linked_store_safe] by blast
  qed
qed

lemma ingest_parts_store_safe [preserves_intros]:
  "store_safe (ingest_pr s repo p acc)" "store_safe (ingest_check s linked k res)" "store_safe (ingest_review s linked r res)"
  "store_safe (ingest_conflict s linked x res)" "store_safe (ingest_comment s linked c res)" "store_safe (ingest_intent i res)"
  unfolding ingest_pr_def ingest_check_def ingest_review_def ingest_conflict_def ingest_comment_def ingest_intent_def Let_def
  by - (intro preserves_intros)+

lemma ingest_snapshot_store_safe [preserves_intros]: "store_safe (ingest_snapshot s intents)"
  unfolding ingest_snapshot_def Let_def by (intro preserves_intros)


section \<open>Excluded issues stay out\<close>

lemma record_event_quiet [frame_intros]:
  "tx_rel (frame audit_view) (record_event input res)" "tx_rel (frame audit_view) (reparent_linked iid link res)"
  unfolding record_event_def reparent_linked_def by - (intro frame_intros)+

lemma ingest_parts_quiet [frame_intros]:
  "tx_rel (frame audit_view) (ingest_pr s repo p acc)" "tx_rel (frame audit_view) (ingest_check s linked k res)"
  "tx_rel (frame audit_view) (ingest_review s linked r res)" "tx_rel (frame audit_view) (ingest_conflict s linked x res)"
  "tx_rel (frame audit_view) (ingest_comment s linked c res)" "tx_rel (frame audit_view) (ingest_intent i res)"
  unfolding ingest_pr_def ingest_check_def ingest_review_def ingest_conflict_def ingest_comment_def ingest_intent_def Let_def
  by - (intro frame_intros)+

definition stays_excluded :: "string \<Rightarrow> db \<Rightarrow> bool" where
  "stays_excluded iid d \<longleftrightarrow> store_ok d \<and> (iid, ''BASELINE_EXCLUDED'') \<in> set (issue_column d)"

lemma quiet_keeps_excluded:
  assumes "store_safe m" "tx_rel (frame audit_view) m"
  shows "tx_rel (keeps (stays_excluded iid)) m"
proof (rule tx_relI)
  fix d x d' assume s: "m d = Inr (x, d')"
  from tx_relD[OF assms(2) s] have "issue_column d' = issue_column d" by (simp add: frame_def audit_view_def)
  with store_safeD[OF assms(1) _ s] show "keeps (stays_excluded iid) d d'" by (auto simp: keeps_def stays_excluded_def)
qed

lemma upsert_issue_column:
  assumes "upsert_issue_from_snapshot input d = Inr (row, d')"
  shows "\<exists>new. issue_column d' = issue_column d @ new"
  using assms by (auto simp: upsert_issue_from_snapshot_def tx_success tx_simps update_issues_def insert_issue_row_def
      issue_column_def map_update_where dest!: assert_json_if_set_state split: option.splits if_splits)

lemma upsert_if_column: "upsert_if b input d = Inr (u, d') \<Longrightarrow> \<exists>new. issue_column d' = issue_column d @ new"
  by (auto simp: upsert_if_def tx_success tx_simps split: if_splits dest: upsert_issue_column)

lemma set_state_of_other: "(i, s) \<in> set tab \<Longrightarrow> i \<noteq> e \<Longrightarrow> (i, s) \<in> set (set_state_of e t tab)"
  by (auto simp: set_state_of_def intro: rev_image_eqI)

text \<open>The move of a NEW issue is not the move of an excluded one.\<close>

lemma new_issue_move_column:
  assumes "store_ok d" "get_issue_by_repo_number d repo_id n = Some i" "i_state i = ''NEW''"
    "record_transition Issue (issue_id_for repo_id n) (Some ''NEW'') t ev reason actor at d = Inr (row, d1)"
    "update_issue_state (issue_id_for repo_id n) t disp bl d1 = Inr (u, d2)"
    "(iid, ''BASELINE_EXCLUDED'') \<in> set (issue_column d)"
  shows "(iid, ''BASELINE_EXCLUDED'') \<in> set (issue_column d2)"
proof -
  have "(issue_id_for repo_id n, ''NEW'') \<in> set (issue_column d)"
  proof -
    have "(i_id i, i_state i) \<in> set (issue_column d)" using get_issue_by_repo_number_SomeD[OF assms(2)] by (simp add: issue_column_def)
    then show ?thesis by (simp only: canonical_id[OF assms(1,2)] assms(3))
  qed
  then have "iid \<noteq> issue_id_for repo_id n"
    using eq_key_imp_eq_value[OF distinct_columns(2)[OF store_okD(1)[OF assms(1)]] assms(6), of "''NEW''"] by fastforce
  moreover have "issue_column d1 = issue_column d" using record_transition_success[OF assms(4)] by simp
  moreover have "issue_column d2 = set_state_of (issue_id_for repo_id n) t (issue_column d1)"
    using audited_issue.set_tab[of "issue_id_for repo_id n" t "(disp, bl)" d1 u d2] assms(5) by simp
  ultimately show ?thesis using set_state_of_other[OF assms(6)] by simp
qed

lemma ingest_issue_keeps_excluded: "tx_rel (keeps (stays_excluded iid)) (ingest_issue s configured issue res)"
proof (rule tx_relI)
  fix d res' d' assume s: "ingest_issue s configured issue res d = Inr (res', d')"
  show "keeps (stays_excluded iid) d d'"
    unfolding keeps_def
  proof
    assume "stays_excluded iid d"
    then have d: "store_ok d" and col: "(iid, ''BASELINE_EXCLUDED'') \<in> set (issue_column d)" by (simp_all add: stays_excluded_def)
    let ?id = "issue_id_for (sn_repo_id s) (gi_number issue)"
    let ?P = "\<lambda>d. (iid, ''BASELINE_EXCLUDED'') \<in> set (issue_column d)"
    have event: "?P d'" if "record_event input r d1 = Inr (x, d')" "?P d1" for input r d1 x d'
      using tx_relD[OF record_event_quiet(1) that(1)] that(2) by (simp add: frame_def audit_view_def)
    have link: "?P d'" if "reparent_linked i l r d1 = Inr (x, d')" "?P d1" for i l r d1 x d'
      using tx_relD[OF record_event_quiet(2) that(1)] that(2) by (simp add: frame_def audit_view_def)
    have up: "?P d'" if "upsert_if b input d = Inr (u, d')" "?P d" for b input d u d'
      using upsert_if_column[OF that(1)] that(2) by auto
    have up1: "?P d'" if "upsert_issue_from_snapshot input d = Inr (u, d')" "?P d" for input d u d'
      using upsert_issue_column[OF that(1)] that(2) by auto
    have new: "?P d'" if "ingest_new_issue s issue i l r d = Inr (x, d')" "i_state i = ''NEW''"
      "get_issue_by_repo_number d (sn_repo_id s) (gi_number issue) = Some i" for i l r x d'
    proof -
      let ?input = "issue_snapshot_input s issue (i_id i) ''NEW''"
      from that(1) obtain d1 d2 d3 row reason u1 u2 r1 d4 where
        u: "upsert_if (hash_changed i issue) ?input d = Inr (u1, d1)"
        and r: "record_transition Issue ?id (Some ''NEW'') ''TRIAGE_PENDING'' ''schedule_triage'' reason ''controller.ingest'' None d1 = Inr (row, d2)"
        and m: "update_issue_state ?id ''TRIAGE_PENDING'' None None d2 = Inr (u2, d3)"
        and e: "record_event (issue_event s issue ?id l ''issue_discovered'' ''NEW'') (changed_if (hash_changed i issue) r) d3 = Inr (r1, d4)"
        and rest: "reparent_linked ?id l r1 d4 = Inr (x, d')"
        unfolding ingest_new_issue_def Let_def tx_bind_success tx_then_success by (elim exE conjE) (rule that)
      have "get_issue_by_repo_number d (ii_repo_id ?input) (ii_number ?input) = Some i" using that(3) by (simp add: issue_snapshot_input_def)
      from upsert_if_existing[OF d this u] that(2) obtain i1 where d1: "store_ok d1"
        "get_issue_by_repo_number d1 (sn_repo_id s) (gi_number issue) = Some i1" "i_state i1 = ''NEW''"
        by (auto simp: issue_snapshot_input_def)
      from new_issue_move_column[OF d1 r m up[OF u col]] show ?thesis using event[OF e] link[OF rest] by blast
    qed
    have disc: "?P d'" if "discover_issue s issue l r d = Inr (x, d')"
      "get_issue_by_repo_number d (sn_repo_id s) (gi_number issue) = None" for l r x d'
    proof -
      let ?input = "issue_snapshot_input s issue ?id ''NEW''"
      from that(1) obtain i d1 d2 d3 row reason u2 where
        u: "upsert_issue_from_snapshot ?input d = Inr (i, d1)"
        and r: "record_transition Issue ?id (Some ''NEW'') ''TRIAGE_PENDING'' ''discovery'' reason ''controller.poll'' None d1 = Inr (row, d2)"
        and m: "update_issue_state ?id ''TRIAGE_PENDING'' None None d2 = Inr (u2, d3)"
        and rest: "record_event (issue_event s issue ?id l ''issue_discovered'' ''NEW'') (r\<lparr>ig_issues_new := Suc (ig_issues_new r)\<rparr>) d3
           = Inr (x, d')"
        unfolding discover_issue_def Let_def tx_bind_success tx_then_success by (elim exE conjE) (rule that)
      have "store_safe (upsert_issue_from_snapshot ?input)" by (rule upsert_issue_store_safe) (simp_all add: issue_snapshot_input_def)
      from store_safeD[OF this d u] have d1: "store_ok d1" .
      from upsert_issue_success(1,3)[OF u] that(2) have "get_issue_by_repo_number d1 (sn_repo_id s) (gi_number issue) = Some i"
        "i_state i = ''NEW''" by (simp_all add: issue_snapshot_input_def)
      from new_issue_move_column[OF d1 this r m up1[OF u col]] show ?thesis using event[OF rest] by blast
    qed
    have refr: "?P d'" if "refresh_issue s issue i l r d = Inr (x, d')" for i l r x d'
      using that col by (auto simp: refresh_issue_def tx_success tx_return_eq split: if_splits
          intro: event[OF _ up[OF _ col]] up[OF _ col])
    have excl: "?P d'" if "ingest_excluded_issue s issue i reason r d = Inr (x, d')" for i reason r x d'
      using that col by (auto simp: ingest_excluded_issue_def tx_success tx_return_eq split: option.splits intro: up1[OF _ col])
    have "?P d'"
      using s unfolding ingest_issue_def Let_def tx_bind_get_eq
      by (auto simp: tx_bind_success split: if_splits option.splits intro: new excl link[OF _ refr] link[OF _ disc])
    with store_safeD[OF ingest_issue_store_safe d s] show "stays_excluded iid d'" by (simp add: stays_excluded_def)
  qed
qed

text \<open>
  C12: Discovery never admits an excluded issue: an issue that is BASELINE_EXCLUDED before a snapshot is
  ingested, whatever the snapshot says of it, is BASELINE_EXCLUDED after, and the store invariant holds.
\<close>
theorem ingest_keeps_excluded:
  assumes "store_ok d" and "ingest_repository_snapshot s intents d = (Inr res, d')"
    and "i \<in> set (issues d)" and "i_state i = ''BASELINE_EXCLUDED''"
  shows "store_ok d' \<and> (\<exists>i' \<in> set (issues d'). i_id i' = i_id i \<and> i_state i' = ''BASELINE_EXCLUDED'')"
proof -
  have run: "ingest_snapshot s intents d = Inr (res, d')"
    using assms(2) by (auto simp: ingest_repository_snapshot_def run_write_def split: sum.splits)
  have "tx_rel (keeps (stays_excluded (i_id i))) (ingest_snapshot s intents)"
    unfolding ingest_snapshot_def Let_def
    by (intro keeping.rel_intros ingest_issue_keeps_excluded quiet_keeps_excluded) (rule preserves_intros frame_intros)+
  from tx_relD[OF this run] assms(1,3,4) have "stays_excluded (i_id i) d'"
    by (force simp: keeps_def stays_excluded_def issue_column_def)
  then show ?thesis by (force simp: stays_excluded_def issue_column_def)
qed

definition example_snapshot :: "string \<Rightarrow> gh_comment_snapshot list \<Rightarrow> gh_snapshot" where
  "example_snapshot hash comments = \<lparr>sn_repo_id = ''acme/tool'', sn_owner = ''acme'', sn_name = ''tool'',
     sn_baseline_at = Some ''1970-01-05T00:00:00.000Z'', sn_cursor = None, sn_watermark = ''1970-01-06T00:00:00.000Z'',
     sn_collected_at = ''1970-01-06T00:00:00.000Z'',
     sn_issues = [\<lparr>gi_number = 1, gi_author = None, gi_title = ''old'', gi_state = ''OPEN'', gi_updated_at = ''1970-01-06T00:00:00.000Z'',
       gi_created_at = ''1970-01-02T00:00:00.000Z'', gi_labels = [], gi_snapshot_hash = hash\<rparr>,
       \<lparr>gi_number = 2, gi_author = None, gi_title = ''new'', gi_state = ''OPEN'', gi_updated_at = ''1970-01-06T00:00:00.000Z'',
       gi_created_at = ''1970-01-06T00:00:00.000Z'', gi_labels = [], gi_snapshot_hash = hash\<rparr>],
     sn_pull_requests = [], sn_checks = [], sn_reviews = [], sn_conflicts = [], sn_comments = comments\<rparr>"

definition example_ingested_db :: db where
  "example_ingested_db = snd (ingest_repository_snapshot (example_snapshot ''h1'' []) [] example_db)"

lemma example_ingested_ok: "store_ok example_ingested_db"
  using store_safe_run[OF ingest_snapshot_store_safe example_db_ok]
  by (simp add: example_ingested_db_def ingest_repository_snapshot_def)

theorem ingest_keeps_excluded_witness:
  "\<exists>res d'. ingest_repository_snapshot (example_snapshot ''h2'' []) [] example_ingested_db = (Inr res, d') \<and>
     (\<exists>i \<in> set (issues d'). i_id i = ''issue-acme/tool-1'' \<and> i_state i = ''BASELINE_EXCLUDED'')"
proof -
  let ?run = "ingest_repository_snapshot (example_snapshot ''h2'' []) [] example_ingested_db"
  have "\<not> isl (fst ?run)" by code_simp
  then obtain res d' where run: "?run = (Inr res, d')" by (rule act_okE)
  have "list_ex (\<lambda>i. i_id i = ''issue-acme/tool-1'' \<and> i_state i = ''BASELINE_EXCLUDED'') (issues example_ingested_db)" by code_simp
  then obtain i where "i \<in> set (issues example_ingested_db)" "i_id i = ''issue-acme/tool-1''" "i_state i = ''BASELINE_EXCLUDED''"
    by (auto simp: list_ex_iff)
  with ingest_keeps_excluded[OF example_ingested_ok run this(1,3)] run show ?thesis by auto
qed

text \<open>
  A comment on an excluded issue does enter the inbox: when the issue is BASELINE_EXCLUDED and no event
  with its key is known, ingesting a comment on it adds an inbox row for the issue.
\<close>
theorem comment_on_excluded_issue_enters_inbox:
  assumes "get_issue_by_repo_number d (sn_repo_id s) (gc_number c) = Some i" and "i_state i = ''BASELINE_EXCLUDED''"
    and "gc_target c = Issue_Comment" and "i_id i = issue_id_for (sn_repo_id s) (gc_number c)"
    and "active_link_of d (i_id i) = None" and "ingest_comment s linked c res d = Inr (res', d')"
    and "\<not> known_event d (''comment:'' @ sn_repo_id s @ '':issue:'' @ show_int (gc_number c) @ '':'' @ gc_comment_id c @ '':'' @ gc_body_hash c)"
  shows "\<exists>row. inbox d' = inbox d @ [row] \<and> ib_issue_id row = i_id i"
proof -
  have link: "comment_link d (sn_repo_id s) c linked = Some (None, i_id i)"
    using assms(1,3-5) by (simp add: comment_link_def)
  let ?e = "snapshot_event s None (i_id i) (''comment:'' @ sn_repo_id s @ '':issue:'' @ show_int (gc_number c) @ '':'' @ gc_comment_id c @ '':'' @ gc_body_hash c)
     ''issue_comment'' (JObj [(''target'', JStr ''issue''), (''number'', JNum (gc_number c)),
              (''comment_id'', JStr (gc_comment_id c)), (''author'', json_opt (gc_author c)), (''body_preview'', JStr (gc_body_preview c))])
           (or_else (gc_raw_author c) (gc_author c))"
  obtain r where ins: "insert_inbox_event_if_absent ?e d = Inr (r, d')"
    using assms(6) by (auto simp: ingest_comment_def tx_bind_get_eq link assms(3) record_event_def tx_success tx_return_eq split: if_splits)
  have "bi_event_key ?e = ''comment:'' @ sn_repo_id s @ '':issue:'' @ show_int (gc_number c) @ '':'' @ gc_comment_id c @ '':'' @ gc_body_hash c"
    "bi_issue_id ?e = i_id i" by (simp_all add: snapshot_event_def)
  with insert_inbox_event_if_absent_success[OF ins] assms(7) show ?thesis
    by (auto simp: new_inbox_row_def split: if_splits)
qed

definition example_comment :: gh_comment_snapshot where
  "example_comment = \<lparr>gc_target = Issue_Comment, gc_number = 1, gc_comment_id = ''c1'', gc_author = None, gc_author_presence = None,
     gc_raw_author = None, gc_created_at = ''1970-01-06T00:00:00.000Z'', gc_body_preview = ''hi'', gc_body_hash = ''h''\<rparr>"

theorem comment_on_excluded_issue_enters_inbox_witness:
  "\<exists>res d' row. ingest_comment (example_snapshot ''h1'' []) [] example_comment (initial_result (example_snapshot ''h1'' []))
       example_ingested_db = Inr (res, d') \<and> inbox d' = inbox example_ingested_db @ [row] \<and> ib_issue_id row = ''issue-acme/tool-1''"
proof -
  let ?s = "example_snapshot ''h1'' []" and ?d = example_ingested_db
  let ?run = "ingest_comment ?s [] example_comment (initial_result ?s) ?d"
  have "\<not> isl ?run" by code_simp
  then obtain res d' where run: "?run = Inr (res, d')" by (rule tx_okE)
  have "case get_issue_by_repo_number ?d (sn_repo_id ?s) (gc_number example_comment) of None \<Rightarrow> False
      | Some i \<Rightarrow> i_state i = ''BASELINE_EXCLUDED'' \<and> i_id i = ''issue-acme/tool-1''" by code_simp
  then obtain i where i: "get_issue_by_repo_number ?d (sn_repo_id ?s) (gc_number example_comment) = Some i"
    "i_state i = ''BASELINE_EXCLUDED''" "i_id i = ''issue-acme/tool-1''" by (auto split: option.splits)
  have "gc_target example_comment = Issue_Comment" "issue_id_for (sn_repo_id ?s) (gc_number example_comment) = ''issue-acme/tool-1''"
    "active_link_of ?d ''issue-acme/tool-1'' = None"
    "\<not> known_event ?d (''comment:'' @ sn_repo_id ?s @ '':issue:'' @ show_int (gc_number example_comment) @ '':'' @
       gc_comment_id example_comment @ '':'' @ gc_body_hash example_comment)" by code_simp+
  with comment_on_excluded_issue_enters_inbox[OF i(1,2) _ _ _ run] i(3) run show ?thesis by metis
qed

end
