(* ===== verification/Effects.thy ===== *)
theory Effects
  imports Gh Ingest "HOL-Library.AList"
begin

text \<open>
  The executor of the outbox (\<^verbatim>\<open>src/controller/effects.ts\<close>): payloads, the merge policy, the identity a
  pull request must have to be adopted, one runner per kind of effect, and the completion of a merged WorkItem.
  The external operations are the transport, a parameter; the state is the database beside the outside world. Steps of
  one execution run one after the other, with no other write in between.
\<close>

section \<open>Payloads and views\<close>

text \<open>
  The optional fields are taken to be of their declared types; \<open>ef_raw\<close> is the whole JSON object, which the merge
  intent copies.
\<close>

record effect_payload =
  ef_owner :: string
  ef_name :: string
  ef_push_owner :: "string option"
  ef_push_name :: "string option"
  ef_push_remote :: "string option"
  ef_work_item_id :: string
  ef_dir :: "string option"
  ef_issue_number :: "int option"
  ef_pr_number :: "int option"
  ef_head_ref :: "string option"
  ef_head_sha :: "string option"
  ef_base_branch :: "string option"
  ef_method :: "string option"
  ef_title :: "string option"
  ef_body :: "string option"
  ef_auto_merge :: "bool option"
  ef_merge_policy_known :: "bool option"
  ef_raw :: "(string \<times> json) list"

record protection_read =
  pt_enabled :: bool
  pt_required_approvals :: int
  pt_enforce_admins :: bool
  pt_required_checks :: "string list"
  pt_known :: "bool option"

record merge_policy_read =
  mp_auto_merge :: bool
  mp_policy_known :: bool

record pr_view =
  pv_number :: int
  pv_head_ref_name :: "string option"
  pv_head_sha :: "string option"
  pv_head_owner :: "string option"
  pv_head_repo :: "string option"
  pv_state :: string
  pv_mergeable :: string
  pv_merge_state_status :: string
  pv_is_draft :: bool
  pv_review_decision :: string

record check_view =
  cv_name :: string
  cv_status :: string
  cv_conclusion :: string

record review_view =
  rv_review_id :: string
  rv_state :: string
  rv_author :: string

record 'w effect_transport =
  et_push_head :: "string \<Rightarrow> string \<Rightarrow> string \<Rightarrow> string option \<Rightarrow> ('w, err, string option) act"
  et_read_issue_state :: "string \<Rightarrow> string \<Rightarrow> int \<Rightarrow> ('w, err, string option) act"
  et_comment_issue :: "string \<Rightarrow> string \<Rightarrow> int \<Rightarrow> string \<Rightarrow> ('w, err, string option) act"
  et_close_issue :: "string \<Rightarrow> string \<Rightarrow> int \<Rightarrow> ('w, err, unit) act"
  et_reopen_issue :: "string \<Rightarrow> string \<Rightarrow> int \<Rightarrow> ('w, err, unit) act"
  et_create_pr :: "string \<Rightarrow> string \<Rightarrow> string \<Rightarrow> string \<Rightarrow> string \<Rightarrow> string \<Rightarrow> string option \<Rightarrow> ('w, err, int option) act"
  et_find_pr_by_head :: "string \<Rightarrow> string \<Rightarrow> string \<Rightarrow> ('w, err, pr_view option) act"
  et_read_pr :: "string \<Rightarrow> string \<Rightarrow> int \<Rightarrow> ('w, err, pr_view option) act"
  et_read_protection :: "string \<Rightarrow> string \<Rightarrow> string \<Rightarrow> ('w, err, protection_read) act"
  et_read_checks :: "string \<Rightarrow> string \<Rightarrow> int \<Rightarrow> ('w, err, check_view list) act"
  et_read_reviews :: "string \<Rightarrow> string \<Rightarrow> int \<Rightarrow> ('w, err, review_view list) act"
  et_merge_pr :: "string \<Rightarrow> string \<Rightarrow> int \<Rightarrow> string \<Rightarrow> ('w, err, unit) act"

datatype effect_status = Ef_Done | Ef_Adopted | Ef_Waiting | Ef_Retry | Ef_Already_Done | Ef_Not_Found | Ef_Invalid
  | Ef_Monitoring | Ef_External_Only

record effect_result =
  er_status :: effect_status
  er_effect_id :: string
  er_kind :: "string option"
  er_attempt :: "nat option"
  er_reason :: "string option"
  er_pr_number :: "int option"

record effect_options =
  eo_wait_backoff_ms :: "nat option"
  eo_max_attempts :: "nat option"

definition DEFAULT_WAIT_BACKOFF_MS :: nat where "DEFAULT_WAIT_BACKOFF_MS = 60000"
definition DEFAULT_MAX_ATTEMPTS :: nat where "DEFAULT_MAX_ATTEMPTS = 8"

definition canonical_pr_state :: "string \<Rightarrow> string" where
  "canonical_pr_state fallback =
     (let states = sm_states (get_state_machine Pull_Request) in if List.member states fallback then fallback else hd states)"

section \<open>Merge policy and adoption\<close>

datatype merge_decision = Allow | External_Only | Hold

definition evaluate_merge_policy :: "protection_read \<Rightarrow> merge_policy_read \<Rightarrow> merge_decision" where
  "evaluate_merge_policy protection policy =
     (if pt_known protection = Some False then Hold
      else if \<not> mp_policy_known policy then Hold
      else if \<not> mp_auto_merge policy then External_Only
      else Allow)"

record pull_request_identity =
  id_target_owner :: string
  id_target_name :: string
  id_head_ref :: string
  id_head_sha :: "string option"
  id_push_owner :: string
  id_push_name :: string

datatype adoption_failure = Invalid_Number | Branch_Mismatch | Sha_Mismatch | Foreign_Fork | Head_Identity_Unknown

datatype adoption_result = Adopted int | Refused "int option" adoption_failure (rogue: bool)

fun adoption_reason :: "adoption_failure \<Rightarrow> string" where
  "adoption_reason Invalid_Number = ''invalid_number''"
| "adoption_reason Branch_Mismatch = ''branch_mismatch''"
| "adoption_reason Sha_Mismatch = ''sha_mismatch''"
| "adoption_reason Foreign_Fork = ''foreign_fork''"
| "adoption_reason Head_Identity_Unknown = ''head_identity_unknown''"

text \<open>The value of an optional string that is neither missing nor empty.\<close>

definition present :: "string option \<Rightarrow> bool" where
  "present v \<longleftrightarrow> v \<noteq> None \<and> v \<noteq> Some []"

definition adopt_verified_pull_request :: "pull_request_identity \<Rightarrow> pr_view \<Rightarrow> adoption_result" where
  "adopt_verified_pull_request identity observed =
     (let number = pv_number observed;
          expected_repo = to_lower (id_push_owner identity @ ''/'' @ id_push_name identity);
          expected_owner = to_lower (id_push_owner identity);
          head_repo = to_lower (coalesce (pv_head_repo observed) []);
          head_owner = to_lower (coalesce (pv_head_owner observed) []) in
      if number \<le> 0 then Refused None Invalid_Number False
      else if pv_head_ref_name observed \<noteq> None \<and> pv_head_ref_name observed \<noteq> Some (id_head_ref identity)
      then Refused (Some number) Branch_Mismatch False
      else if head_repo \<noteq> [] \<and> head_repo \<noteq> expected_repo then Refused (Some number) Foreign_Fork True
      else if head_repo = [] \<and> head_owner \<noteq> [] \<and> head_owner \<noteq> expected_owner then Refused (Some number) Foreign_Fork True
      else if head_repo = [] \<and> head_owner = [] then Refused (Some number) Head_Identity_Unknown False
      else if present (id_head_sha identity) \<and> present (pv_head_sha observed) \<and> pv_head_sha observed \<noteq> id_head_sha identity
      then Refused (Some number) Sha_Mismatch False
      else Adopted number)"

section \<open>Guards\<close>

fun int_or_null :: "json option \<Rightarrow> int option" where
  "int_or_null (Some (JNum n)) = Some n"
| "int_or_null _ = None"

definition payload_of :: "(string \<times> json) list \<Rightarrow> string \<Rightarrow> string \<Rightarrow> string \<Rightarrow> effect_payload" where
  "payload_of fs owner name wid =
     \<lparr>ef_owner = owner, ef_name = name, ef_push_owner = string_or_null (map_of fs ''push_owner''),
      ef_push_name = string_or_null (map_of fs ''push_name''), ef_push_remote = string_or_null (map_of fs ''push_remote''),
      ef_work_item_id = wid, ef_dir = string_or_null (map_of fs ''dir''), ef_issue_number = int_or_null (map_of fs ''issue_number''),
      ef_pr_number = int_or_null (map_of fs ''pr_number''), ef_head_ref = string_or_null (map_of fs ''head_ref''),
      ef_head_sha = string_or_null (map_of fs ''head_sha''), ef_base_branch = string_or_null (map_of fs ''base_branch''),
      ef_method = string_or_null (map_of fs ''method''), ef_title = string_or_null (map_of fs ''title''),
      ef_body = string_or_null (map_of fs ''body''), ef_auto_merge = bool_or_null (map_of fs ''auto_merge''),
      ef_merge_policy_known = bool_or_null (map_of fs ''merge_policy_known''), ef_raw = fs\<rparr>"

definition assert_optional_identifier :: "string option \<Rightarrow> string \<Rightarrow> unit checked" where
  "assert_optional_identifier v field = (case v of None \<Rightarrow> Inr () | Some s \<Rightarrow> assert_repo_identifier s field)"

definition check_payload :: "effect_payload \<Rightarrow> effect_payload checked" where
  "check_payload p =
     c_then (assert_repo_identifier (ef_owner p) ''owner'')
     (c_then (assert_repo_identifier (ef_name p) ''name'')
     (c_then (assert_optional_identifier (ef_push_owner p) ''push_owner'')
     (c_then (assert_optional_identifier (ef_push_name p) ''push_name'') (Inr p))))"

definition parse_payload :: "side_effect_row \<Rightarrow> effect_payload checked" where
  "parse_payload e =
     (case fx_payload_json e of
        Malformed s \<Rightarrow> Inl (JsError ''SyntaxError: Unexpected token in JSON'')
      | Text JNull \<Rightarrow> Inl (JsError ''TypeError: Cannot read properties of null'')
      | Text (JObj fs) \<Rightarrow>
          (case (string_or_null (map_of fs ''owner''), string_or_null (map_of fs ''name''), string_or_null (map_of fs ''work_item_id'')) of
             (Some owner, Some name, Some wid) \<Rightarrow> check_payload (payload_of fs owner name wid)
           | _ \<Rightarrow> Inl (JsError ''effect payload requires owner, name and work_item_id''))
      | Text other \<Rightarrow> Inl (JsError ''effect payload requires owner, name and work_item_id''))"

definition transient_words :: "string list" where
  "transient_words = [''rate limit'', ''etimedout'', ''econnreset'', ''eai_again'', ''network'', ''502'', ''503'', ''504'']"

fun is_transient :: "err \<Rightarrow> bool" where
  "is_transient (GhError kind m) = (kind = Rate_Limited \<or> kind = Network)"
| "is_transient e = list_ex (\<lambda>w. contains w (to_lower (message e))) transient_words"

definition backoff_ms :: "nat \<Rightarrow> nat \<Rightarrow> nat" where
  "backoff_ms attempt base = min (base * 2 ^ (attempt - 1)) 3600000"

text \<open>A \<^verbatim>\<open>Map\<close> as an association list: the latest entry of a key counts.\<close>

definition latest_reviews :: "review_view list \<Rightarrow> (string \<times> string) list" where
  "latest_reviews reviews = foldl (\<lambda>m r. if rv_author r = [] then m else AList.update (rv_author r) (rv_state r) m) [] reviews"

definition count_approvals :: "review_view list \<Rightarrow> nat" where
  "count_approvals reviews = length (filter (\<lambda>e. snd e = ''APPROVED'') (latest_reviews reviews))"

section \<open>Outbox marks\<close>

type_synonym ('w, 'a) effect_act = "('w, 'a) world_act"

definition mark_executing :: "string \<Rightarrow> ('w, unit) effect_act" where
  "mark_executing eid = write_tx (set_side_effect_state eid ''EXECUTING'' no_effect_patch)"

definition mark_done :: "string \<Rightarrow> ('w, unit) effect_act" where
  "mark_done eid = write_tx (set_side_effect_state eid ''DONE'' no_effect_patch)"

text \<open>\<open>at\<close>: the instant of the next attempt, \<open>None\<close> for no date.\<close>

definition mark_failed :: "string \<Rightarrow> string \<Rightarrow> instant option \<Rightarrow> ('w, unit) effect_act" where
  "mark_failed eid reason at = write_tx (set_side_effect_state eid ''FAILED''
     \<lparr>ep_next_attempt_at = map_option to_iso at, ep_last_error = Some reason\<rparr>)"

definition requeue :: "string \<Rightarrow> string \<Rightarrow> instant option \<Rightarrow> ('w, unit) effect_act" where
  "requeue eid reason at = write_tx (requeue_side_effect eid
     \<lparr>ep_next_attempt_at = map_option to_iso at, ep_last_error = Some reason\<rparr>)"

definition result :: "effect_status \<Rightarrow> string \<Rightarrow> string \<Rightarrow> nat option \<Rightarrow> string option \<Rightarrow> int option \<Rightarrow> effect_result" where
  "result st eid kind attempt reason pr =
     \<lparr>er_status = st, er_effect_id = eid, er_kind = Some kind, er_attempt = attempt, er_reason = reason, er_pr_number = pr\<rparr>"

definition invalid :: "string \<Rightarrow> string \<Rightarrow> string \<Rightarrow> string \<Rightarrow> ('w, effect_result) effect_act" where
  "invalid eid kind m reason =
     act_then (mark_failed eid m None) (act_return (result Ef_Invalid eid kind None (Some reason) None))"

section \<open>Push, comment, close and reopen\<close>

definition run_push :: "'w effect_transport \<Rightarrow> string \<Rightarrow> effect_payload \<Rightarrow> nat \<Rightarrow> ('w, effect_result) effect_act" where
  "run_push tr eid p attempt =
     (if \<not> present (ef_dir p) \<or> \<not> present (ef_head_ref p) \<or> \<not> present (ef_head_sha p)
      then invalid eid ''push'' ''push effect missing dir/head_ref/head_sha'' ''missing_fields''
      else if \<not> present (ef_push_remote p)
      then invalid eid ''push'' ''push effect missing configured push_remote'' ''missing_push_remote''
      else let sha = the (ef_head_sha p) in
        act_then (mark_executing eid)
        (act_bind (on_snd (et_push_head tr (the (ef_dir p)) (the (ef_head_ref p)) sha (ef_push_remote p))) (\<lambda>remote_sha.
          if remote_sha = Some sha
          then act_then (mark_done eid) (act_return (result Ef_Done eid ''push'' (Some attempt) None None))
          else act_then (mark_failed eid (''remote sha '' @ coalesce remote_sha ''absent'' @ '' != '' @ sha) None)
            (act_return (result Ef_Retry eid ''push'' (Some attempt) (Some ''remote_sha_mismatch'') None)))))"

definition run_comment :: "'w effect_transport \<Rightarrow> string \<Rightarrow> effect_payload \<Rightarrow> nat \<Rightarrow> ('w, effect_result) effect_act" where
  "run_comment tr eid p attempt =
     (case ef_issue_number p of
        None \<Rightarrow> invalid eid ''comment'' ''comment effect missing issue_number'' ''missing_issue_number''
      | Some n \<Rightarrow>
          act_then (mark_executing eid)
          (act_bind (on_snd (et_comment_issue tr (ef_owner p) (ef_name p) n (coalesce (ef_body p) []))) (\<lambda>cid.
            act_then (mark_done eid) (act_return (result Ef_Done eid ''comment'' (Some attempt) cid None)))))"

definition run_state_change ::
  "'w effect_transport \<Rightarrow> string \<Rightarrow> effect_payload \<Rightarrow> nat \<Rightarrow> string \<Rightarrow> ('w, effect_result) effect_act" where
  "run_state_change tr eid p attempt target =
     (let kind = (if target = ''CLOSED'' then ''close'' else ''reopen'') in
      case ef_issue_number p of
        None \<Rightarrow> invalid eid kind ''state effect missing issue_number'' ''missing_issue_number''
      | Some n \<Rightarrow>
          act_bind (on_snd (et_read_issue_state tr (ef_owner p) (ef_name p) n)) (\<lambda>current.
          if current = Some target
          then act_then (mark_done eid) (act_return (result Ef_Adopted eid kind (Some attempt) (Some ''already_in_target_state'') None))
          else act_then (mark_executing eid)
            (act_then (on_snd (if target = ''CLOSED'' then et_close_issue tr (ef_owner p) (ef_name p) n
                else et_reopen_issue tr (ef_owner p) (ef_name p) n))
            (act_bind (on_snd (et_read_issue_state tr (ef_owner p) (ef_name p) n)) (\<lambda>after.
              if after = Some target
              then act_then (mark_done eid) (act_return (result Ef_Done eid kind (Some attempt) None None))
              else act_then (mark_failed eid (''issue state did not reach '' @ target @ '' (saw '' @ coalesce after ''missing'' @ '')'') None)
                (act_return (result Ef_Retry eid kind (Some attempt) (Some ''state_not_verified'') None)))))))"

section \<open>Pull requests\<close>

definition pr_identity :: "effect_payload \<Rightarrow> pull_request_identity option" where
  "pr_identity p =
     (let owner = coalesce (ef_push_owner p) (ef_owner p); name = coalesce (ef_push_name p) (ef_name p) in
      if \<not> present (ef_head_ref p) then None
      else if owner = [] \<or> name = [] then None
      else Some \<lparr>id_target_owner = ef_owner p, id_target_name = ef_name p, id_head_ref = the (ef_head_ref p),
        id_head_sha = ef_head_sha p, id_push_owner = owner, id_push_name = name\<rparr>)"

definition pr_row_input :: "effect_payload \<Rightarrow> string \<Rightarrow> string \<Rightarrow> int \<Rightarrow> string \<Rightarrow> string option \<Rightarrow> string \<Rightarrow> string \<Rightarrow> pull_request_input" where
  "pr_row_input p rid repo_id n head_ref sha state origin =
     \<lparr>pi_id = rid, pi_work_item_id = ef_work_item_id p, pi_repo_id = repo_id, pi_number = n, pi_head_ref = head_ref,
      pi_head_sha = sha, pi_state = state, pi_origin = Some origin, pi_snapshot_hash = None\<rparr>"

definition record_rogue_pr :: "effect_payload \<Rightarrow> pr_view \<Rightarrow> ('w, unit) effect_act" where
  "record_rogue_pr p v = write_tx (
     tx_bind (tx_get (\<lambda>d. get_work_item d (ef_work_item_id p))) (\<lambda>found.
     case found of
       None \<Rightarrow> tx_return ()
     | Some wi \<Rightarrow> tx_bind (insert_pull_request_if_absent
           (pr_row_input p (''pr-'' @ ef_work_item_id p @ ''-'' @ show_int (pv_number v) @ ''-rogue'') (w_repo_id wi) (pv_number v)
             (coalesce (or_else (pv_head_ref_name v) (ef_head_ref p)) []) (pv_head_sha v) ''ROGUE'' ''rogue''))
         (\<lambda>inserted. tx_return ())))"

text \<open>\<^verbatim>\<open>{ ...payload, k: v }\<close>: a key keeps its place.\<close>

fun json_set :: "(string \<times> json) list \<Rightarrow> string \<Rightarrow> json \<Rightarrow> (string \<times> json) list" where
  "json_set [] k v = [(k, v)]"
| "json_set ((k', v') # fs) k v = (if k' = k then (k, v) # fs else (k', v') # json_set fs k v)"

definition merge_intent_json :: "effect_payload \<Rightarrow> int \<Rightarrow> string \<Rightarrow> string option \<Rightarrow> bool \<Rightarrow> bool \<Rightarrow> json" where
  "merge_intent_json p n head_ref sha auto_merge policy_known =
     (let fs1 = json_set (json_set (ef_raw p) ''pr_number'' (JNum n)) ''head_ref'' (JStr head_ref);
          fs2 = (case or_else sha (ef_head_sha p) of None \<Rightarrow> fs1 | Some s \<Rightarrow> json_set fs1 ''head_sha'' (JStr s)) in
      JObj (json_set (json_set fs2 ''auto_merge'' (JBool auto_merge)) ''merge_policy_known'' (JBool policy_known)))"

definition scheduled_kind :: "effect_payload \<Rightarrow> string" where
  "scheduled_kind p = (if ef_auto_merge p = Some True \<and> ef_merge_policy_known p \<noteq> Some False then ''merge'' else ''monitor'')"

definition schedule_intent :: "effect_payload \<Rightarrow> int \<Rightarrow> string \<Rightarrow> string option \<Rightarrow> side_effect_input" where
  "schedule_intent p n head_ref sha =
     \<lparr>ei_id = ''fx-'' @ scheduled_kind p @ ''-'' @ ef_work_item_id p @ ''-'' @ show_int n, ei_kind = scheduled_kind p,
      ei_effect_key = scheduled_kind p @ '':'' @ ef_work_item_id p @ '':'' @ show_int n, ei_state = ''PENDING'',
      ei_payload_json = Text (merge_intent_json p n head_ref sha (ef_auto_merge p = Some True) (ef_merge_policy_known p \<noteq> Some False))\<rparr>"

definition schedule_body :: "effect_payload \<Rightarrow> int \<Rightarrow> string \<Rightarrow> string option \<Rightarrow> unit db_tx" where
  "schedule_body p n head_ref sha =
     tx_bind (tx_get (\<lambda>d. get_work_item d (ef_work_item_id p))) (\<lambda>found.
     case found of
       None \<Rightarrow> tx_return ()
     | Some wi \<Rightarrow>
         tx_bind (insert_pull_request_if_absent (pr_row_input p (''pr-'' @ ef_work_item_id p @ ''-'' @ show_int n) (w_repo_id wi) n
             head_ref sha (canonical_pr_state ''ACTIVE'') ''controller'')) (\<lambda>i1.
         tx_bind (insert_side_effect_if_absent (schedule_intent p n head_ref sha)) (\<lambda>i2. tx_return ())))"

definition adopt_pr_and_schedule_merge ::
  "effect_payload \<Rightarrow> int \<Rightarrow> string \<Rightarrow> string option \<Rightarrow> ('w, unit) effect_act" where
  "adopt_pr_and_schedule_merge p n head_ref sha =
     (if n \<le> 0 then act_return () else write_tx (schedule_body p n head_ref sha))"

definition adopt_pr ::
  "string \<Rightarrow> effect_payload \<Rightarrow> nat \<Rightarrow> pr_view \<Rightarrow> effect_status \<Rightarrow> string option \<Rightarrow> ('w, effect_result) effect_act" where
  "adopt_pr eid p attempt v st reason =
     act_then (mark_done eid)
     (act_then (adopt_pr_and_schedule_merge p (pv_number v) (coalesce (pv_head_ref_name v) (the (ef_head_ref p)))
         (or_else (pv_head_sha v) (ef_head_sha p)))
       (act_return (result st eid ''pr'' (Some attempt) reason (Some (pv_number v)))))"

definition push_done :: "db \<Rightarrow> effect_payload \<Rightarrow> bool" where
  "push_done d p =
     (case List.find (\<lambda>e. fx_effect_key e = ''push:'' @ ef_work_item_id p @ '':'' @ coalesce (ef_head_sha p) []) (side_effects d) of
        None \<Rightarrow> False | Some e \<Rightarrow> fx_state e = ''DONE'')"

definition run_create_pr :: "'w effect_transport \<Rightarrow> string \<Rightarrow> effect_payload \<Rightarrow> nat \<Rightarrow> ('w, effect_result) effect_act" where
  "run_create_pr tr eid p attempt =
     (if \<not> present (ef_head_ref p) \<or> \<not> present (ef_base_branch p)
      then invalid eid ''pr'' ''pr effect missing head_ref/base_branch'' ''missing_fields''
      else case pr_identity p of
        None \<Rightarrow> invalid eid ''pr'' ''pr effect missing expected push owner/name or head identity'' ''missing_identity''
      | Some identity \<Rightarrow>
          act_bind (on_snd (et_find_pr_by_head tr (ef_owner p) (ef_name p) (the (ef_head_ref p)))) (\<lambda>existing.
          case existing of
            Some v \<Rightarrow>
              (case adopt_verified_pull_request identity v of
                 Adopted n \<Rightarrow> adopt_pr eid p attempt v Ef_Adopted (Some ''already_exists'')
               | Refused n why is_rogue \<Rightarrow>
                   act_then (act_when is_rogue (record_rogue_pr p v))
                   (act_then (requeue eid (''pr_identity_'' @ adoption_reason why) None)
                     (act_return (result Ef_Retry eid ''pr'' (Some attempt) (Some (''pr_identity_'' @ adoption_reason why)) None))))
          | None \<Rightarrow>
              act_bind (act_get (\<lambda>s. push_done (fst s) p)) (\<lambda>pushed.
              if \<not> pushed
              then act_then (requeue eid ''push_pending'' None)
                (act_return (result Ef_Retry eid ''pr'' (Some attempt) (Some ''push_pending'') None))
              else act_then (mark_executing eid)
                (act_bind (on_snd (et_create_pr tr (ef_owner p) (ef_name p) (the (ef_head_ref p)) (the (ef_base_branch p))
                    (coalesce (ef_title p) (''Tissue '' @ ef_work_item_id p)) (coalesce (ef_body p) [])
                    (if id_push_owner identity \<noteq> ef_owner p then Some (id_push_owner identity) else None))) (\<lambda>created.
                act_bind (on_snd (case created of
                      Some n \<Rightarrow> et_read_pr tr (ef_owner p) (ef_name p) n
                    | None \<Rightarrow> et_find_pr_by_head tr (ef_owner p) (ef_name p) (the (ef_head_ref p)))) (\<lambda>found.
                case found of
                  None \<Rightarrow> act_then (mark_failed eid ''created PR could not be verified'' None)
                    (act_return (result Ef_Retry eid ''pr'' (Some attempt) (Some ''pr_not_verified'') None))
                | Some v \<Rightarrow>
                    (case adopt_verified_pull_request identity v of
                       Adopted n \<Rightarrow> adopt_pr eid p attempt v Ef_Done None
                     | Refused n why is_rogue \<Rightarrow>
                         act_then (act_when is_rogue (record_rogue_pr p v))
                         (act_then (mark_failed eid (''created PR failed identity check: '' @ adoption_reason why) None)
                           (act_return (result Ef_Retry eid ''pr'' (Some attempt)
                              (Some (''pr_identity_'' @ adoption_reason why)) None))))))))))"


section \<open>Completion of a merged WorkItem\<close>

definition mark_local_pr :: "effect_payload \<Rightarrow> int \<Rightarrow> string \<Rightarrow> ('w, unit) effect_act" where
  "mark_local_pr p n state = write_tx (mark_pull_request_state (ef_work_item_id p) n state)"

definition release_dependent :: "string \<Rightarrow> dependency_row \<Rightarrow> unit db_tx" where
  "release_dependent wid relation =
     tx_bind (tx_get (\<lambda>d. get_work_item d (dp_dependent relation))) (\<lambda>dependent.
     tx_then (if map_option w_state dependent = Some ''DEFERRED''
         then tx_bind (record_transition Work_Item (dp_dependent relation) (Some ''DEFERRED'') ''READY'' ''dependency_completed''
             (Some (JObj [(''dependency_work_item_id'', JStr wid), (''relation_id'', JStr (dp_id relation))])) ''controller.effects'' None)
           (\<lambda>row. set_work_item_state (dp_dependent relation) ''READY'' no_lease_patch)
         else tx_return ())
       (settle_work_item_dependency (dp_id relation)))"

definition resume_waiting :: "string \<Rightarrow> string \<Rightarrow> int \<Rightarrow> string db_tx" where
  "resume_waiting wid current n =
     (if current = ''WAITING''
      then tx_bind (record_transition Work_Item wid (Some ''WAITING'') ''RUNNING'' ''resume''
          (Some (JObj [(''pr_number'', JNum n), (''merge_verified'', JBool True)])) ''controller.effects'' None)
        (\<lambda>row. tx_then (set_work_item_state wid ''RUNNING'' no_lease_patch) (tx_return ''RUNNING''))
      else tx_return current)"

definition complete_from :: "string \<Rightarrow> string \<Rightarrow> int \<Rightarrow> unit db_tx" where
  "complete_from wid completion_from n =
     (if is_legal_transition Work_Item completion_from ''COMPLETED'' ''completed''
      then tx_bind (record_transition Work_Item wid (Some completion_from) ''COMPLETED'' ''completed''
          (Some (JObj [(''pr_number'', JNum n)])) ''controller.effects'' None)
        (\<lambda>row. set_work_item_state wid ''COMPLETED'' no_lease_patch)
      else tx_return ())"

definition complete_merged_body :: "string \<Rightarrow> string \<Rightarrow> int \<Rightarrow> unit db_tx" where
  "complete_merged_body eid wid n =
     tx_bind (tx_get (\<lambda>d. get_work_item d wid)) (\<lambda>found.
     case found of
       None \<Rightarrow> tx_return ()
     | Some wi \<Rightarrow>
         if w_state wi = [] then tx_return ()
         else tx_then (set_side_effect_state eid ''DONE'' no_effect_patch)
         (tx_then (mark_pull_request_state wid n ''MERGED'')
         (tx_bind (resume_waiting wid (w_state wi) n) (\<lambda>completion_from.
          tx_then (complete_from wid completion_from n)
         (tx_bind (tx_get (\<lambda>d. list_dependents_for_completed_dependency d (On_Work_Item wid)))
            (tx_foreach (release_dependent wid)))))))"

definition complete_merged_work_item :: "string \<Rightarrow> string \<Rightarrow> int \<Rightarrow> ('w, unit) effect_act" where
  "complete_merged_work_item eid wid n = write_tx (complete_merged_body eid wid n)"

section \<open>Monitor and merge\<close>

definition adopt_gone ::
  "string \<Rightarrow> effect_payload \<Rightarrow> nat \<Rightarrow> string \<Rightarrow> int \<Rightarrow> string \<Rightarrow> ('w, effect_result) effect_act" where
  "adopt_gone eid p attempt kind n reason =
     act_then (mark_done eid)
     (act_then (mark_local_pr p n ''CLOSED'')
       (act_return (result Ef_Adopted eid kind (Some attempt) (Some reason) (Some n))))"

definition adopt_merged ::
  "string \<Rightarrow> effect_payload \<Rightarrow> nat \<Rightarrow> string \<Rightarrow> int \<Rightarrow> ('w, effect_result) effect_act" where
  "adopt_merged eid p attempt kind n =
     act_then (complete_merged_work_item eid (ef_work_item_id p) n)
       (act_return (result Ef_Adopted eid kind (Some attempt) (Some ''already_merged'') (Some n)))"

definition run_monitor ::
  "'w effect_transport \<Rightarrow> instant \<Rightarrow> nat \<Rightarrow> string \<Rightarrow> effect_payload \<Rightarrow> nat \<Rightarrow> ('w, effect_result) effect_act" where
  "run_monitor tr now wait eid p attempt =
     (case ef_pr_number p of
        None \<Rightarrow> invalid eid ''monitor'' ''monitor effect missing pr_number'' ''missing_fields''
      | Some n \<Rightarrow>
          act_bind (on_snd (et_read_pr tr (ef_owner p) (ef_name p) n)) (\<lambda>pr.
          case pr of
            None \<Rightarrow> adopt_gone eid p attempt ''monitor'' n ''pr_not_found''
          | Some v \<Rightarrow>
              if pv_state v = ''MERGED'' then adopt_merged eid p attempt ''monitor'' n
              else if pv_state v = ''CLOSED'' then adopt_gone eid p attempt ''monitor'' n ''already_closed''
              else act_then (requeue eid ''external_only'' (Some (now + wait)))
                (act_return (result Ef_Monitoring eid ''monitor'' (Some attempt) (Some ''external_only'') (Some n)))))"

definition hold_body :: "string \<Rightarrow> string \<Rightarrow> unit db_tx" where
  "hold_body wid reason =
     tx_bind (tx_get (\<lambda>d. coalesce (map_option w_state (get_work_item d wid)) ''RUNNING'')) (\<lambda>from_state.
       if is_legal_transition Work_Item from_state ''WAITING'' ''await_review''
       then tx_bind (record_transition Work_Item wid (Some from_state) ''WAITING'' ''await_review''
           (Some (JObj [(''reason'', JStr reason)])) ''controller.effects'' None)
         (\<lambda>row. set_work_item_state wid ''WAITING'' \<lparr>wp_lease_token = Some None, wp_lease_until = Some None\<rparr>)
       else tx_return ())"

definition hold_waiting ::
  "string \<Rightarrow> effect_payload \<Rightarrow> instant \<Rightarrow> nat \<Rightarrow> nat \<Rightarrow> string \<Rightarrow> ('w, effect_result) effect_act" where
  "hold_waiting eid p now wait attempt reason =
     act_then (write_tx (hold_body (ef_work_item_id p) reason))
     (act_then (requeue eid reason (Some (now + wait)))
       (act_return (result Ef_Waiting eid ''merge'' (Some attempt) (Some reason) (ef_pr_number p))))"

definition policy_of :: "effect_payload \<Rightarrow> merge_policy_read" where
  "policy_of p = \<lparr>mp_auto_merge = (ef_auto_merge p = Some True), mp_policy_known = (ef_merge_policy_known p \<noteq> Some False)\<rparr>"

text \<open>\<^verbatim>\<open>new Map(checks.map(...))\<close>: of two checks of one name the later counts.\<close>

definition missing_checks :: "string list \<Rightarrow> check_view list \<Rightarrow> string list" where
  "missing_checks required checks =
     filter (\<lambda>name. map_of (rev (map (\<lambda>c. (cv_name c, cv_conclusion c)) checks)) name \<noteq> Some ''SUCCESS'') required"

text \<open>The read after the merge call decides.\<close>

definition verify_merge :: "string \<Rightarrow> effect_payload \<Rightarrow> nat \<Rightarrow> int \<Rightarrow> pr_view option \<Rightarrow> ('w, effect_result) effect_act" where
  "verify_merge eid p attempt n reread =
     (if map_option pv_state reread = Some ''MERGED''
      then act_then (complete_merged_work_item eid (ef_work_item_id p) n)
        (act_return (result Ef_Done eid ''merge'' (Some attempt) None (Some n)))
      else act_then (mark_failed eid (''merge not verified (state '' @ coalesce (map_option pv_state reread) ''missing'' @ '')'') None)
        (act_return (result Ef_Retry eid ''merge'' (Some attempt) (Some ''merge_not_verified'') (Some n))))"

text \<open>The gates after the reads: what holds the merge back, or the merge itself.\<close>

definition merge_gates ::
  "'w effect_transport \<Rightarrow> instant \<Rightarrow> nat \<Rightarrow> string \<Rightarrow> effect_payload \<Rightarrow> nat \<Rightarrow> int \<Rightarrow> pr_view \<Rightarrow> protection_read
    \<Rightarrow> check_view list \<Rightarrow> review_view list \<Rightarrow> ('w, effect_result) effect_act" where
  "merge_gates tr now wait eid p attempt n v protection checks reviews =
     (let decision = evaluate_merge_policy protection (policy_of p);
          missing = missing_checks (pt_required_checks protection) checks in
      if decision = External_Only
      then act_then (requeue eid ''auto_merge_disabled'' (Some (now + wait)))
        (act_return (result Ef_External_Only eid ''merge'' (Some attempt) (Some ''auto_merge_disabled'') (Some n)))
      else if decision = Hold then hold_waiting eid p now wait attempt ''merge_policy_unknown''
      else if 0 < pt_required_approvals protection \<and> int (count_approvals reviews) < pt_required_approvals protection
      then hold_waiting eid p now wait attempt ''human_approval_required''
      else if pv_review_decision v = ''CHANGES_REQUESTED'' \<or> pv_review_decision v = ''REVIEW_REQUIRED''
      then hold_waiting eid p now wait attempt (''review_'' @ to_lower (pv_review_decision v))
      else if pt_required_checks protection \<noteq> [] \<and> missing \<noteq> []
      then hold_waiting eid p now wait attempt (''checks_pending:'' @ join missing)
      else if pv_mergeable v \<noteq> ''MERGEABLE''
      then act_then (requeue eid (''not_mergeable:'' @ pv_mergeable v @ ''/'' @ pv_merge_state_status v) (Some (now + wait)))
        (act_return (result Ef_Retry eid ''merge'' (Some attempt) (Some ''not_mergeable'') (Some n)))
      else act_then (mark_executing eid)
        (act_then (on_snd (et_merge_pr tr (ef_owner p) (ef_name p) n (coalesce (ef_method p) ''squash'')))
        (act_bind (on_snd (et_read_pr tr (ef_owner p) (ef_name p) n)) (verify_merge eid p attempt n))))"

definition run_merge ::
  "'w effect_transport \<Rightarrow> instant \<Rightarrow> nat \<Rightarrow> string \<Rightarrow> effect_payload \<Rightarrow> nat \<Rightarrow> ('w, effect_result) effect_act" where
  "run_merge tr now wait eid p attempt =
     (if ef_pr_number p = None \<or> \<not> present (ef_base_branch p)
      then invalid eid ''merge'' ''merge effect missing pr_number/base_branch'' ''missing_fields''
      else let n = the (ef_pr_number p) in
        act_bind (on_snd (et_read_pr tr (ef_owner p) (ef_name p) n)) (\<lambda>pr.
        case pr of
          None \<Rightarrow> adopt_gone eid p attempt ''merge'' n ''pr_not_found''
        | Some v \<Rightarrow>
            if pv_state v = ''MERGED'' then adopt_merged eid p attempt ''merge'' n
            else if pv_state v = ''CLOSED'' then adopt_gone eid p attempt ''merge'' n ''already_closed''
            else if pv_is_draft v then hold_waiting eid p now wait attempt ''draft''
            else act_bind (on_snd (et_read_protection tr (ef_owner p) (ef_name p) (the (ef_base_branch p)))) (\<lambda>protection.
              act_bind (on_snd (et_read_checks tr (ef_owner p) (ef_name p) n)) (\<lambda>checks.
              act_bind (on_snd (et_read_reviews tr (ef_owner p) (ef_name p) n)) (\<lambda>reviews.
                merge_gates tr now wait eid p attempt n v protection checks reviews)))))"

section \<open>The executor\<close>

definition run_kind ::
  "'w effect_transport \<Rightarrow> instant \<Rightarrow> nat \<Rightarrow> string \<Rightarrow> string \<Rightarrow> effect_payload \<Rightarrow> nat \<Rightarrow> ('w, effect_result) effect_act" where
  "run_kind tr now wait eid kind p attempt =
     (if kind = ''push'' then run_push tr eid p attempt
      else if kind = ''comment'' then run_comment tr eid p attempt
      else if kind = ''close'' then run_state_change tr eid p attempt ''CLOSED''
      else if kind = ''reopen'' then run_state_change tr eid p attempt ''OPEN''
      else if kind = ''pr'' then run_create_pr tr eid p attempt
      else if kind = ''monitor'' then run_monitor tr now wait eid p attempt
      else if kind = ''merge'' then run_merge tr now wait eid p attempt
      else invalid eid kind (''unknown effect kind '' @ quoted kind) ''unknown_kind'')"

definition run_guarded ::
  "'w effect_transport \<Rightarrow> instant \<Rightarrow> nat \<Rightarrow> side_effect_row \<Rightarrow> effect_payload \<Rightarrow> nat \<Rightarrow> ('w, effect_result) effect_act" where
  "run_guarded tr now wait e p attempt =
     act_try (run_kind tr now wait (fx_id e) (fx_kind e) p attempt)
       (\<lambda>er. act_then (mark_failed (fx_id e) (message er) (if is_transient er then Some (now + backoff_ms attempt wait) else None))
          (act_return (result Ef_Retry (fx_id e) (fx_kind e) (Some attempt) (Some (message er)) None)))"

definition execute_verified_effect ::
  "'w effect_transport \<Rightarrow> instant \<Rightarrow> effect_options \<Rightarrow> string \<Rightarrow> ('w, effect_result) effect_act" where
  "execute_verified_effect tr now opts eid =
     (let wait = coalesce (eo_wait_backoff_ms opts) DEFAULT_WAIT_BACKOFF_MS;
          max_attempts = coalesce (eo_max_attempts opts) DEFAULT_MAX_ATTEMPTS in
      act_bind (act_get (\<lambda>s. get_side_effect_full (fst s) eid)) (\<lambda>found.
      case found of
        None \<Rightarrow> act_return \<lparr>er_status = Ef_Not_Found, er_effect_id = eid, er_kind = None, er_attempt = None, er_reason = None,
            er_pr_number = None\<rparr>
      | Some e \<Rightarrow>
          if fx_state e = ''DONE''
          then act_return (result Ef_Already_Done eid (fx_kind e) (Some (fx_attempt e)) None None)
          else case parse_payload e of
            Inl er \<Rightarrow> invalid eid (fx_kind e) (message er) (message er)
          | Inr p \<Rightarrow>
              let attempt = fx_attempt e + 1 in
              if attempt > max_attempts
              then act_then (mark_failed eid ''max attempts exceeded'' None)
                (act_return (result Ef_Retry eid (fx_kind e) (Some attempt) (Some ''max_attempts'') None))
              else run_guarded tr now wait e p attempt))"

section \<open>A verified merge completes the WorkItem\<close>

text \<open>A WorkItem that exists goes on existing.\<close>

definition store_has :: "string \<Rightarrow> db \<Rightarrow> bool" where
  "store_has wid d \<longleftrightarrow> store_ok d \<and> item_state d wid \<noteq> None"

lemma store_has_quiet:
  assumes "store_safe m" "tx_rel (frame audit_view) m" shows "tx_rel (keeps (store_has wid)) m"
  using store_safeD[OF assms(1)] quiet_item_state[OF assms(2)] by (auto simp: tx_rel_def keeps_def store_has_def)

lemma resume_waiting_ok:
  assumes "store_ok d" "item_state d wid = Some s" "resume_waiting wid s n d = Inr (c, d')"
  shows "store_ok d' \<and> item_state d' = (item_state d)(wid \<mapsto> c) \<and> work_item_dependencies d' = work_item_dependencies d \<and>
    c = (if s = ''WAITING'' then ''RUNNING'' else s)"
proof (cases "s = ''WAITING''")
  case True
  obtain u where c: "c = ''RUNNING''" and s: "tx_bind (record_transition Work_Item wid (Some ''WAITING'') ''RUNNING'' ''resume''
      (Some (JObj [(''pr_number'', JNum n), (''merge_verified'', JBool True)])) ''controller.effects'' None)
      (\<lambda>row. set_work_item_state wid ''RUNNING'' no_lease_patch) d = Inr (u, d')"
    using assms(3) unfolding resume_waiting_def if_P[OF True] tx_bind_then tx_then_success tx_return_success by blast
  from work_item_move[OF assms(1) _ s] assms(2) True c show ?thesis by simp
qed (use assms in \<open>auto simp: resume_waiting_def tx_return_eq\<close>)

lemma complete_from_ok:
  assumes "store_ok d" "item_state d wid = Some c" "complete_from wid c n d = Inr (u, d')"
  shows "store_ok d' \<and> work_item_dependencies d' = work_item_dependencies d \<and>
    item_state d' = (if is_legal_transition Work_Item c ''COMPLETED'' ''completed'' then (item_state d)(wid \<mapsto> ''COMPLETED'') else item_state d)"
proof (cases "is_legal_transition Work_Item c ''COMPLETED'' ''completed''")
  case True
  from work_item_move[OF assms(1,2) assms(3)[unfolded complete_from_def if_P[OF True]]] True show ?thesis by simp
next
  case False
  from assms(3)[unfolded complete_from_def if_not_P[OF False] tx_return_success] assms(1) False show ?thesis by simp
qed

definition active_relations :: "db \<Rightarrow> dependency_row list" where
  "active_relations d = filter (\<lambda>r. dp_state r = ''ACTIVE'') (work_item_dependencies d)"

lemma active_relations_settle:
  "settle_work_item_dependency rid d = Inr (u, d') \<Longrightarrow>
   active_relations d' = filter (\<lambda>r. dp_id r \<noteq> rid) (active_relations d) \<and> item_state d' = item_state d"
proof -
  assume s: "settle_work_item_dependency rid d = Inr (u, d')"
  have "filter (\<lambda>r. dp_state r = ''ACTIVE'') (update_where (\<lambda>r. dp_id r = rid \<and> dp_state r = ''ACTIVE'') (settle_row t) rs) =
      filter (\<lambda>r. dp_id r \<noteq> rid) (filter (\<lambda>r. dp_state r = ''ACTIVE'') rs)" for t rs
    by (induction rs) (auto simp: update_where_Cons update_where_Nil settle_row_def)
  with s show ?thesis
    by (auto simp: settle_work_item_dependency_def tx_simps active_relations_def item_state_def get_work_item_def intro!: ext)
qed

lemma release_dependent_ok:
  assumes "store_ok d" "release_dependent wid r d = Inr (u, d')"
  shows "store_ok d' \<and> active_relations d' = filter (\<lambda>q. dp_id q \<noteq> dp_id r) (active_relations d) \<and>
    item_state d' = (\<lambda>i. if i = dp_dependent r \<and> item_state d i = Some ''DEFERRED'' then Some ''READY'' else item_state d i)"
proof -
  obtain u1 d1 where release: "(if item_state d (dp_dependent r) = Some ''DEFERRED''
         then tx_bind (record_transition Work_Item (dp_dependent r) (Some ''DEFERRED'') ''READY'' ''dependency_completed''
             (Some (JObj [(''dependency_work_item_id'', JStr wid), (''relation_id'', JStr (dp_id r))])) ''controller.effects'' None)
           (\<lambda>row. set_work_item_state (dp_dependent r) ''READY'' no_lease_patch)
         else tx_return ()) d = Inr (u1, d1)"
    and settle: "settle_work_item_dependency (dp_id r) d1 = Inr (u, d')"
    using assms(2) unfolding release_dependent_def tx_bind_get_eq tx_then_success item_state_def by blast
  have "store_ok d1 \<and> work_item_dependencies d1 = work_item_dependencies d \<and>
    item_state d1 = (\<lambda>i. if i = dp_dependent r \<and> item_state d i = Some ''DEFERRED'' then Some ''READY'' else item_state d i)"
  proof (cases "item_state d (dp_dependent r) = Some ''DEFERRED''")
    case True
    from work_item_move[OF assms(1) this release[unfolded if_P[OF True]]] True show ?thesis by (auto intro!: ext)
  next
    case False
    with release assms(1) show ?thesis by (auto simp: tx_return_eq intro!: ext)
  qed
  with active_relations_settle[OF settle] store_safeD[OF dependency_ops_store_safe(2) _ settle] show ?thesis
    by (simp add: active_relations_def)
qed

lemma release_dependents_ok:
  assumes "store_ok d" "tx_foreach (release_dependent wid) rs d = Inr (u, d')"
  shows "store_ok d' \<and> active_relations d' = filter (\<lambda>q. dp_id q \<notin> dp_id ` set rs) (active_relations d) \<and>
    item_state d' = (\<lambda>i. if i \<in> dp_dependent ` set rs \<and> item_state d i = Some ''DEFERRED'' then Some ''READY'' else item_state d i)"
  using assms
proof (induction rs arbitrary: d)
  case Nil
  then show ?case by (auto simp: tx_simps)
next
  case (Cons r rs)
  from Cons.prems(2) obtain u1 d1 where r: "release_dependent wid r d = Inr (u1, d1)"
    and rest: "tx_foreach (release_dependent wid) rs d1 = Inr (u, d')"
    unfolding tx_foreach.simps tx_then_success by blast
  note one = release_dependent_ok[OF Cons.prems(1) r]
  with Cons.IH[OF _ rest] show ?case by (auto simp: comp_def intro!: ext filter_cong)
qed

definition waiting_on :: "db \<Rightarrow> string \<Rightarrow> string set" where
  "waiting_on d wid = dp_dependent ` {r \<in> set (active_relations d). dp_target r = On_Work_Item wid}"

definition completed_state :: "string \<Rightarrow> string" where
  "completed_state s = (let c = (if s = ''WAITING'' then ''RUNNING'' else s) in
     if is_legal_transition Work_Item c ''COMPLETED'' ''completed'' then ''COMPLETED'' else c)"

lemma relations_distinct: "schema_ok d \<Longrightarrow> distinct (map dp_id (work_item_dependencies d))"
  by (drule schema_okD(11)) (simp add: dependencies_ok_def)

lemma complete_merged_steps:
  assumes "complete_merged_body eid wid n d = Inr ((), d')" "item_state d wid = Some s" "s \<noteq> []"
  obtains d1 d2 c d3 d4 where "set_side_effect_state eid ''DONE'' no_effect_patch d = Inr ((), d1)"
    "mark_pull_request_state wid n ''MERGED'' d1 = Inr ((), d2)" "resume_waiting wid s n d2 = Inr (c, d3)"
    "complete_from wid c n d3 = Inr ((), d4)"
    "tx_foreach (release_dependent wid) (list_dependents_for_completed_dependency d4 (On_Work_Item wid)) d4 = Inr ((), d')"
proof -
  obtain w where w: "get_work_item d wid = Some w" "w_state w = s" using assms(2) by (auto simp: item_state_def)
  have "tx_then (set_side_effect_state eid ''DONE'' no_effect_patch)
         (tx_then (mark_pull_request_state wid n ''MERGED'')
         (tx_bind (resume_waiting wid s n) (\<lambda>completion_from.
          tx_then (complete_from wid completion_from n)
         (tx_bind (tx_get (\<lambda>d. list_dependents_for_completed_dependency d (On_Work_Item wid)))
            (tx_foreach (release_dependent wid)))))) d = Inr ((), d')"
    using assms(1,3) w unfolding complete_merged_body_def tx_bind_get_eq by (simp del: tx_then_Inr)
  then show thesis
    unfolding tx_then_success tx_bind_success tx_get_eq by (elim exE conjE) (clarsimp, erule (4) that)
qed

lemma complete_merged_ok:
  assumes "store_ok d" "complete_merged_body eid wid n d = Inr ((), d')" "item_state d wid = Some s" "s \<noteq> []"
  shows "store_ok d' \<and> active_relations d' = filter (\<lambda>r. dp_target r \<noteq> On_Work_Item wid) (active_relations d) \<and>
    item_state d' = (\<lambda>i. let m = ((item_state d)(wid \<mapsto> completed_state s)) i in
      if i \<in> waiting_on d wid \<and> m = Some ''DEFERRED'' then Some ''READY'' else m)"
  using complete_merged_steps[OF assms(2-4)]
proof cases
  case (1 d1 d2 c d3 d4)
  have s1: "store_safe (set_side_effect_state eid ''DONE'' no_effect_patch)"
    and s2: "store_safe (mark_pull_request_state wid n ''MERGED'')" by (intro preserves_intros)+
  have d1: "store_ok d1" by (rule store_safeD[OF s1 assms(1) 1(1)])
  have d2: "store_ok d2" by (rule store_safeD[OF s2 d1 1(2)])
  have q1: "tx_rel (frame audit_view) (set_side_effect_state eid ''DONE'' no_effect_patch)"
    and q2: "tx_rel (frame audit_view) (mark_pull_request_state wid n ''MERGED'')" by (intro frame_intros)+
  have st: "item_state d2 = item_state d" "work_item_dependencies d2 = work_item_dependencies d"
    using quiet_item_state[OF q1 1(1)] quiet_item_state[OF q2 1(2)] tx_relD[OF q1 1(1)] tx_relD[OF q2 1(2)]
    by (simp_all add: frame_def audit_view_def)
  note r = resume_waiting_ok[OF d2 _ 1(3), unfolded st, OF assms(3)]
  then have d3: "store_ok d3" "item_state d3 wid = Some c" by simp_all
  note c = complete_from_ok[OF d3 1(4)]
  then have d4: "store_ok d4" by blast
  note f = release_dependents_ok[OF d4 1(5)]
  let ?rs = "list_dependents_for_completed_dependency d4 (On_Work_Item wid)"
  have act: "active_relations d4 = active_relations d"
    using r c st by (simp add: active_relations_def)
  have rs: "set ?rs = {r \<in> set (active_relations d). dp_target r = On_Work_Item wid}"
    unfolding act[symmetric] by (auto simp: list_dependents_for_completed_dependency_def active_relations_def set_order_by)
  have "inj_on dp_id (set (active_relations d))"
    using relations_distinct[OF store_okD(1)[OF assms(1)]] unfolding active_relations_def
    by (auto simp: distinct_map intro: inj_on_subset)
  then have "filter (\<lambda>q. dp_id q \<notin> dp_id ` set ?rs) (active_relations d4) = filter (\<lambda>r. dp_target r \<noteq> On_Work_Item wid) (active_relations d)"
    unfolding act rs by (intro filter_cong) (auto dest: inj_onD)
  moreover have "item_state d4 = (item_state d)(wid \<mapsto> completed_state s)"
    using r c by (auto simp: completed_state_def Let_def)
  moreover have "dp_dependent ` set ?rs = waiting_on d wid" by (simp add: rs waiting_on_def)
  ultimately show ?thesis using f by (auto simp: Let_def fun_eq_iff)
qed

end
