(* ===== verification/Merge_Safety.thy ===== *)
theory Merge_Safety
  imports Effects
begin

text \<open>
  What the outbox executor promises: it keeps the invariant of the store; a merge is called exactly when every gate
  is open (\<open>merge_permitted\<close> states the gates without the code's data structures); a merge or monitor intent enters the outbox only
  for a pull request of proven identity; a verified merge completes its WorkItem and releases exactly the WorkItems that
  were deferred on it.
\<close>

section \<open>The executor keeps the store\<close>

abbreviation effect_safe :: "string \<Rightarrow> ('w, 'a) effect_act \<Rightarrow> bool" where
  "effect_safe wid m \<equiv> act_rel (keeps_fst (store_has wid)) m"

named_theorems effect_intros

lemmas [effect_intros] = keeping_fst.act_rel_intros

lemma effect_safe_write: "tx_rel (keeps (store_has wid)) m \<Longrightarrow> effect_safe wid (write_tx m)"
  by (auto simp: act_rel_def tx_rel_def write_tx_def on_fst_def run_write_def keeps_fst_def keeps_def split: sum.splits)

lemma effect_safe_outside [effect_intros]: "effect_safe wid (on_snd m)"
  by (rule act_relI) (auto simp: keeps_fst_def keeps_def on_snd_def split: prod.splits)

lemma quiet_outbox_writes:
  "tx_rel (keeps (store_has wid)) (set_side_effect_state eid st ep)" "tx_rel (keeps (store_has wid)) (requeue_side_effect eid ep)"
  "tx_rel (keeps (store_has wid)) (mark_pull_request_state i n st)" "tx_rel (keeps (store_has wid)) (insert_pull_request_if_absent pri)"
  "tx_rel (keeps (store_has wid)) (insert_side_effect_if_absent se)"
  by (intro store_has_quiet preserves_intros frame_intros)+

lemma marks_safe [effect_intros]:
  "effect_safe wid (mark_executing eid)" "effect_safe wid (mark_done eid)" "effect_safe wid (mark_failed eid reason at)"
  "effect_safe wid (requeue eid reason at)" "effect_safe wid (mark_local_pr p n st)"
  unfolding mark_executing_def mark_done_def mark_failed_def requeue_def mark_local_pr_def
  by (intro effect_safe_write quiet_outbox_writes)+

lemma invalid_safe [effect_intros]: "effect_safe wid (invalid eid kind m reason)"
  unfolding invalid_def by (intro effect_intros)

lemma record_rogue_pr_safe [effect_intros]: "effect_safe wid (record_rogue_pr p v)"
  unfolding record_rogue_pr_def by (intro effect_safe_write keeping.rel_intros quiet_outbox_writes)

lemma adopt_and_schedule_safe [effect_intros]: "effect_safe wid (adopt_pr_and_schedule_merge p n head_ref sha)"
  unfolding adopt_pr_and_schedule_merge_def schedule_body_def
  by (intro effect_intros effect_safe_write keeping.rel_intros quiet_outbox_writes)

lemma complete_merged_safe [effect_intros]: "effect_safe wid (complete_merged_work_item eid i n)"
  unfolding complete_merged_work_item_def
proof (rule effect_safe_write, rule tx_relI, unfold keeps_def, rule impI)
  fix d x d' assume d: "store_has wid d" and run: "complete_merged_body eid i n d = Inr (x, d')"
  show "store_has wid d'"
  proof (cases "item_state d i = None \<or> item_state d i = Some []")
    case True
    then have "d' = d" using run by (auto simp: complete_merged_body_def tx_simps item_state_def split: option.splits)
    with d show ?thesis by simp
  next
    case False
    then obtain s where "item_state d i = Some s" "s \<noteq> []" by auto
    with complete_merged_ok[of d eid i n d' s] run d show ?thesis by (auto simp: store_has_def Let_def)
  qed
qed

lemma hold_body_safe: "tx_rel (keeps (store_has wid)) (hold_body wid reason)"
proof (rule tx_relI, unfold keeps_def, rule impI)
  fix d x d' assume d: "store_has wid d" and run: "hold_body wid reason d = Inr (x, d')"
  then obtain f where f: "item_state d wid = Some f" by (auto simp: store_has_def)
  then have state: "coalesce (map_option w_state (get_work_item d wid)) ''RUNNING'' = f" by (auto simp: item_state_def)
  show "store_has wid d'"
  proof (cases "is_legal_transition Work_Item f ''WAITING'' ''await_review''")
    case True
    with run have "tx_bind (record_transition Work_Item wid (Some f) ''WAITING'' ''await_review''
        (Some (JObj [(''reason'', JStr reason)])) ''controller.effects'' None)
        (\<lambda>row. set_work_item_state wid ''WAITING'' \<lparr>wp_lease_token = Some None, wp_lease_until = Some None\<rparr>) d = Inr ((), d')"
      unfolding hold_body_def tx_bind_get_eq state by simp
    with work_item_move[OF _ f this] d show ?thesis by (simp add: store_has_def)
  next
    case False
    with run state d show ?thesis by (simp add: hold_body_def tx_bind_get_eq tx_return_success)
  qed
qed

lemma hold_waiting_safe [effect_intros]: "effect_safe (ef_work_item_id p) (hold_waiting eid p now wait attempt reason)"
  unfolding hold_waiting_def by (intro effect_intros effect_safe_write hold_body_safe)

lemma adoption_safe [effect_intros]:
  "effect_safe wid (adopt_pr eid p attempt v st reason)" "effect_safe wid (adopt_gone eid p attempt kind n why)"
  "effect_safe wid (adopt_merged eid p attempt kind n)"
  unfolding adopt_pr_def adopt_gone_def adopt_merged_def by (intro effect_intros)+

lemma runners_safe [effect_intros]:
  "effect_safe wid (run_push tr eid p attempt)" "effect_safe wid (run_comment tr eid p attempt)"
  "effect_safe wid (run_state_change tr eid p attempt target)" "effect_safe wid (run_monitor tr now wait eid p attempt)"
  unfolding run_push_def run_comment_def run_state_change_def run_monitor_def Let_def
  by (intro effect_intros)+

lemma adoption_case [effect_intros]:
  "(\<And>n. act_rel R (f n)) \<Longrightarrow> (\<And>n why b. act_rel R (g n why b)) \<Longrightarrow>
   act_rel R (case a of Adopted n \<Rightarrow> f n | Refused n why b \<Rightarrow> g n why b)"
  by (cases a) simp_all

lemma run_create_pr_safe [effect_intros]: "effect_safe wid (run_create_pr tr eid p attempt)"
  unfolding run_create_pr_def by (intro effect_intros)

lemma run_merge_safe [effect_intros]: "effect_safe (ef_work_item_id p) (run_merge tr now wait eid p attempt)"
  unfolding run_merge_def merge_gates_def verify_merge_def Let_def by (intro effect_intros)

lemma run_guarded_safe [effect_intros]: "effect_safe (ef_work_item_id p) (run_guarded tr now wait e p attempt)"
  unfolding run_guarded_def run_kind_def by (intro effect_intros)

section \<open>The gates of a merge\<close>

text \<open>\<open>last_with k v f x xs\<close>: the last element of \<open>xs\<close> with key \<open>x\<close> has the value \<open>v\<close>.\<close>

definition last_with :: "('a \<Rightarrow> 'k) \<Rightarrow> ('a \<Rightarrow> 'v) \<Rightarrow> 'k \<Rightarrow> 'v \<Rightarrow> 'a list \<Rightarrow> bool" where
  "last_with k f x v xs \<longleftrightarrow> (\<exists>pre c post. xs = pre @ c # post \<and> k c = x \<and> f c = v \<and> x \<notin> k ` set post)"

lemma last_with_snoc: "last_with k f x v (xs @ [c]) \<longleftrightarrow> (if k c = x then f c = v else last_with k f x v xs)"
proof (cases "k c = x")
  case True
  have "last_with k f x v (xs @ [c]) \<Longrightarrow> f c = v"
  proof -
    assume "last_with k f x v (xs @ [c])"
    then obtain pre q post where s: "xs @ [c] = pre @ q # post" "k q = x" "f q = v" "x \<notin> k ` set post"
      unfolding last_with_def by blast
    with True have "post = []" by (cases post rule: rev_cases) auto
    with s show ?thesis by simp
  qed
  moreover have "f c = v \<Longrightarrow> last_with k f x v (xs @ [c])"
    unfolding last_with_def using True by (intro exI[of _ xs] exI[of _ c] exI[of _ "[]"]) simp
  ultimately show ?thesis unfolding if_P[OF True] by (rule iffI)
next
  case False
  have "last_with k f x v xs \<Longrightarrow> last_with k f x v (xs @ [c])"
  proof -
    assume "last_with k f x v xs"
    then obtain pre q post where "xs = pre @ q # post" "k q = x" "f q = v" "x \<notin> k ` set post"
      unfolding last_with_def by blast
    with False show ?thesis
      unfolding last_with_def by (intro exI[of _ pre] exI[of _ q] exI[of _ "post @ [c]"]) auto
  qed
  moreover have "last_with k f x v (xs @ [c]) \<Longrightarrow> last_with k f x v xs"
  proof -
    assume "last_with k f x v (xs @ [c])"
    then obtain pre q post where s: "xs @ [c] = pre @ q # post" "k q = x" "f q = v" "x \<notin> k ` set post"
      unfolding last_with_def by blast
    with False have "post \<noteq> []" by auto
    then obtain post' where "post = post' @ [c]" using s(1) by (cases post rule: rev_cases) auto
    with s show "last_with k f x v xs" unfolding last_with_def by auto
  qed
  ultimately show ?thesis unfolding if_not_P[OF False] by (intro iffI)
qed

lemma map_of_last: "map_of (rev (map (\<lambda>c. (k c, f c)) xs)) x = Some v \<longleftrightarrow> last_with k f x v xs"
  by (induction xs rule: rev_induct) (auto simp: last_with_snoc, simp add: last_with_def)

definition approvers :: "review_view list \<Rightarrow> string set" where
  "approvers reviews = {a. a \<noteq> [] \<and> last_with rv_author rv_state a ''APPROVED'' reviews}"

lemma latest_reviews_snoc:
  "latest_reviews (rs @ [r]) = (if rv_author r = [] then latest_reviews rs else AList.update (rv_author r) (rv_state r) (latest_reviews rs))"
  by (simp add: latest_reviews_def)

lemma latest_reviews_map: "map_of (latest_reviews rs) a = Some s \<longleftrightarrow> a \<noteq> [] \<and> last_with rv_author rv_state a s rs"
  by (induction rs rule: rev_induct)
    (auto simp: latest_reviews_snoc last_with_snoc update_conv', simp_all add: latest_reviews_def last_with_def)

lemma latest_reviews_distinct: "distinct (map fst (latest_reviews rs))"
  by (induction rs rule: rev_induct) (simp_all add: latest_reviews_snoc distinct_update, simp add: latest_reviews_def)

lemma count_approvals_card: "count_approvals reviews = card (approvers reviews)"
proof -
  let ?es = "filter (\<lambda>e. snd e = ''APPROVED'') (latest_reviews reviews)"
  have "distinct (map fst ?es)" using latest_reviews_distinct by (rule distinct_map_filter)
  then have "count_approvals reviews = card (fst ` set ?es)"
    using distinct_card[of "map fst ?es"] by (simp add: count_approvals_def del: set_filter)
  also have "fst ` set ?es = approvers reviews"
    using latest_reviews_map[of reviews] latest_reviews_distinct[of reviews]
    by (force simp: approvers_def image_iff dest: map_of_SomeD)
  finally show ?thesis .
qed

definition merge_permitted :: "effect_payload \<Rightarrow> pr_view \<Rightarrow> protection_read \<Rightarrow> check_view list \<Rightarrow> review_view list \<Rightarrow> bool" where
  "merge_permitted p v protection checks reviews \<longleftrightarrow>
     \<not> pv_is_draft v \<and> ef_auto_merge p = Some True \<and> ef_merge_policy_known p \<noteq> Some False \<and> pt_known protection \<noteq> Some False \<and>
     pt_required_approvals protection \<le> int (card (approvers reviews)) \<and>
     pv_review_decision v \<noteq> ''CHANGES_REQUESTED'' \<and> pv_review_decision v \<noteq> ''REVIEW_REQUIRED'' \<and>
     (\<forall>name \<in> set (pt_required_checks protection). last_with cv_name cv_conclusion name ''SUCCESS'' checks) \<and>
     pv_mergeable v = ''MERGEABLE''"

lemma missing_checks_Nil: "missing_checks required checks = [] \<longleftrightarrow> (\<forall>name \<in> set required. last_with cv_name cv_conclusion name ''SUCCESS'' checks)"
  by (simp add: missing_checks_def filter_empty_conv map_of_last)

lemma policy_decision: "evaluate_merge_policy protection (policy_of p) = Allow \<longleftrightarrow>
   ef_auto_merge p = Some True \<and> ef_merge_policy_known p \<noteq> Some False \<and> pt_known protection \<noteq> Some False"
  by (simp add: evaluate_merge_policy_def policy_of_def)

interpretation outside: tx_preorder "\<lambda>s s'. snd s' = snd (s :: 'd \<times> 'w)"
  by unfold_locales simp_all

abbreviation local_only :: "('w, 'a) effect_act \<Rightarrow> bool" where
  "local_only m \<equiv> act_rel (\<lambda>s s'. snd s' = snd s) m"

lemma write_tx_local: "local_only (write_tx m)"
  by (auto simp: act_rel_def write_tx_def on_fst_def split: prod.splits)

lemma writes_local:
  "local_only (mark_executing eid)" "local_only (mark_done eid)" "local_only (mark_failed eid reason at)"
  "local_only (requeue eid reason at)" "local_only (complete_merged_work_item eid i n)" 
  "local_only (hold_waiting eid p now w attempt reason)"
  unfolding mark_executing_def mark_done_def mark_failed_def requeue_def complete_merged_work_item_def hold_waiting_def
  by (intro outside.act_rel_intros write_tx_local)+



lemma local_onlyD: "local_only m \<Longrightarrow> m s = (r, s') \<Longrightarrow> snd s' = snd s"
  by (auto dest: act_relD)

lemma on_snd_eq: "m w = (r, w') \<Longrightarrow> on_snd m (d, w) = (r, (d, w'))"
  by (simp add: on_snd_def)

lemma mark_executing_ok: "\<exists>d'. mark_executing eid (d, w) = (Inr (), (d', w))"
  by (simp add: mark_executing_def write_tx_def on_fst_def run_write_def set_side_effect_state_def update_side_effects_def tx_simps)

text \<open>The world after the call of the merge and, when it returned, the read that verifies it.\<close>

definition world_after_merge :: "'w effect_transport \<Rightarrow> effect_payload \<Rightarrow> int \<Rightarrow> 'w \<Rightarrow> 'w" where
  "world_after_merge tr p n w = (case et_merge_pr tr (ef_owner p) (ef_name p) n (coalesce (ef_method p) ''squash'') w of
     (Inl e, w') \<Rightarrow> w' | (Inr u, w') \<Rightarrow> snd (et_read_pr tr (ef_owner p) (ef_name p) n w'))"

lemma call_then_read:
  assumes "act_then (on_snd m) (act_bind (on_snd q) k) (d1, w) = (r, (d', w'))" "\<And>x. local_only (k x)"
  shows "w' = (case m w of (Inl e, w1) \<Rightarrow> w1 | (Inr u, w1) \<Rightarrow> snd (q w1))"
proof -
  obtain rm w1 where m: "m w = (rm, w1)" by (cases "m w")
  obtain rq w2 where q: "q w1 = (rq, w2)" by (cases "q w1")
  show ?thesis
  proof (cases rm)
    case Inl
    with m assms(1) show ?thesis by (simp add: act_then_def act_bind_def on_snd_def)
  next
    case (Inr u)
    show ?thesis
    proof (cases rq)
      case Inl
      with Inr m q assms(1) show ?thesis by (simp add: act_then_def act_bind_def on_snd_def)
    next
      case (Inr x)
      with \<open>rm = Inr u\<close> m q assms(1) have "k x (d1, w2) = (r, (d', w'))"
        by (simp add: act_then_def act_bind_def on_snd_def)
      from local_onlyD[OF assms(2) this] \<open>rm = Inr u\<close> m q show ?thesis by simp
    qed
  qed
qed

lemma verify_merge_local: "local_only (verify_merge eid p attempt n reread)"
  unfolding verify_merge_def by (intro outside.act_rel_intros writes_local)

lemma merge_gates_world:
  assumes "merge_gates tr now wait eid p attempt n v protection checks reviews (d, w) = (r, (d', w'))" "\<not> pv_is_draft v"
  shows "w' = (if merge_permitted p v protection checks reviews then world_after_merge tr p n w else w)"
proof (cases "merge_permitted p v protection checks reviews")
  case True
  then have dec: "evaluate_merge_policy protection (policy_of p) = Allow" by (simp add: policy_decision merge_permitted_def)
  obtain d1 where mark: "mark_executing eid (d, w) = (Inr (), (d1, w))" using mark_executing_ok[of eid d w] by blast
  have "evaluate_merge_policy protection (policy_of p) \<noteq> External_Only" "evaluate_merge_policy protection (policy_of p) \<noteq> Hold"
    "\<not> (0 < pt_required_approvals protection \<and> int (count_approvals reviews) < pt_required_approvals protection)"
    "\<not> (pv_review_decision v = ''CHANGES_REQUESTED'' \<or> pv_review_decision v = ''REVIEW_REQUIRED'')"
    "\<not> (pt_required_checks protection \<noteq> [] \<and> missing_checks (pt_required_checks protection) checks \<noteq> [])"
    "\<not> pv_mergeable v \<noteq> ''MERGEABLE''"
    using True dec by (simp_all add: merge_permitted_def count_approvals_card missing_checks_Nil)
  note passed = this
  note run = assms(1)[unfolded merge_gates_def Let_def, unfolded if_not_P[OF passed(1)] if_not_P[OF passed(2)] if_not_P[OF passed(3)]
      if_not_P[OF passed(4)] if_not_P[OF passed(5)] if_not_P[OF passed(6)] act_then_Inr[where m = "mark_executing eid" and s = "(d, w)", OF mark]]
  show ?thesis unfolding if_P[OF True] world_after_merge_def by (rule call_then_read[OF run verify_merge_local])
next
  case False
  have hold: "local_only (hold_waiting eid p now wait attempt reason)"
    "local_only (act_then (requeue eid reason at) (act_return x))" for reason at x
    by (intro outside.act_rel_intros writes_local)+
  have allow: "evaluate_merge_policy protection (policy_of p) = Allow"
    if "evaluate_merge_policy protection (policy_of p) \<noteq> External_Only" "evaluate_merge_policy protection (policy_of p) \<noteq> Hold"
    using that by (cases "evaluate_merge_policy protection (policy_of p)") simp_all
  have "local_only (merge_gates tr now wait eid p attempt n v protection checks reviews)"
    unfolding merge_gates_def Let_def
    by (rule outside.act_rel_if, rule hold)+
      (use False assms(2) allow in \<open>auto simp: merge_permitted_def policy_decision count_approvals_card missing_checks_Nil\<close>)
  then show ?thesis using False assms(1) by (auto dest: local_onlyD)
qed


lemma act_bind_outside [simp]: "m w = (Inr x, w') \<Longrightarrow> act_bind (on_snd m) f (d, w) = f x (d, w')"
  by (simp add: act_bind_def on_snd_def)

section \<open>Adoption\<close>

text \<open>Adoption in declarative form.\<close>

definition same_name :: "string \<Rightarrow> string \<Rightarrow> bool" where
  "same_name a b \<longleftrightarrow> to_lower a = to_lower b"

definition proven_identity :: "pull_request_identity \<Rightarrow> pr_view \<Rightarrow> bool" where
  "proven_identity identity v \<longleftrightarrow>
     0 < pv_number v \<and>
     (\<forall>b. pv_head_ref_name v = Some b \<longrightarrow> b = id_head_ref identity) \<and>
     (if present (pv_head_repo v) then same_name (the (pv_head_repo v)) (id_push_owner identity @ ''/'' @ id_push_name identity)
      else present (pv_head_owner v) \<and> same_name (the (pv_head_owner v)) (id_push_owner identity)) \<and>
     (present (id_head_sha identity) \<and> present (pv_head_sha v) \<longrightarrow> pv_head_sha v = id_head_sha identity)"

lemma to_lower_Nil: "to_lower [] = []" "to_lower s = [] \<longleftrightarrow> s = []" "[] = to_lower s \<longleftrightarrow> s = []"
  by (auto simp: to_lower_def)

lemma adopted_iff: "adopt_verified_pull_request identity v = Adopted n \<longleftrightarrow> n = pv_number v \<and> proven_identity identity v"
  by (cases "pv_head_repo v"; cases "pv_head_owner v"; cases "pv_head_ref_name v")
    (auto simp: adopt_verified_pull_request_def proven_identity_def Let_def to_lower_Nil same_name_def present_def)

definition intents :: "db \<Rightarrow> string set" where
  "intents d = set (map fx_effect_key (side_effects d))"

definition verified_intent :: "effect_payload \<Rightarrow> string \<Rightarrow> bool" where
  "verified_intent p key \<longleftrightarrow> (\<exists>identity v. pr_identity p = Some identity \<and> proven_identity identity v \<and>
     key = scheduled_kind p @ '':'' @ ef_work_item_id p @ '':'' @ show_int (pv_number v))"

definition intents_grow :: "(string \<Rightarrow> bool) \<Rightarrow> db \<Rightarrow> db \<Rightarrow> bool" where
  "intents_grow P d d' \<longleftrightarrow> intents d' \<subseteq> intents d \<union> Collect P"

interpretation intents_growing: tx_preorder "intents_grow P" for P
  by unfold_locales (auto simp: intents_grow_def)

interpretation intents_growing_fst: tx_preorder "\<lambda>s s'. intents_grow P (fst s) (fst s')" for P
  by unfold_locales (auto simp: intents_grow_def)

abbreviation "adds_intents P m \<equiv> act_rel (\<lambda>s s'. intents_grow P (fst s) (fst s')) m"

lemma adds_intents_write: "tx_rel (intents_grow P) m \<Longrightarrow> adds_intents P (write_tx m)"
  by (auto simp: act_rel_def tx_rel_def write_tx_def on_fst_def run_write_def intents_grow_def split: sum.splits)

lemma adds_intents_outside: "adds_intents P (on_snd m)"
  by (rule act_relI) (auto simp: intents_grow_def on_snd_def split: prod.splits)

lemma outbox_intents:
  "tx_rel (intents_grow P) (set_side_effect_state eid st ep)" "tx_rel (intents_grow P) (requeue_side_effect eid ep)"
  by (auto simp: tx_rel_def intents_grow_def set_side_effect_state_def requeue_side_effect_def update_side_effects_def tx_modify_eq
      intents_def set_update_where)

lemma insert_pull_request_intents: "tx_rel (intents_grow P) (insert_pull_request_if_absent pri)"
  unfolding insert_pull_request_if_absent_def Let_def
  by (intro intents_growing.rel_intros)
   (auto simp: tx_rel_def intents_grow_def insert_pull_request_row_def tx_simps intents_def split: option.splits)

lemma insert_intent_intents:
  assumes "P (ei_effect_key input)" shows "tx_rel (intents_grow P) (insert_side_effect_if_absent input)"
  using assms by (auto simp: tx_rel_def intents_grow_def intents_def new_side_effect_row_def dest!: insert_side_effect_if_absent_success
    split: if_splits)

lemma marks_intents:
  "adds_intents P (mark_executing eid)" "adds_intents P (mark_done eid)" "adds_intents P (mark_failed eid reason at)"
  "adds_intents P (requeue eid reason at)" "adds_intents P (record_rogue_pr p v)"
  unfolding mark_executing_def mark_done_def mark_failed_def requeue_def record_rogue_pr_def
  by (intro adds_intents_write outbox_intents intents_growing.rel_intros insert_pull_request_intents)+

lemma adopt_intents:
  assumes "pr_identity p = Some identity" "adopt_verified_pull_request identity v = Adopted n"
  shows "adds_intents (verified_intent p) (adopt_pr eid p attempt v st reason)"
  unfolding adopt_pr_def adopt_pr_and_schedule_merge_def schedule_body_def
  by (intro intents_growing_fst.act_rel_intros marks_intents adds_intents_write intents_growing.rel_intros
      insert_pull_request_intents insert_intent_intents)
    (use assms in \<open>auto simp: verified_intent_def schedule_intent_def adopted_iff\<close>)

lemma adoption_cases_rel:
  "(\<And>n. a = Adopted n \<Longrightarrow> act_rel R (f n)) \<Longrightarrow> (\<And>n why b. act_rel R (g n why b)) \<Longrightarrow>
   act_rel R (case a of Adopted n \<Rightarrow> f n | Refused n why b \<Rightarrow> g n why b)"
  by (cases a) simp_all

section \<open>Properties\<close>

text \<open>An outbox row asks to merge pull request 7 of the running WorkItem b.\<close>

definition example_payload :: json where
  "example_payload = JObj [(''owner'', JStr ''acme''), (''name'', JStr ''tool''), (''work_item_id'', JStr ''b''), (''pr_number'', JNum 7),
     (''base_branch'', JStr ''main''), (''head_ref'', JStr ''tissue/b''), (''auto_merge'', JBool True)]"

definition example_outbox_db :: db where
  "example_outbox_db = snd (run_write (tx_bind (insert_side_effect_if_absent \<lparr>ei_id = ''fx'', ei_kind = ''merge'',
      ei_effect_key = ''merge:b:7'', ei_state = ''PENDING'', ei_payload_json = Text example_payload\<rparr>) (\<lambda>i. tx_return ())) example_working_db)"

lemma example_outbox_db_ok: "store_ok example_outbox_db"
  unfolding example_outbox_db_def
  by (rule store_safe_run[OF _ example_working_db_ok]) (intro preserves_intros keeping.rel_intros)

text \<open>
  C15: A verified merge completes the WorkItem that ran or waited for it, leaves no active dependency on it, makes READY
  exactly those WorkItems that were deferred and had an active dependency on it, and changes the state of no other.
\<close>
theorem merge_completes_and_releases:
  assumes "store_ok d" "item_state d wid = Some s" "s = ''RUNNING'' \<or> s = ''WAITING''"
    "complete_merged_work_item eid wid n (d, w) = (Inr (), (d', w'))"
  shows "w' = w \<and> item_state d' wid = Some ''COMPLETED'' \<and> waiting_on d' wid = {} \<and>
    (\<forall>i. i \<noteq> wid \<longrightarrow> item_state d' i = (if i \<in> waiting_on d wid \<and> item_state d i = Some ''DEFERRED'' then Some ''READY'' else item_state d i))"
proof -
  have run: "complete_merged_body eid wid n d = Inr ((), d')" and w: "w' = w"
    using assms(4) by (auto simp: complete_merged_work_item_def write_tx_def on_fst_def run_write_def split: sum.splits)
  have "completed_state s = ''COMPLETED''" using assms(3) by (elim disjE) (simp_all, code_simp+)
  with complete_merged_ok[OF assms(1) run assms(2)] assms(3) w show ?thesis
    by (auto simp: waiting_on_def Let_def)
qed

theorem merge_completes_and_releases_witness:
  "\<exists>d'. complete_merged_work_item ''fx'' ''b'' 7 (example_outbox_db, ()) = (Inr (), (d', ())) \<and>
     item_state d' ''b'' = Some ''COMPLETED'' \<and> item_state example_outbox_db ''a'' = Some ''DEFERRED'' \<and> item_state d' ''a'' = Some ''READY''"
proof -
  let ?run = "complete_merged_work_item ''fx'' ''b'' 7 (example_outbox_db, ())"
  have "\<not> isl (fst ?run)" by code_simp
  then obtain u s where run: "?run = (Inr u, s)" by (rule act_okE)
  then obtain d' where run: "?run = (Inr (), (d', ()))" by (cases s) simp
  have st: "item_state example_outbox_db ''b'' = Some ''RUNNING''" "item_state example_outbox_db ''a'' = Some ''DEFERRED''" by code_simp+
  have "list_ex (\<lambda>r. dp_dependent r = ''a'' \<and> dp_target r = On_Work_Item ''b'') (active_relations example_outbox_db)" by code_simp
  then have "''a'' \<in> waiting_on example_outbox_db ''b''" by (force simp: waiting_on_def list_ex_iff)
  with merge_completes_and_releases[OF example_outbox_db_ok st(1) _ run] run st(2) show ?thesis by auto
qed

text \<open>
  C13: No merge bypasses a gate, and none is withheld: of an open pull request, with the policy, checks and
  reviews as GitHub answers them, the merge endpoint is called exactly when \<open>merge_permitted\<close> holds: the payload asks for
  auto-merge under a known policy, the protection is known, enough distinct authors' latest review approves, no change is
  requested, the latest run of every required check succeeded, and the pull request is mergeable and not a draft. In every
  other case the outside world has seen the reads and nothing else.
\<close>
theorem merge_call_iff_permitted:
  assumes "run_merge tr now wait eid p attempt (d, w) = (r, (d', w'))" "ef_pr_number p = Some n" "present (ef_base_branch p)"
    and "et_read_pr tr (ef_owner p) (ef_name p) n w = (Inr (Some v), w1)" "pv_state v \<noteq> ''MERGED''" "pv_state v \<noteq> ''CLOSED''"
    and "et_read_protection tr (ef_owner p) (ef_name p) (the (ef_base_branch p)) w1 = (Inr protection, w2)"
    and "et_read_checks tr (ef_owner p) (ef_name p) n w2 = (Inr checks, w3)"
    and "et_read_reviews tr (ef_owner p) (ef_name p) n w3 = (Inr reviews, w4)"
  shows "w' = (if pv_is_draft v then w1 else if merge_permitted p v protection checks reviews then world_after_merge tr p n w4 else w4)"
proof -
  have body: "run_merge tr now wait eid p attempt (d, w) = (if pv_is_draft v then hold_waiting eid p now wait attempt ''draft''
      else act_bind (on_snd (et_read_protection tr (ef_owner p) (ef_name p) (the (ef_base_branch p)))) (\<lambda>protection.
        act_bind (on_snd (et_read_checks tr (ef_owner p) (ef_name p) n)) (\<lambda>checks.
        act_bind (on_snd (et_read_reviews tr (ef_owner p) (ef_name p) n)) (\<lambda>reviews.
          merge_gates tr now wait eid p attempt n v protection checks reviews)))) (d, w1)"
    using assms(2-6) by (simp add: run_merge_def)
  show ?thesis
  proof (cases "pv_is_draft v")
    case True
    have "hold_waiting eid p now wait attempt ''draft'' (d, w1) = (r, (d', w'))"
      using assms(1) unfolding body if_P[OF True] .
    from local_onlyD[OF writes_local(6) this] True show ?thesis by simp
  next
    case False
    have "merge_gates tr now wait eid p attempt n v protection checks reviews (d, w4) = (r, (d', w'))"
      using assms(1) False unfolding body
      by (simp add: assms(7-9))
    from merge_gates_world[OF this False] False show ?thesis by simp
  qed
qed

text \<open>A transport with one pull request, whose state is the list of merges it was asked for.\<close>

definition sample_pr :: pr_view where
  "sample_pr = \<lparr>pv_number = 7, pv_head_ref_name = Some ''tissue/b'', pv_head_sha = None, pv_head_owner = Some ''acme'',
     pv_head_repo = Some ''acme/tool'', pv_state = ''OPEN'', pv_mergeable = ''MERGEABLE'', pv_merge_state_status = ''CLEAN'',
     pv_is_draft = False, pv_review_decision = ''APPROVED''\<rparr>"

definition sample_protection :: protection_read where
  "sample_protection = \<lparr>pt_enabled = True, pt_required_approvals = 1, pt_enforce_admins = False, pt_required_checks = [''ci''],
     pt_known = Some True\<rparr>"

definition sample_checks :: "check_view list" where
  "sample_checks = [\<lparr>cv_name = ''ci'', cv_status = ''COMPLETED'', cv_conclusion = ''FAILURE''\<rparr>,
     \<lparr>cv_name = ''ci'', cv_status = ''COMPLETED'', cv_conclusion = ''SUCCESS''\<rparr>]"

definition sample_reviews :: "string list \<Rightarrow> review_view list" where
  "sample_reviews states = map (\<lambda>s. \<lparr>rv_review_id = [], rv_state = s, rv_author = ''ann''\<rparr>) states"

definition sample_transport :: "string list \<Rightarrow> int list effect_transport" where
  "sample_transport reviews = \<lparr>et_push_head = \<lambda>dir b sha r. act_return (Some sha), et_read_issue_state = \<lambda>ow nm n. act_return None,
     et_comment_issue = \<lambda>ow nm n b. act_return None, et_close_issue = \<lambda>ow nm n. act_return (), et_reopen_issue = \<lambda>ow nm n. act_return (),
     et_create_pr = \<lambda>ow nm h b t bd ho. act_return None, et_find_pr_by_head = \<lambda>ow nm h. act_return (Some sample_pr),
     et_read_pr = \<lambda>ow nm n. act_get (\<lambda>w. Some (if List.member w n then sample_pr\<lparr>pv_state := ''MERGED''\<rparr> else sample_pr)),
     et_read_protection = \<lambda>ow nm b. act_return sample_protection, et_read_checks = \<lambda>ow nm n. act_return sample_checks,
     et_read_reviews = \<lambda>ow nm n. act_return (sample_reviews reviews),
     et_merge_pr = \<lambda>ow nm n m w. (Inr (), w @ [n])\<rparr>"

definition example_effect :: effect_payload where
  "example_effect = (case example_payload of JObj fs \<Rightarrow> payload_of fs ''acme'' ''tool'' ''b'')"

text \<open>An approval that its author withdrew blocks the merge; one that stands lets it through.\<close>

theorem merge_call_iff_permitted_witness:
  "snd (snd (run_merge (sample_transport [''APPROVED'', ''CHANGES_REQUESTED'']) 0 60000 ''fx'' example_effect 1 (example_outbox_db, []))) = [] \<and>
   snd (snd (run_merge (sample_transport [''APPROVED'']) 0 60000 ''fx'' example_effect 1 (example_outbox_db, []))) = [7]"
proof -
  have p: "ef_pr_number example_effect = Some 7" "present (ef_base_branch example_effect)" "pv_state sample_pr \<noteq> ''MERGED''"
    "pv_state sample_pr \<noteq> ''CLOSED''" "\<not> pv_is_draft sample_pr" by code_simp+
  have reads: "et_read_pr (sample_transport rs) ow nm 7 [] = (Inr (Some sample_pr), [])"
    "et_read_protection (sample_transport rs) ow nm b [] = (Inr sample_protection, [])"
    "et_read_checks (sample_transport rs) ow nm 7 [] = (Inr sample_checks, [])"
    "et_read_reviews (sample_transport rs) ow nm 7 [] = (Inr (sample_reviews rs), [])"
    and merged: "world_after_merge (sample_transport rs) example_effect 7 [] = [7]" for rs ow nm b
    by (simp_all add: sample_transport_def act_simps world_after_merge_def)
  have world: "snd (snd (run_merge (sample_transport rs) 0 60000 ''fx'' example_effect 1 (example_outbox_db, []))) =
      (if merge_permitted example_effect sample_pr sample_protection sample_checks (sample_reviews rs) then [7] else [])" for rs
  proof -
    obtain r d' w' where run: "run_merge (sample_transport rs) 0 60000 ''fx'' example_effect 1 (example_outbox_db, []) = (r, (d', w'))"
      by (metis surj_pair)
    from merge_call_iff_permitted[OF run p(1,2) reads(1) p(3,4) reads(2-4), unfolded merged if_not_P[OF p(5)]] run
    show ?thesis by (simp only: snd_conv)
  qed
  have "\<not> pt_required_approvals sample_protection \<le> int (count_approvals (sample_reviews [''APPROVED'', ''CHANGES_REQUESTED'']))"
    by code_simp
  then have blocked: "\<not> merge_permitted example_effect sample_pr sample_protection sample_checks (sample_reviews [''APPROVED'', ''CHANGES_REQUESTED''])"
    unfolding merge_permitted_def count_approvals_card by blast
  have "pt_required_approvals sample_protection \<le> int (count_approvals (sample_reviews [''APPROVED'']))"
    "missing_checks (pt_required_checks sample_protection) sample_checks = []"
    "ef_auto_merge example_effect = Some True" "ef_merge_policy_known example_effect \<noteq> Some False" "pt_known sample_protection \<noteq> Some False"
    "pv_review_decision sample_pr \<noteq> ''CHANGES_REQUESTED''" "pv_review_decision sample_pr \<noteq> ''REVIEW_REQUIRED''"
    "pv_mergeable sample_pr = ''MERGEABLE''" by code_simp+
  with p(5) have "merge_permitted example_effect sample_pr sample_protection sample_checks (sample_reviews [''APPROVED''])"
    unfolding merge_permitted_def count_approvals_card missing_checks_Nil by blast
  with blocked show ?thesis by (simp only: world if_True if_False)
qed


lemma executor_store_ok:
  assumes "store_ok d" "execute_verified_effect tr now opts eid (d, w) = (r, (d', w'))"
    "\<forall>e p. get_side_effect_full d eid = Some e \<and> parse_payload e = Inr p \<longrightarrow> item_state d (ef_work_item_id p) \<noteq> None"
  shows "store_ok d'"
proof (cases "\<exists>e p. get_side_effect_full d eid = Some e \<and> parse_payload e = Inr p")
  case True
  then obtain e p where e: "get_side_effect_full d eid = Some e" "parse_payload e = Inr p" by blast
  then have d: "store_has (ef_work_item_id p) d" using assms(1,3) by (simp add: store_has_def)
  let ?m = "if fx_state e = ''DONE'' then act_return (result Ef_Already_Done eid (fx_kind e) (Some (fx_attempt e)) None None)
    else if fx_attempt e + 1 > coalesce (eo_max_attempts opts) DEFAULT_MAX_ATTEMPTS
      then act_then (mark_failed eid ''max attempts exceeded'' None)
        (act_return (result Ef_Retry eid (fx_kind e) (Some (fx_attempt e + 1)) (Some ''max_attempts'') None))
      else run_guarded tr now (coalesce (eo_wait_backoff_ms opts) DEFAULT_WAIT_BACKOFF_MS) e p (fx_attempt e + 1)"
  have "?m (d, w) = (r, (d', w'))"
    using assms(2) e by (cases "fx_state e = ''DONE''") (simp_all add: execute_verified_effect_def act_bind_eqs Let_def split: if_splits)
  moreover have "effect_safe (ef_work_item_id p) ?m" by (intro effect_intros)
  ultimately have "store_has (ef_work_item_id p) d'" using d by (auto simp: keeps_fst_def keeps_def dest: act_relD)
  then show ?thesis by (simp add: store_has_def)
next
  case False
  have q: "world_safe (mark_failed eid m None)" for m
    unfolding mark_failed_def write_tx_def by (intro act_intros preserves_intros)
  have safe: "world_safe (invalid eid k m x)" for k m x
    unfolding invalid_def by (intro act_intros q)
  have "invalid eid k m x (d, w) = (r, (d', w')) \<Longrightarrow> store_ok d'" for k m x
    by (rule world_safeD[OF safe assms(1)])
  with False assms(1,2) show ?thesis
    by (auto simp: execute_verified_effect_def act_bind_eqs Let_def act_simps split: option.splits if_splits sum.splits)
qed

text \<open>
  C14: The outbox executor keeps the invariant of the store, whatever the outside world answers and wherever it
  fails, provided the WorkItem its payload names exists.
\<close>
theorem executor_keeps_store:
  assumes "store_ok d" "execute_verified_effect tr now opts eid (d, w) = (r, (d', w'))"
    "\<forall>e p. get_side_effect_full d eid = Some e \<and> parse_payload e = Inr p \<longrightarrow> item_state d (ef_work_item_id p) \<noteq> None"
  shows "store_ok d'"
  by (rule executor_store_ok[OF assms])

theorem executor_keeps_store_witness:
  "\<exists>r d'. execute_verified_effect (sample_transport [''APPROVED'']) 0 \<lparr>eo_wait_backoff_ms = None, eo_max_attempts = None\<rparr> ''fx''
       (example_outbox_db, []) = (Inr r, (d', [7])) \<and> er_status r = Ef_Done \<and> store_ok d'"
proof -
  let ?run = "execute_verified_effect (sample_transport [''APPROVED'']) 0 \<lparr>eo_wait_backoff_ms = None, eo_max_attempts = None\<rparr> ''fx''
       (example_outbox_db, [])"
  have "case ?run of (Inl e, s) \<Rightarrow> False | (Inr r, s) \<Rightarrow> er_status r = Ef_Done \<and> snd s = [7]" by code_simp
  then obtain r s where run: "?run = (Inr r, s)" "er_status r = Ef_Done" "snd s = [7]" by (elim act_caseE conjE)
  then obtain d' where run': "?run = (Inr r, (d', [7]))" by (cases s) simp
  have "case get_side_effect_full example_outbox_db ''fx'' of None \<Rightarrow> False
      | Some e \<Rightarrow> (case parse_payload e of Inl x \<Rightarrow> False | Inr p \<Rightarrow> item_state example_outbox_db (ef_work_item_id p) \<noteq> None)" by code_simp
  then have "\<forall>e p. get_side_effect_full example_outbox_db ''fx'' = Some e \<and> parse_payload e = Inr p \<longrightarrow>
      item_state example_outbox_db (ef_work_item_id p) \<noteq> None" by auto
  from executor_keeps_store[OF example_outbox_db_ok run' this] run' run(2) show ?thesis by blast
qed

end
