(* ===== verification/Git.thy ===== *)
theory Git
  imports Gh
begin

text \<open>
  The git client (\<^verbatim>\<open>src/integrations/git-client.ts\<close>): typed argvs, checked names and paths, and the reading
  of what git prints. The git process and the two file operations are parameters. The lemmas say that a push
  never forces, that no name can be read as an option, and that a refused name runs nothing.
\<close>

section \<open>Names and paths\<close>

text \<open>\<open>ge_run argv cwd\<close> runs git; \<open>ge_append_file\<close> reports success.\<close>

record 'w git_env =
  ge_run :: "string list \<Rightarrow> string \<Rightarrow> 'w \<Rightarrow> gh_spawn_result \<times> 'w"
  ge_read_file :: "string \<Rightarrow> 'w \<Rightarrow> string option"
  ge_append_file :: "string \<Rightarrow> string \<Rightarrow> 'w \<Rightarrow> 'w"

definition g_guard :: "bool \<Rightarrow> string \<Rightarrow> ('w, err, unit) act" where
  "g_guard b m = act_guard b (GitArgError m)"

definition assert_branch_name :: "string \<Rightarrow> string \<Rightarrow> ('w, err, unit) act" where
  "assert_branch_name value field =
     act_then (g_guard (\<not> (value = [] \<or> length value > 200 \<or> list_ex is_control value \<or> \<not> branch_ref_re value))
         (field @ '': '' @ quoted value @ '' is not a valid identifier-safe branch name''))
       (g_guard (\<not> is_prefix ''-'' value)
         (field @ '': branch must not start with '' @ quoted ''-'' @ '' (option-injection guard)''))"

definition assert_absolute_path :: "string \<Rightarrow> string \<Rightarrow> ('w, err, unit) act" where
  "assert_absolute_path value field = g_guard (\<not> list_ex is_control value \<and> is_prefix ''/'' value)
     (field @ '': must be an absolute path with no control characters'')"

definition assert_remote_name :: "string \<Rightarrow> ('w, err, unit) act" where
  "assert_remote_name value =
     g_guard (\<not> (value = [] \<or> length value > 100 \<or> list_ex is_control value \<or> \<not> repo_id_re value))
       (''remote '' @ quoted value @ '' is not identifier-safe'')"

definition run_git :: "'w git_env \<Rightarrow> string list \<Rightarrow> string \<Rightarrow> ('w, err, gh_spawn_result) act" where
  "run_git g argv cwd w = (case ge_run g argv cwd w of (res, w') \<Rightarrow> (Inr res, w'))"

text \<open>A run whose failure is a \<^verbatim>\<open>GitError\<close>.\<close>

definition git_ok :: "'w git_env \<Rightarrow> string list \<Rightarrow> string \<Rightarrow> (gh_spawn_result \<Rightarrow> string) \<Rightarrow> ('w, err, string) act" where
  "git_ok g argv cwd m =
     act_bind (run_git g argv cwd) (\<lambda>res.
       act_then (act_guard (gs_exit_code res = 0) (GitError (m res))) (act_return (gs_stdout res)))"

section \<open>Reads\<close>

definition is_git_repository :: "'w git_env \<Rightarrow> string \<Rightarrow> ('w, err, bool) act" where
  "is_git_repository g dir =
     act_then (assert_absolute_path dir ''dir'')
       (act_bind (run_git g [''rev-parse'', ''--git-dir''] dir) (\<lambda>res. act_return (gs_exit_code res = 0)))"

definition current_branch :: "'w git_env \<Rightarrow> string \<Rightarrow> ('w, err, string) act" where
  "current_branch g dir =
     act_bind (git_ok g [''rev-parse'', ''--abbrev-ref'', ''HEAD''] dir (\<lambda>res. ''cannot read HEAD branch in '' @ dir)) (\<lambda>out.
       act_return (if trim out = ''HEAD'' then [] else trim out))"

definition head_sha :: "'w git_env \<Rightarrow> string \<Rightarrow> ('w, err, string) act" where
  "head_sha g dir =
     act_bind (git_ok g [''rev-parse'', ''HEAD''] dir (\<lambda>res. ''cannot read HEAD sha in '' @ dir)) (\<lambda>out. act_return (trim out))"

definition remote_url :: "'w git_env \<Rightarrow> string \<Rightarrow> string \<Rightarrow> ('w, err, string) act" where
  "remote_url g dir name =
     act_then (assert_remote_name name)
       (act_bind (run_git g [''config'', ''--get'', ''remote.'' @ name @ ''.url''] dir) (\<lambda>res.
          act_return (if gs_exit_code res = 0 then trim (gs_stdout res) else [])))"

definition local_branch_exists :: "'w git_env \<Rightarrow> string \<Rightarrow> string \<Rightarrow> ('w, err, bool) act" where
  "local_branch_exists g dir branch =
     act_then (assert_branch_name branch ''branch'')
       (act_bind (run_git g [''rev-parse'', ''--verify'', ''--quiet'', ''refs/heads/'' @ branch] dir) (\<lambda>res.
          act_return (gs_exit_code res = 0)))"

definition worktree_list :: "'w git_env \<Rightarrow> string \<Rightarrow> ('w, err, string) act" where
  "worktree_list g main_dir = git_ok g [''worktree'', ''list'', ''--porcelain''] main_dir (\<lambda>res. ''worktree list failed in '' @ main_dir)"

definition is_dirty :: "'w git_env \<Rightarrow> string \<Rightarrow> ('w, err, bool) act" where
  "is_dirty g dir =
     act_bind (git_ok g [''status'', ''--porcelain''] dir (\<lambda>res. ''status failed in '' @ dir)) (\<lambda>out. act_return (trim out \<noteq> []))"

definition info_exclude_path :: "'w git_env \<Rightarrow> string \<Rightarrow> ('w, err, string) act" where
  "info_exclude_path g dir =
     act_bind (git_ok g [''rev-parse'', ''--path-format=absolute'', ''--git-path'', ''info/exclude''] dir
         (\<lambda>res. ''cannot resolve info/exclude in '' @ dir)) (\<lambda>out. act_return (trim out))"

definition is_path_ignored :: "'w git_env \<Rightarrow> string \<Rightarrow> string \<Rightarrow> ('w, err, bool) act" where
  "is_path_ignored g dir pattern =
     act_bind (run_git g [''check-ignore'', ''-q'', ''--'', pattern] dir) (\<lambda>res. act_return (gs_exit_code res = 0))"

text \<open>\<^verbatim>\<open>text.split("\n")\<close>\<close>

fun split_lines :: "string \<Rightarrow> string list" where
  "split_lines [] = [[]]"
| "split_lines (c # cs) =
     (if c = CHR 0x0A then [] # split_lines cs
      else case split_lines cs of [] \<Rightarrow> [[c]] | l # ls \<Rightarrow> (c # l) # ls)"

lemma split_lines_line: "CHR 0x0A \<notin> set l \<Longrightarrow> split_lines (l @ newline @ rest) = l # split_lines rest"
  by (induction l) (auto simp: newline_def)

lemma split_lines_last: "CHR 0x0A \<notin> set l \<Longrightarrow> split_lines l = [l]"
  by (induction l) auto

definition list_local_branches :: "'w git_env \<Rightarrow> string \<Rightarrow> ('w, err, string list) act" where
  "list_local_branches g dir =
     act_then (assert_absolute_path dir ''dir'')
       (act_bind (git_ok g [''branch'', ''--format=%(refname:short)''] dir (\<lambda>res. ''branch list failed in '' @ quoted dir)) (\<lambda>out.
          act_return (filter (\<lambda>l. l \<noteq> []) (map trim (split_lines out)))))"

section \<open>Worktrees\<close>

record worktree_add_spec =
  ws_main_dir :: string
  ws_worktree_dir :: string
  ws_branch :: string
  ws_start_point :: string

definition worktree_add :: "'w git_env \<Rightarrow> worktree_add_spec \<Rightarrow> ('w, err, unit) act" where
  "worktree_add g spec =
     act_then (assert_absolute_path (ws_main_dir spec) ''mainDir'')
     (act_then (assert_absolute_path (ws_worktree_dir spec) ''worktreeDir'')
     (act_then (assert_branch_name (ws_branch spec) ''branch'')
     (act_then (assert_branch_name (ws_start_point spec) ''startPoint'')
       (act_bind (git_ok g [''worktree'', ''add'', ''-b'', ws_branch spec, ws_worktree_dir spec, ws_start_point spec] (ws_main_dir spec)
          (\<lambda>res. ''worktree add failed for '' @ quoted (ws_worktree_dir spec) @ '': '' @ trim (gs_stderr res))) (\<lambda>out. act_return ())))))"

definition worktree_remove :: "'w git_env \<Rightarrow> string \<Rightarrow> string \<Rightarrow> bool \<Rightarrow> ('w, err, unit) act" where
  "worktree_remove g main_dir worktree_dir force =
     act_bind (git_ok g (if force then [''worktree'', ''remove'', ''--force'', worktree_dir] else [''worktree'', ''remove'', worktree_dir])
         main_dir (\<lambda>res. ''worktree remove failed for '' @ quoted worktree_dir @ '': '' @ trim (gs_stderr res)))
       (\<lambda>out. act_return ())"

definition worktree_prune :: "'w git_env \<Rightarrow> string \<Rightarrow> ('w, err, unit) act" where
  "worktree_prune g main_dir =
     act_bind (git_ok g [''worktree'', ''prune''] main_dir (\<lambda>res. ''worktree prune failed in '' @ main_dir)) (\<lambda>out. act_return ())"

definition delete_local_branch :: "'w git_env \<Rightarrow> string \<Rightarrow> string \<Rightarrow> bool \<Rightarrow> ('w, err, unit) act" where
  "delete_local_branch g repo_dir branch force =
     act_then (assert_absolute_path repo_dir ''repoDir'')
     (act_then (assert_branch_name branch ''branch'')
       (act_bind (git_ok g [''branch'', if force then ''-D'' else ''-d'', branch] repo_dir
           (\<lambda>res. ''branch delete failed for '' @ quoted branch @ '': '' @ trim (gs_stderr res)))
         (\<lambda>out. act_return ())))"

definition ensure_tissue_ignored :: "'w git_env \<Rightarrow> string \<Rightarrow> ('w, err, unit) act" where
  "ensure_tissue_ignored g dir =
     act_bind (info_exclude_path g dir) (\<lambda>exclude_file.
     act_bind (act_get (\<lambda>w. coalesce (ge_read_file g exclude_file w) [])) (\<lambda>content.
       if List.member (map trim (split_lines content)) ''.tissue/'' then act_return ()
       else (\<lambda>w. (Inr (), ge_append_file g exclude_file
           (if content = [] \<or> last content = CHR 0x0A then ''.tissue/'' @ newline else newline @ ''.tissue/'' @ newline) w))))"

definition worktree_dir_for :: "(string \<Rightarrow> string \<Rightarrow> string) \<Rightarrow> string \<Rightarrow> string \<Rightarrow> ('w, err, string) act" where
  "worktree_dir_for join_path root wid =
     act_then (assert_absolute_path root ''worktree root'')
     (act_then (g_guard (repo_id_re wid \<and> \<not> list_ex is_control wid)
         (''workItemId '' @ quoted wid @ '' is not identifier-safe for a worktree path''))
       (act_return (join_path root wid)))"

section \<open>Push\<close>

definition push_branch :: "'w git_env \<Rightarrow> string \<Rightarrow> string \<Rightarrow> string option \<Rightarrow> bool option \<Rightarrow> ('w, err, unit) act" where
  "push_branch g dir branch remote_opt set_upstream =
     (let remote = coalesce remote_opt ''origin'' in
      act_then (assert_absolute_path dir ''dir'')
      (act_then (assert_branch_name branch ''branch'')
      (act_then (assert_remote_name remote)
        (act_bind (git_ok g (''push'' # (if coalesce set_upstream True then [''-u''] else []) @ [remote, branch]) dir
            (\<lambda>res. ''push failed for '' @ quoted branch @ '' -> '' @ remote @ '': '' @
               (if trim (gs_stderr res) \<noteq> [] then trim (gs_stderr res) else trim (gs_stdout res))))
          (\<lambda>out. act_return ())))))"

definition hex_char :: "char \<Rightarrow> bool" where
  "hex_char c \<longleftrightarrow> is_digit c \<or> (97 \<le> (of_char (to_lower_char c) :: nat) \<and> (of_char (to_lower_char c) :: nat) \<le> 102)"

definition advertised_sha :: "string \<Rightarrow> string option" where
  "advertised_sha out =
     (let line = trim (hd (split_lines (trim out))); sha = takeWhile (\<lambda>c. \<not> is_space c) line in
      if line = [] then None
      else if length sha = 40 \<and> list_all hex_char sha then Some sha else None)"

definition remote_branch_sha :: "'w git_env \<Rightarrow> string \<Rightarrow> string \<Rightarrow> string option \<Rightarrow> ('w, err, string option) act" where
  "remote_branch_sha g dir branch remote_opt =
     (let remote = coalesce remote_opt ''origin'' in
      act_then (assert_absolute_path dir ''dir'')
      (act_then (assert_branch_name branch ''branch'')
      (act_then (assert_remote_name remote)
        (act_bind (git_ok g [''ls-remote'', remote, ''refs/heads/'' @ branch] dir
            (\<lambda>res. ''ls-remote failed for '' @ quoted branch @ '': '' @ trim (gs_stderr res)))
          (\<lambda>out. act_return (advertised_sha out))))))"

section \<open>A push runs one safe command or none\<close>

lemma name_checks:
  "assert_branch_name b f w = (r, w') \<Longrightarrow> w' = w \<and> (r = Inr () \<longleftrightarrow> b \<noteq> [] \<and> length b \<le> 200 \<and> \<not> list_ex is_control b \<and> branch_ref_re b)"
  "assert_absolute_path p f w = (r, w') \<Longrightarrow> w' = w"
  "assert_remote_name n w = (r, w') \<Longrightarrow> w' = w \<and> (r = Inr () \<longleftrightarrow> n \<noteq> [] \<and> length n \<le> 100 \<and> \<not> list_ex is_control n \<and> repo_id_re n)"
proof -
  have start: "branch_ref_re b \<Longrightarrow> \<not> is_prefix ''-'' b"
    using not_option[of b "[]"] by (simp add: branch_ref_re_def)
  show "assert_branch_name b f w = (r, w') \<Longrightarrow> w' = w \<and> (r = Inr () \<longleftrightarrow> b \<noteq> [] \<and> length b \<le> 200 \<and> \<not> list_ex is_control b \<and> branch_ref_re b)"
    using start by (auto simp: assert_branch_name_def g_guard_def tx_simps act_then_def act_bind_def split: if_splits)
  show "assert_absolute_path p f w = (r, w') \<Longrightarrow> w' = w"
    by (auto simp: assert_absolute_path_def g_guard_def tx_simps split: if_splits)
  show "assert_remote_name n w = (r, w') \<Longrightarrow> w' = w \<and> (r = Inr () \<longleftrightarrow> n \<noteq> [] \<and> length n \<le> 100 \<and> \<not> list_ex is_control n \<and> repo_id_re n)"
    by (auto simp: assert_remote_name_def g_guard_def tx_simps split: if_splits)
qed

text \<open>
  A push either runs nothing, because a name or path was refused, or runs exactly one git command, whose
  only option is \<^verbatim>\<open>-u\<close>: it never forces, and neither the remote nor the branch can be read as an option.
\<close>
theorem push_never_forces:
  assumes "push_branch g dir branch remote up w = (r, w')"
  shows "w' = w \<and> (\<exists>m. r = Inl (GitArgError m)) \<or>
    (\<exists>argv res. ge_run g argv dir w = (res, w') \<and> set (loose_options argv) \<subseteq> {''-u''} \<and> hd argv = ''push'' \<and>
       last argv = branch \<and> (r = Inr () \<longleftrightarrow> gs_exit_code res = 0))"
proof -
  let ?remote = "coalesce remote ''origin''"
  let ?argv = "''push'' # (if coalesce up True then [''-u''] else []) @ [?remote, branch]"
  obtain r1 where p: "assert_absolute_path dir ''dir'' w = (r1, w)" using name_checks(2) by (metis surj_pair)
  obtain r2 where b: "assert_branch_name branch ''branch'' w = (r2, w)" using name_checks(1) by (metis surj_pair)
  obtain r3 where n: "assert_remote_name ?remote w = (r3, w)" using name_checks(3) by (metis surj_pair)
  show ?thesis
  proof (cases "r1 = Inr () \<and> r2 = Inr () \<and> r3 = Inr ()")
    case True
    obtain res w1 where run: "ge_run g ?argv dir w = (res, w1)" by (cases "ge_run g ?argv dir w")
    have "branch \<noteq> []" "is_alnum (hd branch)" "?remote \<noteq> []" "is_alnum (hd ?remote)"
      using name_checks(1)[OF b] name_checks(3)[OF n] True by (auto simp: branch_ref_re_def repo_id_re_def)
    then have "set (loose_options ?argv) \<subseteq> {''-u''}"
      using not_option[of branch "[]"] not_option[of ?remote "[]"] by auto
    moreover have "w' = w1 \<and> (r = Inr () \<longleftrightarrow> gs_exit_code res = 0)"
      using assms p b n True run
      by (auto simp: push_branch_def Let_def act_then_def act_bind_def git_ok_def run_git_def tx_simps split: if_splits)
    ultimately show ?thesis using run by (intro disjI2 exI[of _ ?argv] exI[of _ res]) simp
  next
    case False
    then have "w' = w \<and> (\<exists>e. r = Inl e)"
      using assms p b n by (auto simp: push_branch_def Let_def act_then_def act_bind_def split: sum.splits)
    moreover have "\<exists>m. e = GitArgError m" if "r1 = Inl e \<or> r2 = Inl e \<or> r3 = Inl e" for e
      using that p b n by (auto simp: assert_absolute_path_def assert_branch_name_def assert_remote_name_def g_guard_def tx_simps
          act_then_def act_bind_def split: if_splits)
    ultimately show ?thesis
      using assms p b n False by (auto simp: push_branch_def Let_def act_then_def act_bind_def split: sum.splits)
  qed
qed

text \<open>A git that records the commands it is given.\<close>

definition recording_git :: "string list list git_env" where
  "recording_git = \<lparr>ge_run = (\<lambda>argv cwd w. (\<lparr>gs_exit_code = 0, gs_stdout = [], gs_stderr = []\<rparr>, w @ [argv])),
     ge_read_file = (\<lambda>p w. None), ge_append_file = (\<lambda>p s w. w)\<rparr>"

theorem push_never_forces_witness:
  "\<exists>r w'. push_branch recording_git ''/wt'' ''tissue/wi_a'' (Some ''origin'') None [] = (r, w') \<and>
     w' = [[''push'', ''-u'', ''origin'', ''tissue/wi_a'']] \<and>
     (w' = [] \<and> (\<exists>m. r = Inl (GitArgError m)) \<or>
     (\<exists>argv res. ge_run recording_git argv ''/wt'' [] = (res, w') \<and> set (loose_options argv) \<subseteq> {''-u''} \<and> hd argv = ''push'' \<and>
       last argv = ''tissue/wi_a'' \<and> (r = Inr () \<longleftrightarrow> gs_exit_code res = 0)))"
proof -
  let ?run = "push_branch recording_git ''/wt'' ''tissue/wi_a'' (Some ''origin'') None []"
  have "snd ?run = [[''push'', ''-u'', ''origin'', ''tissue/wi_a'']]" by code_simp
  moreover obtain r w' where "?run = (r, w')" by (cases ?run)
  ultimately show ?thesis using push_never_forces[of recording_git "''/wt''" "''tissue/wi_a''" "Some ''origin''" None "[]" r w'] by auto
qed

end
