(* ===== verification/Worktrees.thy ===== *)
theory Worktrees
  imports Git Poll "HOL-Library.Sublist"
begin

text \<open>
  Repository verification and the disposable worktree of a WorkItem (\<^verbatim>\<open>src/controller/worktrees.ts\<close>): the
  containment checks on paths, the capability probe that gates dispatch, and create, verify and clean up. Node's
  \<^verbatim>\<open>path.resolve\<close> is written on path segments; \<open>host\<close> holds what the code takes from its process: git, the working
  directory, the environment, \<^verbatim>\<open>realpath\<close> and \<^verbatim>\<open>mkdir\<close>.
\<close>

section \<open>Paths\<close>

fun split_on :: "char \<Rightarrow> string \<Rightarrow> string list" where
  "split_on sep [] = [[]]"
| "split_on sep (c # cs) =
     (if c = sep then [] # split_on sep cs
      else case split_on sep cs of [] \<Rightarrow> [[c]] | l # ls \<Rightarrow> (c # l) # ls)"

definition path_parts :: "string \<Rightarrow> string list" where
  "path_parts p = filter (\<lambda>s. s \<noteq> [] \<and> s \<noteq> ''.'') (split_on (CHR ''/'') p)"

definition path_step :: "string list \<Rightarrow> string \<Rightarrow> string list" where
  "path_step acc s = (if s = ''..'' then butlast acc else acc @ [s])"

definition resolve_onto :: "string list \<Rightarrow> string \<Rightarrow> string list" where
  "resolve_onto base p = foldl path_step (if is_prefix ''/'' p then [] else base) (path_parts p)"

definition show_path :: "string list \<Rightarrow> string" where
  "show_path parts = (if parts = [] then ''/'' else concat (map (\<lambda>s. CHR ''/'' # s) parts))"

text \<open>\<^verbatim>\<open>path.resolve(...ps)\<close> in the working directory \<open>cwd\<close>.\<close>

definition resolve_path :: "string \<Rightarrow> string list \<Rightarrow> string" where
  "resolve_path cwd ps = show_path (foldl resolve_onto (resolve_onto [] cwd) ps)"

section \<open>The process and its surroundings\<close>

record 'w host =
  ho_git :: "'w git_env"
  ho_cwd :: string
  ho_env :: "string \<Rightarrow> string option"
  ho_realpath :: "string \<Rightarrow> 'w \<Rightarrow> string option"
  ho_mkdir :: "string \<Rightarrow> ('w, err, unit) act"

definition host_resolve :: "'w host \<Rightarrow> string list \<Rightarrow> string" where
  "host_resolve h = resolve_path (ho_cwd h)"

definition host_worktree_root :: "'w host \<Rightarrow> string parsed" where
  "host_worktree_root h = resolve_worktree_root (\<lambda>a b. host_resolve h [a, b]) (ho_env h)"

definition path_inside :: "string \<Rightarrow> string \<Rightarrow> bool" where
  "path_inside r c \<longleftrightarrow> c = r \<or> is_prefix (r @ ''/'') c"

definition assert_contained_path :: "'w host \<Rightarrow> string \<Rightarrow> string \<Rightarrow> string \<Rightarrow> ('w, err, unit) act" where
  "assert_contained_path h root candidate label =
     (let r = host_resolve h [root]; c = host_resolve h [candidate] in
      act_guard (path_inside r c)
        (GitError (''refusing '' @ label @ '' '' @ quoted c @ '' outside Tissue-owned root '' @ quoted r)))"

definition assert_no_symlink_escape :: "'w host \<Rightarrow> string \<Rightarrow> string \<Rightarrow> string \<Rightarrow> ('w, err, unit) act" where
  "assert_no_symlink_escape h root candidate label =
     act_bind (act_get (\<lambda>w. (ho_realpath h root w, ho_realpath h candidate w))) (\<lambda>real.
     case snd real of
       None \<Rightarrow> act_return ()
     | Some real_candidate \<Rightarrow>
         assert_contained_path h (coalesce (fst real) (host_resolve h [root])) real_candidate label)"

definition resolve_contained_worktree_root :: "'w host \<Rightarrow> string \<Rightarrow> string \<Rightarrow> ('w, err, string) act" where
  "resolve_contained_worktree_root h root subdir =
     (let base = host_resolve h [root]; contained = host_resolve h [base, subdir] in
      act_then (assert_contained_path h base contained ''worktree root'') (act_return contained))"

definition resolve_contained_worktree_path :: "'w host \<Rightarrow> string \<Rightarrow> string \<Rightarrow> string \<Rightarrow> ('w, err, string) act" where
  "resolve_contained_worktree_path h root subdir wid =
     act_bind (resolve_contained_worktree_root h root subdir) (\<lambda>contained_root.
     act_bind (worktree_dir_for (\<lambda>a b. host_resolve h [a, b]) contained_root wid) (\<lambda>dir.
       act_then (assert_contained_path h contained_root dir ''worktree directory'') (act_return dir)))"

definition worktree_branch_for :: "string \<Rightarrow> ('w, err, string) act" where
  "worktree_branch_for wid =
     act_then (g_guard (repo_id_re wid) (''workItemId '' @ quoted wid @ '' is not identifier-safe for a branch name''))
       (act_return (''tissue/wi_'' @ wid))"

section \<open>Remote addresses\<close>

text \<open>
  \<^verbatim>\<open>/^(?:https?:\/\/|git:\/\/|ssh:\/\/)?(?:git@)?github\.com[/:](owner)\/(name)(?:\.git)?\/?$/i\<close>: after an optional scheme and
  user the host, a separator, the owner and the name, both of \<open>repo_id_re\<close>.
\<close>

definition strip_prefixes :: "string list \<Rightarrow> string \<Rightarrow> string" where
  "strip_prefixes ws s = (case List.find (\<lambda>w. is_prefix w (to_lower s)) ws of None \<Rightarrow> s | Some w \<Rightarrow> drop (length w) s)"

definition strip_suffix :: "string \<Rightarrow> string \<Rightarrow> string" where
  "strip_suffix suf s = (if is_prefix (rev suf) (rev (to_lower s)) then take (length s - length suf) s else s)"

definition parse_github_remote_slug :: "string \<Rightarrow> string option" where
  "parse_github_remote_slug url =
     (let s = strip_prefixes [''git@''] (strip_prefixes [''https://'', ''http://'', ''git://'', ''ssh://''] (trim url)) in
      if \<not> (is_prefix ''github.com/'' (to_lower s) \<or> is_prefix ''github.com:'' (to_lower s)) then None
      else let r = drop 11 s; owner = takeWhile (\<lambda>c. c \<noteq> CHR ''/'') r; rest = dropWhile (\<lambda>c. c \<noteq> CHR ''/'') r;
          name = strip_suffix ''.git'' (strip_suffix ''/'' (drop 1 rest)) in
        if rest \<noteq> [] \<and> repo_id_re owner \<and> repo_id_re name then Some (owner @ ''/'' @ name) else None)"

section \<open>Repository capability\<close>

record repo_readiness =
  rr_ready :: bool
  rr_reasons :: "string list"
  rr_checked_at :: timestamp

record repo_capability =
  rk_owner :: string
  rk_name :: string
  rk_gh_binary :: string
  rk_gh_version_ok :: bool
  rk_gh_authenticated :: bool
  rk_gh_account :: "string option"
  rk_checkout_present :: bool
  rk_remote_present :: bool
  rk_remote_url :: "string option"
  rk_target_owner :: string
  rk_target_name :: string
  rk_target_exists :: bool
  rk_push_owner :: string
  rk_push_name :: string
  rk_push_remote :: string
  rk_push_remote_present :: bool
  rk_push_remote_url :: "string option"
  rk_checkout_remote_matches_target :: "bool option"
  rk_push_remote_matches_expected :: "bool option"
  rk_writable_push_verified :: bool
  rk_default_branch :: "string option"
  rk_base_branch :: string
  rk_base_branch_matches_default :: "bool option"
  rk_issues_enabled :: "bool option"
  rk_push_permission :: "bool option"
  rk_protection :: protection_state
  rk_protection_known :: bool
  rk_readiness :: repo_readiness

definition cannot_dispatch :: "repository_config \<Rightarrow> string \<Rightarrow> err" where
  "cannot_dispatch repo why = GhError Bad_Request (''cannot dispatch '' @ rc_owner repo @ ''/'' @ rc_name repo @ '': '' @ why)"

definition non_empty :: "string \<Rightarrow> string option" where
  "non_empty s = (if s = [] then None else Some s)"

definition bool_text :: "bool \<Rightarrow> string" where
  "bool_text b = (if b then ''true'' else ''false'')"

definition readiness_reasons_of :: "bool \<Rightarrow> bool \<Rightarrow> bool option \<Rightarrow> bool option \<Rightarrow> bool option \<Rightarrow> string list" where
  "readiness_reasons_of checkout_matches push_matches push_permission issues_enabled base_matches =
     (if \<not> checkout_matches then [''checkout remote does not match target repository''] else []) @
     (if \<not> push_matches then [''push remote does not match configured writable repository''] else []) @
     (if push_permission \<noteq> Some True then [''push permission is unavailable''] else []) @
     (if issues_enabled \<noteq> Some True then [''GitHub Issues capability is unavailable''] else []) @
     (if base_matches \<noteq> Some True then [''base branch is not verified default''] else [])"

definition push_permission_of :: "repo_meta \<Rightarrow> bool option" where
  "push_permission_of meta = Option.bind (rm_permissions meta) rp_push"

text \<open>\<open>now\<close>: the clock that stamps the verdict.\<close>

definition verify_repository ::
  "'w host \<Rightarrow> 'w gh_client \<Rightarrow> timestamp \<Rightarrow> repository_config \<Rightarrow> ('w, err, repo_capability) act" where
  "verify_repository h gh now repo =
     act_bind (gh_validate gh) (\<lambda>val.
     act_then (act_guard (gv_authenticated val \<and> gv_version_ok val)
         (GhError Auth (''cannot verify '' @ rc_owner repo @ ''/'' @ rc_name repo @ '': gh authenticated='' @ bool_text (gv_authenticated val) @
            '' versionOk='' @ bool_text (gv_version_ok val))))
     (act_bind (is_git_repository (ho_git h) (rc_local_dir repo)) (\<lambda>checkout_present.
     let push_remote = coalesce (rc_push_remote repo) ''origin'';
         target_owner = coalesce (rc_target_owner repo) (rc_owner repo); target_name = coalesce (rc_target_name repo) (rc_name repo);
         push_owner = coalesce (rc_push_owner repo) target_owner; push_name = coalesce (rc_push_name repo) target_name in
     act_bind (if checkout_present then remote_url (ho_git h) (rc_local_dir repo) ''origin'' else act_return []) (\<lambda>remote.
     act_bind (if checkout_present then remote_url (ho_git h) (rc_local_dir repo) push_remote else act_return []) (\<lambda>push_remote_url.
     act_then (act_guard checkout_present (cannot_dispatch repo ''local checkout is unavailable''))
     (act_then (act_guard (remote \<noteq> []) (cannot_dispatch repo ''origin remote is unavailable''))
     (act_bind (gh_repo_meta gh target_owner target_name) (\<lambda>meta.
     act_bind (if push_owner = target_owner \<and> push_name = target_name then act_return (push_permission_of meta)
         else act_bind (gh_repo_meta gh push_owner push_name) (\<lambda>pm. act_return (push_permission_of pm))) (\<lambda>push_permission.
     act_bind (gh_protection gh target_owner target_name (rc_base_branch repo)) (\<lambda>protection.
     let checkout_matches = (parse_github_remote_slug remote = Some (target_owner @ ''/'' @ target_name));
         push_matches = (push_remote_url \<noteq> [] \<and> parse_github_remote_slug push_remote_url = Some (push_owner @ ''/'' @ push_name));
         base_matches = map_option (\<lambda>b. rc_base_branch repo = b) (rm_default_branch meta);
         reasons = readiness_reasons_of checkout_matches push_matches push_permission (rm_issues_enabled meta) base_matches in
     act_then (act_guard (base_matches = Some True)
         (cannot_dispatch repo (''base branch '' @ quoted (rc_base_branch repo) @ '' is not the verified default branch'')))
     (act_then (act_guard (rm_issues_enabled meta = Some True) (cannot_dispatch repo ''GitHub Issues capability is unavailable''))
     (act_then (act_guard (push_permission = Some True) (cannot_dispatch repo ''push permission is unavailable''))
       (act_return
         \<lparr>rk_owner = rc_owner repo, rk_name = rc_name repo, rk_gh_binary = gc_binary gh, rk_gh_version_ok = gv_version_ok val,
          rk_gh_authenticated = gv_authenticated val, rk_gh_account = Option.bind (gv_account val) non_empty,
          rk_checkout_present = checkout_present, rk_remote_present = (remote \<noteq> []), rk_remote_url = non_empty remote,
          rk_target_owner = target_owner, rk_target_name = target_name, rk_target_exists = (rm_default_branch meta \<noteq> None),
          rk_push_owner = push_owner, rk_push_name = push_name, rk_push_remote = push_remote,
          rk_push_remote_present = (push_remote_url \<noteq> []), rk_push_remote_url = non_empty push_remote_url,
          rk_checkout_remote_matches_target = Some checkout_matches, rk_push_remote_matches_expected = Some push_matches,
          rk_writable_push_verified = (push_permission = Some True \<and> push_matches),
          rk_default_branch = rm_default_branch meta, rk_base_branch = rc_base_branch repo,
          rk_base_branch_matches_default = base_matches, rk_issues_enabled = rm_issues_enabled meta,
          rk_push_permission = push_permission, rk_protection = protection, rk_protection_known = True,
          rk_readiness = \<lparr>rr_ready = (reasons = []), rr_reasons = reasons, rr_checked_at = now\<rparr>\<rparr>)))))))))))))"

section \<open>The life of a worktree\<close>

record worktree_identity =
  wk_work_item_id :: string
  wk_main_dir :: string
  wk_worktree_dir :: string
  wk_branch :: string
  wk_head_sha :: "string option"
  wk_repo_slug :: string

record work_item_identity =
  we_work_item_id :: string
  we_head_branch :: string
  we_base_branch :: string

record verification_result =
  vr_ok :: bool
  vr_worktree_dir :: string
  vr_branch :: string
  vr_head :: "string option"
  vr_reason :: "string option"

record cleanup_result =
  cr_work_item_id :: string
  cr_main_dir :: string
  cr_worktree_dir :: string
  cr_branch :: string
  cr_mode :: string
  cr_worktree_removed :: bool
  cr_worktree_forced :: bool
  cr_branch_deleted :: bool

definition repo_slug_of :: "repository_config \<Rightarrow> string" where
  "repo_slug_of repo = rc_owner repo @ ''-'' @ rc_name repo"

definition create_worktree :: "'w host \<Rightarrow> repository_config \<Rightarrow> string \<Rightarrow> ('w, err, worktree_identity) act" where
  "create_worktree h repo wid =
     (let g = ho_git h; dir = rc_local_dir repo in
      act_bind (is_git_repository g dir) (\<lambda>present.
      act_then (act_guard present (GitError (''main checkout '' @ quoted dir @ '' is not a git repository'')))
      (act_bind (local_branch_exists g dir (rc_base_branch repo)) (\<lambda>has_base.
      act_then (act_guard has_base (GitError (''base branch '' @ quoted (rc_base_branch repo) @ '' does not exist in '' @ quoted dir)))
      (act_bind (worktree_branch_for wid) (\<lambda>branch.
      act_bind (local_branch_exists g dir branch) (\<lambda>taken.
      act_then (act_guard (\<not> taken) (GitError (''branch '' @ quoted branch @ '' already exists - refusing to reuse an identity'')))
      (act_bind (act_lift (host_worktree_root h)) (\<lambda>root.
      act_bind (resolve_contained_worktree_root h root (repo_slug_of repo)) (\<lambda>owned_root.
      act_then (assert_no_symlink_escape h root owned_root ''worktree root'')
      (act_then (ho_mkdir h owned_root)
      (act_bind (resolve_contained_worktree_path h root (repo_slug_of repo) wid) (\<lambda>worktree_dir.
      act_then (assert_no_symlink_escape h owned_root worktree_dir ''worktree directory'')
      (act_then (worktree_add g \<lparr>ws_main_dir = dir, ws_worktree_dir = worktree_dir, ws_branch = branch, ws_start_point = rc_base_branch repo\<rparr>)
      (act_then (ensure_tissue_ignored g worktree_dir)
      (act_bind (head_sha g worktree_dir) (\<lambda>sha.
        act_return \<lparr>wk_work_item_id = wid, wk_main_dir = dir, wk_worktree_dir = worktree_dir, wk_branch = branch,
          wk_head_sha = Some sha, wk_repo_slug = repo_slug_of repo\<rparr>)))))))))))))))))"

definition verification_failed :: "worktree_identity \<Rightarrow> string \<Rightarrow> ('w, err, verification_result) act" where
  "verification_failed identity reason =
     act_return \<lparr>vr_ok = False, vr_worktree_dir = wk_worktree_dir identity, vr_branch = wk_branch identity, vr_head = None,
       vr_reason = Some reason\<rparr>"

definition verify_worktree :: "'w host \<Rightarrow> worktree_identity \<Rightarrow> work_item_identity \<Rightarrow> ('w, err, verification_result) act" where
  "verify_worktree h identity expected =
     (let g = ho_git h in
      if wk_work_item_id identity \<noteq> we_work_item_id expected
      then verification_failed identity (''work item mismatch: identity '' @ quoted (wk_work_item_id identity) @ '' vs expected '' @
        quoted (we_work_item_id expected))
      else if wk_branch identity \<noteq> we_head_branch expected
      then verification_failed identity (''branch mismatch: '' @ quoted (wk_branch identity) @ '' vs expected '' @ quoted (we_head_branch expected))
      else act_bind (is_git_repository g (wk_main_dir identity)) (\<lambda>main_ok.
        if \<not> main_ok then verification_failed identity (''main checkout '' @ quoted (wk_main_dir identity) @ '' is not a git repository'')
        else act_bind (is_git_repository g (wk_worktree_dir identity)) (\<lambda>worktree_ok.
          if \<not> worktree_ok
          then verification_failed identity (''worktree '' @ quoted (wk_worktree_dir identity) @ '' is missing or not a git repository'')
          else act_bind (current_branch g (wk_worktree_dir identity)) (\<lambda>actual.
            if actual \<noteq> we_head_branch expected
            then verification_failed identity (''worktree is on branch '' @ quoted actual @ '', expected '' @ quoted (we_head_branch expected))
            else act_bind (head_sha g (wk_worktree_dir identity)) (\<lambda>head.
              if wk_head_sha identity \<noteq> None \<and> wk_head_sha identity \<noteq> Some head
              then verification_failed identity (''worktree HEAD advanced unexpectedly ('' @ quoted (the (wk_head_sha identity)) @ '' -> '' @
                quoted head @ '')'')
              else act_return \<lparr>vr_ok = True, vr_worktree_dir = wk_worktree_dir identity, vr_branch = wk_branch identity,
                vr_head = Some head, vr_reason = None\<rparr>)))))"

text \<open>A dirty or locked worktree is removed with force.\<close>

definition remove_or_force :: "'w git_env \<Rightarrow> string \<Rightarrow> string \<Rightarrow> ('w, err, bool) act" where
  "remove_or_force g main_dir worktree_dir =
     act_try (act_then (worktree_remove g main_dir worktree_dir False) (act_return False))
       (\<lambda>e. act_then (worktree_remove g main_dir worktree_dir True) (act_return True))"

definition cleanup_worktree :: "'w host \<Rightarrow> worktree_identity \<Rightarrow> string \<Rightarrow> ('w, err, cleanup_result) act" where
  "cleanup_worktree h identity mode =
     (let g = ho_git h; owned_path = host_resolve h [wk_worktree_dir identity] in
      act_bind (act_lift (host_worktree_root h)) (\<lambda>root.
      act_bind (resolve_contained_worktree_root h root (wk_repo_slug identity)) (\<lambda>owned_root.
      act_then (assert_no_symlink_escape h root owned_root ''worktree root'')
      (act_then (assert_contained_path h owned_root owned_path ''cleanup'')
      (act_then (assert_no_symlink_escape h owned_root owned_path ''cleanup'')
      (act_bind (is_git_repository g (wk_worktree_dir identity)) (\<lambda>present.
      act_bind (if present then act_bind (remove_or_force g (wk_main_dir identity) (wk_worktree_dir identity)) (\<lambda>f. act_return (True, f))
          else act_return (False, False)) (\<lambda>removed.
      act_then (worktree_prune g (wk_main_dir identity))
      (act_bind (local_branch_exists g (wk_main_dir identity) (wk_branch identity)) (\<lambda>exists.
      act_then (act_when exists (delete_local_branch g (wk_main_dir identity) (wk_branch identity) True))
        (act_return \<lparr>cr_work_item_id = wk_work_item_id identity, cr_main_dir = wk_main_dir identity,
          cr_worktree_dir = wk_worktree_dir identity, cr_branch = wk_branch identity, cr_mode = mode,
          cr_worktree_removed = fst removed, cr_worktree_forced = snd removed, cr_branch_deleted = exists\<rparr>)))))))))))"

section \<open>Containment is a prefix of segments\<close>

definition good_segment :: "string \<Rightarrow> bool" where
  "good_segment s \<longleftrightarrow> s \<noteq> [] \<and> CHR ''/'' \<notin> set s \<and> s \<noteq> ''.'' \<and> s \<noteq> ''..''"

lemma split_on_not_Nil [simp]: "split_on sep s \<noteq> []"
  by (induction s) (auto split: list.splits)

lemma split_on_no_sep: "l \<in> set (split_on sep s) \<Longrightarrow> sep \<notin> set l"
  by (induction s arbitrary: l) (auto split: list.splits if_splits)

lemma path_parts_good: "s \<in> set (path_parts p) \<Longrightarrow> good_segment s \<or> s = ''..''"
  by (auto simp: path_parts_def good_segment_def dest: split_on_no_sep)

lemma path_steps_good: "\<forall>s \<in> set ps. good_segment s \<or> s = ''..'' \<Longrightarrow> \<forall>s \<in> set acc. good_segment s \<Longrightarrow> \<forall>s \<in> set (foldl path_step acc ps). good_segment s"
proof (induction ps arbitrary: acc)
  case (Cons p ps)
  have "\<forall>s \<in> set (path_step acc p). good_segment s" using Cons.prems by (auto simp: path_step_def dest: in_set_butlastD)
  with Cons show ?case by simp
qed simp

lemma resolve_onto_good: "\<forall>s \<in> set base. good_segment s \<Longrightarrow> \<forall>s \<in> set (resolve_onto base p). good_segment s"
  unfolding resolve_onto_def by (rule path_steps_good) (auto dest: path_parts_good)

definition segments :: "'w host \<Rightarrow> string \<Rightarrow> string list" where
  "segments h p = resolve_onto (resolve_onto [] (ho_cwd h)) p"

lemma segments_good: "s \<in> set (segments h p) \<Longrightarrow> good_segment s"
  using resolve_onto_good[of "resolve_onto [] (ho_cwd h)" p] resolve_onto_good[of "[]" "ho_cwd h"] by (simp add: segments_def)

lemma host_resolve_one: "host_resolve h [p] = show_path (segments h p)"
  by (simp add: host_resolve_def resolve_path_def segments_def)

lemma is_prefix_iff: "is_prefix p s \<longleftrightarrow> prefix p s"
  by (induction p s rule: is_prefix.induct) auto

definition slashed :: "string list \<Rightarrow> string" where
  "slashed parts = concat (map (\<lambda>s. CHR ''/'' # s) parts)"

lemma split_on_append_sep: "split_on sep (u @ sep # v) = split_on sep u @ split_on sep v"
  by (induction u) (auto split: list.splits)

lemma split_on_single: "sep \<notin> set a \<Longrightarrow> split_on sep a = [a]"
  by (induction a) auto

lemma split_slashed: "\<forall>s \<in> set parts. good_segment s \<Longrightarrow> split_on (CHR ''/'') (slashed parts) = [] # parts"
  by (induction parts rule: rev_induct) (auto simp: slashed_def split_on_append_sep split_on_single good_segment_def)

lemma slashed_inj: "\<forall>s \<in> set R. good_segment s \<Longrightarrow> \<forall>s \<in> set C. good_segment s \<Longrightarrow> slashed R = slashed C \<Longrightarrow> R = C"
  by (metis split_slashed list.inject)

lemma slashed_prefix:
  assumes "\<forall>s \<in> set R. good_segment s" "\<forall>s \<in> set C. good_segment s"
  shows "prefix (slashed R @ ''/'') (slashed C) \<longleftrightarrow> strict_prefix R C"
proof
  assume "prefix (slashed R @ ''/'') (slashed C)"
  then obtain v where "slashed C = slashed R @ CHR ''/'' # v" by (auto simp: prefix_def)
  then have "[] # C = ([] # R) @ split_on (CHR ''/'') v"
    using split_on_append_sep[of "CHR ''/''" "slashed R" v] split_slashed[OF assms(1)] split_slashed[OF assms(2)] by simp
  then show "strict_prefix R C" by (auto simp: strict_prefix_def)
next
  assume "strict_prefix R C"
  then obtain x xs where "C = R @ x # xs" by (auto elim: strict_prefixE')
  then show "prefix (slashed R @ ''/'') (slashed C)" by (simp add: slashed_def)
qed

lemma no_empty_segment: "\<not> good_segment []"
  by (simp add: good_segment_def)

lemma slashed_facts:
  assumes "\<forall>s \<in> set C. good_segment s"
  shows "slashed C \<noteq> ''/''" "\<not> prefix ''//'' (slashed C)"
proof -
  show "slashed C \<noteq> ''/''"
  proof
    assume "slashed C = ''/''"
    then have "C = [[]]" using split_slashed[OF assms] by simp
    with assms no_empty_segment show False by simp
  qed
  show "\<not> prefix ''//'' (slashed C)"
  proof
    assume "prefix ''//'' (slashed C)"
    then obtain v where "slashed C = [] @ CHR ''/'' # ([] @ CHR ''/'' # v)" by (auto simp: prefix_def)
    then have "[] # C = [[]] @ [[]] @ split_on (CHR ''/'') v"
      using split_slashed[OF assms] split_on_append_sep[of "CHR ''/''" "[]"] by (simp del: split_on.simps(2))
    with assms no_empty_segment show False by auto
  qed
qed

text \<open>
  C17: The containment check is the prefix order on path segments: after both paths are made absolute and
  their \<^verbatim>\<open>.\<close> and \<^verbatim>\<open>..\<close> segments are gone, a candidate counts as inside a root exactly when the root's segments are a
  prefix of the candidate's, so a sibling whose name merely starts like the root is outside, and no sequence of \<^verbatim>\<open>..\<close>
  escapes. The file-system root contains only itself.
\<close>
theorem containment_is_segment_prefix:
  "path_inside (host_resolve h [root]) (host_resolve h [candidate]) \<longleftrightarrow>
     (if segments h root = [] then segments h candidate = [] else prefix (segments h root) (segments h candidate))"
proof -
  let ?R = "segments h root" and ?C = "segments h candidate"
  have good: "\<forall>s \<in> set ?R. good_segment s" "\<forall>s \<in> set ?C. good_segment s" using segments_good by blast+
  have show_eq: "show_path parts = (if parts = [] then ''/'' else slashed parts)" for parts by (simp add: show_path_def slashed_def)
  show ?thesis
  proof (cases "?R = []")
    case True
    with slashed_facts[OF good(2)] show ?thesis by (auto simp: path_inside_def host_resolve_one show_eq is_prefix_iff)
  next
    case False
    have "slashed ?C = slashed ?R \<longleftrightarrow> ?C = ?R" using slashed_inj[OF good] by metis
    moreover have "slashed ?R \<noteq> ''/''" "slashed ?R \<noteq> []" "\<not> prefix (slashed ?R @ ''/'') ''/''"
      using slashed_facts[OF good(1)] False by (cases ?R; auto simp: slashed_def)+
    note facts = this calculation
    have inside: "path_inside (host_resolve h [root]) (host_resolve h [candidate]) \<longleftrightarrow>
        show_path ?C = slashed ?R \<or> prefix (slashed ?R @ ''/'') (show_path ?C)"
      using False by (simp only: path_inside_def host_resolve_one show_eq if_False is_prefix_iff)
    show ?thesis
    proof (cases "?C = []")
      case True
      then have "show_path ?C = ''/''" by (simp add: show_path_def)
      with facts True False show ?thesis unfolding inside by simp
    next
      case nonempty: False
      then have "show_path ?C = slashed ?C" by (simp add: show_path_def slashed_def)
      then have "path_inside (host_resolve h [root]) (host_resolve h [candidate]) \<longleftrightarrow> ?C = ?R \<or> strict_prefix ?R ?C"
        unfolding inside slashed_prefix[OF good, symmetric] using facts(4) by (simp only:)
      with False show ?thesis by (auto simp: strict_prefix_def)
    qed
  qed
qed


lemma resolve_onto_shown: "\<forall>s \<in> set parts. good_segment s \<Longrightarrow> resolve_onto base (show_path parts) = parts"
proof -
  assume good: "\<forall>s \<in> set parts. good_segment s"
  have steps: "foldl path_step acc parts = acc @ parts" for acc
    using good by (induction parts arbitrary: acc) (auto simp: path_step_def good_segment_def)
  have "path_parts (show_path parts) = parts"
  proof (cases "parts = []")
    case False
    then have "show_path parts = slashed parts" by (simp add: show_path_def slashed_def)
    then show ?thesis using split_slashed[OF good] good by (auto simp: path_parts_def good_segment_def filter_id_conv)
  qed (simp add: show_path_def path_parts_def)
  moreover have "is_prefix ''/'' (show_path parts)" by (cases parts) (simp_all add: show_path_def)
  ultimately show ?thesis using steps[of "[]"] by (simp add: resolve_onto_def)
qed

lemma segments_absolute [simp]: "segments h (host_resolve h (p # ps)) = foldl resolve_onto (segments h p) ps"
proof -
  have "\<forall>s \<in> set (foldl resolve_onto base qs). good_segment s" if "\<forall>s \<in> set base. good_segment s" for base qs
    using that by (induction qs arbitrary: base) (auto dest: resolve_onto_good)
  then have "\<forall>s \<in> set (foldl resolve_onto (segments h p) ps). good_segment s" using segments_good by blast
  then show ?thesis
    by (simp add: segments_def[of h "host_resolve h (p # ps)"] resolve_onto_shown host_resolve_def resolve_path_def segments_def)
qed

definition inside :: "string list \<Rightarrow> string list \<Rightarrow> bool" where
  "inside R C \<longleftrightarrow> (if R = [] then C = [] else prefix R C)"

lemma assert_contained_run:
  "assert_contained_path h root candidate label w =
     (if inside (segments h root) (segments h candidate) then Inr () else Inl (GitError (''refusing '' @ label @ '' '' @
        quoted (host_resolve h [candidate]) @ '' outside Tissue-owned root '' @ quoted (host_resolve h [root]))), w)"
  by (simp add: assert_contained_path_def Let_def act_simps containment_is_segment_prefix inside_def)

text \<open>Where a path really lies, when it exists, against where the root really lies.\<close>

definition physically_inside :: "'w host \<Rightarrow> string \<Rightarrow> string \<Rightarrow> 'w \<Rightarrow> bool" where
  "physically_inside h root candidate w \<longleftrightarrow> (\<forall>c. ho_realpath h candidate w = Some c \<longrightarrow>
     inside (segments h (coalesce (ho_realpath h root w) root)) (segments h c))"

lemma assert_no_symlink_run:
  "\<exists>e. assert_no_symlink_escape h root candidate label w = (if physically_inside h root candidate w then Inr () else Inl e, w)"
  by (cases "ho_realpath h root w"; cases "ho_realpath h candidate w")
    (auto simp: assert_no_symlink_escape_def act_simps act_bind_def physically_inside_def assert_contained_run)



definition example_host :: "string list list host" where
  "example_host = \<lparr>ho_git = recording_git, ho_cwd = ''/srv'', ho_env = (\<lambda>k. if k = ''TISSUE_WORKTREE_ROOT'' then Some ''/data/wt'' else None),
     ho_realpath = (\<lambda>p w. if p = ''/data/wt/acme-tool/moved'' then Some ''/etc'' else Some p), ho_mkdir = \<lambda>p. act_return ()\<rparr>"

definition example_identity :: "string \<Rightarrow> worktree_identity" where
  "example_identity dir = \<lparr>wk_work_item_id = ''b'', wk_main_dir = ''/src/tool'', wk_worktree_dir = dir, wk_branch = ''tissue/wi_b'',
     wk_head_sha = None, wk_repo_slug = ''acme-tool''\<rparr>"


text \<open>
  A repository that passes verification can be dispatched to: gh is authenticated and new enough, the
  checkout and its origin exist, the configured base branch is GitHub's default branch, Issues are enabled and the push
  permission is granted. It is ready exactly when, besides, both remotes point at the configured repositories.
\<close>
theorem verified_repository_dispatchable:
  assumes "verify_repository h gh now repo w = (Inr cap, w')"
  shows "rk_gh_authenticated cap \<and> rk_gh_version_ok cap \<and> rk_checkout_present cap \<and> rk_remote_present cap \<and>
    rk_default_branch cap = Some (rc_base_branch repo) \<and> rk_issues_enabled cap = Some True \<and> rk_push_permission cap = Some True \<and>
    (rr_ready (rk_readiness cap) \<longleftrightarrow> rk_checkout_remote_matches_target cap = Some True \<and> rk_push_remote_matches_expected cap = Some True) \<and>
    (rr_ready (rk_readiness cap) \<longrightarrow> rk_writable_push_verified cap)"
proof -
  have guard: "act_then (act_guard b e) k s = (Inr y, s') \<longleftrightarrow> b \<and> k s = (Inr y, s')" for b e and k :: "('a, err, repo_capability) act" and s y s'
    by (simp add: act_bind_eqs)
  have return: "act_return x s = (Inr y, s') \<longleftrightarrow> y = x \<and> s' = s" for x y :: repo_capability and s s' :: 'a
    by (auto simp: act_return_def)
  have base: "map_option (\<lambda>b. x = b) m = Some True \<longleftrightarrow> m = Some x" for m and x :: string by (cases m) auto
  show ?thesis
    using assms unfolding verify_repository_def Let_def act_bind_success guard return base
    by (elim exE conjE, hypsubst) (simp (no_asm_simp) add: readiness_reasons_of_def)
qed

definition sample_git :: "unit git_env" where
  "sample_git = \<lparr>ge_run = (\<lambda>argv cwd w. (\<lparr>gs_exit_code = 0,
       gs_stdout = (if hd argv = ''config'' then ''https://github.com/acme/tool.git'' else []), gs_stderr = []\<rparr>, w)),
     ge_read_file = (\<lambda>p w. None), ge_append_file = (\<lambda>p s w. w)\<rparr>"

definition sample_host :: "unit host" where
  "sample_host = \<lparr>ho_git = sample_git, ho_cwd = ''/srv'', ho_env = \<lambda>k. None, ho_realpath = \<lambda>p w. None, ho_mkdir = \<lambda>p. act_return ()\<rparr>"

definition sample_gh :: "unit gh_client" where
  "sample_gh = \<lparr>gc_run = (\<lambda>argv inp w. (\<lparr>gs_exit_code = 0,
       gs_stdout = (if argv = argv_version then ''gh version 2.98.0'' else if argv = argv_auth_status then ''Logged in to github.com account bot''
         else ''{}''), gs_stderr = []\<rparr>, w)),
     gc_parse = (\<lambda>s. Inr (JObj [(''default_branch'', JStr ''main''), (''has_issues'', JBool True), (''permissions'', JObj [(''push'', JBool True)])])),
     gc_binary = ''/usr/bin/gh'', gc_min_version = MIN_GH_VERSION\<rparr>"

definition sample_repository :: repository_config where
  "sample_repository = \<lparr>rc_owner = ''acme'', rc_name = ''tool'', rc_remote = None, rc_target_owner = None, rc_target_name = None,
     rc_push_owner = None, rc_push_name = None, rc_push_remote = None, rc_local_dir = ''/src/tool'', rc_enabled = True,
     rc_poll_interval_seconds = 300, rc_max_concurrent_per_repo = 1, rc_base_branch = ''main'', rc_labels = [], rc_auto_merge = True,
     rc_priority = 0, rc_baseline_before = None\<rparr>"

theorem verified_repository_dispatchable_witness:
  "\<exists>cap. verify_repository sample_host sample_gh ''1970-01-01T00:00:00.000Z'' sample_repository () = (Inr cap, ()) \<and>
     rr_ready (rk_readiness cap) \<and> rk_writable_push_verified cap \<and> rk_default_branch cap = Some ''main''"
proof -
  let ?run = "verify_repository sample_host sample_gh ''1970-01-01T00:00:00.000Z'' sample_repository ()"
  have "case ?run of (Inl e, s) \<Rightarrow> False | (Inr cap, s) \<Rightarrow> rr_ready (rk_readiness cap)" by code_simp
  then obtain cap where run: "?run = (Inr cap, ())" and "rr_ready (rk_readiness cap)" by (elim act_caseE) simp
  moreover have "rc_base_branch sample_repository = ''main''" by (simp add: sample_repository_def)
  ultimately show ?thesis using verified_repository_dispatchable[OF run] by simp
qed

end
