(* ===== verification/Js_Text.thy ===== *)
theory Js_Text
  imports Poll
begin

text \<open>
  \<^verbatim>\<open>String(v)\<close> and \<^verbatim>\<open>Number(v)\<close> on parsed JSON, as the readers of gh's answers use them. \<open>js_int\<close> is the integer \<^verbatim>\<open>Number(v)\<close>
  gives, \<open>None\<close> for NaN and for a fraction; of the numerals in a text only decimal ones are read.
\<close>

fun js_string :: "json \<Rightarrow> string" where
  "js_string JNull = ''null''"
| "js_string (JBool b) = (if b then ''true'' else ''false'')"
| "js_string (JNum n) = show_int n"
| "js_string (JFrac s) = s"
| "js_string (JStr s) = s"
| "js_string (JArr vs) = join (map (\<lambda>v. if v = JNull then [] else js_string v) vs)"
| "js_string (JObj fs) = ''[object Object]''"

text \<open>\<^verbatim>\<open>String(v ?? fallback)\<close>\<close>

definition string_or :: "json option \<Rightarrow> string \<Rightarrow> string" where
  "string_or v fallback = (case v of None \<Rightarrow> fallback | Some j \<Rightarrow> if j = JNull then fallback else js_string j)"

definition decimal_int :: "string \<Rightarrow> int option" where
  "decimal_int s =
     (let digits = (if is_prefix ''-'' s \<or> is_prefix ''+'' s then tl s else s) in
      if s = [] then Some 0
      else if digits = [] \<or> \<not> list_all is_digit digits then None
      else Some (if is_prefix ''-'' s then - int (digits_val digits) else int (digits_val digits)))"

fun js_int :: "json \<Rightarrow> int option" where
  "js_int JNull = Some 0"
| "js_int (JBool b) = Some (if b then 1 else 0)"
| "js_int (JNum n) = Some n"
| "js_int (JStr s) = decimal_int (trim s)"
| "js_int _ = None"

text \<open>\<^verbatim>\<open>Number(v ?? fallback)\<close>\<close>

definition int_or :: "json option \<Rightarrow> int \<Rightarrow> int option" where
  "int_or v fallback = (case v of None \<Rightarrow> Some fallback | Some j \<Rightarrow> if j = JNull then Some fallback else js_int j)"

end
