(* ===== verification/Drift.thy ===== *)
theory Drift
  imports Worktrees Audited Js_Text
begin

text \<open>
  Drift (\<^verbatim>\<open>src/controller/drift.ts\<close>): the artifacts that git and GitHub show for a WorkItem against the
  rows the store has, and the adoption of the difference in one transaction. The scan is a parameter; the
  production scanner over git and gh is modelled too. Log lines are left out.
\<close>

section \<open>Observations\<close>

record observed_worktree =
  ow_path :: string
  ow_branch :: string

record observed_pr =
  op_number :: int
  op_head_ref :: string
  op_state :: string

record observed_artifacts =
  oa_branches :: "string list"
  oa_worktrees :: "observed_worktree list"
  oa_prs :: "observed_pr list"

type_synonym 'w drift_scanner = "repository_row \<Rightarrow> ('w, err, observed_artifacts) act"

datatype drift_artifact = Drift_Branch string | Drift_Worktree string string | Drift_Pr string int string

fun artifact_json :: "drift_artifact \<Rightarrow> json" where
  "artifact_json (Drift_Branch r) = JObj [(''kind'', JStr ''branch''), (''ref'', JStr r)]"
| "artifact_json (Drift_Worktree r p) = JObj [(''kind'', JStr ''worktree''), (''ref'', JStr r), (''path'', JStr p)]"
| "artifact_json (Drift_Pr r n st) = JObj [(''kind'', JStr ''pr''), (''ref'', JStr r), (''prNumber'', JNum n), (''state'', JStr st)]"

record drift_result =
  dr_work_item_id :: string
  dr_scanned :: bool
  dr_reason :: "string option"
  dr_expected_branch :: "string option"
  dr_expected_worktree_branches :: "string list"
  dr_expected_pr_numbers :: "int list"
  dr_unexpected :: "drift_artifact list"
  dr_adopted :: "drift_artifact list"
  dr_absorbed :: "drift_artifact list"
  dr_transitioned :: bool
  dr_already_failed_hold :: bool

definition empty_drift :: "string \<Rightarrow> bool \<Rightarrow> string \<Rightarrow> drift_result" where
  "empty_drift wid scanned reason =
     \<lparr>dr_work_item_id = wid, dr_scanned = scanned, dr_reason = Some reason, dr_expected_branch = None,
      dr_expected_worktree_branches = [], dr_expected_pr_numbers = [], dr_unexpected = [], dr_adopted = [], dr_absorbed = [],
      dr_transitioned = False, dr_already_failed_hold = False\<rparr>"

section \<open>The difference\<close>

text \<open>\<open>branch\<close>, \<open>dir\<close>: the identity the controller gives the WorkItem.\<close>

definition unexpected_artifacts ::
  "work_item_row \<Rightarrow> string \<Rightarrow> string \<Rightarrow> worktree_row list \<Rightarrow> pull_request_row list \<Rightarrow> observed_artifacts \<Rightarrow> drift_artifact list" where
  "unexpected_artifacts wi branch dir wts prs observed =
     (if filter (\<lambda>b. b = branch) (oa_branches observed) \<noteq> [] \<and> w_head_branch wi \<noteq> Some branch then [Drift_Branch branch] else []) @
     map (\<lambda>t. Drift_Worktree (ow_branch t) (ow_path t))
       (filter (\<lambda>t. (ow_branch t = branch \<or> ow_path t = dir) \<and> \<not> list_ex (\<lambda>r. wt_branch r = ow_branch t \<and> wt_path r = ow_path t) wts)
         (oa_worktrees observed)) @
     map (\<lambda>p. Drift_Pr (op_head_ref p) (op_number p) (op_state p))
       (filter (\<lambda>p. op_head_ref p = branch \<and> \<not> List.member (map pr_number prs) (op_number p)) (oa_prs observed))"

section \<open>Adoption\<close>

fun adopt_artifact :: "work_item_row \<Rightarrow> nat \<times> drift_artifact \<Rightarrow> unit db_tx" where
  "adopt_artifact wi (i, Drift_Branch r) = set_work_item_head_branch (w_id wi) r"
| "adopt_artifact wi (i, Drift_Worktree r p) =
     tx_bind (insert_worktree_if_absent \<lparr>wti_id = ''drift-wt-'' @ w_id wi @ ''-'' @ show_nat i, wti_work_item_id = w_id wi, wti_path = p,
       wti_branch = r, wti_state = ''ROGUE''\<rparr>) (\<lambda>inserted. tx_return ())"
| "adopt_artifact wi (i, Drift_Pr r n st) =
     tx_bind (insert_pull_request_if_absent \<lparr>pi_id = ''drift-pr-'' @ w_id wi @ ''-'' @ show_int n, pi_work_item_id = w_id wi,
       pi_repo_id = w_repo_id wi, pi_number = n, pi_head_ref = r, pi_head_sha = None, pi_state = ''ROGUE'', pi_origin = Some ''rogue'',
       pi_snapshot_hash = None\<rparr>) (\<lambda>inserted. tx_return ())"

definition drift_evidence :: "work_item_row \<Rightarrow> drift_artifact list \<Rightarrow> json" where
  "drift_evidence wi unexpected =
     JObj [(''reason'', JStr ''unexpected_artifact_diff''), (''unexpected'', JArr (map artifact_json unexpected)),
       (''workItemState'', JStr (w_state wi))]"

definition note_drift :: "work_item_row \<Rightarrow> string \<Rightarrow> drift_artifact list \<Rightarrow> unit db_tx" where
  "note_drift wi event unexpected =
     append_transition Work_Item (w_id wi) (Some (w_state wi)) (w_state wi) event (Some (Text (drift_evidence wi unexpected)))
       ''controller.drift'' None"

definition legal_hold :: "work_item_row \<Rightarrow> bool" where
  "legal_hold wi = is_legal_transition Work_Item (w_state wi) ''FAILED_HOLD'' ''drift''"

definition adopt_drift :: "work_item_row \<Rightarrow> drift_artifact list \<Rightarrow> unit db_tx" where
  "adopt_drift wi unexpected =
     tx_then (tx_foreach (adopt_artifact wi) (List.enumerate 0 unexpected))
     (if w_state wi = ''FAILED_HOLD'' then note_drift wi ''drift_absorbed'' unexpected
      else if legal_hold wi
      then tx_bind (record_transition Work_Item (w_id wi) (Some (w_state wi)) ''FAILED_HOLD'' ''drift'' (Some (drift_evidence wi unexpected))
          ''controller.drift'' None)
        (\<lambda>row. set_work_item_state (w_id wi) ''FAILED_HOLD'' no_lease_patch)
      else note_drift wi ''drift_observed'' unexpected)"

definition drift_result_of ::
  "work_item_row \<Rightarrow> worktree_row list \<Rightarrow> pull_request_row list \<Rightarrow> drift_artifact list \<Rightarrow> drift_result" where
  "drift_result_of wi wts prs unexpected =
     (let held = (w_state wi = ''FAILED_HOLD'') in
      \<lparr>dr_work_item_id = w_id wi, dr_scanned = True, dr_reason = None, dr_expected_branch = w_head_branch wi,
       dr_expected_worktree_branches = map wt_branch wts, dr_expected_pr_numbers = map pr_number prs, dr_unexpected = unexpected,
       dr_adopted = (if held then [] else unexpected), dr_absorbed = (if held then unexpected else []),
       dr_transitioned = (unexpected \<noteq> [] \<and> \<not> held \<and> legal_hold wi), dr_already_failed_hold = held\<rparr>)"

text \<open>The rows are read before the scan; the adoption runs after it.\<close>

definition scan_and_adopt_drift :: "'w host \<Rightarrow> 'w drift_scanner \<Rightarrow> string \<Rightarrow> ('w, drift_result) world_act" where
  "scan_and_adopt_drift h scanner wid =
     act_bind (act_get (\<lambda>s. get_work_item (fst s) wid)) (\<lambda>found.
     case found of
       None \<Rightarrow> act_return (empty_drift wid False ''unknown_work_item'')
     | Some wi \<Rightarrow>
         if \<not> List.member ARTIFACT_OWNING_WORK_ITEM_STATES (w_state wi)
         then act_return (empty_drift wid False (''state '' @ w_state wi @ '' is not artifact-owning''))
         else act_bind (act_get (\<lambda>s. get_repository_by_id (fst s) (w_repo_id wi))) (\<lambda>repo_found.
         case repo_found of
           None \<Rightarrow> act_return (empty_drift wid False ''unknown_repository'')
         | Some repo \<Rightarrow>
             act_bind (on_snd (case w_head_branch wi of Some b \<Rightarrow> act_return b | None \<Rightarrow> worktree_branch_for wid)) (\<lambda>branch.
             act_bind (on_snd (act_lift (host_worktree_root h))) (\<lambda>wroot.
             act_bind (on_snd (worktree_dir_for (\<lambda>a b. host_resolve h [a, b]) (host_resolve h [wroot, r_owner repo @ ''-'' @ r_name repo]) wid))
               (\<lambda>dir.
             act_bind (act_get (\<lambda>s. (list_worktrees_by_work_item (fst s) wid, list_pull_requests_by_work_item (fst s) wid))) (\<lambda>rows.
             act_bind (on_snd (scanner repo)) (\<lambda>observed.
               let unexpected = unexpected_artifacts wi branch dir (fst rows) (snd rows) observed;
                   res = drift_result_of wi (fst rows) (snd rows) unexpected in
               if unexpected = [] then act_return res
               else act_then (write_tx (adopt_drift wi unexpected)) (act_return res))))))))"

section \<open>The production scanner\<close>

text \<open>The fold keeps the path and branch of the block being read.\<close>

definition porcelain_flush :: "string option \<times> string option \<times> observed_worktree list \<Rightarrow> observed_worktree list" where
  "porcelain_flush st =
     (case st of (Some p, Some b, out) \<Rightarrow> out @ [\<lparr>ow_path = p, ow_branch = b\<rparr>] | (_, _, out) \<Rightarrow> out)"

definition porcelain_line ::
  "string option \<times> string option \<times> observed_worktree list \<Rightarrow> string \<Rightarrow> string option \<times> string option \<times> observed_worktree list" where
  "porcelain_line st line =
     (if is_prefix ''worktree '' line then (Some (trim (drop 9 line)), fst (snd st), snd (snd st))
      else if is_prefix ''branch refs/heads/'' line then (fst st, Some (trim (drop 18 line)), snd (snd st))
      else if trim line = [] then (None, None, porcelain_flush st)
      else st)"

definition parse_worktree_porcelain :: "string \<Rightarrow> observed_worktree list" where
  "parse_worktree_porcelain output = porcelain_flush (foldl porcelain_line (None, None, []) (split_lines output))"

definition observed_pr_of :: "json \<Rightarrow> observed_pr option" where
  "observed_pr_of item =
     (case Option.bind (json_field item ''number'') js_int of
        None \<Rightarrow> None
      | Some n \<Rightarrow>
          let head = string_or (json_field item ''headRefName'') [] in
          if head = [] then None
          else Some \<lparr>op_number = n, op_head_ref = head, op_state = string_or (json_field item ''state'') []\<rparr>)"

definition git_gh_scan :: "'w git_env \<Rightarrow> 'w gh_client \<Rightarrow> 'w drift_scanner" where
  "git_gh_scan g gh repo =
     act_bind (list_local_branches g (r_local_dir repo)) (\<lambda>branches.
     act_bind (worktree_list g (r_local_dir repo)) (\<lambda>listing.
     act_bind (gh_run_json gh (argv_pr_list (r_owner repo) (r_name repo) ''all'' 100)) (\<lambda>raw.
       let items = (case raw of JArr vs \<Rightarrow> vs | _ \<Rightarrow> []) in
       act_then (act_guard (\<not> List.member items JNull) (JsError ''TypeError: Cannot read properties of null''))
         (act_return \<lparr>oa_branches = branches, oa_worktrees = parse_worktree_porcelain listing,
            oa_prs = List.map_filter observed_pr_of items\<rparr>))))"

section \<open>Reading what git prints\<close>

definition print_worktree :: "observed_worktree \<Rightarrow> string" where
  "print_worktree t = ''worktree '' @ ow_path t @ newline @ ''HEAD 0123456789'' @ newline @ ''branch refs/heads/'' @ ow_branch t @ newline @ newline"

definition printable :: "string \<Rightarrow> bool" where
  "printable s \<longleftrightarrow> CHR 0x0A \<notin> set s \<and> trim s = s"

lemma trim_Nil: "trim [] = []" by (simp add: trim_def)

lemma porcelain_block:
  assumes "printable (ow_path t)" "printable (ow_branch t)"
  shows "foldl porcelain_line (None, None, out) (split_lines (print_worktree t @ rest)) = foldl porcelain_line (None, None, out @ [t]) (split_lines rest)"
proof -
  have "split_lines (print_worktree t @ rest) = (''worktree '' @ ow_path t) # ''HEAD 0123456789'' # (''branch refs/heads/'' @ ow_branch t) # [] # split_lines rest"
    using assms split_lines_line[of "''worktree '' @ ow_path t"] split_lines_line[of "''HEAD 0123456789''"]
      split_lines_line[of "''branch refs/heads/'' @ ow_branch t"] split_lines_line[of "[]" rest]
    by (simp add: print_worktree_def printable_def)
  moreover have eta: "\<lparr>ow_path = ow_path t, ow_branch = ow_branch t\<rparr> = t" by simp
  moreover have "trim ''HEAD 0123456789'' \<noteq> []" by code_simp
  ultimately show ?thesis
    using assms by (simp add: porcelain_line_def porcelain_flush_def printable_def trim_Nil eta)
qed



section \<open>What adoption may change\<close>

lemma adopt_artifact_safe [preserves_intros]: "store_safe (adopt_artifact wi a)"
  by (cases "(wi, a)" rule: adopt_artifact.cases) (simp_all, (intro preserves_intros keeping.rel_intros)+)

lemma adopt_artifact_quiet [frame_intros]: "tx_rel (frame audit_view) (adopt_artifact wi a)"
  by (cases "(wi, a)" rule: adopt_artifact.cases) (simp_all, (intro frame_intros framing.rel_intros)+)

lemma legal_hold_states: "legal_hold wi \<Longrightarrow> w_state wi = ''RUNNING'' \<or> w_state wi = ''WAITING''"
  by (auto simp: legal_hold_def is_legal_transition_def work_item_transitions_def)

lemma adopt_drift_states:
  assumes "store_ok d" "get_work_item d (w_id wi) = Some wi" "adopt_drift wi unexpected d = Inr (u, d')"
  shows "store_ok d' \<and> (item_state d' = item_state d \<or>
    item_state d' = (item_state d)(w_id wi \<mapsto> ''FAILED_HOLD'') \<and> (w_state wi = ''RUNNING'' \<or> w_state wi = ''WAITING''))"
proof -
  obtain d1 where adopt: "tx_foreach (adopt_artifact wi) (List.enumerate 0 unexpected) d = Inr ((), d1)"
    and rest: "(if w_state wi = ''FAILED_HOLD'' then note_drift wi ''drift_absorbed'' unexpected
      else if legal_hold wi
      then tx_bind (record_transition Work_Item (w_id wi) (Some (w_state wi)) ''FAILED_HOLD'' ''drift'' (Some (drift_evidence wi unexpected))
          ''controller.drift'' None)
        (\<lambda>row. set_work_item_state (w_id wi) ''FAILED_HOLD'' no_lease_patch)
      else note_drift wi ''drift_observed'' unexpected) d1 = Inr (u, d')"
    using assms(3) unfolding adopt_drift_def tx_then_success by auto
  have safe: "store_safe (tx_foreach (adopt_artifact wi) (List.enumerate 0 unexpected))" by (intro preserves_intros keeping.rel_intros)
  have quiet: "tx_rel (frame audit_view) (tx_foreach (adopt_artifact wi) (List.enumerate 0 unexpected))"
    by (intro frame_intros framing.rel_intros)
  have d1: "store_ok d1" by (rule store_safeD[OF safe assms(1) adopt])
  have st: "item_state d1 = item_state d" by (rule quiet_item_state[OF quiet adopt])
  have cur: "item_state d1 (w_id wi) = Some (w_state wi)" unfolding st using assms(2) by (simp add: item_state_def)
  have note_ok: "store_ok d' \<and> item_state d' = item_state d"
    if "note_drift wi ev unexpected d1 = Inr (u, d')" "List.member evidence_events ev" for ev
  proof -
    have "w_id wi \<in> work_item_ids d1" using cur item_state_ids[of d1 "w_id wi"] by simp
    with append_evidence_ok[OF d1 that(1)[unfolded note_drift_def] that(2)] have "store_ok d'" by simp
    moreover have "item_state d' = item_state d1"
      using append_transition_success[OF that(1)[unfolded note_drift_def]] by (auto simp: item_state_def get_work_item_def intro!: ext)
    ultimately show ?thesis using st by simp
  qed
  show ?thesis
  proof (cases "w_state wi = ''FAILED_HOLD''")
    case True
    have "List.member evidence_events ''drift_absorbed''" by code_simp
    with note_ok rest True show ?thesis by simp
  next
    case hold: False
    show ?thesis
    proof (cases "legal_hold wi")
      case True
      note rest' = rest[unfolded if_not_P[OF hold] if_P[OF True]]
      from work_item_move[OF d1 cur rest'] legal_hold_states[OF True] st show ?thesis by simp
    next
      case False
      have "List.member evidence_events ''drift_observed''" by code_simp
      with note_ok rest hold False show ?thesis by simp
    qed
  qed
qed

lemma scan_drift_run:
  assumes "scan_and_adopt_drift h scanner wid (d, w) = (r, (d', w'))"
  shows "d' = d \<or> (\<exists>wi unexpected. get_work_item d wid = Some wi \<and> adopt_drift wi unexpected d = Inr ((), d'))"
proof (cases "get_work_item d wid")
  case None
  with assms show ?thesis by (simp add: scan_and_adopt_drift_def act_bind_eqs act_return_def)
next
  case (Some wi)
  show ?thesis
  proof (cases "\<not> List.member ARTIFACT_OWNING_WORK_ITEM_STATES (w_state wi) \<or> get_repository_by_id d (w_repo_id wi) = None")
    case True
    with Some assms show ?thesis by (auto simp: scan_and_adopt_drift_def act_bind_eqs act_return_def split: if_splits)
  next
    case False
    then obtain repo where "List.member ARTIFACT_OWNING_WORK_ITEM_STATES (w_state wi)" "get_repository_by_id d (w_repo_id wi) = Some repo"
      by auto
    with Some assms show ?thesis
      unfolding scan_and_adopt_drift_def act_bind_eqs
      by (simp only: fst_conv option.case simp_thms if_False Let_def act_bind_eqs)
        (elim act_outsideE, simp_all only: act_bind_eqs fst_conv, (elim act_outsideE)?,
         auto simp: act_return_def split: if_splits elim!: write_tx_thenE)
  qed
qed

text \<open>
  C19: A drift scan changes the state of at most one WorkItem, the scanned one, and only from RUNNING or WAITING
  to FAILED_HOLD. Terminal history is never relabelled, whatever the scan observes, and the store invariant holds after.
\<close>
theorem drift_only_holds:
  assumes "store_ok d" "scan_and_adopt_drift h scanner wid (d, w) = (r, (d', w'))"
  shows "store_ok d' \<and> (item_state d' = item_state d \<or>
    item_state d' = (item_state d)(wid \<mapsto> ''FAILED_HOLD'') \<and> item_state d wid \<in> {Some ''RUNNING'', Some ''WAITING''})"
proof -
  from scan_drift_run[OF assms(2)] show ?thesis
  proof (elim disjE exE conjE)
    fix wi unexpected assume wi: "get_work_item d wid = Some wi" and run: "adopt_drift wi unexpected d = Inr ((), d')"
    from get_work_item_SomeD[OF wi] have "w_id wi = wid" by simp
    with adopt_drift_states[OF assms(1) _ run] wi show ?thesis by (auto simp: item_state_def)
  qed (use assms(1) in simp)
qed

text \<open>A worktree at the WorkItem's own place that has no row: b is held.\<close>

theorem drift_only_holds_witness:
  "\<exists>r d' w'. scan_and_adopt_drift example_host (\<lambda>repo. act_return \<lparr>oa_branches = [],
       oa_worktrees = [\<lparr>ow_path = ''/data/wt/acme-tool/b'', ow_branch = ''other''\<rparr>], oa_prs = []\<rparr>) ''b'' (example_working_db, []) = (r, (d', w')) \<and>
     store_ok d' \<and> item_state example_working_db ''b'' = Some ''RUNNING'' \<and> item_state d' = (item_state example_working_db)(''b'' \<mapsto> ''FAILED_HOLD'')"
proof -
  let ?run = "scan_and_adopt_drift example_host (\<lambda>repo. act_return \<lparr>oa_branches = [],
       oa_worktrees = [\<lparr>ow_path = ''/data/wt/acme-tool/b'', ow_branch = ''other''\<rparr>], oa_prs = []\<rparr>) ''b'' (example_working_db, [])"
  have held: "item_state (fst (snd ?run)) ''b'' = Some ''FAILED_HOLD''" and running: "item_state example_working_db ''b'' = Some ''RUNNING''"
    by code_simp+
  obtain r d' w' where run: "?run = (r, (d', w'))" by (metis surj_pair)
  from drift_only_holds[OF example_working_db_ok run] held running run
  have "store_ok d'" "item_state d' = (item_state example_working_db)(''b'' \<mapsto> ''FAILED_HOLD'')" by auto
  with run running show ?thesis by blast
qed

end
