(* ===== verification/Terminal_Cleanup.thy ===== *)
theory Terminal_Cleanup
  imports Worktrees Audited
begin

text \<open>
  The retry of clean-up for terminal WorkItems (\<^verbatim>\<open>src/controller/terminal-cleanup.ts\<close>). Removing the worktree is a
  parameter; log lines are left out.
\<close>

definition TERMINAL_WORK_ITEM_STATES :: "string list" where
  "TERMINAL_WORK_ITEM_STATES = [''COMPLETED'', ''REJECTED'', ''FAILED'']"

datatype leftover_kind = Leftover_Worktree | Leftover_Pull_Request

record terminal_leftover =
  tl_kind :: leftover_kind
  tl_work_item_id :: string
  tl_ref :: string
  tl_id :: string

record terminal_cleanup_result =
  tc_scanned :: nat
  tc_cleaned_worktrees :: "string list"
  tc_removed_branches :: "string list"
  tc_human_inspect :: "terminal_leftover list"
  tc_errors :: "(string \<times> string) list"

type_synonym 'w remove_worktree = "worktree_identity \<Rightarrow> string \<Rightarrow> ('w, err, cleanup_result) act"

definition in_terminal_state :: "db \<Rightarrow> string \<Rightarrow> bool" where
  "in_terminal_state d wid =
     (case get_work_item d wid of None \<Rightarrow> False | Some wi \<Rightarrow> List.member TERMINAL_WORK_ITEM_STATES (w_state wi))"

definition leftover_worktrees :: "db \<Rightarrow> worktree_row list" where
  "leftover_worktrees d =
     order_by (\<lambda>t. (wt_created_at t, wt_id t))
       (filter (\<lambda>t. in_terminal_state d (wt_work_item_id t) \<and> List.member [''ACTIVE'', ''CLEANING''] (wt_state t)) (worktrees d))"

definition leftover_pull_requests :: "db \<Rightarrow> pull_request_row list" where
  "leftover_pull_requests d = filter (\<lambda>p. in_terminal_state d (pr_work_item_id p)) (list_active_pull_requests d)"

text \<open>ACTIVE to CLEANING, audited, before anything outside is touched.\<close>

definition start_cleaning :: "worktree_row \<Rightarrow> unit db_tx" where
  "start_cleaning t =
     tx_bind (record_transition Worktree (wt_id t) (Some ''ACTIVE'') ''CLEANING'' ''cleanup_start''
         (Some (JObj [(''reason'', JStr ''terminal_leftover''), (''work_item_id'', JStr (wt_work_item_id t))])) ''controller.cleanup'' None)
       (\<lambda>row. update_worktrees (\<lambda>r. wt_id r = wt_id t \<and> wt_state r = ''ACTIVE'') (\<lambda>r. r\<lparr>wt_state := ''CLEANING''\<rparr>))"

definition finish_cleaning :: "timestamp \<Rightarrow> worktree_row \<Rightarrow> cleanup_result \<Rightarrow> unit db_tx" where
  "finish_cleaning at t cleanup =
     tx_bind (record_transition Worktree (wt_id t) (Some ''CLEANING'') ''CLEANED'' ''cleanup_done''
         (Some (JObj [(''worktree_removed'', JBool (cr_worktree_removed cleanup)), (''branch_deleted'', JBool (cr_branch_deleted cleanup))]))
         ''controller.cleanup'' None)
       (\<lambda>row. update_worktrees (\<lambda>r. wt_id r = wt_id t) (\<lambda>r. r\<lparr>wt_state := ''CLEANED'', wt_cleaned_at := Some at\<rparr>))"

definition inspect_worktree :: "worktree_row \<Rightarrow> string \<Rightarrow> terminal_cleanup_result \<Rightarrow> terminal_cleanup_result" where
  "inspect_worktree t e res =
     res\<lparr>tc_errors := tc_errors res @ [(wt_id t, e)],
       tc_human_inspect := tc_human_inspect res @ [\<lparr>tl_kind = Leftover_Worktree, tl_work_item_id = wt_work_item_id t, tl_ref = wt_branch t,
         tl_id = wt_id t\<rparr>]\<rparr>"

definition clean_leftover ::
  "'w remove_worktree \<Rightarrow> timestamp \<Rightarrow> worktree_row \<Rightarrow> terminal_cleanup_result \<Rightarrow> ('w, terminal_cleanup_result) world_act" where
  "clean_leftover remove at t res =
     act_bind (act_get (\<lambda>s. get_work_item (fst s) (wt_work_item_id t))) (\<lambda>found.
     case found of
       None \<Rightarrow> act_return res
     | Some wi \<Rightarrow>
         act_bind (act_get (\<lambda>s. get_repository_by_id (fst s) (w_repo_id wi))) (\<lambda>repo_found.
         case repo_found of
           None \<Rightarrow> act_return (inspect_worktree t (''unknown repository '' @ quoted (w_repo_id wi)) res)
         | Some repo \<Rightarrow>
             act_then (act_when (wt_state t = ''ACTIVE'') (write_tx (start_cleaning t)))
             (act_try
               (act_bind (on_snd (remove \<lparr>wk_work_item_id = w_id wi, wk_main_dir = r_local_dir repo, wk_worktree_dir = wt_path t,
                   wk_branch = wt_branch t, wk_head_sha = None, wk_repo_slug = r_owner repo @ ''-'' @ r_name repo\<rparr>
                   (if w_state wi = ''FAILED'' then ''explicit-failed-hold'' else ''merged''))) (\<lambda>cleanup.
                act_then (write_tx (finish_cleaning at t cleanup))
                 (act_return (res\<lparr>tc_cleaned_worktrees := tc_cleaned_worktrees res @ [wt_id t],
                    tc_removed_branches := tc_removed_branches res @ (if cr_branch_deleted cleanup then [wt_branch t] else [])\<rparr>))))
               (\<lambda>e. act_return (inspect_worktree t (message e) res)))))"

definition cleanup_terminal_leftovers :: "'w remove_worktree \<Rightarrow> instant \<Rightarrow> ('w, terminal_cleanup_result) world_act" where
  "cleanup_terminal_leftovers remove now =
     act_bind (act_get (\<lambda>s. (leftover_worktrees (fst s), leftover_pull_requests (fst s)))) (\<lambda>left.
     act_bind (act_fold (clean_leftover remove (to_iso now)) (fst left)
         \<lparr>tc_scanned = length (fst left) + length (snd left), tc_cleaned_worktrees = [], tc_removed_branches = [], tc_human_inspect = [],
          tc_errors = []\<rparr>) (\<lambda>res.
       act_return (res\<lparr>tc_human_inspect := tc_human_inspect res @ map (\<lambda>p. \<lparr>tl_kind = Leftover_Pull_Request,
         tl_work_item_id = pr_work_item_id p, tl_ref = pr_head_ref p, tl_id = pr_id p\<rparr>) (snd left)\<rparr>)))"

section \<open>What a pass may change\<close>

text \<open>Only worktree rows among \<open>ids\<close>, which become CLEANING or CLEANED, and the ledger, which grows.\<close>

definition worktree_cleaned :: "string set \<Rightarrow> worktree_row \<Rightarrow> worktree_row \<Rightarrow> bool" where
  "worktree_cleaned ids r r' \<longleftrightarrow> r' = r \<or> wt_id r \<in> ids \<and> wt_state r' \<in> {''CLEANING'', ''CLEANED''} \<and>
     r' = r\<lparr>wt_state := wt_state r', wt_cleaned_at := wt_cleaned_at r'\<rparr>"

definition worktrees_cleaned :: "string set \<Rightarrow> db \<Rightarrow> db \<Rightarrow> bool" where
  "worktrees_cleaned ids d d' \<longleftrightarrow>
     d' = d\<lparr>worktrees := worktrees d', state_transitions := state_transitions d'\<rparr> \<and>
     prefix (state_transitions d) (state_transitions d') \<and> list_all2 (worktree_cleaned ids) (worktrees d) (worktrees d')"

lemma worktree_cleaned_trans: "worktree_cleaned ids r s \<Longrightarrow> worktree_cleaned ids s t \<Longrightarrow> worktree_cleaned ids r t"
  unfolding worktree_cleaned_def by (cases r; cases s; cases t) auto

lemma worktrees_cleaned_preorder:
  "worktrees_cleaned ids d d"
  "worktrees_cleaned ids d e \<Longrightarrow> worktrees_cleaned ids e f \<Longrightarrow> worktrees_cleaned ids d f"
proof -
  show "worktrees_cleaned ids d d" by (simp add: worktrees_cleaned_def worktree_cleaned_def list_all2_refl)
  assume de: "worktrees_cleaned ids d e" and ef: "worktrees_cleaned ids e f"
  have "list_all2 (worktree_cleaned ids) (worktrees d) (worktrees f)"
    using list_all2_trans[of "worktree_cleaned ids" "worktree_cleaned ids" "worktree_cleaned ids"] worktree_cleaned_trans de ef
    unfolding worktrees_cleaned_def by blast
  moreover have "f = d\<lparr>worktrees := worktrees f, state_transitions := state_transitions f\<rparr>"
    using de ef unfolding worktrees_cleaned_def by (cases d; cases e; cases f) simp
  ultimately show "worktrees_cleaned ids d f"
    using de ef unfolding worktrees_cleaned_def by (meson prefix_order.order_trans)
qed

interpretation cleaning: tx_preorder "worktrees_cleaned ids" for ids
  by unfold_locales (blast intro: worktrees_cleaned_preorder)+

interpretation cleaning_fst: tx_preorder "\<lambda>s s'. worktrees_cleaned ids (fst s) (fst s')" for ids
  by unfold_locales (blast intro: worktrees_cleaned_preorder)+

lemma record_cleaned: "tx_rel (worktrees_cleaned ids) (record_transition ety eid (Some f) t ev reason a at)"
  by (rule tx_relI, drule record_transition_success)
    (auto simp: worktrees_cleaned_def worktree_cleaned_def list_all2_refl)

lemma update_cleaned:
  assumes "\<And>r. p r \<Longrightarrow> wt_id r \<in> ids" "\<And>r. worktree_cleaned UNIV r (f r) \<and> wt_state (f r) \<in> {''CLEANING'', ''CLEANED''}"
  shows "tx_rel (worktrees_cleaned ids) (update_worktrees p f)"
proof (rule tx_relI)
  fix d x d' assume "update_worktrees p f d = Inr (x, d')"
  then have d': "d' = d\<lparr>worktrees := update_where p f (worktrees d)\<rparr>"
    by (auto simp: update_worktrees_def tx_simps split: if_splits)
  have "worktree_cleaned ids r (if p r then f r else r)" for r
    using assms(1)[of r] assms(2)[of r] unfolding worktree_cleaned_def by (cases "p r") auto
  then show "worktrees_cleaned ids d d'"
    by (simp add: d' worktrees_cleaned_def update_where_def list.rel_map list_all2_refl)
qed

lemma cleaning_steps:
  assumes "wt_id t \<in> ids"
  shows "tx_rel (worktrees_cleaned ids) (start_cleaning t)" "tx_rel (worktrees_cleaned ids) (finish_cleaning at t c)"
  unfolding start_cleaning_def finish_cleaning_def
  by (intro cleaning.rel_intros record_cleaned update_cleaned; use assms in \<open>auto simp: worktree_cleaned_def\<close>)+

lemma cleaning_steps_safe [preserves_intros]: "store_safe (start_cleaning t)" "store_safe (finish_cleaning at t c)"
  unfolding start_cleaning_def finish_cleaning_def
  by (intro keeping.rel_intros preserves_intros; simp)+

lemma cleaning_write:
  "tx_rel (worktrees_cleaned ids) m \<Longrightarrow> act_rel (\<lambda>s s'. worktrees_cleaned ids (fst s) (fst s')) (write_tx m)"
  by (rule act_relI) (auto simp: write_tx_def on_fst_def run_write_def tx_rel_def worktrees_cleaned_preorder(1) split: sum.splits)

lemma cleaning_outside: "act_rel (\<lambda>s s'. worktrees_cleaned ids (fst s) (fst s')) (on_snd m)"
  by (rule act_relI) (auto simp: on_snd_def worktrees_cleaned_preorder(1) split: prod.splits)

lemma clean_leftover_changes:
  assumes "wt_id t \<in> ids"
  shows "act_rel (\<lambda>s s'. worktrees_cleaned ids (fst s) (fst s')) (clean_leftover remove at t res)"
  unfolding clean_leftover_def by (intro cleaning_fst.act_rel_intros cleaning_write cleaning_outside cleaning_steps assms)

lemma clean_leftover_safe [act_intros]: "world_safe (clean_leftover remove at t res)"
  unfolding clean_leftover_def by (intro act_intros preserves_intros)

lemma leftover_worktrees_iff:
  "t \<in> set (leftover_worktrees d) \<longleftrightarrow> t \<in> set (worktrees d) \<and> in_terminal_state d (wt_work_item_id t) \<and> wt_state t \<in> {''ACTIVE'', ''CLEANING''}"
  by (auto simp: leftover_worktrees_def table_simps)

text \<open>
  C21: A clean-up pass over terminal WorkItems keeps the store invariant and changes nothing but the rows of
  ACTIVE or CLEANING worktrees of COMPLETED, REJECTED or FAILED WorkItems, which become CLEANING or CLEANED, and the
  ledger, which only grows. No WorkItem, issue or pull request row changes, whatever the removal answers.
\<close>
theorem terminal_cleanup_touches_only_leftovers:
  assumes "store_ok d" "cleanup_terminal_leftovers remove now (d, w) = (r, (d', w'))"
  shows "store_ok d' \<and> worktrees_cleaned (wt_id ` set (leftover_worktrees d)) d d'"
proof
  have "world_safe (cleanup_terminal_leftovers remove now)"
    unfolding cleanup_terminal_leftovers_def by (intro act_intros)
  from world_safeD[OF this assms] show "store_ok d'" .
  let ?ids = "wt_id ` set (leftover_worktrees d)"
  let ?pass = "\<lambda>res0. act_bind (act_fold (clean_leftover remove (to_iso now)) (leftover_worktrees d) res0)
    (\<lambda>res. act_return (res\<lparr>tc_human_inspect := tc_human_inspect res @ map (\<lambda>p. \<lparr>tl_kind = Leftover_Pull_Request,
         tl_work_item_id = pr_work_item_id p, tl_ref = pr_head_ref p, tl_id = pr_id p\<rparr>) (leftover_pull_requests d)\<rparr>))"
  have changes: "act_rel (\<lambda>s s'. worktrees_cleaned ?ids (fst s) (fst s')) (?pass res0)" for res0 :: terminal_cleanup_result
    by (intro cleaning_fst.act_rel_intros clean_leftover_changes) simp
  have "?pass \<lparr>tc_scanned = length (leftover_worktrees d) + length (leftover_pull_requests d), tc_cleaned_worktrees = [],
      tc_removed_branches = [], tc_human_inspect = [], tc_errors = []\<rparr> (d, w) = (r, (d', w'))"
    using assms(2) by (simp only: cleanup_terminal_leftovers_def act_bind_eqs fst_conv snd_conv)
  from act_relD[OF changes this] show "worktrees_cleaned ?ids d d'" by simp
qed

text \<open>b is rejected and leaves a worktree; c still runs nothing.\<close>

definition example_leftover_db :: db where
  "example_leftover_db = snd (run_write (tx_then
     (insert_worktree \<lparr>wti_id = ''wt-b'', wti_work_item_id = ''b'', wti_path = ''/data/wt/acme-tool/b'', wti_branch = ''tissue/wi_b'',
        wti_state = ''ACTIVE''\<rparr>)
     (example_move ''b'' ''REJECTED'' ''rejected'')) example_working_db)"

definition example_removal :: "unit remove_worktree" where
  "example_removal i mode = act_return \<lparr>cr_work_item_id = wk_work_item_id i, cr_main_dir = wk_main_dir i,
     cr_worktree_dir = wk_worktree_dir i, cr_branch = wk_branch i, cr_mode = mode, cr_worktree_removed = True, cr_worktree_forced = False, cr_branch_deleted = True\<rparr>"

theorem terminal_cleanup_touches_only_leftovers_witness:
  "\<exists>r d' w'. cleanup_terminal_leftovers example_removal 0 (example_leftover_db, ()) =
       (r, (d', w')) \<and> store_ok d' \<and> worktrees_cleaned {''wt-b''} example_leftover_db d' \<and>
     map wt_state (worktrees example_leftover_db) = [''ACTIVE''] \<and> map wt_state (worktrees d') = [''CLEANED'']"
proof -
  let ?run = "cleanup_terminal_leftovers example_removal 0 (example_leftover_db, ())"
  have ok: "store_ok example_leftover_db"
    unfolding example_leftover_db_def
    by (rule store_safe_run[OF _ example_working_db_ok]) (intro preserves_intros keeping.rel_intros)
  have eval: "map wt_state (worktrees (fst (snd ?run))) = [''CLEANED'']" "map wt_state (worktrees example_leftover_db) = [''ACTIVE'']"
    "map wt_id (leftover_worktrees example_leftover_db) = [''wt-b'']" by code_simp+
  obtain r d' w' where run: "?run = (r, (d', w'))" by (metis surj_pair)
  have "wt_id ` set (leftover_worktrees example_leftover_db) = {''wt-b''}" using eval(3) by (metis list.set_map list.simps(15) set_empty)
  with terminal_cleanup_touches_only_leftovers[OF ok run] eval run show ?thesis by auto
qed

end
