(* ===== verification/Relay.thy ===== *)
theory Relay
  imports Merge_Safety Git Trust
begin

text \<open>
  Ordered delivery of the inbox to the resolution session of one WorkItem (\<^verbatim>\<open>src/controller/inbox-relay.ts\<close>): the
  projection of the events with its trust gate, the idle gate, the claim, the observation window and the adoption of
  the agent's result. The OpenCode driver, git and the configuration file are parameters; the pause between idle samples
  and log lines are left out. The projections the code makes of a bundle before it claims it and on a
  resume are discarded there, and left out here.
\<close>

section \<open>The bundle\<close>

definition objective_fields :: "string list" where
  "objective_fields = [''target'', ''number'', ''comment_id'', ''pr_number'', ''review_id'', ''state'', ''mergeable'',
     ''merge_state_status'', ''snapshot_hash'']"

fun scalar :: "json \<Rightarrow> bool" where
  "scalar (JStr s) = True"
| "scalar (JNum n) = True"
| "scalar (JFrac s) = True"
| "scalar _ = False"

definition payload_fields :: "json_text \<Rightarrow> (string \<times> json) list" where
  "payload_fields t = (case json_parse t of Some (JObj fs) \<Rightarrow> fs | _ \<Rightarrow> [])"

definition comment_kind :: "string \<Rightarrow> bool" where
  "comment_kind k \<longleftrightarrow> k = ''issue_comment'' \<or> k = ''pr_comment''"

definition prose_field :: "config_source \<Rightarrow> string \<Rightarrow> inbox_row \<Rightarrow> (string \<times> json) list" where
  "prose_field src path row =
     (case map_of (payload_fields (ib_payload_json row)) ''body_preview'' of
        Some (JStr body) \<Rightarrow>
          if comment_kind (ib_kind row) \<and> decide_current_github_prose src (ib_actor_raw_login row) path = TRUSTED
          then [(''body_preview'', JStr body)] else []
      | _ \<Rightarrow> [])"

definition project_inbox_row :: "config_source \<Rightarrow> string \<Rightarrow> inbox_row \<Rightarrow> (string \<times> json) list" where
  "project_inbox_row src path row =
     [(''id'', JNum (int (ib_id row))), (''kind'', JStr (ib_kind row)), (''issue_id'', JStr (ib_issue_id row))] @
     List.map_filter (\<lambda>k. case map_of (payload_fields (ib_payload_json row)) k of
         None \<Rightarrow> None | Some v \<Rightarrow> if scalar v then Some (k, v) else None) objective_fields @
     (case ib_actor_raw_login row of None \<Rightarrow> [] | Some login \<Rightarrow> [(''author'', JStr login)]) @
     prose_field src path row"

text \<open>\<^verbatim>\<open>JSON.stringify\<close> of an object of scalars, in insertion order.\<close>

definition stringify_flat :: "(string \<times> json) list \<Rightarrow> string" where
  "stringify_flat fs = ''{'' @ join (map (\<lambda>f. json_string (fst f) @ '':'' @ stable_stringify (snd f)) fs) @ ''}''"

definition bundle_lines :: "config_source \<Rightarrow> string \<Rightarrow> inbox_row list \<Rightarrow> string \<Rightarrow> string list" where
  "bundle_lines src path rows nonce =
     [''tissue delivery nonce: '' @ nonce,
      ''Apply the following durable Tissue inbox events in order. Do not mutate Tissue lifecycle state.''] @
     map (\<lambda>row. ''- event '' @ stringify_flat (project_inbox_row src path row)) rows"

fun join_lines :: "string list \<Rightarrow> string" where
  "join_lines [] = []"
| "join_lines [l] = l"
| "join_lines (l # m # ls) = l @ newline @ join_lines (m # ls)"

definition build_bundle_text :: "config_source \<Rightarrow> string \<Rightarrow> inbox_row list \<Rightarrow> string \<Rightarrow> string" where
  "build_bundle_text src path rows nonce = join_lines (bundle_lines src path rows nonce)"

section \<open>The driver\<close>

definition W_TURN_MS :: nat where "W_TURN_MS = 120000"
definition W_WEDGE_MS :: nat where "W_WEDGE_MS = 240000"
definition K_IDLE_SAMPLES :: int where "K_IDLE_SAMPLES = 2"

datatype session_status = Session_Idle | Session_Busy | Session_Retry | Session_Missing

datatype completion_match = Turn_Matched | Not_Matched string

record provider_model =
  pm_provider :: string
  pm_model :: string

record prompt_envelope =
  pe_text :: string
  pe_nonce :: "string option"
  pe_agent :: "string option"
  pe_model :: "provider_model option"

record 'w relay_driver =
  rd_status :: "string \<Rightarrow> ('w, err, session_status) act"
  rd_prompt :: "string \<Rightarrow> prompt_envelope \<Rightarrow> ('w, err, unit) act"
  rd_observe :: "string \<Rightarrow> string \<Rightarrow> ('w, err, completion_match) act"
  rd_read_result :: "(string \<Rightarrow> string \<Rightarrow> string \<Rightarrow> ('w, err, resolution_envelope option) act) option"

datatype delivery_status = Delivered | Observing | Busy_Hold | No_Pending | No_Session | No_Work_Item | Recycled | Failed_Hold
  | Session_Gone

record delivery_result =
  de_status :: delivery_status
  de_work_item_id :: string
  de_inbox_ids :: "nat list"
  de_nonce :: "string option"
  de_session_id :: "string option"
  de_reason :: "string option"
  de_recycled :: "nat option"

text \<open>The options, with what the relay takes from outside: git, the configuration as it is now, a fresh nonce and UUID.\<close>

record 'w relay_options =
  ro_git :: "'w git_env"
  ro_config :: "'w \<Rightarrow> config_source"
  ro_config_path :: string
  ro_nonce :: string
  ro_uuid :: string
  ro_w_turn :: "nat option"
  ro_w_wedge :: "nat option"
  ro_k_idle :: "int option"
  ro_agent :: "string option"
  ro_model :: "provider_model option"

section \<open>Steps\<close>

definition delivery_outcome :: "delivery_status \<Rightarrow> string \<Rightarrow> nat list \<Rightarrow> string option \<Rightarrow> string option \<Rightarrow> string option \<Rightarrow> delivery_result" where
  "delivery_outcome st wid ids nonce sid reason =
     \<lparr>de_status = st, de_work_item_id = wid, de_inbox_ids = ids, de_nonce = nonce, de_session_id = sid, de_reason = reason,
      de_recycled = None\<rparr>"

definition transition_inbox :: "string \<Rightarrow> string \<Rightarrow> string \<Rightarrow> string option \<Rightarrow> timestamp \<Rightarrow> nat \<Rightarrow> unit db_tx" where
  "transition_inbox f t ev nonce at n =
     tx_bind (record_transition Inbox (show_nat n) (Some f) t ev
         (if present nonce then Some (JObj [(''delivery_nonce'', JStr (the nonce))]) else None) ''controller.relay'' (Some at))
       (\<lambda>row. tx_return ())"

primrec idle_samples :: "nat \<Rightarrow> ('w, err, session_status) act \<Rightarrow> ('w, err, session_status) act" where
  "idle_samples 0 status = act_return Session_Idle"
| "idle_samples (Suc k) status =
     act_bind status (\<lambda>st.
       if st = Session_Missing then act_return Session_Missing
       else if st \<noteq> Session_Idle then act_return Session_Busy
       else idle_samples k status)"

definition observe_idle_across_samples :: "'w relay_driver \<Rightarrow> 'w relay_options \<Rightarrow> string \<Rightarrow> ('w, err, session_status) act" where
  "observe_idle_across_samples drv opts sid =
     idle_samples (nat (max 1 (coalesce (ro_k_idle opts) K_IDLE_SAMPLES))) (rd_status drv sid)"

definition mark_delivered_body :: "nat list \<Rightarrow> string \<Rightarrow> instant \<Rightarrow> unit db_tx" where
  "mark_delivered_body ids nonce now =
     tx_bind (mark_inbox_delivered ids (to_iso now)) (\<lambda>n.
       tx_foreach (transition_inbox ''DELIVERING'' ''DELIVERED'' ''delivered'' (Some nonce) (to_iso now)) ids)"

definition adopt_delivered :: "string \<Rightarrow> nat list \<Rightarrow> string \<Rightarrow> string \<Rightarrow> instant \<Rightarrow> ('w, delivery_result) world_act" where
  "adopt_delivered wid ids nonce sid now =
     act_then (write_tx (mark_delivered_body ids nonce now))
       (act_return (delivery_outcome Delivered wid ids (Some nonce) (Some sid) None))"

definition recycle_body :: "nat list \<Rightarrow> instant \<Rightarrow> nat db_tx" where
  "recycle_body ids now =
     tx_bind (recycle_inbox_to_pending ids) (\<lambda>n.
       tx_then (tx_foreach (transition_inbox ''DELIVERING'' ''PENDING'' ''recycle_no_reply'' None (to_iso now)) ids) (tx_return n))"

definition recycle :: "string \<Rightarrow> nat list \<Rightarrow> string \<Rightarrow> string \<Rightarrow> instant \<Rightarrow> ('w, delivery_result) world_act" where
  "recycle wid ids sid reason now =
     act_bind (write_tx (recycle_body ids now)) (\<lambda>n.
       act_return ((delivery_outcome Recycled wid ids None (Some sid) (Some reason))\<lparr>de_recycled := Some n\<rparr>))"

definition wedge_body :: "string \<Rightarrow> string \<Rightarrow> string \<Rightarrow> unit db_tx" where
  "wedge_body wid from reason =
     (if is_legal_transition Work_Item from ''FAILED_HOLD'' ''wedge''
      then tx_bind (record_transition Work_Item wid (Some from) ''FAILED_HOLD'' ''wedge'' (Some (JObj [(''reason'', JStr reason)]))
          ''controller.relay'' None)
        (\<lambda>row. set_work_item_state wid ''FAILED_HOLD'' \<lparr>wp_lease_token = Some None, wp_lease_until = Some None\<rparr>)
      else tx_return ())"

definition hold_work_item :: "string \<Rightarrow> string \<Rightarrow> nat list \<Rightarrow> string \<Rightarrow> ('w, delivery_result) world_act" where
  "hold_work_item wid sid ids reason =
     act_bind (act_get (\<lambda>s. coalesce (item_state (fst s) wid) ''RUNNING'')) (\<lambda>from.
     act_then (write_tx (wedge_body wid from reason))
       (act_return (delivery_outcome (if reason = ''session_missing'' then Session_Gone else Failed_Hold) wid ids None (Some sid) (Some reason))))"

section \<open>The agent's result\<close>

text \<open>\<^verbatim>\<open>a || b\<close> on strings.\<close>

definition str_or :: "string \<Rightarrow> string \<Rightarrow> string" where
  "str_or a b = (if a = [] then b else a)"

definition push_payload :: "repository_row \<Rightarrow> work_item_row \<Rightarrow> worktree_row \<Rightarrow> string \<Rightarrow> json" where
  "push_payload repo wi t sha =
     JObj [(''owner'', JStr (str_or (r_target_owner repo) (r_owner repo))), (''name'', JStr (str_or (r_target_name repo) (r_name repo))),
       (''push_owner'', JStr (str_or (r_push_owner repo) (str_or (r_target_owner repo) (r_owner repo)))),
       (''push_name'', JStr (str_or (r_push_name repo) (str_or (r_target_name repo) (r_name repo)))),
       (''push_remote'', JStr (str_or (coalesce (r_push_remote repo) []) ''origin'')), (''work_item_id'', JStr (w_id wi)),
       (''dir'', JStr (wt_path t)), (''head_ref'', JStr (wt_branch t)), (''head_sha'', JStr sha),
       (''base_branch'', JStr (w_base_branch wi)), (''title'', JStr (coalesce (w_title wi) (''Tissue '' @ w_id wi))),
       (''body'', JStr (''Automated repair for WorkItem '' @ w_id wi)), (''method'', JStr ''squash''),
       (''auto_merge'', JBool (r_auto_merge repo)), (''merge_policy_known'', JBool True)]"

definition queue_push_and_pr :: "repository_row \<Rightarrow> work_item_row \<Rightarrow> worktree_row \<Rightarrow> string \<Rightarrow> unit db_tx" where
  "queue_push_and_pr repo wi t sha =
     (let payload = Text (push_payload repo wi t sha) in
      tx_bind (insert_side_effect_if_absent \<lparr>ei_id = ''fx-push-'' @ w_id wi, ei_kind = ''push'',
          ei_effect_key = ''push:'' @ w_id wi @ '':'' @ sha, ei_state = ''PENDING'', ei_payload_json = payload\<rparr>) (\<lambda>push.
      tx_bind (insert_side_effect_if_absent \<lparr>ei_id = ''fx-pr-'' @ w_id wi, ei_kind = ''pr'',
          ei_effect_key = ''pr:'' @ w_id wi @ '':'' @ wt_branch t, ei_state = ''PENDING'', ei_payload_json = payload\<rparr>) (\<lambda>pr.
        tx_return ())))"

definition apply_result_body :: "string \<Rightarrow> resolution_envelope \<Rightarrow> repository_row \<Rightarrow> work_item_row \<Rightarrow> worktree_row \<Rightarrow> string \<Rightarrow> unit db_tx" where
  "apply_result_body uuid e repo wi t sha =
     (if re_outcome e \<noteq> ''completed'' then tx_bind (apply_resolution_envelope uuid e) (\<lambda>res. tx_return ())
      else queue_push_and_pr repo wi t sha)"

definition apply_resolution_result :: "'w relay_driver \<Rightarrow> 'w relay_options \<Rightarrow> string \<Rightarrow> string \<Rightarrow> string \<Rightarrow> ('w, unit) world_act" where
  "apply_resolution_result drv opts wid sid nonce =
     (case rd_read_result drv of
        None \<Rightarrow> act_return ()
      | Some read \<Rightarrow>
          act_bind (on_snd (read sid wid nonce)) (\<lambda>answer.
          case answer of
            None \<Rightarrow> act_return ()
          | Some e \<Rightarrow>
              act_bind (act_get (\<lambda>s. get_work_item (fst s) wid)) (\<lambda>found.
              case found of
                None \<Rightarrow> act_fail (JsError (''resolution result references missing WorkItem '' @ quoted wid))
              | Some wi \<Rightarrow>
                  act_bind (act_get (\<lambda>s. (get_repository_by_id (fst s) (w_repo_id wi),
                      List.find active_worktree (list_worktrees_by_work_item (fst s) wid)))) (\<lambda>rows.
                  case rows of
                    (Some repo, Some t) \<Rightarrow>
                      act_bind (on_snd (head_sha (ro_git opts) (wt_path t))) (\<lambda>sha.
                        write_tx (apply_result_body (ro_uuid opts) e repo wi t sha))
                  | _ \<Rightarrow> act_fail (JsError (''resolution result has no active worktree for '' @ quoted wid))))))"

section \<open>The relay\<close>

definition claim_body :: "nat list \<Rightarrow> string \<Rightarrow> instant \<Rightarrow> unit db_tx" where
  "claim_body ids nonce now =
     tx_bind (mark_inbox_delivering ids nonce) (\<lambda>n.
       tx_foreach (transition_inbox ''PENDING'' ''DELIVERING'' ''delivery_started'' (Some nonce) (to_iso now)) ids)"

text \<open>\<^verbatim>\<open>Math.max(0, now - Date.parse(startedAt))\<close>; \<open>None\<close> is NaN, which no comparison accepts.\<close>

definition elapsed_ms :: "db \<Rightarrow> inbox_row \<Rightarrow> instant \<Rightarrow> nat option" where
  "elapsed_ms d row now =
     map_option (\<lambda>t. now - t)
       (date_parse (coalesce (latest_transition_at d Inbox (show_nat (ib_id row)) (Some ''delivery_started'')) (ib_created_at row)))"

definition settle_match ::
  "'w relay_driver \<Rightarrow> 'w relay_options \<Rightarrow> instant \<Rightarrow> string \<Rightarrow> string \<Rightarrow> nat list \<Rightarrow> string \<Rightarrow> ('w, delivery_result) world_act" where
  "settle_match drv opts now wid sid ids nonce =
     act_then (apply_resolution_result drv opts wid sid nonce) (adopt_delivered wid ids nonce sid now)"

definition resume_delivery ::
  "'w relay_driver \<Rightarrow> 'w relay_options \<Rightarrow> instant \<Rightarrow> string \<Rightarrow> string \<Rightarrow> inbox_row list \<Rightarrow> nat option \<Rightarrow> ('w, delivery_result) world_act" where
  "resume_delivery drv opts now wid sid rows elapsed =
     (let nonce = coalesce (ib_delivery_nonce (hd rows)) []; ids = map ib_id rows in
      act_bind (on_snd (rd_observe drv sid nonce)) (\<lambda>observed.
      case observed of
        Turn_Matched \<Rightarrow> settle_match drv opts now wid sid ids nonce
      | Not_Matched why \<Rightarrow>
          if why = ''session_missing'' then hold_work_item wid sid ids ''session_missing''
          else if (case elapsed of None \<Rightarrow> False | Some ms \<Rightarrow> ms < coalesce (ro_w_turn opts) W_TURN_MS)
          then act_return (delivery_outcome Observing wid ids (Some nonce) (Some sid) (Some why))
          else if (case elapsed of None \<Rightarrow> False | Some ms \<Rightarrow> coalesce (ro_w_wedge opts) W_WEDGE_MS \<le> ms)
          then hold_work_item wid sid ids ''wedge''
          else recycle wid ids sid why now))"

definition deliver_bundle ::
  "'w relay_driver \<Rightarrow> 'w relay_options \<Rightarrow> instant \<Rightarrow> string \<Rightarrow> string \<Rightarrow> inbox_row list \<Rightarrow> ('w, delivery_result) world_act" where
  "deliver_bundle drv opts now wid sid pending =
     (let nonce = ro_nonce opts; ids = map ib_id pending in
      act_then (write_tx (claim_body ids nonce now))
      (act_bind (act_try
          (act_then (on_snd (act_bind (act_get (\<lambda>w. build_bundle_text (ro_config opts w) (ro_config_path opts) pending nonce)) (\<lambda>text.
             rd_prompt drv sid \<lparr>pe_text = text, pe_nonce = Some nonce, pe_agent = Some (coalesce (ro_agent opts) TISSUE_RESOLVE_AGENT),
               pe_model = ro_model opts\<rparr>))) (act_return None))
          (\<lambda>e. act_bind (recycle wid ids sid ''prompt_failed'' now) (\<lambda>res. act_return (Some (res\<lparr>de_reason := Some (message e)\<rparr>)))))
        (\<lambda>failed.
      case failed of
        Some res \<Rightarrow> act_return res
      | None \<Rightarrow>
          act_bind (on_snd (rd_observe drv sid nonce)) (\<lambda>observed.
          case observed of
            Turn_Matched \<Rightarrow> settle_match drv opts now wid sid ids nonce
          | Not_Matched why \<Rightarrow> act_return (delivery_outcome Observing wid ids (Some nonce) (Some sid) (Some why))))))"

definition relay_oldest_inbox :: "'w relay_driver \<Rightarrow> 'w relay_options \<Rightarrow> instant \<Rightarrow> string \<Rightarrow> ('w, delivery_result) world_act" where
  "relay_oldest_inbox drv opts now wid =
     act_bind (act_get (\<lambda>s. (get_work_item (fst s) wid, get_active_resolution_session (fst s) wid))) (\<lambda>found.
     case found of
       (None, _) \<Rightarrow> act_return (delivery_outcome No_Work_Item wid [] None None None)
     | (Some wi, None) \<Rightarrow> act_return (delivery_outcome No_Session wid [] None None None)
     | (Some wi, Some session) \<Rightarrow>
         act_bind (act_get (\<lambda>s. (list_delivering_inbox_by_work_item (fst s) wid, list_pending_inbox_by_work_item (fst s) wid))) (\<lambda>rows.
         if fst rows \<noteq> []
         then act_bind (act_get (\<lambda>s. elapsed_ms (fst s) (hd (fst rows)) now)) (resume_delivery drv opts now wid (s_id session) (fst rows))
         else if snd rows = [] then act_return (delivery_outcome No_Pending wid [] None None None)
         else act_bind (on_snd (observe_idle_across_samples drv opts (s_id session))) (\<lambda>observation.
           if observation = Session_Missing then hold_work_item wid (s_id session) (map ib_id (snd rows)) ''session_missing''
           else if observation = Session_Busy
           then act_return (delivery_outcome Busy_Hold wid [] None (Some (s_id session)) None)
           else deliver_bundle drv opts now wid (s_id session) (snd rows))))"

section \<open>The relay keeps the store\<close>

lemma store_has_ids: "store_safe m \<Longrightarrow> tx_rel (frame work_item_ids) m \<Longrightarrow> tx_rel (keeps (store_has wid)) m"
  unfolding tx_rel_def keeps_def frame_def store_has_def item_state_ids by blast

lemma record_keeps_ids [frame_intros]: "tx_rel (frame work_item_ids) (record_transition ety eid f t ev r a at)"
  by (rule tx_relI, cases f) (auto simp: frame_def record_transition_None work_item_ids_def dest!: record_transition_success)

lemma update_inbox_ids_frame:
  "(\<And>d rows. g (d\<lparr>inbox := rows\<rparr>) = g d) \<Longrightarrow> tx_rel (frame g) (update_inbox_ids ids st f)"
  unfolding update_inbox_ids_def
  by (intro framing.rel_intros) (auto intro!: tx_relI simp: update_inbox_success frame_def)

lemma inbox_marks_keep_ids [frame_intros]:
  "tx_rel (frame work_item_ids) (mark_inbox_delivering ids nonce)" "tx_rel (frame work_item_ids) (mark_inbox_delivered ids at)"
  "tx_rel (frame work_item_ids) (recycle_inbox_to_pending ids)"
  unfolding mark_inbox_delivering_def mark_inbox_delivered_def recycle_inbox_to_pending_def
  by (intro update_inbox_ids_frame; simp add: work_item_ids_def)+

lemma effects_keep_ids [frame_intros]: "tx_rel (frame work_item_ids) (insert_side_effect_if_absent ei)"
  by (auto simp: tx_rel_def frame_def work_item_ids_def dest!: insert_side_effect_if_absent_success split: if_splits)

lemma relay_writes_safe [preserves_intros]:
  "store_safe (transition_inbox f t ev nonce at n)" "store_safe (mark_delivered_body ids nc now)" "store_safe (recycle_body ids now)"
  "store_safe (claim_body ids nc now)" "store_safe (queue_push_and_pr repo wi wt sha)"
  unfolding transition_inbox_def mark_delivered_body_def recycle_body_def claim_body_def queue_push_and_pr_def Let_def
  by (intro preserves_intros keeping.rel_intros; simp)+

lemma relay_writes_keep_ids [frame_intros]:
  "tx_rel (frame work_item_ids) (transition_inbox f t ev nonce at n)" "tx_rel (frame work_item_ids) (mark_delivered_body ids nc now)"
  "tx_rel (frame work_item_ids) (recycle_body ids now)" "tx_rel (frame work_item_ids) (claim_body ids nc now)"
  "tx_rel (frame work_item_ids) (queue_push_and_pr repo wi wt sha)"
  unfolding transition_inbox_def mark_delivered_body_def recycle_body_def claim_body_def queue_push_and_pr_def Let_def
  by (intro frame_intros framing.rel_intros)+

lemma resolution_keeps_ids [frame_intros]: "tx_rel (frame work_item_ids) (apply_resolution_envelope uuid e)"
proof (rule tx_relI, unfold frame_def)
  fix d res d' assume "apply_resolution_envelope uuid e d = Inr (res, d')"
  then show "work_item_ids d' = work_item_ids d"
  proof (cases rule: apply_resolution_success)
    case (noop wi)
    then show ?thesis by (auto simp: record_noop_def work_item_ids_def dest!: append_transition_success)
  next
    case (applied wi d1 d2 reason row)
    have "work_item_ids d1 = work_item_ids d"
      using applied(3) defer_on_success[of uuid "w_id wi" "re_dependency e" d "()" d1]
      by (auto simp: tx_simps work_item_ids_def split: if_splits)
    moreover have "work_item_ids d2 = work_item_ids d1"
      using item_state_set[OF applied(4)] by (auto simp: item_state_ids[symmetric] split: if_splits)
    ultimately show ?thesis using record_transition_success[OF applied(5)] by (simp add: work_item_ids_def)
  qed
qed

lemma wedge_body_keeps: "item_state d wid = Some from \<Longrightarrow> store_ok d \<Longrightarrow> wedge_body wid from reason d = Inr (u, d') \<Longrightarrow>
    store_ok d' \<and> item_state d' wid \<noteq> None"
  by (cases "is_legal_transition Work_Item from ''FAILED_HOLD'' ''wedge''")
    (auto simp: wedge_body_def tx_return_success dest: work_item_move)

lemma hold_work_item_safe [effect_intros]: "effect_safe wid (hold_work_item wid sid ids reason)"
proof (rule act_relI)
  fix s :: "db \<times> 'w"
  let ?from = "coalesce (item_state (fst s) wid) ''RUNNING''"
  have run: "hold_work_item wid sid ids reason s = act_then (write_tx (wedge_body wid ?from reason))
      (act_return (delivery_outcome (if reason = ''session_missing'' then Session_Gone else Failed_Hold) wid ids None (Some sid) (Some reason))) s"
    unfolding hold_work_item_def act_bind_eqs ..
  have "store_has wid (fst s) \<Longrightarrow> wedge_body wid ?from reason (fst s) = Inr (u, d') \<Longrightarrow> store_has wid d'" for u d'
    using wedge_body_keeps[of "fst s" wid ?from reason u d'] by (auto simp: store_has_def)
  then show "keeps_fst (store_has wid) s (snd (hold_work_item wid sid ids reason s))"
    unfolding run keeps_fst_def keeps_def
    by (cases "wedge_body wid ?from reason (fst s)")
      (auto simp: write_tx_def on_fst_def run_write_def act_then_def act_bind_def act_return_def)
qed

lemma relay_steps_safe [effect_intros]:
  "effect_safe wid (adopt_delivered i ids nonce sid now)" "effect_safe wid (recycle i ids sid reason now)"
  "effect_safe wid (apply_resolution_result drv opts i sid nonce)"
proof -
  have body: "effect_safe wid (write_tx (apply_result_body uuid e repo wi t sha))" for uuid e repo wi t sha
    unfolding apply_result_body_def
    by (intro effect_safe_write store_has_ids preserves_intros frame_intros keeping.rel_intros framing.rel_intros apply_resolution_store_safe)
  show "effect_safe wid (adopt_delivered i ids nonce sid now)" "effect_safe wid (recycle i ids sid reason now)"
    unfolding adopt_delivered_def recycle_def
    by (intro effect_intros effect_safe_write store_has_ids preserves_intros frame_intros)+
  have case_pair: "effect_safe wid (case rows of (Some repo, Some t) \<Rightarrow> f repo t | _ \<Rightarrow> g)"
    if "\<And>repo t. effect_safe wid (f repo t)" "effect_safe wid g" for f g and rows :: "'x option \<times> 'y option"
    using that by (auto split: prod.splits option.splits)
  show "effect_safe wid (apply_resolution_result drv opts i sid nonce)"
    unfolding apply_resolution_result_def by (intro effect_intros case_pair body)
qed

lemma relay_match_safe [effect_intros]:
  assumes "\<And>why. effect_safe wid (g why)" "effect_safe wid f"
  shows "effect_safe wid (case m of Turn_Matched \<Rightarrow> f | Not_Matched why \<Rightarrow> g why)"
  using assms by (cases m) auto

lemma relay_phases_safe [effect_intros]:
  "effect_safe wid (settle_match drv opts now wid sid ids nonce)"
  "effect_safe wid (resume_delivery drv opts now wid sid rows elapsed)"
  "effect_safe wid (deliver_bundle drv opts now wid sid rows)"
  unfolding settle_match_def resume_delivery_def deliver_bundle_def Let_def
  by (intro effect_intros effect_safe_write store_has_ids preserves_intros frame_intros)+

section \<open>What a pass may change\<close>

text \<open>An undelivered row of \<open>ids\<close> moves between PENDING, DELIVERING and DELIVERED; every other row stays.\<close>

definition row_relayed :: "nat set \<Rightarrow> inbox_row \<Rightarrow> inbox_row \<Rightarrow> bool" where
  "row_relayed ids r r' \<longleftrightarrow> r' = r \<or> ib_id r \<in> ids \<and> ib_state r \<in> {''PENDING'', ''DELIVERING''} \<and>
     ib_state r' \<in> {''PENDING'', ''DELIVERING'', ''DELIVERED''} \<and>
     r' = r\<lparr>ib_state := ib_state r', ib_delivery_nonce := ib_delivery_nonce r', ib_delivered_at := ib_delivered_at r'\<rparr>"

definition inbox_relayed :: "nat set \<Rightarrow> db \<Rightarrow> db \<Rightarrow> bool" where
  "inbox_relayed ids d d' \<longleftrightarrow> list_all2 (row_relayed ids) (inbox d) (inbox d')"

definition open_events :: "db \<Rightarrow> string \<Rightarrow> nat set" where
  "open_events d wid = {ib_id r | r. r \<in> set (inbox d) \<and> ib_work_item_id r = Some wid \<and> ib_state r \<in> {''PENDING'', ''DELIVERING''}}"

lemma row_relayed_trans: "row_relayed ids r s \<Longrightarrow> row_relayed ids s t \<Longrightarrow> row_relayed ids r t"
  unfolding row_relayed_def by (cases r; cases s; cases t) auto

lemma inbox_relayed_preorder:
  "inbox_relayed ids d d"
  "inbox_relayed ids d e \<Longrightarrow> inbox_relayed ids e f \<Longrightarrow> inbox_relayed ids d f"
proof -
  show "inbox_relayed ids d d" by (simp add: inbox_relayed_def row_relayed_def list_all2_refl)
  show "inbox_relayed ids d e \<Longrightarrow> inbox_relayed ids e f \<Longrightarrow> inbox_relayed ids d f"
    unfolding inbox_relayed_def by (rule list_all2_trans[of "row_relayed ids" "row_relayed ids" "row_relayed ids"])
      (blast intro: row_relayed_trans)+
qed

interpretation relaying: tx_preorder "inbox_relayed ids" for ids
  by unfold_locales (blast intro: inbox_relayed_preorder)+

interpretation relaying_fst: tx_preorder "\<lambda>s s'. inbox_relayed ids (fst s) (fst s')" for ids
  by unfold_locales (blast intro: inbox_relayed_preorder)+

lemma update_relayed:
  assumes "\<And>r. p r \<Longrightarrow> row_relayed ids r (f r)"
  shows "tx_rel (inbox_relayed ids) (update_inbox p f)"
proof (rule tx_relI)
  fix d n d' assume "update_inbox p f d = Inr (n, d')"
  then have d': "d' = d\<lparr>inbox := update_where p f (inbox d)\<rparr>" by (simp add: update_inbox_success)
  have "row_relayed ids r (if p r then f r else r)" for r using assms[of r] by (simp add: row_relayed_def)
  then show "inbox_relayed ids d d'" by (simp add: d' inbox_relayed_def update_where_def list.rel_map list_all2_refl)
qed

lemma same_inbox_relayed: "tx_rel (frame inbox) m \<Longrightarrow> tx_rel (inbox_relayed ids) m"
  by (auto simp: tx_rel_def frame_def inbox_relayed_def row_relayed_def list_all2_refl)

lemma record_keeps_inbox [frame_intros]: "tx_rel (frame inbox) (record_transition ety eid f t ev r a at)"
  by (rule tx_relI, cases f) (auto simp: frame_def record_transition_None dest!: record_transition_success)

lemma transition_keeps_inbox [frame_intros]: "tx_rel (frame inbox) (transition_inbox f t ev nonce at n)"
  unfolding transition_inbox_def by (intro frame_intros framing.rel_intros)

lemma marks_relayed:
  assumes "set ids \<subseteq> S"
  shows "tx_rel (inbox_relayed S) (mark_inbox_delivering ids nonce)" "tx_rel (inbox_relayed S) (mark_inbox_delivered ids at)"
    "tx_rel (inbox_relayed S) (recycle_inbox_to_pending ids)"
  unfolding mark_inbox_delivering_def mark_inbox_delivered_def recycle_inbox_to_pending_def update_inbox_ids_def
  by (intro relaying.rel_intros update_relayed; use assms in \<open>auto simp: row_relayed_def\<close>)+

lemma other_writes_keep_inbox [frame_intros]:
  "tx_rel (frame inbox) (apply_result_body uuid e repo wi t sha)" "tx_rel (frame inbox) (wedge_body wid from reason)"
proof -
  have effects: "tx_rel (frame inbox) (insert_side_effect_if_absent ei)" for ei
    by (auto simp: tx_rel_def frame_def dest!: insert_side_effect_if_absent_success split: if_splits)
  have state: "tx_rel (frame inbox) (set_work_item_state wid st patch)" for wid st patch
    by (auto simp: tx_rel_def frame_def set_work_item_state_eq)
  have "tx_rel (frame inbox) (apply_resolution_envelope uuid e)"
  proof (rule tx_relI, unfold frame_def)
    fix d res d' assume "apply_resolution_envelope uuid e d = Inr (res, d')"
    then show "inbox d' = inbox d"
    proof (cases rule: apply_resolution_success)
      case (noop wi)
      then show ?thesis by (auto simp: record_noop_def dest!: append_transition_success)
    next
      case (applied wi d1 d2 reason row)
      have "inbox d1 = inbox d"
        using applied(3) defer_on_success[of uuid "w_id wi" "re_dependency e" d "()" d1] by (auto simp: tx_simps split: if_splits)
      with record_transition_success[OF applied(5)] applied(4) show ?thesis by (auto simp: set_work_item_state_eq)
    qed
  qed
  with effects show "tx_rel (frame inbox) (apply_result_body uuid e repo wi t sha)"
    unfolding apply_result_body_def queue_push_and_pr_def Let_def by (intro framing.rel_intros)
  show "tx_rel (frame inbox) (wedge_body wid from reason)"
    unfolding wedge_body_def by (intro framing.rel_intros frame_intros state)
qed

lemma write_rel: "(\<And>d. R d d) \<Longrightarrow> tx_rel R m \<Longrightarrow> act_rel (\<lambda>s s'. R (fst s) (fst s')) (write_tx m)"
  by (rule act_relI) (auto simp: write_tx_def on_fst_def run_write_def tx_rel_def split: sum.splits)

lemma outside_rel: "(\<And>d. R d d) \<Longrightarrow> act_rel (\<lambda>s s'. R (fst s) (fst s')) (on_snd m)"
  by (rule act_relI) (auto simp: on_snd_def split: prod.splits)

lemmas relayed_writes = write_rel[of "inbox_relayed S" for S, OF inbox_relayed_preorder(1)]
  outside_rel[of "inbox_relayed S" for S, OF inbox_relayed_preorder(1)]

lemma relayed_bodies:
  assumes "set ids \<subseteq> S"
  shows "tx_rel (inbox_relayed S) (mark_delivered_body ids nonce now)" "tx_rel (inbox_relayed S) (recycle_body ids now)"
    "tx_rel (inbox_relayed S) (claim_body ids nonce now)"
  unfolding mark_delivered_body_def recycle_body_def claim_body_def
  by (intro relaying.rel_intros marks_relayed[OF assms] same_inbox_relayed frame_intros)+

lemma act_rel_match: "act_rel R f \<Longrightarrow> (\<And>why. act_rel R (g why)) \<Longrightarrow> act_rel R (case m of Turn_Matched \<Rightarrow> f | Not_Matched why \<Rightarrow> g why)"
  by (cases m) auto

lemma relayed_apply: "act_rel (\<lambda>s s'. inbox_relayed S (fst s) (fst s')) (apply_resolution_result drv opts wid sid nonce)"
  unfolding apply_resolution_result_def
  by (intro relaying_fst.act_rel_intros relayed_writes same_inbox_relayed frame_intros, split prod.split, intro allI impI,
      split option.split, intro conjI allI impI, (intro relaying_fst.act_rel_intros relayed_writes same_inbox_relayed frame_intros)+)

lemma relayed_hold: "act_rel (\<lambda>s s'. inbox_relayed S (fst s) (fst s')) (hold_work_item wid sid ids reason)"
  unfolding hold_work_item_def by (intro relaying_fst.act_rel_intros relayed_writes same_inbox_relayed frame_intros)

lemma relayed_phases:
  assumes "set (map ib_id rows) \<subseteq> S"
  shows "act_rel (\<lambda>s s'. inbox_relayed S (fst s) (fst s')) (resume_delivery drv opts now wid sid rows elapsed)"
    "act_rel (\<lambda>s s'. inbox_relayed S (fst s) (fst s')) (deliver_bundle drv opts now wid sid rows)"
  unfolding resume_delivery_def deliver_bundle_def settle_match_def adopt_delivered_def recycle_def Let_def
  by (intro relaying_fst.act_rel_intros relayed_writes relayed_bodies[OF assms] relayed_hold relayed_apply act_rel_match)+

lemma bundle_ids_open:
  "set (map ib_id (list_delivering_inbox_by_work_item d wid)) \<subseteq> open_events d wid"
  "set (map ib_id (list_pending_inbox_by_work_item d wid)) \<subseteq> open_events d wid"
  by (auto simp: list_delivering_inbox_by_work_item_def list_pending_inbox_by_work_item_def open_events_def table_simps)

text \<open>The pass, once the WorkItem and its session are found.\<close>

definition relay_session ::
  "'w relay_driver \<Rightarrow> 'w relay_options \<Rightarrow> instant \<Rightarrow> string \<Rightarrow> string \<Rightarrow> db \<Rightarrow> ('w, delivery_result) world_act" where
  "relay_session drv opts now wid sid d =
     (if list_delivering_inbox_by_work_item d wid \<noteq> []
      then resume_delivery drv opts now wid sid (list_delivering_inbox_by_work_item d wid)
        (elapsed_ms d (hd (list_delivering_inbox_by_work_item d wid)) now)
      else if list_pending_inbox_by_work_item d wid = [] then act_return (delivery_outcome No_Pending wid [] None None None)
      else act_bind (on_snd (observe_idle_across_samples drv opts sid)) (\<lambda>observation.
        if observation = Session_Missing then hold_work_item wid sid (map ib_id (list_pending_inbox_by_work_item d wid)) ''session_missing''
        else if observation = Session_Busy then act_return (delivery_outcome Busy_Hold wid [] None (Some sid) None)
        else deliver_bundle drv opts now wid sid (list_pending_inbox_by_work_item d wid)))"

lemma relay_run:
  "relay_oldest_inbox drv opts now wid (d, w) =
     (case (get_work_item d wid, get_active_resolution_session d wid) of
        (None, _) \<Rightarrow> (Inr (delivery_outcome No_Work_Item wid [] None None None), (d, w))
      | (Some wi, None) \<Rightarrow> (Inr (delivery_outcome No_Session wid [] None None None), (d, w))
      | (Some wi, Some session) \<Rightarrow> relay_session drv opts now wid (s_id session) d (d, w))"
  by (cases "get_work_item d wid"; cases "get_active_resolution_session d wid")
    (simp_all add: relay_oldest_inbox_def act_bind_eqs act_return_def relay_session_def cong: if_cong)

lemma relay_session_safe: "effect_safe wid (relay_session drv opts now wid sid d)"
  unfolding relay_session_def by (intro effect_intros)

lemma relay_session_relayed:
  "act_rel (\<lambda>s s'. inbox_relayed (open_events d wid) (fst s) (fst s')) (relay_session drv opts now wid sid d)"
  unfolding relay_session_def
  by (intro relaying_fst.act_rel_intros relayed_phases relayed_hold bundle_ids_open relayed_writes)

text \<open>
  C22: A relay pass keeps the store invariant, and of the inbox it changes only the undelivered events of the WorkItem it
  is called for: each stays or moves between PENDING, DELIVERING and DELIVERED, and only its state, nonce and delivery time change.
  Delivered and terminal events, and the events of other WorkItems, stay as they are, whatever driver, git and configuration answer.
\<close>
theorem relay_keeps_store_and_other_events:
  assumes "store_ok d" "relay_oldest_inbox drv opts now wid (d, w) = (r, (d', w'))"
  shows "store_ok d' \<and> inbox_relayed (open_events d wid) d d'"
proof (cases "get_work_item d wid = None \<or> get_active_resolution_session d wid = None")
  case True
  with assms have "d' = d" by (auto simp: relay_run split: option.splits)
  with assms(1) show ?thesis by (simp add: inbox_relayed_preorder)
next
  case False
  then obtain wi session where found: "get_work_item d wid = Some wi" "get_active_resolution_session d wid = Some session" by auto
  with assms(2) have run: "relay_session drv opts now wid (s_id session) d (d, w) = (r, (d', w'))" by (simp add: relay_run)
  have "store_has wid d" using found(1) assms(1) by (simp add: store_has_def item_state_def)
  with act_relD[OF relay_session_safe run] act_relD[OF relay_session_relayed run] show ?thesis
    by (simp add: keeps_fst_def keeps_def store_has_def)
qed

lemma idle_samples_values: "idle_samples k status w = (Inr s, w') \<Longrightarrow> s \<in> {Session_Idle, Session_Busy, Session_Missing}"
  by (induction k arbitrary: w) (auto simp: act_return_def act_bind_def split: prod.splits sum.splits if_splits)

text \<open>
  C23: No second prompt: while an event of the WorkItem is being delivered, when nothing is pending, and when the session is not
  seen idle on every sample, a pass does exactly the same whatever the prompt operation of the driver is, so it never calls it.
\<close>
theorem no_prompt_unless_idle_and_free:
  assumes "list_delivering_inbox_by_work_item d wid \<noteq> [] \<or> list_pending_inbox_by_work_item d wid = [] \<or>
    (\<forall>session. get_active_resolution_session d wid = Some session \<longrightarrow>
       fst (observe_idle_across_samples drv opts (s_id session) w) \<noteq> Inr Session_Idle)"
  shows "relay_oldest_inbox (drv\<lparr>rd_prompt := p\<rparr>) opts now wid (d, w) = relay_oldest_inbox drv opts now wid (d, w)"
proof -
  let ?drv = "drv\<lparr>rd_prompt := p\<rparr>"
  have idle: "observe_idle_across_samples ?drv opts sid = observe_idle_across_samples drv opts sid" for sid
    by (simp add: observe_idle_across_samples_def)
  have settle: "settle_match ?drv opts now wid sid ids nonce = settle_match drv opts now wid sid ids nonce" for sid ids nonce
    by (simp add: settle_match_def apply_resolution_result_def)
  have resume: "resume_delivery ?drv opts now wid sid rows elapsed = resume_delivery drv opts now wid sid rows elapsed" for sid rows elapsed
    by (simp add: resume_delivery_def settle)
  have "relay_session ?drv opts now wid (s_id session) d (d, w) = relay_session drv opts now wid (s_id session) d (d, w)"
    if "get_active_resolution_session d wid = Some session" for session
  proof (cases "list_delivering_inbox_by_work_item d wid \<noteq> [] \<or> list_pending_inbox_by_work_item d wid = []")
    case True
    then show ?thesis by (auto simp: relay_session_def resume)
  next
    case False
    obtain st w1 where obs: "observe_idle_across_samples drv opts (s_id session) w = (st, w1)" by (metis surj_pair)
    with False assms that have "st \<noteq> Inr Session_Idle" by auto
    moreover have "st = Inr s \<Longrightarrow> s \<in> {Session_Idle, Session_Busy, Session_Missing}" for s
      using idle_samples_values obs by (metis observe_idle_across_samples_def)
    ultimately show ?thesis
      using False obs by (cases st) (auto simp: relay_session_def idle act_bind_def on_snd_def)
  qed
  then show ?thesis by (auto simp: relay_run split: option.splits)
qed

section \<open>Delivery needs a turn\<close>

text \<open>Which events are delivered, and the outbox.\<close>

definition delivered_view :: "db \<Rightarrow> bool list \<times> side_effect_row list" where
  "delivered_view d = (map (\<lambda>r. ib_state r = ''DELIVERED'') (inbox d), side_effects d)"

interpretation undelivered_fst: tx_preorder "\<lambda>s s'. frame delivered_view (fst s) (fst s')"
  by unfold_locales (auto simp: frame_def)

lemma record_keeps_view [frame_intros]: "tx_rel (frame delivered_view) (record_transition ety eid f t ev r a at)"
  by (rule tx_relI, cases f) (auto simp: frame_def delivered_view_def record_transition_None dest!: record_transition_success)

lemma update_keeps_view:
  "(\<And>r. p r \<Longrightarrow> ib_state r \<noteq> ''DELIVERED'' \<and> ib_state (f r) \<noteq> ''DELIVERED'') \<Longrightarrow> tx_rel (frame delivered_view) (update_inbox p f)"
  by (auto intro!: tx_relI simp: update_inbox_success frame_def delivered_view_def update_where_def)

lemma undelivered_bodies [frame_intros]:
  "tx_rel (frame delivered_view) (claim_body ids nonce now)" "tx_rel (frame delivered_view) (recycle_body ids now)"
  "tx_rel (frame delivered_view) (wedge_body wid from reason)"
proof -
  have state: "tx_rel (frame delivered_view) (set_work_item_state wid st patch)" for wid st patch
    by (auto simp: tx_rel_def frame_def set_work_item_state_eq delivered_view_def)
  show "tx_rel (frame delivered_view) (claim_body ids nonce now)" "tx_rel (frame delivered_view) (recycle_body ids now)"
    unfolding claim_body_def recycle_body_def mark_inbox_delivering_def recycle_inbox_to_pending_def update_inbox_ids_def transition_inbox_def
    by (intro framing.rel_intros record_keeps_view update_keeps_view; simp)+
  show "tx_rel (frame delivered_view) (wedge_body wid from reason)"
    unfolding wedge_body_def by (intro framing.rel_intros record_keeps_view state)
qed

lemma unmatched_rel:
  fixes R :: "'c \<times> 'w \<Rightarrow> 'c \<times> 'w \<Rightarrow> bool"
  assumes "\<forall>w. fst (observe w) \<noteq> Inr Turn_Matched" "\<And>why. act_rel R (g why)" "act_rel R (on_snd observe)"
    "tx_preorder R"
  shows "act_rel R (act_bind (on_snd observe) (\<lambda>m. case m of Turn_Matched \<Rightarrow> f | Not_Matched why \<Rightarrow> g why))"
proof (rule act_relI)
  fix s :: "'c \<times> 'w"
  obtain r w1 where o: "observe (snd s) = (r, w1)" by (metis surj_pair)
  have "R s (snd (on_snd observe s))" using assms(3) unfolding act_rel_def by blast
  with o have keep: "R s (fst s, w1)" by (simp add: on_snd_def)
  show "R s (snd (act_bind (on_snd observe) (\<lambda>m. case m of Turn_Matched \<Rightarrow> f | Not_Matched why \<Rightarrow> g why) s))"
  proof (cases r)
    case (Inl e)
    with o keep show ?thesis by (simp add: act_bind_def on_snd_def)
  next
    case (Inr m)
    from assms(1) o Inr have "m \<noteq> Turn_Matched" by (metis fst_conv)
    then obtain why where m: "m = Not_Matched why" by (cases m) auto
    have "R (fst s, w1) (snd (g why (fst s, w1)))" using assms(2) unfolding act_rel_def by blast
    from tx_preorder.R_trans[OF assms(4) keep this] show ?thesis using o Inr m by (simp add: act_bind_def on_snd_def)
  qed
qed

lemmas view_writes = write_rel[of "frame delivered_view"] outside_rel[of "frame delivered_view"]

lemma undelivered_phases:
  assumes "\<forall>sid nonce w. fst (rd_observe drv sid nonce w) \<noteq> Inr Turn_Matched"
  shows "act_rel (\<lambda>s s'. frame delivered_view (fst s) (fst s')) (relay_session drv opts now wid sid d)"
proof -
  let ?R = "\<lambda>s s' :: db \<times> 'w. frame delivered_view (fst s) (fst s')"
  have refl: "frame delivered_view d d" for d by (simp add: frame_def)
  note steps = undelivered_fst.act_rel_intros view_writes[OF refl] frame_intros
  have hold: "act_rel ?R (hold_work_item wid sid ids reason)" for ids reason
    unfolding hold_work_item_def by (intro steps)
  have rec: "act_rel ?R (recycle wid sid' ids reason now)" for sid' ids reason
    unfolding recycle_def by (intro steps)
  have resume: "act_rel ?R (resume_delivery drv opts now wid sid rows elapsed)" for rows elapsed
    unfolding resume_delivery_def Let_def
    by (rule unmatched_rel[OF _ _ view_writes(2)[OF refl] undelivered_fst.tx_preorder_axioms]) (use assms in simp, intro steps hold rec)
  have deliver: "act_rel ?R (deliver_bundle drv opts now wid sid rows)" for rows
    unfolding deliver_bundle_def Let_def
    by (intro steps rec unmatched_rel[OF _ _ view_writes(2)[OF refl] undelivered_fst.tx_preorder_axioms]) (use assms in simp)
  show ?thesis unfolding relay_session_def by (intro steps hold resume deliver)
qed

text \<open>
  C24: Acceptance is not completion: when the driver never observes a completed turn for a nonce, a pass delivers no event and adds
  nothing to the outbox, even though the prompt may have been accepted.
\<close>
theorem delivery_needs_matched_turn:
  assumes "\<forall>sid nonce w. fst (rd_observe drv sid nonce w) \<noteq> Inr Turn_Matched"
    "relay_oldest_inbox drv opts now wid (d, w) = (r, (d', w'))"
  shows "map (\<lambda>r. ib_state r = ''DELIVERED'') (inbox d') = map (\<lambda>r. ib_state r = ''DELIVERED'') (inbox d) \<and> side_effects d' = side_effects d"
proof (cases "get_work_item d wid = None \<or> get_active_resolution_session d wid = None")
  case True
  with assms(2) show ?thesis by (auto simp: relay_run split: option.splits)
next
  case False
  then obtain wi session where "get_work_item d wid = Some wi" "get_active_resolution_session d wid = Some session" by auto
  with assms(2) have "relay_session drv opts now wid (s_id session) d (d, w) = (r, (d', w'))" by (simp add: relay_run)
  from act_relD[OF undelivered_phases[OF assms(1)] this] show ?thesis by (simp add: frame_def delivered_view_def)
qed

text \<open>
  The push intent of a WorkItem has the same id for every head: once one is in the outbox, the result of a later repair
  turn, with whatever new head, adds no push intent.
\<close>
theorem later_push_intent_is_dropped:
  assumes "e \<in> set (side_effects d)" "fx_id e = ''fx-push-'' @ w_id wi" "queue_push_and_pr repo wi t sha d = Inr (u, d')"
  shows "filter (\<lambda>e. fx_kind e = ''push'') (side_effects d') = filter (\<lambda>e. fx_kind e = ''push'') (side_effects d)"
proof -
  let ?push = "\<lparr>ei_id = ''fx-push-'' @ w_id wi, ei_kind = ''push'', ei_effect_key = ''push:'' @ w_id wi @ '':'' @ sha,
    ei_state = ''PENDING'', ei_payload_json = Text (push_payload repo wi t sha)\<rparr>"
  have "side_effect_conflict ?push (side_effects d)" using assms(1,2) by (auto simp: side_effect_conflict_def list_ex_iff)
  then have known: "insert_side_effect_if_absent ?push d = Inr (False, d)"
    by (simp add: insert_side_effect_if_absent_def tx_simps)
  let ?pr = "\<lparr>ei_id = ''fx-pr-'' @ w_id wi, ei_kind = ''pr'', ei_effect_key = ''pr:'' @ w_id wi @ '':'' @ wt_branch t,
    ei_state = ''PENDING'', ei_payload_json = Text (push_payload repo wi t sha)\<rparr>"
  have "tx_bind (insert_side_effect_if_absent ?pr) (\<lambda>pr. tx_return ()) d = Inr (u, d')"
    using assms(3) unfolding queue_push_and_pr_def Let_def tx_bind_def[of "insert_side_effect_if_absent ?push"] known by simp
  then obtain b where "insert_side_effect_if_absent ?pr d = Inr (b, d')" unfolding tx_bind_success tx_return_success by blast
  from insert_side_effect_if_absent_success[OF this] show ?thesis by (auto simp: new_side_effect_row_def)
qed

section \<open>What the agent reads\<close>

lemma hex_digit_plain: "n < 16 \<Longrightarrow> hex_digit n \<noteq> CHR 0x0A"
proof
  assume n: "n < 16" "hex_digit n = CHR 0x0A"
  then have "of_char (hex_digit n) = (10 :: nat)" by simp
  with n(1) show False by (auto simp: hex_digit_def digit_char_def split: if_splits)
qed

lemma json_escape_plain: "CHR 0x0A \<notin> set (json_escape c)"
proof -
  have "(of_char c :: nat) div 16 < 16" "(of_char c :: nat) mod 16 < 16" by (simp_all add: less_mult_imp_div_less)
  from this[THEN hex_digit_plain] show ?thesis by (auto simp: json_escape_def Let_def)
qed

lemma json_string_plain: "CHR 0x0A \<notin> set (json_string s)"
  using json_escape_plain by (auto simp: json_string_def)

lemma show_int_plain: "CHR 0x0A \<notin> set (show_int n)"
  using show_nat_digits[of "CHR 0x0A"] by (auto simp: show_int_def is_digit_def)

definition plain_numbers :: "inbox_row \<Rightarrow> bool" where
  "plain_numbers row \<longleftrightarrow> list_all (\<lambda>f. case snd f of JFrac s \<Rightarrow> CHR 0x0A \<notin> set s | _ \<Rightarrow> True) (payload_fields (ib_payload_json row))"

lemma scalar_plain: "scalar v \<Longrightarrow> (case v of JFrac s \<Rightarrow> CHR 0x0A \<notin> set s | _ \<Rightarrow> True) \<Longrightarrow> CHR 0x0A \<notin> set (stable_stringify v)"
  by (cases v) (simp_all add: json_string_plain show_int_plain)

lemma join_plain: "(\<And>s. s \<in> set ss \<Longrightarrow> CHR 0x0A \<notin> set s) \<Longrightarrow> CHR 0x0A \<notin> set (join ss)"
  by (induction ss rule: join.induct) auto

lemma projection_plain:
  assumes "plain_numbers row" "f \<in> set (project_inbox_row src path row)"
  shows "CHR 0x0A \<notin> set (stable_stringify (snd f))"
proof -
  have field: "CHR 0x0A \<notin> set (stable_stringify v)"
    if "map_of (payload_fields (ib_payload_json row)) k = Some v" "scalar v" for k v
    using scalar_plain[OF that(2)] map_of_SomeD[OF that(1)] assms(1) by (force simp: plain_numbers_def list_all_iff)
  from assms(2) consider "f \<in> {(''id'', JNum (int (ib_id row))), (''kind'', JStr (ib_kind row)), (''issue_id'', JStr (ib_issue_id row))}"
    | k v where "f = (k, v)" "map_of (payload_fields (ib_payload_json row)) k = Some v" "scalar v"
    | s where "snd f = JStr s"
    unfolding project_inbox_row_def prose_field_def
    by (auto simp: set_map_filter split: option.splits json.splits if_splits)
  then show ?thesis by cases (auto simp: json_string_plain show_int_plain field)
qed

lemma split_join_lines: "ls \<noteq> [] \<Longrightarrow> (\<And>l. l \<in> set ls \<Longrightarrow> CHR 0x0A \<notin> set l) \<Longrightarrow> split_lines (join_lines ls) = ls"
  by (induction ls rule: join_lines.induct) (simp_all add: split_lines_line split_lines_last)

text \<open>
  C25: No event can forge a line of the prompt: whatever text titles, comments and logins hold, the bundle splits
  into its two head lines and exactly one line per event, in inbox order (numbers of a payload hold no line break, nor does the nonce).
\<close>
theorem bundle_has_one_line_per_event:
  assumes "list_all plain_numbers rows" "CHR 0x0A \<notin> set nonce"
  shows "split_lines (build_bundle_text src path rows nonce) =
    (''tissue delivery nonce: '' @ nonce) #
    ''Apply the following durable Tissue inbox events in order. Do not mutate Tissue lifecycle state.'' #
    map (\<lambda>row. ''- event '' @ stringify_flat (project_inbox_row src path row)) rows"
proof -
  have "CHR 0x0A \<notin> set (''- event '' @ stringify_flat (project_inbox_row src path row))" if "row \<in> set rows" for row
  proof -
    have "plain_numbers row" using that assms(1) by (simp add: list_all_iff)
    then have "CHR 0x0A \<notin> set (join (map (\<lambda>f. json_string (fst f) @ '':'' @ stable_stringify (snd f)) (project_inbox_row src path row)))"
      by (intro join_plain) (auto simp: json_string_plain dest: projection_plain)
    then show ?thesis by (simp add: stringify_flat_def)
  qed
  then have "CHR 0x0A \<notin> set l" if "l \<in> set (bundle_lines src path rows nonce)" for l
    using that assms(2) by (auto simp: bundle_lines_def)
  from split_join_lines[of "bundle_lines src path rows nonce"] this show ?thesis by (simp add: build_bundle_text_def bundle_lines_def)
qed

text \<open>The part of a payload the relay may read: the objective fields, and a comment's preview when its author is trusted now.\<close>

definition redact :: "config_source \<Rightarrow> string \<Rightarrow> inbox_row \<Rightarrow> inbox_row" where
  "redact src path row = row\<lparr>ib_payload_json := Text (JObj (filter (\<lambda>f. List.member objective_fields (fst f) \<or>
     fst f = ''body_preview'' \<and> comment_kind (ib_kind row) \<and> decide_current_github_prose src (ib_actor_raw_login row) path = TRUSTED)
     (payload_fields (ib_payload_json row))))\<rparr>"

lemma map_filter_same: "(\<And>x. x \<in> set xs \<Longrightarrow> f x = g x) \<Longrightarrow> List.map_filter f xs = List.map_filter g xs"
  by (induction xs) (simp_all add: map_filter_simps split: option.split)

lemma map_of_filter_key: "map_of (filter (\<lambda>f. P (fst f)) fs) k = (if P k then map_of fs k else None)"
  by (induction fs) auto

text \<open>
  C26: The prose of an author who is not trusted by the configuration as it is now never reaches the agent: the bundle is the
  same when every payload is first cut down to its objective fields and, for comments of trusted authors only, the preview.
\<close>
theorem bundle_ignores_untrusted_prose:
  "build_bundle_text src path (map (redact src path) rows) nonce = build_bundle_text src path rows nonce"
proof -
  have "project_inbox_row src path (redact src path row) = project_inbox_row src path row" for row
  proof -
    let ?P = "\<lambda>k. List.member objective_fields k \<or> k = ''body_preview'' \<and> comment_kind (ib_kind row) \<and>
      decide_current_github_prose src (ib_actor_raw_login row) path = TRUSTED"
    let ?fs = "payload_fields (ib_payload_json row)"
    have fields: "payload_fields (ib_payload_json (redact src path row)) = filter (\<lambda>f. ?P (fst f)) ?fs"
      by (simp add: redact_def payload_fields_def)
    have rest: "ib_id (redact src path row) = ib_id row" "ib_kind (redact src path row) = ib_kind row"
      "ib_issue_id (redact src path row) = ib_issue_id row" "ib_actor_raw_login (redact src path row) = ib_actor_raw_login row"
      by (simp_all add: redact_def)
    have "List.map_filter (\<lambda>k. case map_of (filter (\<lambda>f. ?P (fst f)) ?fs) k of None \<Rightarrow> None | Some v \<Rightarrow> if scalar v then Some (k, v) else None) objective_fields =
      List.map_filter (\<lambda>k. case map_of ?fs k of None \<Rightarrow> None | Some v \<Rightarrow> if scalar v then Some (k, v) else None) objective_fields"
      unfolding map_of_filter_key[of ?P] by (rule map_filter_same) simp
    moreover have "\<not> List.member objective_fields ''body_preview''" by code_simp
    ultimately show ?thesis
      unfolding project_inbox_row_def prose_field_def fields rest map_of_filter_key[of ?P]
      by (auto split: option.splits json.splits)
  qed
  then show ?thesis by (simp add: build_bundle_text_def bundle_lines_def comp_def)
qed

section \<open>Witnesses\<close>

text \<open>WorkItem b runs with a session, a worktree and one pending comment of its issue.\<close>

definition example_delivery_db :: db where
  "example_delivery_db = snd (run_write
     (tx_bind (upsert_issue_from_snapshot ((example_issue ''NEW'')\<lparr>ii_id := issue_id_for ''acme/tool'' 1\<rparr>)) (\<lambda>i.
      tx_then (insert_session \<lparr>si_id = ''ses_b'', si_kind = Resolution_Session, si_repo_id = Some ''acme/tool'', si_work_item_id = Some ''b'',
        si_directory = ''/data/wt/acme-tool/b'', si_agent = None, si_model_json = None, si_state = ''ACTIVE''\<rparr>)
      (tx_then (insert_worktree \<lparr>wti_id = ''wt-b'', wti_work_item_id = ''b'', wti_path = ''/data/wt/acme-tool/b'',
        wti_branch = ''tissue/wi_b'', wti_state = ''ACTIVE''\<rparr>)
      (tx_bind (insert_inbox_event_if_absent \<lparr>bi_work_item_id = Some ''b'', bi_issue_id = issue_id_for ''acme/tool'' 1, bi_event_key = ''e1'',
        bi_kind = ''issue_comment'', bi_payload_json = Text (JObj [(''body_preview'', JStr ''hello'')]), bi_state = None, bi_created_at = None,
        bi_actor_raw_login = Some ''octocat''\<rparr>) (\<lambda>r. tx_return ()))))) example_working_db)"

lemma example_delivery_db_ok: "store_ok example_delivery_db"
  unfolding example_delivery_db_def
  by (rule store_safe_run[OF _ example_working_db_ok]) (intro preserves_intros keeping.rel_intros; simp add: example_issue_def)

definition sample_driver :: "completion_match \<Rightarrow> nat relay_driver" where
  "sample_driver m = \<lparr>rd_status = (\<lambda>sid. act_return Session_Idle), rd_prompt = (\<lambda>sid p w. (Inr (), Suc w)),
     rd_observe = (\<lambda>sid nonce. act_return m), rd_read_result = None\<rparr>"

definition sample_options :: "nat relay_options" where
  "sample_options = \<lparr>ro_git = \<lparr>ge_run = (\<lambda>argv cwd w. (\<lparr>gs_exit_code = 0, gs_stdout = ''sha1'', gs_stderr = []\<rparr>, w)),
       ge_read_file = (\<lambda>p w. None), ge_append_file = (\<lambda>p s w. w)\<rparr>,
     ro_config = (\<lambda>w. \<lparr>cs_finite_date = (\<lambda>s. True), cs_parse_yaml = (\<lambda>s. None), cs_read_file = (\<lambda>s. None)\<rparr>),
     ro_config_path = ''tissue.yml'', ro_nonce = ''dlv_1'', ro_uuid = ''u'', ro_w_turn = None, ro_w_wedge = None, ro_k_idle = None,
     ro_agent = None, ro_model = None\<rparr>"

theorem relay_keeps_store_and_other_events_witness:
  "\<exists>r d' w'. relay_oldest_inbox (sample_driver Turn_Matched) sample_options 0 ''b'' (example_delivery_db, 0) = (r, (d', w')) \<and>
     store_ok d' \<and> map ib_state (inbox d') = [''DELIVERED''] \<and> w' = 1"
proof -
  let ?run = "relay_oldest_inbox (sample_driver Turn_Matched) sample_options 0 ''b'' (example_delivery_db, 0)"
  have eval: "map ib_state (inbox (fst (snd ?run))) = [''DELIVERED'']" "snd (snd ?run) = 1" by code_simp+
  obtain r d' w' where run: "?run = (r, (d', w'))" by (metis surj_pair)
  from relay_keeps_store_and_other_events[OF example_delivery_db_ok run] eval run show ?thesis by auto
qed

theorem no_prompt_unless_idle_and_free_witness:
  "relay_oldest_inbox ((sample_driver Turn_Matched)\<lparr>rd_prompt := \<lambda>sid pe w. (Inr (), w + 7)\<rparr>) sample_options 0 ''b'' (example_working_db, 0) =
     relay_oldest_inbox (sample_driver Turn_Matched) sample_options 0 ''b'' (example_working_db, 0)"
proof (rule no_prompt_unless_idle_and_free)
  have "list_pending_inbox_by_work_item example_working_db ''b'' = []" by code_simp
  then show "list_delivering_inbox_by_work_item example_working_db ''b'' \<noteq> [] \<or> list_pending_inbox_by_work_item example_working_db ''b'' = [] \<or>
    (\<forall>session. get_active_resolution_session example_working_db ''b'' = Some session \<longrightarrow>
       fst (observe_idle_across_samples (sample_driver Turn_Matched) sample_options (s_id session) 0) \<noteq> Inr Session_Idle)" by blast
qed

theorem delivery_needs_matched_turn_witness:
  "\<exists>r d' w'. relay_oldest_inbox (sample_driver (Not_Matched ''no_turn'')) sample_options 0 ''b'' (example_delivery_db, 0) = (r, (d', w')) \<and>
     map (\<lambda>r. ib_state r = ''DELIVERED'') (inbox d') = [False] \<and> map ib_state (inbox d') = [''DELIVERING''] \<and> w' = 1"
proof -
  let ?run = "relay_oldest_inbox (sample_driver (Not_Matched ''no_turn'')) sample_options 0 ''b'' (example_delivery_db, 0)"
  have eval: "map ib_state (inbox (fst (snd ?run))) = [''DELIVERING'']" "snd (snd ?run) = 1"
    "map (\<lambda>r. ib_state r = ''DELIVERED'') (inbox example_delivery_db) = [False]" by code_simp+
  obtain r d' w' where run: "?run = (r, (d', w'))" by (metis surj_pair)
  have "\<forall>sid nonce w. fst (rd_observe (sample_driver (Not_Matched ''no_turn'')) sid nonce w) \<noteq> Inr Turn_Matched"
    by (simp add: sample_driver_def act_return_def)
  from delivery_needs_matched_turn[OF this run] eval run show ?thesis by auto
qed

definition sample_push :: "string \<Rightarrow> db \<Rightarrow> err + unit \<times> db" where
  "sample_push sha d = queue_push_and_pr (hd (repositories d)) (the (get_work_item d ''b'')) (hd (worktrees d)) sha d"

text \<open>Two completed turns with different heads: one push intent, for the first head.\<close>

theorem later_push_intent_is_dropped_witness:
  "\<exists>d1 d2. sample_push ''sha1'' example_delivery_db = Inr ((), d1) \<and> sample_push ''sha2'' d1 = Inr ((), d2) \<and>
     map fx_effect_key (filter (\<lambda>e. fx_kind e = ''push'') (side_effects d2)) = [''push:b:sha1'']"
proof -
  have "case sample_push ''sha1'' example_delivery_db of Inl e \<Rightarrow> False | Inr (u, d1) \<Rightarrow>
      \<not> isl (sample_push ''sha2'' d1) \<and> list_ex (\<lambda>e. fx_id e = ''fx-push-b'') (side_effects d1) \<and> w_id (the (get_work_item d1 ''b'')) = ''b'' \<and>
      map fx_effect_key (filter (\<lambda>e. fx_kind e = ''push'') (side_effects d1)) = [''push:b:sha1'']"
    by code_simp
  then obtain u d1 where one: "sample_push ''sha1'' example_delivery_db = Inr (u, d1)" "\<not> isl (sample_push ''sha2'' d1)"
    "list_ex (\<lambda>e. fx_id e = ''fx-push-b'') (side_effects d1)" "w_id (the (get_work_item d1 ''b'')) = ''b''"
    "map fx_effect_key (filter (\<lambda>e. fx_kind e = ''push'') (side_effects d1)) = [''push:b:sha1'']" by (elim tx_caseE conjE)
  from one(2) obtain v d2 where two: "sample_push ''sha2'' d1 = Inr (v, d2)" by (rule tx_okE)
  from one(3) obtain e where "e \<in> set (side_effects d1)" "fx_id e = ''fx-push-'' @ w_id (the (get_work_item d1 ''b''))"
    unfolding one(4) by (auto simp: list_ex_iff)
  from later_push_intent_is_dropped[OF this two[unfolded sample_push_def]] one(1,5) two show ?thesis by auto
qed

theorem bundle_has_one_line_per_event_witness:
  "\<exists>src. split_lines (build_bundle_text src ''tissue.yml'' (inbox example_delivery_db) ''dlv_1'') =
    [''tissue delivery nonce: dlv_1'',
     ''Apply the following durable Tissue inbox events in order. Do not mutate Tissue lifecycle state.'',
     ''- event {\"id\":1,\"kind\":\"issue_comment\",\"issue_id\":\"issue-acme/tool-1\",\"author\":\"octocat\"}'']"
proof -
  let ?src = "\<lparr>cs_finite_date = (\<lambda>s. True), cs_parse_yaml = (\<lambda>s. None), cs_read_file = (\<lambda>s. None)\<rparr>"
  have plain: "list_all plain_numbers (inbox example_delivery_db)" by code_simp
  have lines: "map (\<lambda>row. ''- event '' @ stringify_flat (project_inbox_row ?src ''tissue.yml'' row)) (inbox example_delivery_db) =
    [''- event {\"id\":1,\"kind\":\"issue_comment\",\"issue_id\":\"issue-acme/tool-1\",\"author\":\"octocat\"}'']" by code_simp
  show ?thesis
    using bundle_has_one_line_per_event[OF plain, of "''dlv_1''" ?src "''tissue.yml''"] lines by (intro exI[of _ ?src]) simp
qed

end
