(* ===== verification/Triage.thy ===== *)
theory Triage
  imports Relay Complex_Main
begin

text \<open>
  Triage of issues, one flight per repository (\<^verbatim>\<open>src/controller/triage.ts\<close>): the pump IDLE, PROMPTING, BACKOFF, PAUSED_TRIAGE in the
  repository row, the bounded digest with its trust gate, and the application of the agent's suggestion. The session
  driver, the body fetch, the configuration file and the randomness of the jitter are parameters. The jitter is computed with exact rational numbers.
\<close>

section \<open>Backoff\<close>

definition TRIAGE_BACKOFF_LADDER_MS :: "nat list" where
  "TRIAGE_BACKOFF_LADDER_MS = [60000, 300000, 1800000]"

definition TRIAGE_BACKOFF_CAP_MS :: nat where "TRIAGE_BACKOFF_CAP_MS = 4 * 3600000"
definition TRIAGE_ESCALATION_LIMIT :: int where "TRIAGE_ESCALATION_LIMIT = 3"
definition TITLE_PREVIEW_MAX :: nat where "TITLE_PREVIEW_MAX = 200"
definition BODY_PREVIEW_MAX :: nat where "BODY_PREVIEW_MAX = 400"

text \<open>\<open>random\<close> is what \<^verbatim>\<open>random()\<close> returns, in [0, 1).\<close>

definition triage_backoff_delay_ms :: "int \<Rightarrow> rat \<Rightarrow> int" where
  "triage_backoff_delay_ms failure_count random =
     (let idx = min (max (failure_count - 1) 0) (int (length TRIAGE_BACKOFF_LADDER_MS) - 1);
          base = TRIAGE_BACKOFF_LADDER_MS ! nat idx;
          jittered = \<lfloor>of_nat base * (8 / 10 + random * (4 / 10))\<rfloor> in
      min jittered (int TRIAGE_BACKOFF_CAP_MS))"

section \<open>The digest\<close>

definition units :: "string \<Rightarrow> code_units" where
  "units s = map of_char s"

text \<open>\<^verbatim>\<open>/[\u0000-\u001f\u007f]/g\<close> becomes U+FFFD; the cut is marked with U+2026.\<close>

definition truncate_text :: "code_units \<Rightarrow> nat \<Rightarrow> code_units" where
  "truncate_text text limit =
     map (\<lambda>c. if c < 32 \<or> c = 127 then 0xFFFD else c) (if length text \<le> limit then text else take limit text @ [0x2026])"

record repo_counts =
  ct_open :: nat
  ct_queued :: nat
  ct_running :: nat

record triage_digest =
  dg_issue_id :: string
  dg_repo_owner :: string
  dg_repo_name :: string
  dg_repo_id :: string
  dg_issue_number :: int
  dg_title_preview :: code_units
  dg_body_preview :: code_units
  dg_created_at :: timestamp
  dg_pending_count :: nat
  dg_repo_counts :: repo_counts

definition pending_count :: "db \<Rightarrow> string \<Rightarrow> nat" where
  "pending_count d repo_id = count_where (\<lambda>i. i_repo_id i = repo_id \<and> i_state i = ''TRIAGE_PENDING'') (issues d)"

definition body_text :: "json_text option \<Rightarrow> string" where
  "body_text t = (case Option.bind t json_parse of Some (JStr s) \<Rightarrow> s | _ \<Rightarrow> [])"

definition build_triage_digest :: "config_source \<Rightarrow> string \<Rightarrow> db \<Rightarrow> repository_row \<Rightarrow> issue_row \<Rightarrow> triage_digest" where
  "build_triage_digest src path d repo issue =
     (let trusted = (decide_current_github_prose src (i_actor_raw_login issue) path = TRUSTED) in
      \<lparr>dg_issue_id = i_id issue, dg_repo_owner = r_owner repo, dg_repo_name = r_name repo, dg_repo_id = r_id repo,
       dg_issue_number = i_number issue,
       dg_title_preview = (if trusted then truncate_text (units (i_title issue)) TITLE_PREVIEW_MAX else []),
       dg_body_preview = (if trusted then truncate_text (units (body_text (i_body_json issue))) BODY_PREVIEW_MAX else []),
       dg_created_at = i_first_seen_at issue, dg_pending_count = pending_count d (r_id repo),
       dg_repo_counts = \<lparr>
         ct_open = count_where (\<lambda>i. i_repo_id i = r_id repo \<and>
           \<not> List.member [''DUPLICATE'', ''MERGED'', ''REJECTED'', ''BASELINE_EXCLUDED''] (i_state i)) (issues d),
         ct_queued = count_where (\<lambda>w. w_repo_id w = r_id repo \<and> List.member [''QUEUED'', ''READY''] (w_state w)) (work_items d),
         ct_running = count_where (\<lambda>w. w_repo_id w = r_id repo \<and>
           List.member [''RUNNING'', ''WAITING'', ''AWAITING_DECISION''] (w_state w)) (work_items d)\<rparr>\<rparr>)"

definition next_due_issue :: "db \<Rightarrow> string \<Rightarrow> issue_row option" where
  "next_due_issue d repo_id =
     (case order_by (\<lambda>i. (i_first_seen_at i, i_number i)) (filter (\<lambda>i. i_repo_id i = repo_id \<and> i_state i = ''TRIAGE_PENDING'') (issues d)) of
        [] \<Rightarrow> None | i # rest \<Rightarrow> Some i)"

section \<open>The pump\<close>

definition pump :: "string \<Rightarrow> string \<Rightarrow> string \<Rightarrow> string \<Rightarrow> json \<Rightarrow> triage_state_patch \<Rightarrow> unit db_tx" where
  "pump repo_id from t event reason tp =
     tx_bind (record_transition Triage repo_id (Some from) t event (Some reason) ''controller.triage'' None)
       (\<lambda>row. update_triage_state repo_id (tp\<lparr>tp_state := Some t\<rparr>))"

definition begin_flight :: "string \<Rightarrow> string \<Rightarrow> string \<Rightarrow> unit db_tx" where
  "begin_flight repo_id from issue_id =
     (let reason = JObj [(''issue_id'', JStr issue_id)] in
      tx_then (tx_when (from = ''BACKOFF'') (pump repo_id ''BACKOFF'' ''IDLE'' ''backoff_complete'' reason no_triage_patch))
        (pump repo_id ''IDLE'' ''PROMPTING'' ''triage_start'' reason no_triage_patch))"

definition fail_flight :: "string \<Rightarrow> string \<Rightarrow> int \<Rightarrow> instant \<Rightarrow> string \<Rightarrow> rat \<Rightarrow> unit db_tx" where
  "fail_flight repo_id from current_failures now error random =
     (let failures = current_failures + 1; delay = triage_backoff_delay_ms failures random in
      if TRIAGE_ESCALATION_LIMIT \<le> failures
      then pump repo_id from ''PAUSED_TRIAGE'' ''escalate'' (JObj [(''consecutive_failures'', JNum failures), (''error'', JStr error)])
        (no_triage_patch\<lparr>tp_failures := Some failures, tp_next_attempt_at := Some None\<rparr>)
      else pump repo_id from ''BACKOFF'' ''triage_backoff''
        (JObj [(''consecutive_failures'', JNum failures), (''retry_after_ms'', JNum delay), (''error'', JStr error)])
        (no_triage_patch\<lparr>tp_failures := Some failures, tp_next_attempt_at := Some (Some (to_iso (now + nat delay)))\<rparr>))"

section \<open>The work an issue gets\<close>

definition work_item_id_for :: "repository_row \<Rightarrow> issue_row \<Rightarrow> string" where
  "work_item_id_for repo issue = ''wi-'' @ r_owner repo @ ''-'' @ r_name repo @ ''-'' @ show_int (i_number issue)"

definition attach_and_reparent :: "issue_row \<Rightarrow> string \<Rightarrow> unit db_tx" where
  "attach_and_reparent issue wid =
     tx_then (attach_issue_to_work_item (i_id issue) wid)
       (tx_bind (reparent_inbox_by_issue (i_id issue) wid) (\<lambda>n. tx_return ()))"

definition ensure_resolution_ready :: "repository_row \<Rightarrow> issue_row \<Rightarrow> (string \<times> bool) db_tx" where
  "ensure_resolution_ready repo issue =
     tx_bind (tx_get (\<lambda>d. active_issue_links_for_issue d (i_id issue))) (\<lambda>existing.
     case existing of
       l # ls \<Rightarrow> tx_return (fst l, False)
     | [] \<Rightarrow>
         let wid = work_item_id_for repo issue in
         tx_bind (tx_get (\<lambda>d. get_work_item d wid)) (\<lambda>found.
         tx_then (if found \<noteq> None then tx_return ()
           else tx_bind (insert_work_item \<lparr>wi_id = wid, wi_repo_id = r_id repo, wi_state = ''READY'', wi_title = Some (i_title issue),
               wi_base_branch = coalesce (r_base_branch repo) ''main'', wi_head_branch = None, wi_lease_token = None, wi_lease_until = None,
               wi_attempts = None, wi_priority = None\<rparr>) (\<lambda>row. tx_return ()))
           (tx_then (attach_and_reparent issue wid) (tx_return (wid, True)))))"

definition ensure_grouped :: "issue_row \<Rightarrow> work_item_row \<Rightarrow> string db_tx" where
  "ensure_grouped issue canonical = tx_then (attach_and_reparent issue (w_id canonical)) (tx_return (w_id canonical))"

section \<open>A flight\<close>

record session_metadata =
  sm_repo_id :: string
  sm_directory :: string
  sm_kind :: string
  sm_work_item_id :: "string option"
  sm_agent :: "string option"
  sm_model :: "provider_model option"

record triage_suggestion =
  sg_issue_id :: string
  sg_disposition :: string
  sg_canonical_work_item_id :: "string option"
  sg_blocked_by :: "string option"
  sg_reason :: "string option"

record 'w session_driver =
  sd_ensure :: "session_metadata \<Rightarrow> ('w, err, string) act"
  sd_prompt_triage :: "string \<Rightarrow> triage_digest \<Rightarrow> ('w, err, triage_suggestion) act"

record 'w triage_options =
  to_random :: rat
  to_fetch_body :: "(issue_row \<Rightarrow> ('w, err, string option) act) option"
  to_agent :: "string option"
  to_model :: "provider_model option"
  to_config :: "'w \<Rightarrow> config_source"
  to_config_path :: string
  to_uuid :: string

record triage_summary =
  ts_repo_id :: string
  ts_ran :: bool
  ts_reason :: "string option"
  ts_issue_id :: "string option"
  ts_disposition :: "string option"
  ts_outcome :: "string option"
  ts_created_work_item_id :: "string option"
  ts_failures :: int
  ts_triage_state :: string
  ts_error :: "string option"

definition skipped :: "repository_row \<Rightarrow> string \<Rightarrow> triage_summary" where
  "skipped repo reason =
     \<lparr>ts_repo_id = r_id repo, ts_ran = False, ts_reason = Some reason, ts_issue_id = None, ts_disposition = None, ts_outcome = None,
      ts_created_work_item_id = None, ts_failures = r_triage_failures repo, ts_triage_state = r_triage_state repo, ts_error = None\<rparr>"

definition check_suggestion :: "issue_row \<Rightarrow> triage_suggestion \<Rightarrow> err option" where
  "check_suggestion issue s =
     (if sg_issue_id s \<noteq> i_id issue
      then Some (JsError (''triage: suggestion references '' @ quoted (sg_issue_id s) @ '', expected '' @ quoted (i_id issue)))
      else if \<not> List.member ISSUE_TRIAGE_DISPOSITIONS (sg_disposition s)
      then Some (JsError (''triage: disposition '' @ quoted (sg_disposition s) @ '' is not a legal triage disposition''))
      else if (case sg_reason s of None \<Rightarrow> False | Some r \<Rightarrow> 2000 < length r)
      then Some (JsError ''triage: suggestion reason exceeds 2000 characters'')
      else None)"

text \<open>The WorkItem that is reported as created.\<close>

definition place_issue ::
  "repository_row \<Rightarrow> issue_row \<Rightarrow> triage_suggestion \<Rightarrow> work_item_row option \<Rightarrow> apply_status \<Rightarrow> string option db_tx" where
  "place_issue repo issue s canonical status =
     (if status = Noop_Duplicate then tx_return None
      else if sg_disposition s = ''READY'' then tx_bind (ensure_resolution_ready repo issue) (\<lambda>c. tx_return (Some (fst c)))
      else case canonical of
          None \<Rightarrow> tx_return None
        | Some wi \<Rightarrow> tx_bind (ensure_grouped issue wi) (\<lambda>i. tx_return None))"

definition apply_suggestion_body ::
  "string \<Rightarrow> repository_row \<Rightarrow> issue_row \<Rightarrow> triage_suggestion \<Rightarrow> work_item_row option \<Rightarrow> (apply_status \<times> string option) db_tx" where
  "apply_suggestion_body envelope_id repo issue s canonical =
     tx_bind (apply_triage_envelope \<lparr>te_envelope_id = envelope_id, te_issue_id = i_id issue, te_disposition = sg_disposition s,
         te_canonical_work_item_id = sg_canonical_work_item_id s, te_blocked_by = sg_blocked_by s, te_reason = sg_reason s\<rparr>) (\<lambda>res.
     tx_bind (place_issue repo issue s canonical (ar_status res)) (\<lambda>created.
     tx_bind (tx_get db_now) (\<lambda>now_text.
     tx_then (pump (r_id repo) ''PROMPTING'' ''IDLE'' ''triage_done''
         (JObj [(''issue_id'', JStr (i_id issue)), (''disposition'', JStr (sg_disposition s)), (''envelope_id'', JStr envelope_id),
            (''backoff_ms'', JNum 0), (''disposition_applied_at'', JStr now_text)])
         (no_triage_patch\<lparr>tp_failures := Some 0, tp_next_attempt_at := Some None\<rparr>))
       (tx_return (ar_status res, created)))))"

definition pump_row :: "string \<Rightarrow> ('w, repository_row) world_act" where
  "pump_row repo_id =
     act_bind (act_get (\<lambda>s. get_repository_by_id (fst s) repo_id)) (\<lambda>found.
       case found of None \<Rightarrow> act_fail (JsError ''TypeError: Cannot read properties of undefined'') | Some r \<Rightarrow> act_return r)"

definition apply_suggestion ::
  "'w triage_options \<Rightarrow> repository_row \<Rightarrow> issue_row \<Rightarrow> triage_suggestion \<Rightarrow> ('w, triage_summary) world_act" where
  "apply_suggestion opts repo issue s =
     (case check_suggestion issue s of
        Some e \<Rightarrow> act_fail e
      | None \<Rightarrow>
          act_bind (act_get (\<lambda>st. Option.bind (sg_canonical_work_item_id s) (get_work_item (fst st)))) (\<lambda>canonical.
          act_then (act_guard (sg_canonical_work_item_id s = None \<or> canonical \<noteq> None)
              (JsError (''triage: canonical work item '' @ quoted (coalesce (sg_canonical_work_item_id s) []) @ '' does not exist'')))
          (act_bind (write_tx (apply_suggestion_body (''env-'' @ to_uuid opts) repo issue s canonical)) (\<lambda>applied.
           act_bind (pump_row (r_id repo)) (\<lambda>after.
             act_return \<lparr>ts_repo_id = r_id repo, ts_ran = True, ts_reason = None, ts_issue_id = Some (i_id issue),
               ts_disposition = Some (sg_disposition s),
               ts_outcome = Some (if fst applied = Noop_Duplicate then ''noop'' else ''disposition_applied''),
               ts_created_work_item_id = (if present (snd applied) then snd applied else None),
               ts_failures = r_triage_failures after, ts_triage_state = r_triage_state after, ts_error = None\<rparr>)))))"

definition ensure_triage_session :: "'w session_driver \<Rightarrow> 'w triage_options \<Rightarrow> repository_row \<Rightarrow> ('w, string) world_act" where
  "ensure_triage_session drv opts repo =
     (if present (r_triage_session_id repo) then act_return (the (r_triage_session_id repo))
      else act_bind (on_snd (sd_ensure drv \<lparr>sm_repo_id = r_id repo, sm_directory = r_local_dir repo, sm_kind = ''triage'',
          sm_work_item_id = None, sm_agent = to_agent opts, sm_model = to_model opts\<rparr>)) (\<lambda>sid.
        act_then (write_tx (update_triage_state (r_id repo) (no_triage_patch\<lparr>tp_session_id := Some (Some sid)\<rparr>))) (act_return sid)))"

definition store_body :: "'w triage_options \<Rightarrow> issue_row \<Rightarrow> ('w, unit) world_act" where
  "store_body opts issue =
     (case to_fetch_body opts of
        None \<Rightarrow> act_return ()
      | Some fetch \<Rightarrow>
          act_bind (on_snd (fetch issue)) (\<lambda>body.
          case body of
            None \<Rightarrow> act_return ()
          | Some b \<Rightarrow> act_when (i_body_json issue = None) (write_tx (update_issue_snapshot (i_id issue)
              \<lparr>sp_snapshot_hash = None, sp_title = None, sp_body_json = Some (Some (Text (JStr b))), sp_updated_at = None\<rparr>))))"

definition ask_agent ::
  "'w session_driver \<Rightarrow> 'w triage_options \<Rightarrow> repository_row \<Rightarrow> issue_row \<Rightarrow> ('w, triage_suggestion) world_act" where
  "ask_agent drv opts repo issue =
     act_bind (ensure_triage_session drv opts repo) (\<lambda>sid.
     act_then (store_body opts issue)
     (act_bind (act_get (\<lambda>s. build_triage_digest (to_config opts (snd s)) (to_config_path opts) (fst s) repo
         (coalesce (get_issue_by_id (fst s) (i_id issue)) issue))) (\<lambda>digest.
      on_snd (sd_prompt_triage drv sid digest))))"

definition prompt_flight ::
  "'w session_driver \<Rightarrow> 'w triage_options \<Rightarrow> repository_row \<Rightarrow> issue_row \<Rightarrow> ('w, triage_summary) world_act" where
  "prompt_flight drv opts repo issue = act_bind (ask_agent drv opts repo issue) (apply_suggestion opts repo issue)"

definition failed_flight ::
  "'w triage_options \<Rightarrow> repository_row \<Rightarrow> issue_row \<Rightarrow> instant \<Rightarrow> err \<Rightarrow> ('w, triage_summary) world_act" where
  "failed_flight opts repo issue now e =
     act_then (write_tx (fail_flight (r_id repo) ''PROMPTING'' (r_triage_failures repo) now (message e) (to_random opts)))
     (act_bind (pump_row (r_id repo)) (\<lambda>after.
       act_return \<lparr>ts_repo_id = r_id repo, ts_ran = True, ts_reason = None, ts_issue_id = Some (i_id issue), ts_disposition = None,
         ts_outcome = Some ''failure'', ts_created_work_item_id = None, ts_failures = r_triage_failures after,
         ts_triage_state = r_triage_state after, ts_error = Some (message e)\<rparr>))"

definition stale_flight :: "'w triage_options \<Rightarrow> repository_row \<Rightarrow> instant \<Rightarrow> ('w, triage_summary) world_act" where
  "stale_flight opts repo now =
     (let error = ''stale PROMPTING flight from an interrupted prior pass'' in
      act_then (write_tx (fail_flight (r_id repo) ''PROMPTING'' (r_triage_failures repo) now error (to_random opts)))
      (act_bind (pump_row (r_id repo)) (\<lambda>after.
        act_return ((skipped after ''stale_prompting'')\<lparr>ts_error := Some error\<rparr>))))"

definition run_triage_repo :: "'w session_driver \<Rightarrow> 'w triage_options \<Rightarrow> instant \<Rightarrow> string \<Rightarrow> ('w, triage_summary) world_act" where
  "run_triage_repo drv opts now repo_id =
     act_bind (act_get (\<lambda>s. get_repository_by_id (fst s) repo_id)) (\<lambda>found.
     case found of
       None \<Rightarrow> act_fail (JsError (''triage: unknown repository '' @ quoted repo_id))
     | Some repo \<Rightarrow>
         if r_triage_state repo = ''PAUSED_TRIAGE'' then act_return (skipped repo ''paused'')
         else if (case r_triage_next_attempt_at repo of None \<Rightarrow> False | Some t \<Rightarrow> t > to_iso now)
         then act_return (skipped repo ''backoff'')
         else if r_triage_state repo = ''PROMPTING'' then stale_flight opts repo now
         else act_bind (act_get (\<lambda>s. next_due_issue (fst s) repo_id)) (\<lambda>due.
           case due of
             None \<Rightarrow> act_then (act_when (r_triage_state repo = ''BACKOFF'')
                 (write_tx (pump repo_id ''BACKOFF'' ''IDLE'' ''backoff_complete'' (JObj [(''issue_id'', JNull)]) no_triage_patch)))
               (act_return (skipped repo ''no_due''))
           | Some issue \<Rightarrow>
               act_then (write_tx (begin_flight repo_id (r_triage_state repo) (i_id issue)))
                 (act_try (prompt_flight drv opts repo issue) (failed_flight opts repo issue now))))"

definition run_triage_pass ::
  "'w session_driver \<Rightarrow> 'w triage_options \<Rightarrow> instant \<Rightarrow> repository_row list \<Rightarrow> ('w, triage_summary list) world_act" where
  "run_triage_pass drv opts now repos =
     act_fold (\<lambda>repo acc. if \<not> r_enabled repo then act_return acc
       else act_bind (run_triage_repo drv opts now (r_id repo)) (\<lambda>s. act_return (acc @ [s]))) repos []"

definition unpause_triage :: "string \<Rightarrow> bool db_act" where
  "unpause_triage repo_id =
     act_bind (act_get (\<lambda>d. get_repository_by_id d repo_id)) (\<lambda>found.
     case found of
       None \<Rightarrow> act_fail (JsError (''triage: unknown repository '' @ quoted repo_id))
     | Some repo \<Rightarrow>
         let paused = (r_triage_state repo = ''PAUSED_TRIAGE'') in
         run_write (tx_then
           (if paused then tx_bind (record_transition Triage (r_id repo) (Some ''PAUSED_TRIAGE'') ''IDLE'' ''unpause''
               (Some (JObj [(''explicit'', JBool True)])) ''controller.triage'' None) (\<lambda>row. tx_return ())
            else tx_return ())
           (tx_then (update_triage_state (r_id repo) (no_triage_patch\<lparr>tp_state := Some ''IDLE'', tp_failures := Some 0,
               tp_next_attempt_at := Some None\<rparr>))
             (tx_return paused))))"

section \<open>Bounds\<close>

lemma jitter_bounds:
  assumes "0 \<le> random" "random < 1" "0 < m"
  shows "4 * m \<le> \<lfloor>rat_of_int (5 * m) * (8 / 10 + random * (4 / 10))\<rfloor>" "\<lfloor>rat_of_int (5 * m) * (8 / 10 + random * (4 / 10))\<rfloor> < 6 * m"
proof -
  have x: "rat_of_int (5 * m) * (8 / 10 + random * (4 / 10)) = rat_of_int (4 * m) + rat_of_int (2 * m) * random" by (simp add: algebra_simps)
  have "0 \<le> rat_of_int (2 * m) * random" "rat_of_int (2 * m) * random < rat_of_int (2 * m)" using assms by simp_all
  then show "4 * m \<le> \<lfloor>rat_of_int (5 * m) * (8 / 10 + random * (4 / 10))\<rfloor>" "\<lfloor>rat_of_int (5 * m) * (8 / 10 + random * (4 / 10))\<rfloor> < 6 * m"
    unfolding x le_floor_iff floor_less_iff by simp_all
qed

text \<open>
  The delay before a retry is within a fifth of the rung of the ladder for the number of failures in a row (one, five, thirty
  minutes), whatever the jitter draws, and never above the cap of four hours.
\<close>
theorem backoff_within_ladder:
  assumes "0 \<le> random" "random < 1"
  shows "let base = (if n \<le> 1 then 60000 else if n = 2 then 300000 else 1800000) in
    4 * base \<le> 5 * triage_backoff_delay_ms n random \<and> 5 * triage_backoff_delay_ms n random < 6 * base \<and>
    triage_backoff_delay_ms n random \<le> int TRIAGE_BACKOFF_CAP_MS"
proof -
  define m :: int where "m = (if n \<le> 1 then 12000 else if n = 2 then 60000 else 360000)"
  let ?j = "\<lfloor>rat_of_int (5 * m) * (8 / 10 + random * (4 / 10))\<rfloor>"
  have base: "int (TRIAGE_BACKOFF_LADDER_MS ! nat (min (max (n - 1) 0) (int (length TRIAGE_BACKOFF_LADDER_MS) - 1))) = 5 * m"
    by (auto simp: TRIAGE_BACKOFF_LADDER_MS_def m_def min_def max_def nth_Cons' nat_eq_iff)
  have m: "0 < m" "5 * m \<le> 1800000" by (simp_all add: m_def)
  note j = jitter_bounds[OF assms m(1)]
  have "triage_backoff_delay_ms n random = min ?j (int TRIAGE_BACKOFF_CAP_MS)"
    using arg_cong[OF base, of rat_of_int] by (simp only: triage_backoff_delay_ms_def Let_def of_int_of_nat_eq)
  moreover have cap: "?j \<le> int TRIAGE_BACKOFF_CAP_MS"
    by (rule order_trans[OF less_imp_le[OF j(2)]]) (use m(2) in \<open>simp add: TRIAGE_BACKOFF_CAP_MS_def\<close>)
  ultimately have delay: "triage_backoff_delay_ms n random = ?j" by (simp only: min_absorb1)
  have "4 * (5 * m) \<le> 5 * ?j" "5 * ?j < 6 * (5 * m)" using j by linarith+
  moreover have "(if n \<le> 1 then 60000 else if n = 2 then 300000 else 1800000) = 5 * m" by (simp add: m_def)
  ultimately show ?thesis using cap unfolding delay Let_def by presburger
qed

theorem backoff_within_ladder_witness: "triage_backoff_delay_ms 2 (1 / 2) = 300000 \<and> 5 * triage_backoff_delay_ms 2 (1 / 2) < 1800000"
  using backoff_within_ladder[of "1 / 2" 2] by (simp add: triage_backoff_delay_ms_def TRIAGE_BACKOFF_LADDER_MS_def TRIAGE_BACKOFF_CAP_MS_def)

lemma length_truncate: "length (truncate_text text limit) \<le> limit + 1"
  by (simp add: truncate_text_def)

lemma truncate_clean: "c \<in> set (truncate_text text limit) \<Longrightarrow> 32 \<le> c \<and> c \<noteq> 127"
  by (auto simp: truncate_text_def split: if_splits)

text \<open>
  C27: The digest an agent sees holds prose of the issue only when its author is trusted by the configuration as it is now, at most 200
  code units of the title and 400 of the body with a mark where they are cut, and no control character.
\<close>
theorem digest_bounded_and_gated:
  "let g = build_triage_digest src path d repo issue in
     (decide_current_github_prose src (i_actor_raw_login issue) path = TRUSTED \<or> dg_title_preview g = [] \<and> dg_body_preview g = []) \<and>
     length (dg_title_preview g) \<le> 201 \<and> length (dg_body_preview g) \<le> 401 \<and>
     list_all (\<lambda>c. 32 \<le> c \<and> c \<noteq> 127) (dg_title_preview g @ dg_body_preview g)"
  using length_truncate[of "units (i_title issue)" 200] length_truncate[of "units (body_text (i_body_json issue))" 400]
  by (auto simp: build_triage_digest_def Let_def list_all_iff TITLE_PREVIEW_MAX_def BODY_PREVIEW_MAX_def dest: truncate_clean)

section \<open>Triage keeps the store\<close>

lemma pump_safe [preserves_intros]: "store_safe (pump rid f t ev reason tp)"
  unfolding pump_def by (intro preserves_intros keeping.rel_intros) simp_all

lemma flight_writes_safe [preserves_intros]:
  "store_safe (begin_flight rid f iid)" "store_safe (fail_flight rid f n now e random)"
  "store_safe (attach_and_reparent issue wid)" "store_safe (ensure_grouped issue wi)"
  unfolding begin_flight_def fail_flight_def attach_and_reparent_def ensure_grouped_def Let_def
  by (intro preserves_intros keeping.rel_intros)+

lemma ensure_resolution_ready_safe [preserves_intros]: "store_safe (ensure_resolution_ready repo issue)"
  unfolding ensure_resolution_ready_def Let_def by (intro preserves_intros keeping.rel_intros; simp)

lemma apply_suggestion_body_safe [preserves_intros]: "store_safe (apply_suggestion_body env repo issue s canonical)"
  unfolding apply_suggestion_body_def place_issue_def by (intro preserves_intros keeping.rel_intros)

lemma triage_steps_safe [act_intros]:
  "world_safe (pump_row rid)" "world_safe (apply_suggestion opts repo issue s)" "world_safe (ensure_triage_session drv opts repo)"
  "world_safe (store_body opts issue)" "world_safe (failed_flight opts repo issue now e)" "world_safe (stale_flight opts repo now)"
  unfolding pump_row_def apply_suggestion_def ensure_triage_session_def store_body_def failed_flight_def stale_flight_def Let_def
  by (intro act_intros preserves_intros)+

lemma run_triage_safe [act_intros]: "world_safe (run_triage_repo drv opts now rid)"
  unfolding run_triage_repo_def prompt_flight_def ask_agent_def by (intro act_intros preserves_intros)

lemma run_triage_pass_safe: "world_safe (run_triage_pass drv opts now repos)"
  unfolding run_triage_pass_def by (intro act_intros)

end
