(* ===== verification/Triage_Safety.thy ===== *)
theory Triage_Safety
  imports Triage
begin

text \<open>
  What a triage flight promises: the store invariant is kept, a due flight never stays open, the escalation after three failures in
  a row, and that a resolution WorkItem appears only with an issue that is READY and attached to it.
\<close>

section \<open>The row of the pump\<close>

definition repo_known :: "string \<Rightarrow> db \<Rightarrow> bool" where
  "repo_known rid d \<longleftrightarrow> get_repository_by_id d rid \<noteq> None"

text \<open>The state and the failures of the pump.\<close>

definition pump_is :: "string \<Rightarrow> db \<Rightarrow> string \<Rightarrow> int \<Rightarrow> bool" where
  "pump_is rid d st n \<longleftrightarrow> (\<exists>r. get_repository_by_id d rid = Some r \<and> r_triage_state r = st \<and> r_triage_failures r = n)"

lemma update_triage_row:
  assumes "tp_state tp \<noteq> None" "get_repository_by_id d rid = Some r"
  shows "\<exists>d' r'. update_triage_state rid tp d = Inr ((), d') \<and> get_repository_by_id d' rid = Some r' \<and>
    r_triage_state r' = the (tp_state tp) \<and> r_triage_failures r' = coalesce (tp_failures tp) (r_triage_failures r)"
proof -
  from assms(1) have "tp \<noteq> no_triage_patch" by (auto simp: no_triage_patch_def)
  moreover have "r_id r = rid" using get_repository_by_id_SomeD[OF assms(2)] by simp
  ultimately show ?thesis using assms
    by (auto simp: update_triage_state_def update_repositories_def tx_modify_eq get_repository_by_id_def find_update_where coalesce_def)
qed

lemma pump_run:
  assumes "is_legal_transition Triage f t ev" "get_repository_by_id d rid = Some r"
  shows "\<exists>d'. pump rid f t ev reason tp d = Inr ((), d') \<and> pump_is rid d' t (coalesce (tp_failures tp) (r_triage_failures r))"
proof -
  let ?row = "ledger_row Triage rid (Some f) t ev (Some (Text reason)) ''controller.triage'' (db_now d)"
  let ?d1 = "d\<lparr>state_transitions := state_transitions d @ [?row]\<rparr>"
  have "get_repository_by_id ?d1 rid = Some r" using assms(2) by (simp add: get_repository_by_id_def)
  from update_triage_row[OF _ this, of "tp\<lparr>tp_state := Some t\<rparr>"] obtain d' r'
    where "update_triage_state rid (tp\<lparr>tp_state := Some t\<rparr>) ?d1 = Inr ((), d')" "get_repository_by_id d' rid = Some r'"
      "r_triage_state r' = t" "r_triage_failures r' = coalesce (tp_failures tp) (r_triage_failures r)" by auto
  moreover have "record_transition Triage rid (Some f) t ev (Some reason) ''controller.triage'' None d = Inr (?row, ?d1)"
    using assms(1) by (simp add: Let_def)
  ultimately show ?thesis by (auto simp: pump_def pump_is_def)
qed

lemma pump_legal:
  "is_legal_transition Triage ''BACKOFF'' ''IDLE'' ''backoff_complete''" "is_legal_transition Triage ''IDLE'' ''PROMPTING'' ''triage_start''"
  "is_legal_transition Triage ''PROMPTING'' ''PAUSED_TRIAGE'' ''escalate''" "is_legal_transition Triage ''PROMPTING'' ''BACKOFF'' ''triage_backoff''"
  "is_legal_transition Triage ''PROMPTING'' ''IDLE'' ''triage_done''"
  by code_simp+

text \<open>Where a failed flight leaves the pump.\<close>

definition failed_pump :: "string \<Rightarrow> db \<Rightarrow> int \<Rightarrow> bool" where
  "failed_pump rid d n \<longleftrightarrow> pump_is rid d (if TRIAGE_ESCALATION_LIMIT \<le> n then ''PAUSED_TRIAGE'' else ''BACKOFF'') n"

lemma fail_flight_run:
  assumes "get_repository_by_id d rid = Some r"
  shows "\<exists>d'. fail_flight rid ''PROMPTING'' n now e random d = Inr ((), d') \<and> failed_pump rid d' (n + 1)"
  using pump_run[OF pump_legal(3) assms] pump_run[OF pump_legal(4) assms]
  by (auto simp: fail_flight_def failed_pump_def Let_def) fastforce+

lemma begin_flight_run:
  assumes "get_repository_by_id d rid = Some r"
  shows "\<exists>d'. begin_flight rid from iid d = Inr ((), d') \<and> repo_known rid d'"
proof (cases "from = ''BACKOFF''")
  case True
  obtain d1 where one: "pump rid ''BACKOFF'' ''IDLE'' ''backoff_complete'' (JObj [(''issue_id'', JStr iid)]) no_triage_patch d = Inr ((), d1)"
    "repo_known rid d1"
    using pump_run[OF pump_legal(1) assms, of "JObj [(''issue_id'', JStr iid)]" no_triage_patch] by (auto simp: pump_is_def repo_known_def)
  then obtain r1 where "get_repository_by_id d1 rid = Some r1" by (auto simp: repo_known_def)
  from pump_run[OF pump_legal(2) this] one True show ?thesis
    by (fastforce simp: begin_flight_def Let_def tx_when_def pump_is_def repo_known_def)
next
  case False
  with pump_run[OF pump_legal(2) assms] show ?thesis
    by (fastforce simp: begin_flight_def Let_def tx_when_def tx_simps pump_is_def repo_known_def)
qed

section \<open>Nothing removes a repository\<close>

definition repo_keys :: "db \<Rightarrow> string list" where
  "repo_keys d = map r_id (repositories d)"

lemma repo_known_keys: "repo_known rid d \<longleftrightarrow> rid \<in> set (repo_keys d)"
  by (auto simp: repo_known_def repo_keys_def get_repository_by_id_def find_None_set)

abbreviation keeps_repos :: "'a db_tx \<Rightarrow> bool" where
  "keeps_repos m \<equiv> tx_rel (frame repo_keys) m"

lemma record_keeps_repos [frame_intros]: "keeps_repos (record_transition ety eid f t ev r a when_at)"
  by (rule tx_relI, cases f) (auto simp: frame_def repo_keys_def record_transition_None dest!: record_transition_success)

lemma leaf_writes_keep_repos [frame_intros]:
  "keeps_repos (update_triage_state rid tp)" "keeps_repos (attach_issue_to_work_item iid wid)" "keeps_repos (reparent_inbox_by_issue iid wid)"
  "keeps_repos (insert_work_item wi)" "keeps_repos (update_issue_snapshot iid isp)" "keeps_repos (update_issue_state iid st disp bl)"
  by (auto intro!: tx_relI simp: frame_def repo_keys_def update_triage_state_def update_repositories_def tx_simps map_update_where
      attach_issue_to_work_item_def reparent_inbox_by_issue_def update_inbox_success insert_work_item_success tx_then_success
      update_issue_snapshot_def update_issues_def dest!: update_issue_state_success assert_json_if_set_state split: if_splits)

lemma triage_envelope_keeps_repos [frame_intros]: "keeps_repos (apply_triage_envelope e)"
proof (rule tx_relI, unfold frame_def)
  fix d res d' assume "apply_triage_envelope e d = Inr (res, d')"
  then show "repo_keys d' = repo_keys d"
  proof (cases rule: apply_triage_success)
    case (noop issue)
    then show ?thesis by (auto simp: record_noop_def repo_keys_def dest!: append_transition_success)
  next
    case (applied issue disp reason d1 row)
    then show ?thesis
      using record_transition_success[OF applied(4)] update_issue_state_success[OF applied(3)] by (simp add: repo_keys_def)
  qed
qed

lemma pump_keeps_repos [frame_intros]: "keeps_repos (pump rid f t ev reason tp)"
  unfolding pump_def by (intro frame_intros framing.rel_intros)

lemma ensure_keeps_repos [frame_intros]:
  "keeps_repos (attach_and_reparent issue wid)" "keeps_repos (ensure_grouped issue wi)" "keeps_repos (ensure_resolution_ready repo issue)"
  unfolding attach_and_reparent_def ensure_grouped_def ensure_resolution_ready_def Let_def by (intro framing.rel_intros frame_intros)+

section \<open>A due flight closes\<close>

interpretation repos_fst: tx_preorder "\<lambda>s s'. frame repo_keys (fst s) (fst s')"
  by unfold_locales (auto simp: frame_def)

lemmas repo_writes = write_rel[of "frame repo_keys"] outside_rel[of "frame repo_keys"]

lemma frame_repo_refl: "frame repo_keys d d" by (simp add: frame_def)

lemma suggestion_keeps_repos [frame_intros]:
  "keeps_repos (place_issue repo issue s canonical st)" "keeps_repos (apply_suggestion_body env repo issue s canonical)"
  unfolding apply_suggestion_body_def place_issue_def by (intro frame_intros framing.rel_intros)+

lemma flight_keeps_repos:
  "act_rel (\<lambda>s s'. frame repo_keys (fst s) (fst s')) (ask_agent drv opts repo issue)"
  "act_rel (\<lambda>s s'. frame repo_keys (fst s) (fst s')) (prompt_flight drv opts repo issue)"
  unfolding prompt_flight_def ask_agent_def ensure_triage_session_def store_body_def apply_suggestion_def pump_row_def
  by (intro repos_fst.act_rel_intros repo_writes[OF frame_repo_refl] frame_intros)+

lemma act_bind_InrD: "act_bind m f s = (Inr x, s') \<Longrightarrow> \<exists>y s1. m s = (Inr y, s1) \<and> f y s1 = (Inr x, s')"
  by (auto simp: act_bind_def split: prod.splits sum.splits)

lemma write_tx_InrD: "write_tx m (d, w) = (Inr x, (d', w')) \<Longrightarrow> m d = Inr (x, d') \<and> w' = w"
  by (auto simp: write_tx_def on_fst_def run_write_def split: sum.splits)

lemma applied_body_pump:
  assumes "apply_suggestion_body env repo issue s canonical d = Inr (x, d')" "repo_known (r_id repo) d"
  shows "pump_is (r_id repo) d' ''IDLE'' 0"
proof -
  let ?tp = "no_triage_patch\<lparr>tp_failures := Some 0, tp_next_attempt_at := Some None\<rparr>"
  obtain res d1 created d2 reason where steps: "apply_triage_envelope \<lparr>te_envelope_id = env, te_issue_id = i_id issue,
        te_disposition = sg_disposition s, te_canonical_work_item_id = sg_canonical_work_item_id s, te_blocked_by = sg_blocked_by s,
        te_reason = sg_reason s\<rparr> d = Inr (res, d1)" "place_issue repo issue s canonical (ar_status res) d1 = Inr (created, d2)"
      "pump (r_id repo) ''PROMPTING'' ''IDLE'' ''triage_done'' reason ?tp d2 = Inr ((), d')"
    using assms(1) unfolding apply_suggestion_body_def tx_bind_success tx_then_success tx_get_eq tx_return_success by auto
  have "repo_keys d2 = repo_keys d"
    using tx_relD[OF triage_envelope_keeps_repos steps(1)] tx_relD[OF suggestion_keeps_repos(1) steps(2)] by (simp add: frame_def)
  with assms(2) have "repo_known (r_id repo) d2" by (simp add: repo_known_keys)
  then obtain r where "get_repository_by_id d2 (r_id repo) = Some r" by (auto simp: repo_known_def)
  from pump_run[OF pump_legal(5) this, of reason ?tp] steps(3) show ?thesis by auto
qed

lemma prompt_flight_success:
  assumes "prompt_flight drv opts repo issue (d, w) = (Inr x, (d', w'))" "repo_known (r_id repo) d"
  shows "pump_is (r_id repo) d' ''IDLE'' 0"
proof -
  obtain s d1 w1 where ask: "ask_agent drv opts repo issue (d, w) = (Inr s, (d1, w1))"
    and app: "apply_suggestion opts repo issue s (d1, w1) = (Inr x, (d', w'))"
    using act_bind_InrD[OF assms(1)[unfolded prompt_flight_def]] by auto
  from act_relD[OF flight_keeps_repos(1) ask] assms(2) have known: "repo_known (r_id repo) d1" by (simp add: frame_def repo_known_keys)
  have "check_suggestion issue s = None" using app by (cases "check_suggestion issue s") (auto simp: apply_suggestion_def act_fail_def)
  with app obtain canonical y d2 w2 after where
      "write_tx (apply_suggestion_body (''env-'' @ to_uuid opts) repo issue s canonical) (d1, w1) = (Inr y, (d2, w2))"
      "pump_row (r_id repo) (d2, w2) = (Inr after, (d', w'))"
    by (auto simp: apply_suggestion_def act_bind_eqs act_return_def dest!: act_bind_InrD split: if_splits)
  then show ?thesis
    using applied_body_pump[OF _ known]
    by (cases y) (auto simp: pump_row_def act_bind_eqs act_return_def act_fail_def dest!: write_tx_InrD split: option.splits)
qed

lemma fail_then_read:
  assumes "act_then (write_tx (fail_flight rid ''PROMPTING'' n now e random)) k (d, w) = (r, (d', w'))" "repo_known rid d"
    "\<And>d w. fst (snd (k (d, w))) = d"
  shows "failed_pump rid d' (n + 1)"
proof -
  obtain row where "get_repository_by_id d rid = Some row" using assms(2) by (auto simp: repo_known_def)
  from fail_flight_run[OF this] obtain d1 where run: "fail_flight rid ''PROMPTING'' n now e random d = Inr ((), d1)"
    and failed: "failed_pump rid d1 (n + 1)" by blast
  have "k (d1, w) = (r, (d', w'))" using assms(1) run by (simp add: act_then_def act_bind_def write_tx_def on_fst_def)
  with assms(3)[of d1 w] failed show ?thesis by simp
qed

lemma pump_row_reads: "fst (snd (act_bind (pump_row rid) (\<lambda>x. act_return (f x)) (d, w))) = d"
  by (simp add: pump_row_def act_bind_def act_get_def act_return_def act_fail_def split: option.splits)


section \<open>No resolution before READY\<close>

text \<open>A WorkItem that is READY and has an active link to an issue that is READY.\<close>

definition backed :: "db \<Rightarrow> string \<Rightarrow> bool" where
  "backed d wid \<longleftrightarrow> (wid, ''READY'') \<in> set (work_item_column d) \<and>
     (\<exists>l \<in> set (issue_work_items d). l_work_item_id l = wid \<and> active_link l \<and> (l_issue_id l, ''READY'') \<in> set (issue_column d))"

definition new_items_backed :: "db \<Rightarrow> db \<Rightarrow> bool" where
  "new_items_backed d d' \<longleftrightarrow> (\<forall>wid \<in> work_item_ids d' - work_item_ids d. backed d' wid) \<and> (\<forall>wid. backed d wid \<longrightarrow> backed d' wid)"

definition triage_step :: "db \<Rightarrow> db \<Rightarrow> bool" where
  "triage_step d d' \<longleftrightarrow> (store_ok d \<longrightarrow> store_ok d' \<and> new_items_backed d d')"

lemma triage_step_preorder: "triage_step d d" "triage_step d e \<Longrightarrow> triage_step e f \<Longrightarrow> triage_step d f"
  unfolding triage_step_def new_items_backed_def by blast+

interpretation triaging_fst: tx_preorder "\<lambda>s s'. triage_step (fst s) (fst s')"
  by unfold_locales (blast intro: triage_step_preorder)+

definition triage_view :: "db \<Rightarrow> (string \<times> string) list \<times> (string \<times> string) list \<times> issue_link_row list" where
  "triage_view d = (work_item_column d, issue_column d, issue_work_items d)"

lemma same_view_backed: "triage_view d' = triage_view d \<Longrightarrow> new_items_backed d d'"
  by (auto simp: triage_view_def new_items_backed_def backed_def column_ids[symmetric])

lemma same_view_step: "store_safe m \<Longrightarrow> tx_rel (frame triage_view) m \<Longrightarrow> tx_rel triage_step m"
  by (auto simp: tx_rel_def frame_def triage_step_def keeps_def same_view_backed)

lemma other_record_keeps_view [frame_intros]:
  "ety \<noteq> Work_Item \<Longrightarrow> ety \<noteq> Issue \<Longrightarrow> tx_rel (frame triage_view) (record_transition ety eid f t ev r a when_at)"
  by (rule tx_relI, cases f) (auto simp: frame_def triage_view_def record_transition_None dest!: record_transition_success)

lemma triage_writes_keep_view [frame_intros]:
  "tx_rel (frame triage_view) (update_triage_state rid tp)" "tx_rel (frame triage_view) (update_issue_snapshot iid isp)"
proof -
  show "tx_rel (frame triage_view) (update_triage_state rid tp)"
    by (auto intro!: tx_relI simp: frame_def triage_view_def update_triage_state_def update_repositories_def tx_simps
        work_item_column_def issue_column_def split: if_splits)
  show "tx_rel (frame triage_view) (update_issue_snapshot iid isp)"
    by (auto intro!: tx_relI simp: frame_def triage_view_def update_issue_snapshot_def update_issues_def tx_simps tx_then_success
        work_item_column_def issue_column_def map_update_where dest!: assert_json_if_set_state split: if_splits)
qed

lemma pump_keeps_view [frame_intros]:
  "tx_rel (frame triage_view) (pump rid f t ev reason tp)" "tx_rel (frame triage_view) (begin_flight rid f iid)"
  "tx_rel (frame triage_view) (fail_flight rid f n now e random)"
  unfolding pump_def begin_flight_def fail_flight_def Let_def by (intro frame_intros framing.rel_intros; simp)+

lemma attach_and_reparent_success:
  assumes "attach_and_reparent issue wid d = Inr (u, d')"
  shows "\<exists>l. work_items d' = work_items d \<and> issues d' = issues d \<and> issue_work_items d' = issue_work_items d @ [l] \<and>
    l_issue_id l = i_id issue \<and> l_work_item_id l = wid \<and> active_link l"
  using assms
  by (auto simp: attach_and_reparent_def attach_issue_to_work_item_def reparent_inbox_by_issue_def tx_success update_inbox_success
      tx_simps active_link_def split: if_splits)

lemma place_issue_backed:
  assumes "place_issue repo issue s canonical st d = Inr (x, d')"
    "st \<noteq> Noop_Duplicate \<Longrightarrow> sg_disposition s = ''READY'' \<Longrightarrow> (i_id issue, ''READY'') \<in> set (issue_column d)"
  shows "new_items_backed d d'"
proof -
  have same: "new_items_backed d d" by (simp add: same_view_backed)
  have attached: "new_items_backed d e" if "attach_and_reparent issue wid d = Inr (u, e)" for wid u e
    using attach_and_reparent_success[OF that]
    by (auto simp: new_items_backed_def backed_def work_item_column_def issue_column_def work_item_ids_def)
  consider "d' = d" | wid u where "attach_and_reparent issue wid d = Inr (u, d')"
    | y where "st \<noteq> Noop_Duplicate" "sg_disposition s = ''READY''" "ensure_resolution_ready repo issue d = Inr (y, d')"
    using assms(1) unfolding place_issue_def ensure_grouped_def tx_success tx_return_success
    by (auto simp: tx_return_success tx_success split: if_splits option.splits)
  then show ?thesis
  proof cases
    case 3
    note ready = assms(2)[OF 3(1,2)]
    let ?wid = "work_item_id_for repo issue"
    consider "d' = d" | u where "attach_and_reparent issue ?wid d = Inr (u, d')"
      | row d1 u where "insert_work_item \<lparr>wi_id = ?wid, wi_repo_id = r_id repo, wi_state = ''READY'', wi_title = Some (i_title issue),
               wi_base_branch = coalesce (r_base_branch repo) ''main'', wi_head_branch = None, wi_lease_token = None, wi_lease_until = None,
               wi_attempts = None, wi_priority = None\<rparr> d = Inr (row, d1)" "attach_and_reparent issue ?wid d1 = Inr (u, d')"
      using 3(3) by (auto simp: ensure_resolution_ready_def Let_def tx_success tx_return_success tx_get_eq split: if_splits list.splits)
    then show ?thesis
    proof cases
      case 3
      from 3(1) have d1: "d1 = d\<lparr>work_items := work_items d @ [row]\<rparr>" "w_id row = ?wid" "w_state row = ''READY''"
        by (auto simp: insert_work_item_success new_work_item_row_def)
      from attach_and_reparent_success[OF 3(2)] obtain l where l: "work_items d' = work_items d1" "issues d' = issues d1"
        "issue_work_items d' = issue_work_items d1 @ [l]" "l_issue_id l = i_id issue" "l_work_item_id l = ?wid" "active_link l" by blast
      have col: "work_item_column d' = work_item_column d @ [(?wid, ''READY'')]" "issue_column d' = issue_column d"
        "issue_work_items d' = issue_work_items d @ [l]" using l d1 by (simp_all add: work_item_column_def issue_column_def)
      then have "work_item_ids d' - work_item_ids d \<subseteq> {?wid}" by (auto simp: column_ids[symmetric])
      moreover have "backed d' ?wid" using col ready l(4-6) by (auto simp: backed_def)
      moreover have "backed d wid \<Longrightarrow> backed d' wid" for wid using col by (auto simp: backed_def)
      ultimately show ?thesis unfolding new_items_backed_def by blast
    qed (simp_all add: same attached)
  qed (simp_all add: same attached)
qed

lemma ready_issue_stays: "is_legal_transition Issue st t ev \<Longrightarrow> st \<noteq> ''READY''"
  by (auto simp: is_legal_transition_def issue_transitions_def)

lemma apply_triage_backed:
  assumes "store_ok d" "apply_triage_envelope e d = Inr (res, d')"
  shows "new_items_backed d d'" "ar_status res \<noteq> Noop_Duplicate \<Longrightarrow> (te_issue_id e, te_disposition e) \<in> set (issue_column d')"
proof -
  have "new_items_backed d d' \<and> (ar_status res \<noteq> Noop_Duplicate \<longrightarrow> (te_issue_id e, te_disposition e) \<in> set (issue_column d'))"
    using assms(2)
  proof (cases rule: apply_triage_success)
    case (noop issue)
    then have "triage_view d' = triage_view d"
      by (auto simp: record_noop_def triage_view_def work_item_column_def issue_column_def dest!: append_transition_success)
    with noop same_view_backed show ?thesis by simp
  next
    case (applied issue disp reason d1 row)
    note r = record_transition_success[OF applied(4)]
    have id: "i_id issue = te_issue_id e" using get_issue_by_id_SomeD[OF applied(1)] by simp
    have tab: "issue_column d' = set_state_of (i_id issue) (te_disposition e) (issue_column d)"
      using audited_issue.set_tab[of "i_id issue" "te_disposition e" "(disp, te_blocked_by e)" d "()" d1] applied(3) r by simp
    have rest: "work_item_column d' = work_item_column d" "issue_work_items d' = issue_work_items d"
      using r update_issue_state_success[OF applied(3)] by (simp_all add: work_item_column_def)
    have mem: "(i_id issue, i_state issue) \<in> set (issue_column d)" using column_mem(2)[OF applied(1)] id by simp
    have keep: "(i, ''READY'') \<in> set (issue_column d')" if ready: "(i, ''READY'') \<in> set (issue_column d)" for i
    proof -
      have "i_state issue \<noteq> ''READY''" using ready_issue_stays r by blast
      moreover have "i = i_id issue \<Longrightarrow> ''READY'' = i_state issue"
        using eq_key_imp_eq_value[OF distinct_columns(2)[OF store_okD(1)[OF assms(1)]] _ mem] ready by simp
      ultimately have "i \<noteq> i_id issue" by auto
      with ready show ?thesis by (force simp: tab set_state_of_def)
    qed
    have "new_items_backed d d'"
      using keep rest by (auto simp: new_items_backed_def backed_def column_ids[symmetric])
    moreover have "(te_issue_id e, te_disposition e) \<in> set (issue_column d')" using mem by (force simp: tab set_state_of_def id)
    ultimately show ?thesis by simp
  qed
  then show "new_items_backed d d'" "ar_status res \<noteq> Noop_Duplicate \<Longrightarrow> (te_issue_id e, te_disposition e) \<in> set (issue_column d')" by simp_all
qed

lemma apply_body_step: "tx_rel triage_step (apply_suggestion_body env repo issue s canonical)"
proof (rule tx_relI, unfold triage_step_def, rule impI)
  fix d x d' assume d: "store_ok d" and run: "apply_suggestion_body env repo issue s canonical d = Inr (x, d')"
  let ?e = "\<lparr>te_envelope_id = env, te_issue_id = i_id issue, te_disposition = sg_disposition s,
    te_canonical_work_item_id = sg_canonical_work_item_id s, te_blocked_by = sg_blocked_by s, te_reason = sg_reason s\<rparr>"
  obtain res d1 created d2 reason tp where steps: "apply_triage_envelope ?e d = Inr (res, d1)"
      "place_issue repo issue s canonical (ar_status res) d1 = Inr (created, d2)"
      "pump (r_id repo) ''PROMPTING'' ''IDLE'' ''triage_done'' reason tp d2 = Inr ((), d')"
    using run unfolding apply_suggestion_body_def tx_bind_success tx_then_success tx_get_eq tx_return_success by auto
  have "new_items_backed d d1" "new_items_backed d1 d2"
    using apply_triage_backed[OF d steps(1)] by (simp, intro place_issue_backed[OF steps(2)]) simp
  moreover have "new_items_backed d2 d'" using tx_relD[OF pump_keeps_view(1) steps(3)] by (simp add: frame_def same_view_backed)
  ultimately have "new_items_backed d d'" unfolding new_items_backed_def by blast
  with store_safeD[OF apply_suggestion_body_safe d run] show "store_ok d' \<and> new_items_backed d d'" by blast
qed

lemma triage_step_writes:
  "tx_rel triage_step m \<Longrightarrow> act_rel (\<lambda>s s'. triage_step (fst s) (fst s')) (write_tx m)"
  "act_rel (\<lambda>s s'. triage_step (fst s) (fst s')) (on_snd n)"
  by (rule write_rel[of triage_step] outside_rel[of triage_step]; simp add: triage_step_preorder)+

text \<open>
  C29: No resolution before READY: a triage flight keeps the store invariant, and every WorkItem it brings into being is READY and
  has an active link to an issue that is READY; a WorkItem that was so backed before still is.
\<close>
theorem work_items_appear_only_for_ready_issues:
  assumes "store_ok d" "run_triage_repo drv opts now rid (d, w) = (r, (d', w'))"
  shows "store_ok d' \<and> new_items_backed d d'"
proof -
  have view: "tx_rel triage_step (pump rid f t ev reason tp)" "tx_rel triage_step (begin_flight rid f iid)"
    "tx_rel triage_step (fail_flight rid f n now e random)" "tx_rel triage_step (update_triage_state rid tp)"
    "tx_rel triage_step (update_issue_snapshot iid isp)" for rid f t ev reason tp iid n e random isp
    by (intro same_view_step preserves_intros frame_intros)+
  have "act_rel (\<lambda>s s'. triage_step (fst s) (fst s')) (run_triage_repo drv opts now rid)"
    unfolding run_triage_repo_def stale_flight_def failed_flight_def prompt_flight_def ask_agent_def ensure_triage_session_def
      store_body_def apply_suggestion_def pump_row_def Let_def
    by (intro triaging_fst.act_rel_intros triage_step_writes view apply_body_step)
  from act_relD[OF this assms(2)] assms(1) show ?thesis by (simp add: triage_step_def)
qed

section \<open>Witnesses\<close>

text \<open>Issue 2 was opened after the baseline and no label is asked for, so it waits for triage.\<close>

definition example_triage_db :: db where
  "example_triage_db = snd (run_write (ingest_issue (example_snapshot ''h1'' []) [] (sn_issues (example_snapshot ''h1'' []) ! 1)
     (initial_result (example_snapshot ''h1'' []))) example_db)"

lemma example_triage_db_ok: "store_ok example_triage_db"
  unfolding example_triage_db_def by (rule store_safe_run[OF ingest_issue_store_safe example_db_ok])

text \<open>The agent answers with the given disposition.\<close>

definition sample_agent :: "string \<Rightarrow> unit session_driver" where
  "sample_agent disposition = \<lparr>sd_ensure = (\<lambda>m. act_return ''ses_t''), sd_prompt_triage = (\<lambda>sid g. act_return
     \<lparr>sg_issue_id = dg_issue_id g, sg_disposition = disposition, sg_canonical_work_item_id = None, sg_blocked_by = None, sg_reason = None\<rparr>)\<rparr>"

definition sample_triage_options :: "unit triage_options" where
  "sample_triage_options = \<lparr>to_random = 0, to_fetch_body = None, to_agent = None, to_model = None,
     to_config = (\<lambda>w. \<lparr>cs_finite_date = (\<lambda>s. True), cs_parse_yaml = (\<lambda>s. None), cs_read_file = (\<lambda>s. None)\<rparr>),
     to_config_path = ''tissue.yml'', to_uuid = ''u''\<rparr>"


lemma triage_example_run:
  "map w_id (work_items (fst (snd (run_triage_repo (sample_agent ''READY'') sample_triage_options 0 ''acme/tool'' (example_triage_db, ()))))) =
     [''wi-acme-tool-2'']" "work_items example_triage_db = []"
  by code_simp+

theorem work_items_appear_only_for_ready_issues_witness:
  "\<exists>r d' w'. run_triage_repo (sample_agent ''READY'') sample_triage_options 0 ''acme/tool'' (example_triage_db, ()) = (r, (d', w')) \<and>
     store_ok d' \<and> work_item_ids example_triage_db = {} \<and> backed d' ''wi-acme-tool-2''"
proof -
  obtain r d' w' where run: "run_triage_repo (sample_agent ''READY'') sample_triage_options 0 ''acme/tool'' (example_triage_db, ()) = (r, (d', w'))"
    by (metis surj_pair)
  have "map w_id (work_items d') = [''wi-acme-tool-2'']" using triage_example_run(1) unfolding run fst_conv snd_conv .
  then have "''wi-acme-tool-2'' \<in> work_item_ids d'" by (auto simp: work_item_ids_def)
  moreover have none: "work_item_ids example_triage_db = {}" by (simp add: work_item_ids_def triage_example_run(2))
  moreover note safe = work_items_appear_only_for_ready_issues[OF example_triage_db_ok run]
  ultimately have "store_ok d' \<and> work_item_ids example_triage_db = {} \<and> backed d' ''wi-acme-tool-2''"
    unfolding new_items_backed_def by blast
  with run show ?thesis by blast
qed

end
