(* ===== verification/Gh_Transport.thy ===== *)
theory Gh_Transport
  imports Merge_Safety Git Js_Text
begin

text \<open>
  The production transport of the side effects over gh and git (\<^verbatim>\<open>GhEffectTransport\<close>, \<^verbatim>\<open>parsePr\<close> and \<^verbatim>\<open>parseProtection\<close> of
  \<^verbatim>\<open>src/controller/effects.ts\<close>): the twelve operations of the interface \<open>effect_transport\<close>, each one gh or git command. The number fields of
  gh's answers are integers; \<open>number_field\<close> stops where \<^verbatim>\<open>Number(v)\<close> is NaN or a fraction, which is outside the model.
\<close>

section \<open>Reading answers\<close>

fun json_truthy :: "json option \<Rightarrow> bool" where
  "json_truthy None = False"
| "json_truthy (Some JNull) = False"
| "json_truthy (Some (JBool b)) = b"
| "json_truthy (Some (JNum n)) = (n \<noteq> 0)"
| "json_truthy (Some (JFrac s)) = True"
| "json_truthy (Some (JStr s)) = (s \<noteq> [])"
| "json_truthy (Some (JArr vs)) = True"
| "json_truthy (Some (JObj fs)) = True"

fun array_items :: "json option \<Rightarrow> json list option" where
  "array_items (Some (JArr vs)) = Some vs"
| "array_items _ = None"

definition number_field :: "json option \<Rightarrow> err + int" where
  "number_field v = (case int_or v 0 of None \<Rightarrow> Inl (JsError ''NaN'') | Some n \<Rightarrow> Inr n)"

text \<open>\<^verbatim>\<open>String(v ?? fallback).toUpperCase()\<close>\<close>

definition upper_field :: "json \<Rightarrow> string \<Rightarrow> string \<Rightarrow> string" where
  "upper_field raw k fallback = to_upper (string_or (json_field raw k) fallback)"

definition parse_pr :: "json \<Rightarrow> err + pr_view" where
  "parse_pr raw =
     (case number_field (json_field raw ''number'') of
        Inl e \<Rightarrow> Inl e
      | Inr n \<Rightarrow> Inr
         \<lparr>pv_number = n,
          pv_head_ref_name = string_or_null (json_field raw ''headRefName''),
          pv_head_sha = string_or_null (json_field raw ''headRefOid''),
          pv_head_owner = string_or_null (sub_field (json_field raw ''headRepositoryOwner'') ''login''),
          pv_head_repo = string_or_null (sub_field (json_field raw ''headRepository'') ''nameWithOwner''),
          pv_state = upper_field raw ''state'' ''OPEN'',
          pv_mergeable = upper_field raw ''mergeable'' ''UNKNOWN'',
          pv_merge_state_status = upper_field raw ''mergeStateStatus'' ''UNKNOWN'',
          pv_is_draft = (json_field raw ''isDraft'' = Some (JBool True)),
          pv_review_decision = upper_field raw ''reviewDecision'' []\<rparr>)"

text \<open>\<^verbatim>\<open>[...new Set(xs)]\<close> keeps the first of equal elements.\<close>

definition unique_first :: "string list \<Rightarrow> string list" where
  "unique_first xs = rev (remdups (rev xs))"

text \<open>The named contexts of the protection; reading the context of a \<^verbatim>\<open>null\<close> check throws.\<close>

definition required_contexts :: "json option \<Rightarrow> err + string list" where
  "required_contexts status =
     (if \<not> json_truthy status then Inr []
      else let contexts = map js_string (coalesce (array_items (sub_field status ''contexts'')) []);
               checks = coalesce (array_items (sub_field status ''checks'')) [] in
        if List.member checks JNull then Inl (JsError ''TypeError: Cannot read properties of null'')
        else Inr (unique_first (contexts @ filter (\<lambda>s. s \<noteq> []) (map (\<lambda>c. string_or (json_field c ''context'') []) checks))))"

definition parse_protection :: "json \<Rightarrow> err + protection_read" where
  "parse_protection raw =
     (case required_contexts (json_field raw ''required_status_checks'') of
        Inl e \<Rightarrow> Inl e
      | Inr checks \<Rightarrow>
          (case number_field (sub_field (json_field raw ''required_pull_request_reviews'') ''required_approving_review_count'') of
             Inl e \<Rightarrow> Inl e
           | Inr n \<Rightarrow> Inr
               \<lparr>pt_enabled = True, pt_required_approvals = n,
                pt_enforce_admins = (json_field raw ''enforce_admins'' = Some (JBool True)
                  \<or> json_truthy (sub_field (json_field raw ''enforce_admins'') ''enabled'')),
                pt_required_checks = checks, pt_known = Some True\<rparr>))"

section \<open>The operations\<close>

definition run_checked :: "'w gh_client \<Rightarrow> string list checked \<Rightarrow> string option \<Rightarrow> ('w, err, unit) act" where
  "run_checked gh args stdin =
     (case args of Inl e \<Rightarrow> act_fail e | Inr argv \<Rightarrow> act_bind (gh_run gh argv stdin) (\<lambda>res. act_return ()))"

definition not_found_as :: "'a \<Rightarrow> ('w, err, 'a) act \<Rightarrow> ('w, err, 'a) act" where
  "not_found_as absent m = act_try m (\<lambda>e. case e of GhError Not_Found t \<Rightarrow> act_return absent | _ \<Rightarrow> act_fail e)"

definition read_object :: "'w gh_client \<Rightarrow> string list checked \<Rightarrow> ('w, err, json) act" where
  "read_object gh args = act_bind (gh_run_json gh args) (\<lambda>raw. act_then (js_object raw) (act_return raw))"

definition push_head :: "'w git_env \<Rightarrow> string \<Rightarrow> string \<Rightarrow> string \<Rightarrow> string option \<Rightarrow> ('w, err, string option) act" where
  "push_head g dir branch sha remote =
     act_then (push_branch g dir branch remote None) (remote_branch_sha g dir branch remote)"

definition read_issue_state :: "'w gh_client \<Rightarrow> string \<Rightarrow> string \<Rightarrow> int \<Rightarrow> ('w, err, string option) act" where
  "read_issue_state gh owner name number =
     not_found_as None (act_bind (read_object gh (argv_issue_view owner name number)) (\<lambda>raw.
       act_return (Some (upper_field raw ''state'' []))))"

definition comment_issue :: "'w gh_client \<Rightarrow> string \<Rightarrow> string \<Rightarrow> int \<Rightarrow> string \<Rightarrow> ('w, err, string option) act" where
  "comment_issue gh owner name number body =
     act_then (run_checked gh (argv_issue_comment owner name number) (Some body)) (act_return None)"

definition create_pr ::
  "'w gh_client \<Rightarrow> string \<Rightarrow> string \<Rightarrow> string \<Rightarrow> string \<Rightarrow> string \<Rightarrow> string \<Rightarrow> string option \<Rightarrow> ('w, err, int option) act" where
  "create_pr gh owner name head base title body head_owner =
     act_then (run_checked gh (argv_pr_create \<lparr>pq_owner = owner, pq_name = name, pq_head = head, pq_head_owner = head_owner, pq_base = base,
         pq_title = title\<rparr>) (Some body))
       (act_return None)"

text \<open>The first listed pull request with the head; a \<^verbatim>\<open>null\<close> item before it throws.\<close>

fun first_with_head :: "string \<Rightarrow> json list \<Rightarrow> err + pr_view option" where
  "first_with_head ref [] = Inr None"
| "first_with_head ref (item # items) =
     (if item = JNull then Inl (JsError ''TypeError: Cannot read properties of null'')
      else if json_field item ''headRefName'' = Some (JStr ref) then map_sum id Some (parse_pr item)
      else first_with_head ref items)"

definition find_pr_by_head :: "'w gh_client \<Rightarrow> string \<Rightarrow> string \<Rightarrow> string \<Rightarrow> ('w, err, pr_view option) act" where
  "find_pr_by_head gh owner name head_ref =
     act_bind (gh_run_json gh (argv_pr_list owner name ''all'' 100)) (\<lambda>raw.
       act_lift (first_with_head head_ref (coalesce (array_items (Some raw)) [])))"

definition read_pr_view :: "'w gh_client \<Rightarrow> string \<Rightarrow> string \<Rightarrow> int \<Rightarrow> ('w, err, pr_view option) act" where
  "read_pr_view gh owner name number =
     not_found_as None (act_bind (read_object gh (argv_pr_view owner name number)) (\<lambda>raw. act_lift (map_sum id Some (parse_pr raw))))"

definition no_protection :: protection_read where
  "no_protection = \<lparr>pt_enabled = False, pt_required_approvals = 0, pt_enforce_admins = False, pt_required_checks = [], pt_known = Some True\<rparr>"

definition read_protection :: "'w gh_client \<Rightarrow> string \<Rightarrow> string \<Rightarrow> string \<Rightarrow> ('w, err, protection_read) act" where
  "read_protection gh owner name branch =
     not_found_as no_protection (act_bind (read_object gh (argv_protection owner name branch)) (\<lambda>raw. act_lift (parse_protection raw)))"

text \<open>The rows of a list field; a \<^verbatim>\<open>null\<close> row throws.\<close>

definition field_rows :: "string \<Rightarrow> (json \<Rightarrow> 'a option) \<Rightarrow> json \<Rightarrow> err + 'a list" where
  "field_rows k f raw =
     (let items = coalesce (array_items (json_field raw k)) [] in
      if List.member items JNull then Inl (JsError ''TypeError: Cannot read properties of null'')
      else Inr (List.map_filter f items))"

definition check_view_of :: "json \<Rightarrow> check_view option" where
  "check_view_of item =
     (let named = json_field item ''name'';
          name = string_or (if named = None \<or> named = Some JNull then json_field item ''context'' else named) [] in
      if name = [] then None
      else Some \<lparr>cv_name = name, cv_status = upper_field item ''status'' ''UNKNOWN'',
        cv_conclusion = upper_field item ''conclusion'' ''PENDING''\<rparr>)"

definition read_checks :: "'w gh_client \<Rightarrow> string \<Rightarrow> string \<Rightarrow> int \<Rightarrow> ('w, err, check_view list) act" where
  "read_checks gh owner name number =
     act_bind (read_object gh (argv_pr_checks owner name number)) (\<lambda>raw. act_lift (field_rows ''statusCheckRollup'' check_view_of raw))"

definition review_view_of :: "json \<Rightarrow> review_view option" where
  "review_view_of item =
     Some \<lparr>rv_review_id = string_or (json_field item ''id'') [], rv_state = upper_field item ''state'' ''UNKNOWN'',
       rv_author = string_or (sub_field (json_field item ''author'') ''login'') []\<rparr>"

definition read_reviews :: "'w gh_client \<Rightarrow> string \<Rightarrow> string \<Rightarrow> int \<Rightarrow> ('w, err, review_view list) act" where
  "read_reviews gh owner name number =
     act_bind (read_object gh (argv_pr_reviews owner name number)) (\<lambda>raw. act_lift (field_rows ''reviews'' review_view_of raw))"

definition gh_effect_transport :: "'w gh_client \<Rightarrow> 'w git_env \<Rightarrow> 'w effect_transport" where
  "gh_effect_transport gh g =
     \<lparr>et_push_head = push_head g, et_read_issue_state = read_issue_state gh, et_comment_issue = comment_issue gh,
      et_close_issue = (\<lambda>owner name number. run_checked gh (argv_issue_close owner name number) None),
      et_reopen_issue = (\<lambda>owner name number. run_checked gh (argv_issue_reopen owner name number) None),
      et_create_pr = create_pr gh, et_find_pr_by_head = find_pr_by_head gh, et_read_pr = read_pr_view gh,
      et_read_protection = read_protection gh, et_read_checks = read_checks gh, et_read_reviews = read_reviews gh,
      et_merge_pr = (\<lambda>owner name number meth. run_checked gh (argv_pr_merge owner name number meth) None)\<rparr>"

section \<open>What the transport runs\<close>

text \<open>
  Any client, with the commands it runs written down beside its own world: \<open>logs P m n\<close> says that \<open>m\<close> does with the log what \<open>n\<close> does
  without it, and writes only commands that satisfy \<open>P\<close>.
\<close>

type_synonym 'w logged = "string list list \<times> 'w"

definition logged_gh :: "'w gh_client \<Rightarrow> 'w logged gh_client" where
  "logged_gh gh =
     \<lparr>gc_run = (\<lambda>args stdin (log, w). case gc_run gh args stdin w of (res, w') \<Rightarrow> (res, (log @ [args], w'))),
      gc_parse = gc_parse gh, gc_binary = gc_binary gh, gc_min_version = gc_min_version gh\<rparr>"

definition unlogged_git :: "'w git_env \<Rightarrow> 'w logged git_env" where
  "unlogged_git g =
     \<lparr>ge_run = (\<lambda>argv cwd (log, w). case ge_run g argv cwd w of (res, w') \<Rightarrow> (res, (log, w'))),
      ge_read_file = (\<lambda>path s. ge_read_file g path (snd s)),
      ge_append_file = (\<lambda>path text s. (fst s, ge_append_file g path text (snd s)))\<rparr>"

definition logs :: "(string list \<Rightarrow> bool) \<Rightarrow> ('w logged, err, 'a) act \<Rightarrow> ('w, err, 'a) act \<Rightarrow> bool" where
  "logs P m n \<longleftrightarrow> (\<forall>log u. \<exists>more. m (log, u) = (fst (n u), (log @ more, snd (n u))) \<and> (\<forall>argv \<in> set more. P argv))"

named_theorems logs_intros

lemma logsD:
  assumes "logs P m n"
  obtains more where "m (log, u) = (fst (n u), (log @ more, snd (n u)))" "\<forall>argv \<in> set more. P argv"
  using assms unfolding logs_def by blast

lemma logs_simple [logs_intros]:
  "logs P (act_return x) (act_return x)" "logs P (act_fail e) (act_fail e)" "logs P (act_guard b e) (act_guard b e)"
  "logs P (act_lift v) (act_lift v)"
  by (auto simp: logs_def act_return_def act_fail_def act_guard_def act_lift_def split: sum.splits)

lemma logs_bind [logs_intros]:
  assumes "logs P m n" "\<And>x. logs P (f x) (g x)"
  shows "logs P (act_bind m f) (act_bind n g)"
  unfolding logs_def
proof (intro allI)
  fix log u
  obtain more where m: "m (log, u) = (fst (n u), (log @ more, snd (n u)))" "\<forall>argv \<in> set more. P argv" by (rule logsD[OF assms(1)])
  show "\<exists>more. act_bind m f (log, u) = (fst (act_bind n g u), (log @ more, snd (act_bind n g u))) \<and> (\<forall>argv \<in> set more. P argv)"
  proof (cases "n u")
    case (Pair r u')
    show ?thesis
    proof (cases r)
      case (Inl e)
      with m Pair show ?thesis by (auto simp: act_bind_def)
    next
      case (Inr x)
      obtain rest where "f x (log @ more, u') = (fst (g x u'), ((log @ more) @ rest, snd (g x u')))" "\<forall>argv \<in> set rest. P argv"
        by (rule logsD[OF assms(2)])
      with m Pair Inr show ?thesis by (intro exI[of _ "more @ rest"]) (auto simp: act_bind_def)
    qed
  qed
qed

lemma logs_then [logs_intros]: "logs P m n \<Longrightarrow> logs P f g \<Longrightarrow> logs P (act_then m f) (act_then n g)"
  unfolding act_then_def by (rule logs_bind)

lemma logs_try [logs_intros]:
  assumes "logs P m n" "\<And>x. logs P (f x) (g x)"
  shows "logs P (act_try m f) (act_try n g)"
  unfolding logs_def
proof (intro allI)
  fix log u
  obtain more where m: "m (log, u) = (fst (n u), (log @ more, snd (n u)))" "\<forall>argv \<in> set more. P argv" by (rule logsD[OF assms(1)])
  show "\<exists>more. act_try m f (log, u) = (fst (act_try n g u), (log @ more, snd (act_try n g u))) \<and> (\<forall>argv \<in> set more. P argv)"
  proof (cases "n u")
    case (Pair r u')
    show ?thesis
    proof (cases r)
      case (Inr x)
      with m Pair show ?thesis by (auto simp: act_try_def)
    next
      case (Inl x)
      obtain rest where "f x (log @ more, u') = (fst (g x u'), ((log @ more) @ rest, snd (g x u')))" "\<forall>argv \<in> set rest. P argv"
        by (rule logsD[OF assms(2)])
      with m Pair Inl show ?thesis by (intro exI[of _ "more @ rest"]) (auto simp: act_try_def)
    qed
  qed
qed

lemma logs_gh_run: "P args \<Longrightarrow> logs P (gh_run (logged_gh gh) args stdin) (gh_run gh args stdin)"
  unfolding logs_def by (auto simp: gh_run_def logged_gh_def split: prod.splits)

lemma logs_run_checked: "(\<And>argv. args = Inr argv \<Longrightarrow> P argv) \<Longrightarrow> logs P (run_checked (logged_gh gh) args stdin) (run_checked gh args stdin)"
  unfolding run_checked_def by (cases args) (auto intro!: logs_intros logs_gh_run)

lemma logs_gh_run_json:
  assumes "\<And>argv. args = Inr argv \<Longrightarrow> P argv"
  shows "logs P (gh_run_json (logged_gh gh) args) (gh_run_json gh args)"
proof -
  have "gh_json_of (logged_gh gh) = gh_json_of gh" by (rule ext) (simp add: gh_json_of_def logged_gh_def)
  with assms show ?thesis
    unfolding gh_run_json_def by (cases args) (auto intro!: logs_intros logs_gh_run split: sum.split)
qed

lemma logs_git [logs_intros]: "logs P (git_ok (unlogged_git g) argv cwd m) (git_ok g argv cwd m)"
proof -
  have "logs P (run_git (unlogged_git g) argv cwd) (run_git g argv cwd)"
    unfolding logs_def by (auto simp: run_git_def unlogged_git_def split: prod.splits)
  then show ?thesis unfolding git_ok_def by (intro logs_intros)
qed

lemma logs_not_found [logs_intros]: "logs P m n \<Longrightarrow> logs P (not_found_as x m) (not_found_as x n)"
  unfolding not_found_as_def by (intro logs_intros) (auto split: err.split gh_error_kind.split intro: logs_intros)

lemma logs_read_object: "(\<And>argv. args = Inr argv \<Longrightarrow> P argv) \<Longrightarrow> logs P (read_object (logged_gh gh) args) (read_object gh args)"
  unfolding read_object_def js_object_def by (intro logs_intros logs_gh_run_json)

definition merge_command :: "string list \<Rightarrow> bool" where
  "merge_command argv \<longleftrightarrow> take 2 argv = [''pr'', ''merge'']"

lemma argv_not_merge:
  "argv_issue_view ow nm n = Inr argv \<Longrightarrow> \<not> merge_command argv" "argv_issue_comment ow nm n = Inr argv \<Longrightarrow> \<not> merge_command argv"
  "argv_issue_close ow nm n = Inr argv \<Longrightarrow> \<not> merge_command argv" "argv_issue_reopen ow nm n = Inr argv \<Longrightarrow> \<not> merge_command argv"
  "argv_pr_create q = Inr argv \<Longrightarrow> \<not> merge_command argv" "argv_pr_list ow nm st lim = Inr argv \<Longrightarrow> \<not> merge_command argv"
  "argv_pr_view ow nm n = Inr argv \<Longrightarrow> \<not> merge_command argv" "argv_protection ow nm b = Inr argv \<Longrightarrow> \<not> merge_command argv"
  "argv_pr_checks ow nm n = Inr argv \<Longrightarrow> \<not> merge_command argv" "argv_pr_reviews ow nm n = Inr argv \<Longrightarrow> \<not> merge_command argv"
  by (auto simp: merge_command_def argv_issue_view_def argv_issue_comment_def argv_issue_close_def argv_issue_reopen_def argv_pr_create_def
      argv_pr_list_def argv_pr_view_def argv_protection_def argv_pr_checks_def argv_pr_reviews_def slugged_def numbered_def c_then_def
      split: sum.splits)

abbreviation no_merge :: "string list \<Rightarrow> bool" where "no_merge argv \<equiv> \<not> merge_command argv"

lemma transport_logs:
  "logs no_merge (push_head (unlogged_git g) dir b sha remote) (push_head g dir b sha remote)"
  "logs no_merge (read_issue_state (logged_gh gh) ow nm n) (read_issue_state gh ow nm n)"
  "logs no_merge (comment_issue (logged_gh gh) ow nm n body) (comment_issue gh ow nm n body)"
  "logs no_merge (run_checked (logged_gh gh) (argv_issue_close ow nm n) None) (run_checked gh (argv_issue_close ow nm n) None)"
  "logs no_merge (run_checked (logged_gh gh) (argv_issue_reopen ow nm n) None) (run_checked gh (argv_issue_reopen ow nm n) None)"
  "logs no_merge (create_pr (logged_gh gh) ow nm href b ti body ho) (create_pr gh ow nm href b ti body ho)"
  "logs no_merge (find_pr_by_head (logged_gh gh) ow nm href) (find_pr_by_head gh ow nm href)"
  "logs no_merge (read_pr_view (logged_gh gh) ow nm n) (read_pr_view gh ow nm n)"
  "logs no_merge (read_protection (logged_gh gh) ow nm b) (read_protection gh ow nm b)"
  "logs no_merge (read_checks (logged_gh gh) ow nm n) (read_checks gh ow nm n)"
  "logs no_merge (read_reviews (logged_gh gh) ow nm n) (read_reviews gh ow nm n)"
  unfolding push_head_def push_branch_def remote_branch_sha_def assert_absolute_path_def assert_branch_name_def assert_remote_name_def
    g_guard_def Let_def read_issue_state_def comment_issue_def create_pr_def find_pr_by_head_def read_pr_view_def read_protection_def
    read_checks_def read_reviews_def
  by - (intro logs_intros logs_run_checked logs_gh_run_json logs_read_object | elim argv_not_merge)+

text \<open>What an action over the database and the logged world adds to the log.\<close>

definition log_grows :: "(string list \<Rightarrow> bool) \<Rightarrow> db \<times> 'w logged \<Rightarrow> db \<times> 'w logged \<Rightarrow> bool" where
  "log_grows P s s' \<longleftrightarrow> (\<exists>more. fst (snd s') = fst (snd s) @ more \<and> (\<forall>argv \<in> set more. P argv))"

interpretation logging: tx_preorder "log_grows P"
proof
  show "log_grows P s s" for s by (auto simp: log_grows_def)
  show "log_grows P s u" if st: "log_grows P s t" "log_grows P t u" for s t u
  proof -
    from st obtain m1 m2 where "fst (snd t) = fst (snd s) @ m1" "\<forall>a \<in> set m1. P a" "fst (snd u) = fst (snd t) @ m2" "\<forall>a \<in> set m2. P a"
      by (auto simp: log_grows_def)
    then show ?thesis unfolding log_grows_def by (intro exI[of _ "m1 @ m2"]) auto
  qed
qed

lemma logs_grow:
  assumes "logs P m n"
  shows "act_rel (log_grows P) (on_snd m)"
proof (rule act_relI)
  fix s :: "db \<times> 'a logged"
  obtain d log u where s: "s = (d, (log, u))" by (metis surj_pair)
  obtain more where "m (log, u) = (fst (n u), (log @ more, snd (n u)))" "\<forall>argv \<in> set more. P argv" by (rule logsD[OF assms])
  then show "log_grows P s (snd (on_snd m s))" by (auto simp: s on_snd_def log_grows_def)
qed

lemma local_grows: "local_only m \<Longrightarrow> act_rel (log_grows P) m"
  by (auto simp: act_rel_def log_grows_def)

section \<open>Which effect can run a merge\<close>

abbreviation logged_transport :: "'w gh_client \<Rightarrow> 'w git_env \<Rightarrow> 'w logged effect_transport" where
  "logged_transport gh g \<equiv> gh_effect_transport (logged_gh gh) (unlogged_git g)"

lemma transport_sel:
  "et_push_head (gh_effect_transport gh g) = push_head g" "et_read_issue_state (gh_effect_transport gh g) = read_issue_state gh"
  "et_comment_issue (gh_effect_transport gh g) = comment_issue gh"
  "et_close_issue (gh_effect_transport gh g) = (\<lambda>owner name number. run_checked gh (argv_issue_close owner name number) None)"
  "et_reopen_issue (gh_effect_transport gh g) = (\<lambda>owner name number. run_checked gh (argv_issue_reopen owner name number) None)"
  "et_create_pr (gh_effect_transport gh g) = create_pr gh" "et_find_pr_by_head (gh_effect_transport gh g) = find_pr_by_head gh"
  "et_read_pr (gh_effect_transport gh g) = read_pr_view gh" "et_read_protection (gh_effect_transport gh g) = read_protection gh"
  "et_read_checks (gh_effect_transport gh g) = read_checks gh" "et_read_reviews (gh_effect_transport gh g) = read_reviews gh"
  "et_merge_pr (gh_effect_transport gh g) = (\<lambda>owner name number meth. run_checked gh (argv_pr_merge owner name number meth) None)"
  by (simp_all add: gh_effect_transport_def)

text \<open>A weaker condition on the commands.\<close>

lemma log_grows_mono: "log_grows P s s' \<Longrightarrow> (\<And>argv. P argv \<Longrightarrow> Q argv) \<Longrightarrow> log_grows Q s s'"
  unfolding log_grows_def by blast

lemmas marks_grow = writes_local[THEN local_grows] write_tx_local[THEN local_grows]

lemma more_marks_grow:
  "act_rel (log_grows P) (invalid eid kind m reason)" "act_rel (log_grows P) (record_rogue_pr p v)"
  "act_rel (log_grows P) (mark_local_pr p n st)" "act_rel (log_grows P) (adopt_pr_and_schedule_merge p n head_ref sha)"
  "act_rel (log_grows P) (adopt_pr eid p attempt v outcome why)"
  "act_rel (log_grows P) (adopt_gone eid p attempt kind n reason)" "act_rel (log_grows P) (adopt_merged eid p attempt kind n)"
  unfolding invalid_def record_rogue_pr_def mark_local_pr_def adopt_pr_and_schedule_merge_def adopt_pr_def adopt_gone_def adopt_merged_def
  by (intro logging.act_rel_intros marks_grow)+

lemma outside_branches:
  "act_rel R (on_snd a) \<Longrightarrow> act_rel R (on_snd b) \<Longrightarrow> act_rel R (on_snd (if c then a else b))"
  "act_rel R (on_snd a) \<Longrightarrow> (\<And>x. act_rel R (on_snd (f x))) \<Longrightarrow> act_rel R (on_snd (case v of None \<Rightarrow> a | Some x \<Rightarrow> f x))"
  by (simp_all split: option.split)

lemma other_kinds_run_no_merge:
  "act_rel (log_grows no_merge) (run_push (logged_transport gh g) eid p attempt)"
  "act_rel (log_grows no_merge) (run_comment (logged_transport gh g) eid p attempt)"
  "act_rel (log_grows no_merge) (run_state_change (logged_transport gh g) eid p attempt target)"
  "act_rel (log_grows no_merge) (run_create_pr (logged_transport gh g) eid p attempt)"
  "act_rel (log_grows no_merge) (run_monitor (logged_transport gh g) now wait eid p attempt)"
  unfolding run_push_def run_comment_def run_state_change_def run_create_pr_def run_monitor_def transport_sel Let_def
  by (intro outside_branches adoption_case logging.act_rel_intros marks_grow more_marks_grow transport_logs[THEN logs_grow])+

text \<open>What gh answered when the merge was permitted.\<close>

definition merge_evidence :: "'w gh_client \<Rightarrow> effect_payload \<Rightarrow> 'w \<Rightarrow> bool" where
  "merge_evidence gh p u \<longleftrightarrow> (\<exists>n v u1 protection u2 checks u3 reviews u4.
     ef_pr_number p = Some n \<and> read_pr_view gh (ef_owner p) (ef_name p) n u = (Inr (Some v), u1) \<and>
     read_protection gh (ef_owner p) (ef_name p) (the (ef_base_branch p)) u1 = (Inr protection, u2) \<and>
     read_checks gh (ef_owner p) (ef_name p) n u2 = (Inr checks, u3) \<and>
     read_reviews gh (ef_owner p) (ef_name p) n u3 = (Inr reviews, u4) \<and>
     merge_permitted p v protection checks reviews)"

text \<open>One read, then the rest.\<close>

lemma read_then_rest:
  assumes "logs P m n" "act_bind (on_snd m) k (d, (log, u)) = (r, (d', (log', u')))"
    "\<And>x u1 log1. n u = (Inr x, u1) \<Longrightarrow> k x (d, (log1, u1)) = (r, (d', (log', u'))) \<Longrightarrow> log_grows P (d, (log1, u1)) (d', (log', u'))"
  shows "log_grows P (d, (log, u)) (d', (log', u'))"
proof -
  obtain more where m: "m (log, u) = (fst (n u), (log @ more, snd (n u)))" "\<forall>argv \<in> set more. P argv" by (rule logsD[OF assms(1)])
  then have first: "log_grows P (d, (log, u)) (d, (log @ more, snd (n u)))" by (auto simp: log_grows_def)
  show ?thesis
  proof (cases "fst (n u)")
    case Inl
    with m assms(2) show ?thesis by (auto simp: act_bind_def on_snd_def log_grows_def)
  next
    case (Inr x)
    then have n: "n u = (Inr x, snd (n u))" by (metis prod.collapse)
    have "k x (d, (log @ more, snd (n u))) = (r, (d', (log', u')))" using m(1) Inr assms(2) by (simp add: act_bind_def on_snd_def)
    from logging.R_trans[OF first assms(3)[OF n this]] show ?thesis .
  qed
qed

lemma no_evidence_no_merge:
  assumes "run_merge (logged_transport gh g) now wait eid p attempt (d, (log, u)) = (r, (d', (log', u')))" "\<not> merge_evidence gh p u"
  shows "log_grows no_merge (d, (log, u)) (d', (log', u'))"
proof -
  note run = assms(1)[unfolded run_merge_def transport_sel Let_def]
  have grows: "log_grows no_merge s s'" if "act_rel (log_grows no_merge) m" "m s = (r, s')" for m :: "('a logged, effect_result) effect_act" and s s'
    using act_relD[OF that] .
  show ?thesis
  proof (cases "ef_pr_number p = None \<or> \<not> present (ef_base_branch p)")
    case True
    show ?thesis using grows[OF more_marks_grow(1) run[unfolded if_P[OF True]]] .
  next
    case False
    then obtain n where n: "ef_pr_number p = Some n" by auto
    note run1 = run[unfolded if_not_P[OF False], unfolded n option.sel]
    show ?thesis
    proof (rule read_then_rest[OF transport_logs(8) run1])
      fix pr u1 log1
      assume pr: "read_pr_view gh (ef_owner p) (ef_name p) n u = (Inr pr, u1)"
        and rest: "(case pr of None \<Rightarrow> adopt_gone eid p attempt ''merge'' n ''pr_not_found''
          | Some v \<Rightarrow> if pv_state v = ''MERGED'' then adopt_merged eid p attempt ''merge'' n
            else if pv_state v = ''CLOSED'' then adopt_gone eid p attempt ''merge'' n ''already_closed''
            else if pv_is_draft v then hold_waiting eid p now wait attempt ''draft''
            else act_bind (on_snd (read_protection (logged_gh gh) (ef_owner p) (ef_name p) (the (ef_base_branch p)))) (\<lambda>protection.
              act_bind (on_snd (read_checks (logged_gh gh) (ef_owner p) (ef_name p) n)) (\<lambda>checks.
              act_bind (on_snd (read_reviews (logged_gh gh) (ef_owner p) (ef_name p) n)) (\<lambda>reviews.
                merge_gates (logged_transport gh g) now wait eid p attempt n v protection checks reviews)))) (d, (log1, u1)) = (r, (d', (log', u')))"
      show "log_grows no_merge (d, (log1, u1)) (d', (log', u'))"
      proof (cases "\<exists>v. pr = Some v \<and> pv_state v \<noteq> ''MERGED'' \<and> pv_state v \<noteq> ''CLOSED'' \<and> \<not> pv_is_draft v")
        case False
        with rest show ?thesis
          by (auto split: option.splits if_splits intro: grows[OF more_marks_grow(6)] grows[OF more_marks_grow(7)] grows[OF marks_grow(6)])
      next
        case True
        then obtain v where v: "pr = Some v" "pv_state v \<noteq> ''MERGED''" "pv_state v \<noteq> ''CLOSED''" "\<not> pv_is_draft v" by blast
        from rest v have rest1: "act_bind (on_snd (read_protection (logged_gh gh) (ef_owner p) (ef_name p) (the (ef_base_branch p)))) (\<lambda>protection.
              act_bind (on_snd (read_checks (logged_gh gh) (ef_owner p) (ef_name p) n)) (\<lambda>checks.
              act_bind (on_snd (read_reviews (logged_gh gh) (ef_owner p) (ef_name p) n)) (\<lambda>reviews.
                merge_gates (logged_transport gh g) now wait eid p attempt n v protection checks reviews))) (d, (log1, u1)) = (r, (d', (log', u')))" by simp
        show ?thesis
        proof (rule read_then_rest[OF transport_logs(9) rest1], rule read_then_rest[OF transport_logs(10)], assumption,
            rule read_then_rest[OF transport_logs(11)], assumption)
          fix protection u2 log2 checks u3 log3 reviews u4 log4
          assume reads: "read_protection gh (ef_owner p) (ef_name p) (the (ef_base_branch p)) u1 = (Inr protection, u2)"
            "read_checks gh (ef_owner p) (ef_name p) n u2 = (Inr checks, u3)" "read_reviews gh (ef_owner p) (ef_name p) n u3 = (Inr reviews, u4)"
            and gates: "merge_gates (logged_transport gh g) now wait eid p attempt n v protection checks reviews (d, (log4, u4)) = (r, (d', (log', u')))"
          have "\<not> merge_permitted p v protection checks reviews"
            using assms(2) n pr v(1) reads unfolding merge_evidence_def by blast
          with merge_gates_world[OF gates v(4)] show "log_grows no_merge (d, (log4, u4)) (d', (log', u'))" by (simp add: log_grows_def)
        qed
      qed
    qed
  qed
qed

lemma run_kind_merges:
  assumes "run_kind (logged_transport gh g) now wait eid kind p attempt (d, (log, u)) = (r, (d', (log', u')))"
    "\<not> (kind = ''merge'' \<and> merge_evidence gh p u)"
  shows "log_grows no_merge (d, (log, u)) (d', (log', u'))"
proof (cases "kind = ''merge''")
  case True
  with assms no_evidence_no_merge[of gh g now wait eid p attempt d log u r d' log' u'] show ?thesis by (simp add: run_kind_def)
next
  case False
  have "act_rel (log_grows no_merge) (run_kind (logged_transport gh g) now wait eid kind p attempt)"
    unfolding run_kind_def if_not_P[OF False] by (intro logging.act_rel_intros other_kinds_run_no_merge more_marks_grow(1))
  from act_relD[OF this assms(1)] show ?thesis .
qed

text \<open>
  C30: A merge command needs evidence: over the production transport, executing an effect either runs no \<^verbatim>\<open>gh pr merge\<close> at all, or the
  effect is a merge and gh had just answered, through the readers of the transport, with a pull request, protection, checks and
  reviews under which the merge is permitted. Nothing else the executor does can run a merge, whatever gh and git answer.
\<close>
theorem merge_command_needs_evidence:
  assumes "execute_verified_effect (logged_transport gh g) now opts eid (d, (log, u)) = (r, (d', (log', u')))"
  shows "(\<exists>more. log' = log @ more \<and> list_all (\<lambda>argv. \<not> merge_command argv) more) \<or>
    (\<exists>e p. get_side_effect_full d eid = Some e \<and> fx_kind e = ''merge'' \<and> parse_payload e = Inr p \<and> merge_evidence gh p u)"
proof -
  have quiet: ?thesis if "log_grows no_merge (d, (log, u)) (d', (log', u'))" using that by (auto simp: log_grows_def list_all_iff)
  note marks = logging.act_rel_intros marks_grow more_marks_grow
  show ?thesis
  proof (cases "get_side_effect_full d eid")
    case None
    with assms have "log' = log" by (simp add: execute_verified_effect_def Let_def act_bind_eqs act_return_def)
    then show ?thesis by auto
  next
    case (Some e)
    show ?thesis
    proof (cases "fx_state e = ''DONE'' \<or> parse_payload e \<notin> range Inr \<or> coalesce (eo_max_attempts opts) DEFAULT_MAX_ATTEMPTS < fx_attempt e + 1")
      case True
      let ?k = "if fx_state e = ''DONE'' then act_return (result Ef_Already_Done eid (fx_kind e) (Some (fx_attempt e)) None None)
        else case parse_payload e of Inl er \<Rightarrow> invalid eid (fx_kind e) (message er) (message er)
        | Inr p \<Rightarrow> act_then (mark_failed eid ''max attempts exceeded'' None)
            (act_return (result Ef_Retry eid (fx_kind e) (Some (fx_attempt e + 1)) (Some ''max_attempts'') None))"
      have "act_rel (log_grows no_merge) ?k" by (intro marks) (simp split: sum.split, intro allI conjI impI marks)
      moreover have "?k (d, (log, u)) = (r, (d', (log', u')))"
        using assms Some True by (auto simp: execute_verified_effect_def Let_def act_bind_eqs split: sum.splits if_splits)
      ultimately show ?thesis by (intro quiet) (rule act_relD)
    next
      case False
      then obtain p where p: "parse_payload e = Inr p" by blast
      let ?wait = "coalesce (eo_wait_backoff_ms opts) DEFAULT_WAIT_BACKOFF_MS"
      have run: "run_guarded (logged_transport gh g) now ?wait e p (fx_attempt e + 1) (d, (log, u)) = (r, (d', (log', u')))"
        using assms Some False p by (simp add: execute_verified_effect_def Let_def act_bind_eqs)
      show ?thesis
      proof (cases "fx_kind e = ''merge'' \<and> merge_evidence gh p u")
        case True
        with Some p show ?thesis by blast
      next
        case False
        obtain r1 d1 log1 u1 where kind: "run_kind (logged_transport gh g) now ?wait (fx_id e) (fx_kind e) p (fx_attempt e + 1) (d, (log, u)) =
          (r1, (d1, (log1, u1)))" by (metis surj_pair)
        from run_kind_merges[OF this False] have first: "log_grows no_merge (d, (log, u)) (d1, (log1, u1))" .
        show ?thesis
        proof (cases r1)
          case (Inr x)
          with run kind first show ?thesis by (intro quiet) (simp add: run_guarded_def act_try_def)
        next
          case (Inl er)
          let ?h = "act_then (mark_failed (fx_id e) (message er) (if is_transient er then Some (now + backoff_ms (fx_attempt e + 1) ?wait) else None))
            (act_return (result Ef_Retry (fx_id e) (fx_kind e) (Some (fx_attempt e + 1)) (Some (message er)) None))"
          have "?h (d1, (log1, u1)) = (r, (d', (log', u')))"
            using run unfolding run_guarded_def act_try_def kind Inl prod.case sum.case .
          then have "log_grows no_merge (d1, (log1, u1)) (d', (log', u'))"
            by (rule act_relD[rotated]) (intro marks)
          with first show ?thesis by (intro quiet) (rule logging.R_trans)
        qed
      qed
    qed
  qed
qed

text \<open>A gh that answers every read with one object, approved by ann and with the check ci passed.\<close>

definition sample_answer :: json where
  "sample_answer = JObj [(''number'', JNum 7), (''state'', JStr ''open''), (''mergeable'', JStr ''MERGEABLE''), (''isDraft'', JBool False),
     (''required_status_checks'', JObj [(''contexts'', JArr [JStr ''ci''])]),
     (''required_pull_request_reviews'', JObj [(''required_approving_review_count'', JNum 1)]),
     (''statusCheckRollup'', JArr [JObj [(''name'', JStr ''ci''), (''conclusion'', JStr ''success'')]]),
     (''reviews'', JArr [JObj [(''id'', JStr ''r''), (''state'', JStr ''approved''), (''author'', JObj [(''login'', JStr ''ann'')])]])]"

definition sample_gh :: "unit gh_client" where
  "sample_gh = \<lparr>gc_run = (\<lambda>args stdin w. (\<lparr>gs_exit_code = 0, gs_stdout = ''{}'', gs_stderr = []\<rparr>, w)), gc_parse = (\<lambda>s. Inr sample_answer),
     gc_binary = ''/usr/bin/gh'', gc_min_version = MIN_GH_VERSION\<rparr>"

definition sample_git :: "unit git_env" where
  "sample_git = \<lparr>ge_run = (\<lambda>argv cwd w. (\<lparr>gs_exit_code = 0, gs_stdout = [], gs_stderr = []\<rparr>, w)), ge_read_file = (\<lambda>p w. None),
     ge_append_file = (\<lambda>p s w. w)\<rparr>"

definition sample_options :: effect_options where
  "sample_options = \<lparr>eo_wait_backoff_ms = None, eo_max_attempts = None\<rparr>"

lemma sample_run_merges:
  "list_ex merge_command (fst (snd (snd (execute_verified_effect (logged_transport sample_gh sample_git) 0 sample_options ''fx'' (example_outbox_db, ([], ()))))))"
  by code_simp

theorem merge_command_needs_evidence_witness:
  "\<exists>r d' log' u' p. execute_verified_effect (logged_transport sample_gh sample_git) 0 sample_options ''fx'' (example_outbox_db, ([], ())) = (r, (d', (log', u'))) \<and>
     list_ex merge_command log' \<and> merge_evidence sample_gh p ()"
proof -
  obtain r d' log' u' where run:
    "execute_verified_effect (logged_transport sample_gh sample_git) 0 sample_options ''fx'' (example_outbox_db, ([], ())) = (r, (d', (log', u')))"
    by (metis surj_pair)
  have "list_ex merge_command log'" using sample_run_merges unfolding run fst_conv snd_conv .
  with merge_command_needs_evidence[OF run] run show ?thesis by (auto simp: list_all_iff list_ex_iff)
qed

section \<open>Absent protection\<close>

lemma gh_json_not_found:
  "gh_json_of gh res = Inl (GhError Not_Found t) \<Longrightarrow>
     gs_exit_code res \<noteq> 0 \<and> gs_exit_code res \<noteq> -1 \<and> classify_gh_failure (gs_exit_code res) (gs_stdout res) (gs_stderr res) = Not_Found"
  by (auto simp: gh_json_of_def split: if_splits sum.splits)

text \<open>
  C31: A branch counts as unprotected exactly when gh's failure says it was not found: every other failure, an unreadable answer
  included, is thrown, and an answer that is read counts as protected.
\<close>
theorem unprotected_iff_not_found:
  assumes "argv_protection owner name branch = Inr argv" "gc_run gh argv None w = (res, w1)"
  shows "(\<exists>p. fst (read_protection gh owner name branch w) = Inr p \<and> \<not> pt_enabled p) \<longleftrightarrow>
    gs_exit_code res \<noteq> 0 \<and> gs_exit_code res \<noteq> -1 \<and> classify_gh_failure (gs_exit_code res) (gs_stdout res) (gs_stderr res) = Not_Found"
proof -
  have parsed: "parse_protection raw = Inr p \<Longrightarrow> pt_enabled p" for raw p by (auto simp: parse_protection_def split: sum.splits)
  have thrown: "parse_protection raw = Inl e \<Longrightarrow> \<exists>m. e = JsError m" for raw e
    by (auto simp: parse_protection_def required_contexts_def number_field_def Let_def split: sum.splits option.splits if_splits)
  have read: "read_protection gh owner name branch w =
      not_found_as no_protection (\<lambda>w. case gh_json_of gh res of Inl e \<Rightarrow> (Inl e, w1)
        | Inr j \<Rightarrow> act_bind (act_then (js_object j) (act_return j)) (\<lambda>raw. act_lift (parse_protection raw)) w1) w"
    using assms by (simp add: read_protection_def read_object_def gh_run_json_def gh_run_def act_bind_def act_fail_def act_return_def
        not_found_as_def act_try_def split: sum.split)
  show ?thesis
  proof (cases "gh_json_of gh res")
    case (Inl e)
    then show ?thesis
      by (auto simp: read not_found_as_def act_try_def act_fail_def act_return_def no_protection_def gh_json_of_def
          split: err.splits gh_error_kind.splits if_splits sum.splits)
  next
    case (Inr j)
    then have "gs_exit_code res = 0" by (auto simp: gh_json_of_def split: if_splits)
    with Inr parsed show ?thesis
      by (auto simp: read not_found_as_def act_try_def act_fail_def act_return_def act_bind_def act_then_def js_object_def act_guard_def act_lift_def
          split: err.splits gh_error_kind.splits if_splits sum.splits dest: thrown)
  qed
qed

theorem unprotected_iff_not_found_witness:
  "\<not> (\<exists>p. fst (read_protection sample_gh ''acme'' ''tool'' ''main'' ()) = Inr p \<and> \<not> pt_enabled p)"
proof -
  have argv: "argv_protection ''acme'' ''tool'' ''main'' = Inr [''api'', ''repos/acme/tool/branches/main/protection'']" by code_simp
  have "gc_run sample_gh [''api'', ''repos/acme/tool/branches/main/protection''] None () = (\<lparr>gs_exit_code = 0, gs_stdout = ''{}'', gs_stderr = []\<rparr>, ())"
    by (simp add: sample_gh_def)
  from unprotected_iff_not_found[OF argv this] show ?thesis by simp
qed

section \<open>A comment is not verified\<close>

text \<open>What a comment effect does to the store and answers does not depend on what gh answers: a failed comment is DONE as well.\<close>

theorem comment_outcome_ignores_gh:
  "fst (run_comment (gh_effect_transport gh1 g1) eid p attempt (d, w)) = fst (run_comment (gh_effect_transport gh2 g2) eid p attempt (d, w)) \<and>
   fst (snd (run_comment (gh_effect_transport gh1 g1) eid p attempt (d, w))) = fst (snd (run_comment (gh_effect_transport gh2 g2) eid p attempt (d, w)))"
proof -
  have same: "\<exists>r w1 w2. comment_issue gh1 ow nm n body w = (r, w1) \<and> comment_issue gh2 ow nm n body w = (r, w2)" for ow nm n body w
    by (cases "argv_issue_comment ow nm n")
      (simp_all add: comment_issue_def run_checked_def act_then_def act_bind_def act_fail_def act_return_def gh_run_def split: prod.split)
  show ?thesis
  proof (cases "ef_issue_number p")
    case None
    then show ?thesis by (simp add: run_comment_def)
  next
    case (Some n)
    obtain d1 where mark: "mark_executing eid (d, w) = (Inr (), (d1, w))" using mark_executing_ok[of eid d w] by blast
    obtain r w1 w2 where both: "comment_issue gh1 (ef_owner p) (ef_name p) n (coalesce (ef_body p) []) w = (r, w1)"
      "comment_issue gh2 (ef_owner p) (ef_name p) n (coalesce (ef_body p) []) w = (r, w2)" using same by blast
    obtain rd dd where "run_write (set_side_effect_state eid ''DONE'' no_effect_patch) d1 = (rd, dd)" by (metis surj_pair)
    then have "mark_done eid (d1, w1) = (rd, (dd, w1))" "mark_done eid (d1, w2) = (rd, (dd, w2))"
      by (simp_all add: mark_done_def write_tx_def on_fst_def)
    with Some mark both show ?thesis
      by (cases r; cases rd) (simp_all add: run_comment_def transport_sel act_then_def act_bind_def on_snd_def act_return_def)
  qed
qed

end
