(* ===== verification/Reconcile.thy ===== *)
theory Reconcile
  imports Triage_Safety Drift Terminal_Cleanup Gh_Transport
begin

text \<open>
  The reconcile pass (\<^verbatim>\<open>src/controller/reconcile.ts\<close>): the session census and its recovery policy, the seven phases P0 to P6 over
  injected dependencies, and the dependencies of production composed from the other components. The log lines are left out; the clock is read
  from the outside world.
\<close>

section \<open>Session census\<close>

datatype session_classification = C_Idle | C_Busy | C_Retry | C_Missing | C_Incomplete | C_Wedged

fun classification_text :: "session_classification \<Rightarrow> string" where
  "classification_text C_Idle = ''idle''"
| "classification_text C_Busy = ''busy''"
| "classification_text C_Retry = ''retry''"
| "classification_text C_Missing = ''missing''"
| "classification_text C_Incomplete = ''incomplete''"
| "classification_text C_Wedged = ''wedged''"

record census_entry =
  ce_session_id :: string
  ce_kind :: session_kind
  ce_repo_id :: "string option"
  ce_work_item_id :: "string option"
  ce_classification :: session_classification
  ce_detail :: "string option"

definition W_WEDGE_MS :: int where "W_WEDGE_MS = 240000"

text \<open>What the status alone says: a session that is not idle for longer than \<open>W_WEDGE_MS\<close> is wedged.\<close>

definition classify_status :: "instant \<Rightarrow> session_row \<Rightarrow> session_status \<Rightarrow> session_classification \<times> string option" where
  "classify_status now s status =
     (case status of
        Session_Missing \<Rightarrow> (C_Missing, None)
      | Session_Idle \<Rightarrow> (C_Idle, None)
      | _ \<Rightarrow>
          (case date_parse (s_updated_at s) of
             Some t \<Rightarrow>
               let age = int now - int t in
               if W_WEDGE_MS < age
               then (C_Wedged, Some (''non-idle '' @ (if status = Session_Busy then ''busy'' else ''retry'') @ '' for '' @ show_int age @ ''ms''))
               else (if status = Session_Busy then C_Busy else C_Retry, None)
           | None \<Rightarrow> (if status = Session_Busy then C_Busy else C_Retry, None)))"

definition classify_session :: "db \<Rightarrow> instant \<Rightarrow> session_row \<Rightarrow> session_status \<Rightarrow> census_entry" where
  "classify_session d now s status =
     (let first = classify_status now s status;
          orphaned = s_kind s = Resolution_Session \<and> s_work_item_id s \<noteq> None \<and> fst first \<noteq> C_Missing \<and>
            (case get_work_item d (the (s_work_item_id s)) of None \<Rightarrow> True
             | Some wi \<Rightarrow> List.member [''COMPLETED'', ''REJECTED'', ''FAILED''] (w_state wi)) in
      \<lparr>ce_session_id = s_id s, ce_kind = s_kind s, ce_repo_id = s_repo_id s, ce_work_item_id = s_work_item_id s,
       ce_classification = (if orphaned then C_Incomplete else fst first),
       ce_detail = (if orphaned then Some ''resolution session is mapped to a terminal or missing WorkItem'' else snd first)\<rparr>)"

definition classify_session_census :: "(string \<Rightarrow> ('w, err, session_status) act) \<Rightarrow> instant \<Rightarrow> ('w, census_entry list) world_act" where
  "classify_session_census status_of now =
     act_bind (act_get (\<lambda>s. list_sessions (fst s))) (\<lambda>sessions.
       act_fold (\<lambda>s out. act_bind (on_snd (status_of (s_id s))) (\<lambda>status.
         act_get (\<lambda>st. out @ [classify_session (fst st) now s status]))) sessions [])"

section \<open>Recovery\<close>

datatype recovery_action = Work_Item_Failed_Hold | Hold_Absorbed | Hold_Observed | Triage_Session_Released | Session_Retained | No_Action

record session_recovery =
  sv_entry :: census_entry
  sv_action :: recovery_action
  sv_detail :: "string option"

definition session_lost :: "census_entry \<Rightarrow> bool" where
  "session_lost e \<longleftrightarrow> ce_classification e = C_Missing \<or> ce_classification e = C_Wedged"

definition session_loss_reason :: "census_entry \<Rightarrow> (string \<times> json) list" where
  "session_loss_reason e =
     [(''reason'', JStr (if ce_classification e = C_Wedged then ''session_wedged'' else ''session_missing'')),
      (''session_id'', JStr (ce_session_id e)), (''classification'', JStr (classification_text (ce_classification e)))]"

text \<open>Evidence that changes no state.\<close>

definition note_loss :: "entity_type \<Rightarrow> string \<Rightarrow> string \<Rightarrow> string \<Rightarrow> (string \<times> json) list \<Rightarrow> unit db_tx" where
  "note_loss ety eid st event evidence = append_transition ety eid (Some st) st event (Some (Text (JObj evidence))) ''controller.reconcile'' None"

definition hold_lost :: "work_item_row \<Rightarrow> (string \<times> json) list \<Rightarrow> unit db_tx" where
  "hold_lost wi evidence =
     tx_bind (record_transition Work_Item (w_id wi) (Some (w_state wi)) ''FAILED_HOLD'' ''wedge'' (Some (JObj evidence)) ''controller.reconcile'' None)
       (\<lambda>row. set_work_item_state (w_id wi) ''FAILED_HOLD'' \<lparr>wp_lease_token = Some None, wp_lease_until = Some None\<rparr>)"

definition session_state_of :: "db \<Rightarrow> string \<Rightarrow> string option" where
  "session_state_of d sid = map_option s_state (List.find (\<lambda>s. s_id s = sid) (opencode_sessions d))"

definition recover_lost_resolution :: "census_entry \<Rightarrow> (recovery_action \<times> string option) db_act" where
  "recover_lost_resolution e =
     act_bind (act_get (\<lambda>d. (if present (ce_work_item_id e) then get_work_item d (the (ce_work_item_id e)) else None))) (\<lambda>owner.
     case owner of
       Some wi \<Rightarrow>
         if w_state wi = ''FAILED_HOLD''
         then act_then (run_write (note_loss Work_Item (w_id wi) (w_state wi) ''session_loss_absorbed'' (session_loss_reason e)))
           (act_return (Hold_Absorbed, None))
         else if is_legal_transition Work_Item (w_state wi) ''FAILED_HOLD'' ''wedge''
         then act_then (run_write (hold_lost wi (session_loss_reason e))) (act_return (Work_Item_Failed_Hold, None))
         else act_then (run_write (note_loss Work_Item (w_id wi) (w_state wi) ''session_loss_observed''
               (session_loss_reason e @ [(''work_item_id'', json_opt (ce_work_item_id e))])))
           (act_return (Hold_Observed, Some ''owner_work_item_unknown_or_not_holdable''))
     | None \<Rightarrow>
         act_bind (act_get (\<lambda>d. coalesce (session_state_of d (ce_session_id e)) ''ACTIVE'')) (\<lambda>st.
         act_then (run_write (note_loss Session (ce_session_id e) st ''session_loss_observed''
               (session_loss_reason e @ [(''work_item_id'', json_opt (ce_work_item_id e))])))
           (act_return (Hold_Observed, Some ''owner_work_item_unknown_or_not_holdable''))))"

definition retain_session :: "census_entry \<Rightarrow> unit db_tx" where
  "retain_session e =
     tx_bind (record_transition Session (ce_session_id e) (Some ''ACTIVE'') ''RETAINED'' ''session_retained''
         (Some (JObj [(''reason'', JStr ''resolution_session_work_item_terminal''), (''work_item_id'', json_opt (ce_work_item_id e))]))
         ''controller.reconcile'' None)
       (\<lambda>row. set_session_state (ce_session_id e) ''RETAINED'')"

definition release_triage_session :: "census_entry \<Rightarrow> repository_row \<Rightarrow> unit db_tx" where
  "release_triage_session e repo =
     tx_then (note_loss Triage (r_id repo) (r_triage_state repo) ''triage_session_released''
         (session_loss_reason e @ [(''repo_id'', JStr (r_id repo))]))
       (update_triage_state (r_id repo) (no_triage_patch\<lparr>tp_session_id := Some None\<rparr>))"

definition recover_session :: "census_entry \<Rightarrow> session_recovery db_act" where
  "recover_session e =
     act_bind
       (if ce_kind e = Resolution_Session \<and> session_lost e then recover_lost_resolution e
        else if ce_kind e = Resolution_Session \<and> ce_classification e = C_Incomplete
        then act_bind (act_get (\<lambda>d. session_state_of d (ce_session_id e))) (\<lambda>st.
          if st = Some ''ACTIVE'' then act_then (run_write (retain_session e)) (act_return (Session_Retained, None))
          else act_return (No_Action, None))
        else if ce_kind e = Triage_Session \<and> session_lost e
        then act_bind (act_get (\<lambda>d. if present (ce_repo_id e) then get_repository_by_id d (the (ce_repo_id e)) else None)) (\<lambda>found.
          case found of
            None \<Rightarrow> act_return (No_Action, None)
          | Some repo \<Rightarrow>
              if r_triage_session_id repo = Some (ce_session_id e)
              then act_then (run_write (release_triage_session e repo)) (act_return (Triage_Session_Released, None))
              else act_return (No_Action, None))
        else act_return (No_Action, None))
       (\<lambda>outcome. act_return \<lparr>sv_entry = e, sv_action = fst outcome, sv_detail = snd outcome\<rparr>)"

definition apply_session_census_recovery :: "census_entry list \<Rightarrow> session_recovery list db_act" where
  "apply_session_census_recovery census =
     act_fold (\<lambda>e actions. act_bind (recover_session e) (\<lambda>a. act_return (actions @ [a]))) census []"

text \<open>Pumps left in PROMPTING by a pass that was cut off.\<close>

definition recover_stale_prompting :: "'w session_driver \<Rightarrow> 'w triage_options \<Rightarrow> ('w \<Rightarrow> instant) \<Rightarrow> ('w, string list) world_act" where
  "recover_stale_prompting drv opts clock =
     act_bind (act_get (\<lambda>s. list_repositories (fst s))) (\<lambda>repos.
       act_fold (\<lambda>repo out.
         if \<not> r_enabled repo \<or> r_triage_state repo \<noteq> ''PROMPTING'' then act_return out
         else act_bind (act_get (\<lambda>s. clock (snd s))) (\<lambda>now.
           act_bind (run_triage_repo drv opts now (r_id repo)) (\<lambda>summary.
             act_return (out @ [r_id repo @ '':'' @ coalesce (ts_reason summary) ''recovered''])))) repos [])"

section \<open>The pass\<close>

record repo_verification =
  rn_repo_id :: string
  rn_ok :: bool
  rn_capability :: "repo_capability option"
  rn_error :: "string option"

record artifacts_report =
  ax_expired_leases :: nat
  ax_effects :: nat
  ax_cleaned :: "string list"
  ax_retained :: "string list"

record resume_report =
  rz_recovered :: "string list"
  rz_claimed :: "string option"
  rz_gated :: bool

datatype reconcile_boundary = At_Ingest | At_Prompt | At_Reparent | At_Drift | At_Cleanup | At_Recovery

datatype reconcile_phase = P0 | P1 | P2 | P3 | P4 | P5 | P6

definition ALL_PHASES :: "reconcile_phase list" where "ALL_PHASES = [P0, P1, P2, P3, P4, P5, P6]"

datatype phase_detail = Db_Path string | Repos_Verified "repo_verification list"
  | Census_Recovered "census_entry list" "session_recovery list" | Artifacts_Reconciled artifacts_report
  | Drift_Scanned "(string \<times> drift_result) list"
  | Housekept "housekeeping_result \<times> housekeeping_counters \<times> housekeeping_action option" | Loop_Resumed resume_report

record phase_report =
  ph_phase :: reconcile_phase
  ph_ok :: bool
  ph_skipped :: bool
  ph_detail :: "phase_detail option"
  ph_error :: "string option"

record reconcile_report =
  rq_started_at :: timestamp
  rq_finished_at :: timestamp
  rq_phases :: "phase_report list"
  rq_resident_available :: bool

text \<open>\<open>rd_fault\<close> is \<^verbatim>\<open>injectFault\<close>; without one it returns.\<close>

record 'w reconcile_deps =
  rd_now :: "'w \<Rightarrow> instant"
  rd_open :: "('w, string) world_act"
  rd_close :: "('w, unit) world_act"
  rd_verify :: "tissue_config \<Rightarrow> ('w, repo_verification list) world_act"
  rd_probe :: "('w, unit) world_act"
  rd_census :: "('w, census_entry list) world_act"
  rd_artifacts :: "('w, artifacts_report) world_act"
  rd_drift :: "('w, (string \<times> drift_result) list) world_act"
  rd_housekeep :: "instant \<Rightarrow> ('w, housekeeping_result \<times> housekeeping_counters \<times> housekeeping_action option) world_act"
  rd_resume :: "bool \<Rightarrow> ('w, resume_report) world_act"
  rd_fault :: "reconcile_boundary \<Rightarrow> ('w, unit) world_act"

definition record_phase ::
  "reconcile_phase \<Rightarrow> ('w, phase_detail) world_act \<Rightarrow> phase_report list \<Rightarrow> ('w, bool \<times> phase_report list) world_act" where
  "record_phase phase m reports =
     act_try (act_bind m (\<lambda>detail. act_return (True, reports @ [\<lparr>ph_phase = phase, ph_ok = True, ph_skipped = False,
         ph_detail = Some detail, ph_error = None\<rparr>])))
       (\<lambda>e. act_return (False, reports @ [\<lparr>ph_phase = phase, ph_ok = False, ph_skipped = False, ph_detail = None,
         ph_error = Some (message e)\<rparr>]))"

definition session_phase :: "'w reconcile_deps \<Rightarrow> ('w, phase_detail) world_act" where
  "session_phase deps =
     act_then (rd_probe deps)
     (act_bind (rd_census deps) (\<lambda>census.
      act_then (rd_fault deps At_Recovery)
      (act_bind (on_fst (apply_session_census_recovery census)) (\<lambda>actions. act_return (Census_Recovered census actions)))))"

definition resume_phase :: "'w reconcile_deps \<Rightarrow> bool \<Rightarrow> ('w, phase_detail) world_act" where
  "resume_phase deps available =
     act_then (rd_fault deps At_Ingest)
     (act_then (rd_fault deps At_Reparent)
     (act_then (rd_fault deps At_Prompt)
       (act_bind (rd_resume deps available) (\<lambda>r. act_return (Loop_Resumed r)))))"

text \<open>The phases after P0; the health is what P2 left.\<close>

definition run_phases :: "'w reconcile_deps \<Rightarrow> tissue_config \<Rightarrow> phase_report list \<Rightarrow> ('w, bool \<times> phase_report list) world_act" where
  "run_phases deps config reports =
     act_bind (record_phase P1 (act_bind (rd_verify deps config) (\<lambda>v. act_return (Repos_Verified v))) reports) (\<lambda>one.
     act_bind (record_phase P2 (session_phase deps) (snd one)) (\<lambda>two.
     act_bind (record_phase P3 (act_then (rd_fault deps At_Cleanup) (act_bind (rd_artifacts deps) (\<lambda>a. act_return (Artifacts_Reconciled a))))
       (snd two)) (\<lambda>three.
     act_bind (record_phase P4 (act_then (rd_fault deps At_Drift) (act_bind (rd_drift deps) (\<lambda>a. act_return (Drift_Scanned a)))) (snd three)) (\<lambda>four.
     act_bind (record_phase P5 (act_bind (act_get (\<lambda>s. rd_now deps (snd s))) (\<lambda>now. act_bind (rd_housekeep deps now) (\<lambda>a. act_return (Housekept a))))
       (snd four)) (\<lambda>five.
     act_bind (record_phase P6 (resume_phase deps (fst two)) (snd five)) (\<lambda>six.
       act_return (fst two, snd six)))))))"

definition run_reconcile_pass :: "'w reconcile_deps \<Rightarrow> ('w \<Rightarrow> instant) \<Rightarrow> tissue_config \<Rightarrow> ('w, reconcile_report) world_act" where
  "run_reconcile_pass deps clock config =
     act_bind (act_get (\<lambda>s. to_iso (clock (snd s)))) (\<lambda>started.
     act_bind (record_phase P0 (act_bind (rd_open deps) (\<lambda>path. act_return (Db_Path path))) []) (\<lambda>zero.
     act_bind (if \<not> fst zero
       then act_return (False, snd zero @ map (\<lambda>p. \<lparr>ph_phase = p, ph_ok = False, ph_skipped = True, ph_detail = None, ph_error = None\<rparr>)
           (tl ALL_PHASES))
       else act_bind (run_phases deps config (snd zero)) (\<lambda>res.
           act_then (act_try (rd_close deps) (\<lambda>e. act_return ())) (act_return res))) (\<lambda>res.
     act_bind (act_get (\<lambda>s. to_iso (clock (snd s)))) (\<lambda>finished.
       act_return \<lparr>rq_started_at = started, rq_finished_at = finished, rq_phases = snd res, rq_resident_available = fst res\<rparr>))))"

section \<open>The dependencies of production\<close>

fun join_with :: "string \<Rightarrow> string list \<Rightarrow> string" where
  "join_with sep [] = []"
| "join_with sep [s] = s"
| "join_with sep (s # t # ss) = s @ sep @ join_with sep (t # ss)"

definition json_bool_opt :: "bool option \<Rightarrow> json" where
  "json_bool_opt v = (case v of None \<Rightarrow> JNull | Some b \<Rightarrow> JBool b)"

definition optional_field :: "string \<Rightarrow> string option \<Rightarrow> (string \<times> json) list" where
  "optional_field k v = (case v of None \<Rightarrow> [] | Some s \<Rightarrow> [(k, JStr s)])"

text \<open>\<^verbatim>\<open>JSON.stringify(capability)\<close>: the fields in the order the object was built.\<close>

definition capability_json :: "repo_capability \<Rightarrow> json" where
  "capability_json k = JObj (
     [(''owner'', JStr (rk_owner k)), (''name'', JStr (rk_name k)), (''targetOwner'', JStr (rk_target_owner k)),
      (''targetName'', JStr (rk_target_name k)), (''targetExists'', JBool (rk_target_exists k)), (''pushOwner'', JStr (rk_push_owner k)),
      (''pushName'', JStr (rk_push_name k)), (''pushRemote'', JStr (rk_push_remote k)),
      (''pushRemotePresent'', JBool (rk_push_remote_present k))] @ optional_field ''pushRemoteUrl'' (rk_push_remote_url k) @
     [(''checkoutRemoteMatchesTarget'', json_bool_opt (rk_checkout_remote_matches_target k)),
      (''pushRemoteMatchesExpected'', json_bool_opt (rk_push_remote_matches_expected k)),
      (''writablePushVerified'', JBool (rk_writable_push_verified k)), (''ghBinary'', JStr (rk_gh_binary k)),
      (''ghVersionOk'', JBool (rk_gh_version_ok k)), (''ghAuthenticated'', JBool (rk_gh_authenticated k))] @
     optional_field ''ghAccount'' (rk_gh_account k) @
     [(''checkoutPresent'', JBool (rk_checkout_present k)), (''remotePresent'', JBool (rk_remote_present k))] @
     optional_field ''remoteUrl'' (rk_remote_url k) @
     [(''defaultBranch'', json_opt (rk_default_branch k)), (''baseBranch'', JStr (rk_base_branch k)),
      (''baseBranchMatchesDefault'', json_bool_opt (rk_base_branch_matches_default k)),
      (''issuesEnabled'', json_bool_opt (rk_issues_enabled k)), (''pushPermission'', json_bool_opt (rk_push_permission k)),
      (''protection'', JObj [(''enabled'', JBool (ps_enabled (rk_protection k))),
         (''requiredApprovals'', coalesce (ps_required_approvals (rk_protection k)) JNull),
         (''enforceAdmins'', json_bool_opt (ps_enforce_admins (rk_protection k))),
         (''requiredChecks'', case ps_required_checks (rk_protection k) of None \<Rightarrow> JNull | Some cs \<Rightarrow> JArr (map JStr cs))]),
      (''protectionKnown'', JBool (rk_protection_known k)),
      (''readiness'', JObj [(''ready'', JBool (rr_ready (rk_readiness k))), (''reasons'', JArr (map JStr (rr_reasons (rk_readiness k)))),
         (''checkedAt'', JStr (rr_checked_at (rk_readiness k)))])])"

text \<open>
  What production passes in: the clock, gh, the host with its git, the session driver with its status read and, if it has one, the read that
  probes the service; opening the database gives its path.
\<close>

record 'w reconcile_env =
  re_clock :: "'w \<Rightarrow> instant"
  re_gh :: "'w gh_client"
  re_host :: "'w host"
  re_driver :: "'w session_driver"
  re_status :: "string \<Rightarrow> ('w, err, session_status) act"
  re_list_sessions :: "('w, err, unit) act option"
  re_triage :: "'w triage_options"
  re_open :: "('w, err, string) act"
  re_close :: "('w, err, unit) act"

definition at_clock :: "'w reconcile_env \<Rightarrow> (instant \<Rightarrow> ('w, 'a) world_act) \<Rightarrow> ('w, 'a) world_act" where
  "at_clock env k = act_bind (act_get (\<lambda>s. re_clock env (snd s))) k"

text \<open>One configured repository: whatever its verification throws is stored as an unknown capability.\<close>

definition verify_one :: "'w reconcile_env \<Rightarrow> repository_config \<Rightarrow> ('w, repo_verification) world_act" where
  "verify_one env repo =
     (let rid = rc_owner repo @ ''/'' @ rc_name repo in
      act_try
        (at_clock env (\<lambda>now. act_bind (on_snd (verify_repository (re_host env) (re_gh env) (to_iso now) repo)) (\<lambda>capability.
          let ready = rr_ready (rk_readiness capability) in
          at_clock env (\<lambda>stored. act_then (write_tx (persist_repository_capability rid (if ready then ''ready'' else ''not_ready'')
              (capability_json capability) (to_iso stored)))
            (act_return \<lparr>rn_repo_id = rid, rn_ok = ready, rn_capability = Some capability,
               rn_error = (if ready then None else Some (join_with ''; '' (rr_reasons (rk_readiness capability))))\<rparr>)))))
        (\<lambda>e. at_clock env (\<lambda>now. act_then (write_tx (persist_repository_capability rid ''unknown'' (JObj [(''error'', JStr (message e))]) (to_iso now)))
           (act_return \<lparr>rn_repo_id = rid, rn_ok = False, rn_capability = None, rn_error = Some (message e)\<rparr>))))"

definition verify_repos :: "'w reconcile_env \<Rightarrow> tissue_config \<Rightarrow> ('w, repo_verification list) world_act" where
  "verify_repos env config =
     at_clock env (\<lambda>now. act_then (on_fst (synchronize_configured_repositories config (to_iso now)))
       (act_fold (\<lambda>repo out. if \<not> rc_enabled repo then act_return out
          else act_bind (verify_one env repo) (\<lambda>v. act_return (out @ [v]))) (c_repos config) []))"

definition probe_resident :: "'w reconcile_env \<Rightarrow> ('w, unit) world_act" where
  "probe_resident env =
     (case re_list_sessions env of
        None \<Rightarrow> act_fail (JsError (''no resident OpenCode health probe is available on the configured session driver; '' @
          ''refusing to assume the dependency is healthy''))
      | Some probe \<Rightarrow> on_snd probe)"

definition default_effect_options :: effect_options where
  "default_effect_options = \<lparr>eo_wait_backoff_ms = None, eo_max_attempts = None\<rparr>"

definition DUE_EFFECTS_LIMIT :: nat where "DUE_EFFECTS_LIMIT = 50"

definition reconcile_artifacts :: "'w reconcile_env \<Rightarrow> ('w, artifacts_report) world_act" where
  "reconcile_artifacts env =
     at_clock env (\<lambda>now.
     act_bind (write_tx (expire_leases (to_iso now))) (\<lambda>expired.
     act_bind (act_get (\<lambda>s. list_due_side_effects (fst s) (to_iso now) DUE_EFFECTS_LIMIT)) (\<lambda>due.
     act_bind (act_fold (\<lambda>e n. act_bind (execute_verified_effect (gh_effect_transport (re_gh env) (ho_git (re_host env))) now
         default_effect_options (fx_id e)) (\<lambda>r. act_return (Suc n))) due 0) (\<lambda>effects.
     act_bind (cleanup_terminal_leftovers (cleanup_worktree (re_host env)) now) (\<lambda>cleanup.
       act_return \<lparr>ax_expired_leases = expired, ax_effects = effects, ax_cleaned = tc_cleaned_worktrees cleanup,
         ax_retained = map (\<lambda>l. (if tl_kind l = Leftover_Worktree then ''worktree'' else ''pull_request'') @ '':'' @ tl_id l)
           (tc_human_inspect cleanup)\<rparr>)))))"

definition scan_all_drift :: "'w reconcile_env \<Rightarrow> ('w, (string \<times> drift_result) list) world_act" where
  "scan_all_drift env =
     act_bind (act_get (\<lambda>s. list_work_items_by_states (fst s) ARTIFACT_OWNING_WORK_ITEM_STATES)) (\<lambda>items.
       act_fold (\<lambda>wi out. act_bind (scan_and_adopt_drift (re_host env) (git_gh_scan (ho_git (re_host env)) (re_gh env)) (w_id wi))
         (\<lambda>res. act_return (out @ [(w_id wi, res)]))) items [])"

definition resume_normal_loop :: "'w reconcile_env \<Rightarrow> bool \<Rightarrow> ('w, resume_report) world_act" where
  "resume_normal_loop env available =
     (if \<not> available then act_return \<lparr>rz_recovered = [], rz_claimed = None, rz_gated = True\<rparr>
      else act_bind (recover_stale_prompting (re_driver env) (re_triage env) (re_clock env)) (\<lambda>recovered.
        act_return \<lparr>rz_recovered = recovered, rz_claimed = None, rz_gated = False\<rparr>))"

definition default_reconcile_deps :: "'w reconcile_env \<Rightarrow> 'w reconcile_deps" where
  "default_reconcile_deps env =
     \<lparr>rd_now = re_clock env, rd_open = on_snd (re_open env), rd_close = on_snd (re_close env), rd_verify = verify_repos env,
      rd_probe = probe_resident env, rd_census = at_clock env (classify_session_census (re_status env)),
      rd_artifacts = reconcile_artifacts env, rd_drift = scan_all_drift env,
      rd_housekeep = (\<lambda>now. on_fst (run_terminal_unattached_housekeeping (to_iso now))),
      rd_resume = resume_normal_loop env, rd_fault = (\<lambda>b. act_return ())\<rparr>"

section \<open>A pass always reports\<close>

lemma record_phase_reports:
  "\<exists>p s'. record_phase phase m reports s = (Inr (ph_ok p, reports @ [p]), s') \<and> ph_phase p = phase \<and> \<not> ph_skipped p"
  by (auto simp: record_phase_def act_try_def act_bind_def act_return_def split: prod.splits sum.splits)

lemma record_phaseE:
  obtains p s' where "record_phase phase m reports s = (Inr (ph_ok p, reports @ [p]), s')" "ph_phase p = phase" "\<not> ph_skipped p"
  using record_phase_reports by blast

text \<open>The reports of the phases after P0, and the health that P2 left.\<close>

lemma run_phases_reports:
  "\<exists>p2 more s'. run_phases deps config reports s = (Inr (ph_ok p2, reports @ more), s') \<and> map ph_phase more = [P1, P2, P3, P4, P5, P6] \<and>
     p2 \<in> set more \<and> ph_phase p2 = P2 \<and> (\<forall>p \<in> set more. \<not> ph_skipped p)"
proof -
  have step: "act_bind (record_phase ph m rs) k s = k (ph_ok p, rs @ [p]) s'"
    if "record_phase ph m rs s = (Inr (ph_ok p, rs @ [p]), s')" for ph m rs k s p s'
    using that by (simp add: act_bind_def)
  let ?v = "act_bind (rd_verify deps config) (\<lambda>v. act_return (Repos_Verified v))"
  obtain p1 s1 where 1: "record_phase P1 ?v reports s = (Inr (ph_ok p1, reports @ [p1]), s1)" "ph_phase p1 = P1" "\<not> ph_skipped p1"
    by (rule record_phaseE)
  obtain p2 s2 where 2: "record_phase P2 (session_phase deps) (reports @ [p1]) s1 = (Inr (ph_ok p2, (reports @ [p1]) @ [p2]), s2)"
    "ph_phase p2 = P2" "\<not> ph_skipped p2" by (rule record_phaseE)
  let ?a = "act_then (rd_fault deps At_Cleanup) (act_bind (rd_artifacts deps) (\<lambda>a. act_return (Artifacts_Reconciled a)))"
  obtain p3 s3 where 3: "record_phase P3 ?a ((reports @ [p1]) @ [p2]) s2 = (Inr (ph_ok p3, ((reports @ [p1]) @ [p2]) @ [p3]), s3)"
    "ph_phase p3 = P3" "\<not> ph_skipped p3" by (rule record_phaseE)
  let ?d = "act_then (rd_fault deps At_Drift) (act_bind (rd_drift deps) (\<lambda>a. act_return (Drift_Scanned a)))"
  obtain p4 s4 where 4: "record_phase P4 ?d (((reports @ [p1]) @ [p2]) @ [p3]) s3 = (Inr (ph_ok p4, (((reports @ [p1]) @ [p2]) @ [p3]) @ [p4]), s4)"
    "ph_phase p4 = P4" "\<not> ph_skipped p4" by (rule record_phaseE)
  let ?h = "act_bind (act_get (\<lambda>s. rd_now deps (snd s))) (\<lambda>now. act_bind (rd_housekeep deps now) (\<lambda>a. act_return (Housekept a)))"
  obtain p5 s5 where 5: "record_phase P5 ?h ((((reports @ [p1]) @ [p2]) @ [p3]) @ [p4]) s4 =
      (Inr (ph_ok p5, ((((reports @ [p1]) @ [p2]) @ [p3]) @ [p4]) @ [p5]), s5)" "ph_phase p5 = P5" "\<not> ph_skipped p5" by (rule record_phaseE)
  obtain p6 s6 where 6: "record_phase P6 (resume_phase deps (ph_ok p2)) (((((reports @ [p1]) @ [p2]) @ [p3]) @ [p4]) @ [p5]) s5 =
      (Inr (ph_ok p6, (((((reports @ [p1]) @ [p2]) @ [p3]) @ [p4]) @ [p5]) @ [p6]), s6)" "ph_phase p6 = P6" "\<not> ph_skipped p6" by (rule record_phaseE)
  have "run_phases deps config reports s = (Inr (ph_ok p2, reports @ [p1, p2, p3, p4, p5, p6]), s6)"
    unfolding run_phases_def step[OF 1(1)] snd_conv fst_conv step[OF 2(1)] step[OF 3(1)] step[OF 4(1)] step[OF 5(1)] step[OF 6(1)] act_return_def
    by simp
  with 1 2 3 4 5 6 show ?thesis by (intro exI[of _ p2] exI[of _ "[p1, p2, p3, p4, p5, p6]"] exI[of _ s6]) simp
qed

text \<open>
  C32: A reconcile pass always returns a report of the seven phases in their order, whatever its dependencies throw; a phase is skipped only when
  the database could not be opened; and the resident service counts as available exactly when the session phase P2 completed.
\<close>
theorem reconcile_pass_reports_every_phase:
  "\<exists>r s'. run_reconcile_pass deps clock config s = (Inr r, s') \<and> map ph_phase (rq_phases r) = ALL_PHASES \<and>
     (list_ex ph_skipped (rq_phases r) = (\<not> ph_ok (hd (rq_phases r)))) \<and>
     rq_resident_available r = list_ex (\<lambda>p. ph_phase p = P2 \<and> ph_ok p) (rq_phases r)"
proof -
  let ?open = "act_bind (rd_open deps) (\<lambda>path. act_return (Db_Path path))"
  obtain p0 s0 where 0: "record_phase P0 ?open [] s = (Inr (ph_ok p0, [] @ [p0]), s0)" "ph_phase p0 = P0" "\<not> ph_skipped p0" by (rule record_phaseE)
  show ?thesis
  proof (cases "ph_ok p0")
    case True
    obtain p2 more s1 where run: "run_phases deps config ([] @ [p0]) s0 = (Inr (ph_ok p2, ([] @ [p0]) @ more), s1)"
      "map ph_phase more = [P1, P2, P3, P4, P5, P6]" "p2 \<in> set more" "ph_phase p2 = P2" "\<forall>p \<in> set more. \<not> ph_skipped p"
      using run_phases_reports[of deps config "[] @ [p0]" s0] by (elim exE conjE) (rule that)
    from run(2-4) have only: "list_ex (\<lambda>p. ph_phase p = P2 \<and> ph_ok p) more = ph_ok p2" by (auto simp: list_ex_iff Cons_eq_map_conv map_eq_Cons_conv)
    from run(5) have "\<not> list_ex ph_skipped more" by (simp add: list_ex_iff)
    moreover have "\<exists>s2. act_try (rd_close deps) (\<lambda>e. act_return ()) s1 = (Inr (), s2)"
      by (simp add: act_try_def act_return_def split: prod.split sum.split)
    ultimately show ?thesis using 0 True run only
      by (auto simp: run_reconcile_pass_def act_bind_def act_then_def act_get_def act_return_def ALL_PHASES_def)
  next
    case False
    with 0 show ?thesis by (auto simp: run_reconcile_pass_def act_bind_def act_get_def act_return_def ALL_PHASES_def)
  qed
qed

end
