(* ===== verification/Backing.thy ===== *)
theory Backing
  imports Triage_Safety Drift Terminal_Cleanup Gh_Transport
begin

text \<open>
  The outbox names only WorkItems that exist: \<open>effects_backed\<close>, which the executor needs to keep the store invariant, and that the writes of
  triage, drift detection, clean-up, housekeeping and the executor itself keep it. \<open>backs\<close> is the relation between the stores before and
  after a write that makes it compose.
\<close>

definition payload_backed :: "db \<Rightarrow> json_text \<Rightarrow> bool" where
  "payload_backed d j \<longleftrightarrow> (\<forall>e p. fx_payload_json e = j \<longrightarrow> parse_payload e = Inr p \<longrightarrow> ef_work_item_id p \<in> work_item_ids d)"

definition effects_backed :: "db \<Rightarrow> bool" where
  "effects_backed d \<longleftrightarrow> (\<forall>e \<in> set (side_effects d). payload_backed d (fx_payload_json e))"

definition backs :: "db \<Rightarrow> db \<Rightarrow> bool" where
  "backs d d' \<longleftrightarrow> work_item_ids d \<subseteq> work_item_ids d' \<and>
     (\<forall>e \<in> set (side_effects d'). fx_payload_json e \<in> fx_payload_json ` set (side_effects d) \<or> payload_backed d' (fx_payload_json e))"

lemma payload_backed_mono: "payload_backed d j \<Longrightarrow> work_item_ids d \<subseteq> work_item_ids d' \<Longrightarrow> payload_backed d' j"
  unfolding payload_backed_def by blast

lemma backs_preorder: "backs d d" "backs d e \<Longrightarrow> backs e f \<Longrightarrow> backs d f"
proof -
  show "backs d d" by (simp add: backs_def)
  assume de: "backs d e" and ef: "backs e f"
  have "fx_payload_json x \<in> fx_payload_json ` set (side_effects d) \<or> payload_backed f (fx_payload_json x)" if "x \<in> set (side_effects f)" for x
  proof (cases "payload_backed f (fx_payload_json x)")
    case False
    with ef that obtain y where y: "y \<in> set (side_effects e)" "fx_payload_json x = fx_payload_json y" unfolding backs_def by blast
    with False payload_backed_mono[of e "fx_payload_json y" f] ef have "\<not> payload_backed e (fx_payload_json y)" by (auto simp: backs_def)
    with de y show ?thesis by (auto simp: backs_def)
  qed simp
  with de ef show "backs d f" unfolding backs_def by blast
qed

lemma backs_effects:
  assumes "backs d d'" "effects_backed d" shows "effects_backed d'"
  unfolding effects_backed_def
proof
  fix e assume "e \<in> set (side_effects d')"
  with assms(1) consider "payload_backed d' (fx_payload_json e)" | x where "x \<in> set (side_effects d)" "fx_payload_json e = fx_payload_json x"
    unfolding backs_def by blast
  then show "payload_backed d' (fx_payload_json e)"
    using assms payload_backed_mono[of d _ d'] by cases (auto simp: effects_backed_def backs_def)
qed

text \<open>With both, the executor's condition holds for every effect.\<close>

lemma effects_backed_item:
  assumes "effects_backed d" "get_side_effect_full d eid = Some e" "parse_payload e = Inr p"
  shows "item_state d (ef_work_item_id p) \<noteq> None"
proof -
  from assms(2) have "e \<in> set (side_effects d)" by (auto simp: get_side_effect_full_def find_Some_iff)
  with assms(1,3) have "ef_work_item_id p \<in> work_item_ids d" unfolding effects_backed_def payload_backed_def by blast
  with item_state_ids[of d "ef_work_item_id p"] show ?thesis by simp
qed

interpretation backing: tx_preorder backs
  by unfold_locales (blast intro: backs_preorder)+

interpretation backing_fst: tx_preorder "\<lambda>s s'. backs (fst s) (fst s')"
  by unfold_locales (blast intro: backs_preorder)+

named_theorems backing_intros

lemmas [backing_intros] = backing.rel_intros

lemma backing_outside: "act_rel (\<lambda>s s'. backs (fst s) (fst s')) (on_snd m)"
  by (rule outside_rel[of backs]) (rule backs_preorder)

lemma backing_write: "tx_rel backs m \<Longrightarrow> act_rel (\<lambda>s s'. backs (fst s) (fst s')) (write_tx m)"
  by (rule write_rel[of backs]) (rule backs_preorder)

lemma backing_on_fst: "act_rel backs m \<Longrightarrow> act_rel (\<lambda>s s'. backs (fst s) (fst s')) (on_fst m)"
  by (rule act_relI) (auto simp: on_fst_def split: prod.splits dest: act_relD)

lemma backing_run_write: "tx_rel backs m \<Longrightarrow> act_rel backs (run_write m)"
  by (rule act_relI) (auto simp: run_write_def tx_rel_def backs_preorder split: sum.splits)

section \<open>Writes\<close>

lemma same_outbox: "work_item_ids d' = work_item_ids d \<Longrightarrow> side_effects d' = side_effects d \<Longrightarrow> backs d d'"
  by (simp add: backs_def)

lemma ids_update_where: "(\<And>w. w_id (f w) = w_id w) \<Longrightarrow> w_id ` set (update_where p f ws) = w_id ` set ws"
  by (induction ws) (simp_all add: update_where_def)

lemma leaf_writes_back [backing_intros]:
  "tx_rel backs (assert_json_if_set v field)" "tx_rel backs (assert_valid_json_string j field)"
  "tx_rel backs (update_repositories p f)" "tx_rel backs (insert_repository_row r)" "tx_rel backs (update_issues pz fz)"
  "tx_rel backs (attach_issue_to_work_item iid wid)" "tx_rel backs (update_sessions ps fs)" "tx_rel backs (insert_worktree_if_absent wi)"
  "tx_rel backs (update_worktrees pw fw)" "tx_rel backs (insert_pull_request_row pr)" "tx_rel backs (update_pull_requests pp fp)"
  "tx_rel backs (update_inbox pb fb)" "tx_rel backs (delete_leases pl)" "tx_rel backs (settle_work_item_dependency rid)"
  "tx_rel backs (append_transition ety eid fr t ev why a when_at)" "tx_rel backs (record_transition ety eid fr t ev r' a when_at)"
proof -
  show "tx_rel backs (assert_json_if_set v field)" "tx_rel backs (assert_valid_json_string j field)"
    by (auto simp: tx_rel_def backs_preorder dest!: assert_json_if_set_state assert_valid_json_state)
  show "tx_rel backs (update_inbox pb fb)" "tx_rel backs (delete_leases pl)"
    by (auto intro!: tx_relI same_outbox simp: work_item_ids_def update_inbox_success delete_leases_success)
  show "tx_rel backs (append_transition ety eid fr t ev why a when_at)"
    by (auto intro!: tx_relI same_outbox simp: work_item_ids_def dest!: append_transition_success)
  show "tx_rel backs (record_transition ety eid fr t ev r' a when_at)"
    by (rule tx_relI, cases fr) (auto intro!: same_outbox simp: work_item_ids_def record_transition_None dest!: record_transition_success)
qed (auto intro!: tx_relI same_outbox simp: work_item_ids_def tx_simps Let_def update_repositories_def insert_repository_row_def update_issues_def
    attach_issue_to_work_item_def update_sessions_def insert_worktree_if_absent_def update_worktrees_def insert_pull_request_row_def
    update_pull_requests_def settle_work_item_dependency_def split: option.splits if_splits)

lemma item_writes_back [backing_intros]:
  "(\<And>now w. w_id (f now w) = w_id w) \<Longrightarrow> tx_rel backs (update_work_items p f)"
  "tx_rel backs (set_work_item_state wid st wpatch)" "tx_rel backs (insert_work_item input)" "tx_rel backs (set_work_item_head_branch wid br)"
proof -
  show update: "tx_rel backs (update_work_items p f)" if "\<And>now w. w_id (f now w) = w_id w" for p f
    using that by (auto intro!: tx_relI simp: backs_def work_item_ids_def update_work_items_def tx_simps ids_update_where)
  show "tx_rel backs (set_work_item_state wid st wpatch)" unfolding set_work_item_state_def by (rule update) simp
  show "tx_rel backs (insert_work_item input)"
    by (auto intro!: tx_relI simp: backs_def work_item_ids_def insert_work_item_success)
  show "tx_rel backs (set_work_item_head_branch wid br)"
    unfolding set_work_item_head_branch_def by (intro backing_intros update) simp_all
qed

lemma effect_writes_back [backing_intros]:
  "tx_rel backs (set_side_effect_state eid st ep)" "tx_rel backs (requeue_side_effect eid ep)"
  by (auto intro!: tx_relI simp: backs_def work_item_ids_def set_side_effect_state_def requeue_side_effect_def update_side_effects_def tx_simps update_where_def)

lemma composite_writes_back [backing_intros]:
  "tx_rel backs (insert_pull_request_if_absent pri)" "tx_rel backs (mark_pull_request_state wid n st)" "tx_rel backs (expire_leases at_time)"
  "tx_rel backs (persist_repository_capability rid cs cap at_time)" "tx_rel backs (sync_one at_time repo counts)"
  "tx_rel backs (disable_unconfigured configured at_time)" "tx_rel backs (update_triage_state rid tp)"
  "tx_rel backs (update_issue_state iid st disp bl)" "tx_rel backs (update_issue_snapshot iid isp)" "tx_rel backs (reparent_inbox_by_issue iid wid)"
  "tx_rel backs (set_session_state sid st)"
  unfolding insert_pull_request_if_absent_def mark_pull_request_state_def expire_leases_def persist_repository_capability_def sync_one_def
    disable_unconfigured_def update_triage_state_def update_issue_state_def update_issue_snapshot_def reparent_inbox_by_issue_def
    set_session_state_def Let_def
  by - (intro backing_intros)+

lemma record_noop_back [backing_intros]: "tx_rel backs (record_noop ety eid f t env r)"
  unfolding record_noop_def by (intro backing_intros)

lemma apply_triage_back [backing_intros]: "tx_rel backs (apply_triage_envelope e)"
proof (rule tx_relI)
  fix d res d' assume "apply_triage_envelope e d = Inr (res, d')"
  then show "backs d d'"
  proof (cases rule: apply_triage_success)
    case (noop issue)
    then show ?thesis by (auto intro!: same_outbox simp: record_noop_def work_item_ids_def dest!: append_transition_success)
  next
    case (applied issue disp reason d1 row)
    then show ?thesis
      using record_transition_success[OF applied(4)] update_issue_state_success[OF applied(3)]
      by (intro same_outbox) (simp_all add: work_item_ids_def)
  qed
qed

section \<open>Triage\<close>

lemma triage_writes_back [backing_intros]:
  "tx_rel backs (pump rid f t ev reason tp)" "tx_rel backs (attach_and_reparent issue wid)" "tx_rel backs (ensure_grouped issue wi)"
  "tx_rel backs (ensure_resolution_ready repo issue)"
  unfolding pump_def attach_and_reparent_def ensure_grouped_def ensure_resolution_ready_def Let_def by (intro backing_intros)+

lemma flight_writes_back [backing_intros]:
  "tx_rel backs (begin_flight rid f iid)" "tx_rel backs (fail_flight rid f n now e random)"
  "tx_rel backs (place_issue repo issue s canonical st)" "tx_rel backs (apply_suggestion_body env repo issue s canonical)"
  unfolding begin_flight_def fail_flight_def place_issue_def apply_suggestion_body_def Let_def by (intro backing_intros)+

lemmas backing_acts = backing_fst.act_rel_intros backing_write backing_outside

lemma run_triage_back: "act_rel (\<lambda>s s'. backs (fst s) (fst s')) (run_triage_repo drv opts now rid)"
  unfolding run_triage_repo_def stale_flight_def failed_flight_def prompt_flight_def ask_agent_def ensure_triage_session_def
    store_body_def apply_suggestion_def pump_row_def Let_def
  by (intro backing_acts backing_intros)

section \<open>Drift and clean-up\<close>

lemma adopt_drift_back: "tx_rel backs (adopt_drift wi unexpected)"
proof -
  have "tx_rel backs (adopt_artifact wi a)" for a
    by (cases "(wi, a)" rule: adopt_artifact.cases) (simp_all, (intro backing_intros)+)
  then show ?thesis unfolding adopt_drift_def note_drift_def by (intro backing_intros)
qed

lemma scan_drift_keeps:
  assumes "scan_and_adopt_drift h scanner wid (d, w) = (r, (d', w'))"
  shows "backs d d'" "store_ok d \<Longrightarrow> store_ok d'"
proof -
  note run = scan_drift_run[OF assms]
  then show "backs d d'" using tx_relD[OF adopt_drift_back] backs_preorder(1) by blast
  assume d: "store_ok d"
  from run show "store_ok d'"
  proof (elim disjE exE conjE)
    fix wi unexpected assume wi: "get_work_item d wid = Some wi" and adopt: "adopt_drift wi unexpected d = Inr ((), d')"
    from get_work_item_SomeD[OF wi] have "w_id wi = wid" by simp
    with adopt_drift_states[OF d _ adopt] wi show ?thesis by simp
  qed (use d in simp)
qed

lemma clean_leftover_back: "act_rel (\<lambda>s s'. backs (fst s) (fst s')) (clean_leftover remove at_time t res)"
  unfolding clean_leftover_def start_cleaning_def finish_cleaning_def by (intro backing_acts backing_intros)

lemma cleanup_back: "act_rel (\<lambda>s s'. backs (fst s) (fst s')) (cleanup_terminal_leftovers remove now)"
  unfolding cleanup_terminal_leftovers_def by (intro backing_acts clean_leftover_back)

section \<open>Housekeeping\<close>

lemma housekeeping_back: "act_rel backs (run_terminal_unattached_housekeeping now)"
proof -
  have "tx_rel backs (housekeep_one dl now c acc)" for dl c acc unfolding housekeep_one_def by (intro backing_intros)
  then show ?thesis
    unfolding run_terminal_unattached_housekeeping_def housekeep_terminal_unattached_inbox_def
    by (intro backing.act_rel_intros backing_run_write backing_intros)
qed

section \<open>The executor\<close>

text \<open>The payload a parsed effect came from still names its WorkItem.\<close>

definition raw_names_item :: "effect_payload \<Rightarrow> bool" where
  "raw_names_item p \<longleftrightarrow> map_of (ef_raw p) ''work_item_id'' = Some (JStr (ef_work_item_id p))"

lemma string_or_null_Some: "string_or_null v = Some s \<longleftrightarrow> v = Some (JStr s)"
  by (cases "v" rule: string_or_null.cases) auto

lemma check_payload_same: "check_payload p = Inr q \<Longrightarrow> q = p"
  by (auto simp: check_payload_def c_then_def split: sum.splits)

lemma parse_payload_raw: "parse_payload e = Inr p \<Longrightarrow> raw_names_item p"
  by (auto simp: parse_payload_def raw_names_item_def payload_of_def string_or_null_Some split: json_text.splits json.splits option.splits
      dest!: check_payload_same)

lemma map_of_json_set: "map_of (json_set fs k v) = (map_of fs)(k \<mapsto> v)"
  by (induction fs k v rule: json_set.induct) (auto simp: fun_eq_iff)

lemma merge_intent_names:
  assumes "raw_names_item p" "fx_payload_json e = Text (merge_intent_json p n head_ref sha a b)" "parse_payload e = Inr q"
  shows "ef_work_item_id q = ef_work_item_id p"
proof -
  obtain fs where fs: "merge_intent_json p n head_ref sha a b = JObj fs" "map_of fs ''work_item_id'' = Some (JStr (ef_work_item_id p))"
    using assms(1) by (auto simp: merge_intent_json_def Let_def map_of_json_set raw_names_item_def split: option.splits)
  with assms(2,3) show ?thesis
    by (auto simp: parse_payload_def payload_of_def split: option.splits dest!: check_payload_same)
qed

lemma schedule_body_back [backing_intros]:
  assumes "raw_names_item p"
  shows "tx_rel backs (schedule_body p n head_ref sha)"
proof (rule tx_relI)
  fix d u d' assume run: "schedule_body p n head_ref sha d = Inr (u, d')"
  show "backs d d'"
  proof (cases "get_work_item d (ef_work_item_id p)")
    case None
    with run show ?thesis by (simp add: schedule_body_def tx_bind_get_eq tx_return_success backs_preorder)
  next
    case (Some wi)
    let ?intent = "schedule_intent p n head_ref sha"
    obtain i1 i2 d1 where pr: "insert_pull_request_if_absent (pr_row_input p (''pr-'' @ ef_work_item_id p @ ''-'' @ show_int n) (w_repo_id wi) n
        head_ref sha (canonical_pr_state ''ACTIVE'') ''controller'') d = Inr (i1, d1)" and fx: "insert_side_effect_if_absent ?intent d1 = Inr (i2, d')"
      using run Some by (auto simp: schedule_body_def tx_bind_get_eq tx_bind_success tx_return_success)
    have first: "backs d d1" by (rule tx_relD[OF composite_writes_back(1) pr])
    have "ef_work_item_id p \<in> work_item_ids d"
      using get_work_item_SomeD[OF Some] unfolding work_item_ids_def by (metis image_eqI)
    with first have known: "ef_work_item_id p \<in> work_item_ids d1" by (auto simp: backs_def)
    then have "payload_backed d1 (ei_payload_json ?intent)"
      unfolding payload_backed_def schedule_intent_def using merge_intent_names[OF assms] by auto
    with insert_side_effect_if_absent_success[OF fx] have "backs d1 d'"
      by (auto simp: backs_def work_item_ids_def payload_backed_def new_side_effect_row_def)
    with first show ?thesis by (rule backs_preorder)
  qed
qed

lemma completion_back [backing_intros]: "tx_rel backs (complete_merged_body eid wid n)"
  unfolding complete_merged_body_def resume_waiting_def complete_from_def release_dependent_def by (intro backing_intros)

lemma hold_body_back [backing_intros]: "tx_rel backs (hold_body wid reason)"
  unfolding hold_body_def by (intro backing_intros)

lemma marks_back:
  "act_rel (\<lambda>s s'. backs (fst s) (fst s')) (mark_executing eid)" "act_rel (\<lambda>s s'. backs (fst s) (fst s')) (mark_done eid)"
  "act_rel (\<lambda>s s'. backs (fst s) (fst s')) (mark_failed eid reason nxt)" "act_rel (\<lambda>s s'. backs (fst s) (fst s')) (requeue eid reason nxt)"
  "act_rel (\<lambda>s s'. backs (fst s) (fst s')) (mark_local_pr p n st)" "act_rel (\<lambda>s s'. backs (fst s) (fst s')) (record_rogue_pr p v)"
  "act_rel (\<lambda>s s'. backs (fst s) (fst s')) (complete_merged_work_item eid wid n)"
  "act_rel (\<lambda>s s'. backs (fst s) (fst s')) (invalid eid kind m why)"
  "act_rel (\<lambda>s s'. backs (fst s) (fst s')) (hold_waiting eid p now wait attempt reason)"
  unfolding mark_executing_def mark_done_def mark_failed_def requeue_def mark_local_pr_def record_rogue_pr_def complete_merged_work_item_def
    invalid_def hold_waiting_def
  by (intro backing_acts backing_intros)+

lemma adopt_back:
  "raw_names_item p \<Longrightarrow> act_rel (\<lambda>s s'. backs (fst s) (fst s')) (adopt_pr eid p attempt v outcome why)"
  "act_rel (\<lambda>s s'. backs (fst s) (fst s')) (adopt_gone eid p attempt kind n reason)"
  "act_rel (\<lambda>s s'. backs (fst s) (fst s')) (adopt_merged eid p attempt kind n)"
  unfolding adopt_pr_def adopt_pr_and_schedule_merge_def adopt_gone_def adopt_merged_def
  by (intro backing_acts marks_back backing_intros; assumption)+

lemma runners_back:
  "act_rel (\<lambda>s s'. backs (fst s) (fst s')) (run_push tr eid p attempt)" "act_rel (\<lambda>s s'. backs (fst s) (fst s')) (run_comment tr eid p attempt)"
  "act_rel (\<lambda>s s'. backs (fst s) (fst s')) (run_state_change tr eid p attempt target)"
  "act_rel (\<lambda>s s'. backs (fst s) (fst s')) (run_monitor tr now wait eid p attempt)"
  "act_rel (\<lambda>s s'. backs (fst s) (fst s')) (run_merge tr now wait eid p attempt)"
  unfolding run_push_def run_comment_def run_state_change_def run_monitor_def run_merge_def merge_gates_def verify_merge_def Let_def
  by (intro backing_acts marks_back adopt_back(2,3))+

lemma run_create_pr_back:
  "raw_names_item p \<Longrightarrow> act_rel (\<lambda>s s'. backs (fst s) (fst s')) (run_create_pr tr eid p attempt)"
  unfolding run_create_pr_def by (intro backing_acts marks_back adopt_back adoption_case)

lemma executor_back: "act_rel (\<lambda>s s'. backs (fst s) (fst s')) (execute_verified_effect tr now opts eid)"
proof -
  have guarded: "act_rel (\<lambda>s s'. backs (fst s) (fst s')) (run_guarded tr now wait e p attempt)" if "parse_payload e = Inr p" for wait e p attempt
    unfolding run_guarded_def run_kind_def using parse_payload_raw[OF that]
    by (intro backing_acts marks_back runners_back run_create_pr_back)
  have parsed: "act_rel (\<lambda>s s'. backs (fst s) (fst s')) (case parse_payload e of Inl er \<Rightarrow> f er | Inr p \<Rightarrow> g p)"
    if "\<And>er. act_rel (\<lambda>s s'. backs (fst s) (fst s')) (f er)" "\<And>p. parse_payload e = Inr p \<Longrightarrow> act_rel (\<lambda>s s'. backs (fst s) (fst s')) (g p)"
    for e and f :: "err \<Rightarrow> ('a, effect_result) effect_act" and g
    using that by (cases "parse_payload e") simp_all
  show ?thesis
    unfolding execute_verified_effect_def Let_def by (intro backing_acts marks_back parsed guarded)
qed

text \<open>With a backed outbox the executor keeps the store and leaves the outbox backed.\<close>

definition outbox_ok :: "db \<Rightarrow> bool" where
  "outbox_ok d \<longleftrightarrow> store_ok d \<and> effects_backed d"

lemma executor_outbox_ok:
  assumes "outbox_ok d" "execute_verified_effect tr now opts eid (d, w) = (r, (d', w'))"
  shows "outbox_ok d'"
  using executor_store_ok[OF _ assms(2)] act_relD[OF executor_back assms(2)] assms(1) effects_backed_item backs_effects
  unfolding outbox_ok_def by (metis fst_conv)

end
