(* ===== verification/Reconcile_Safety.thy ===== *)
theory Reconcile_Safety
  imports Reconcile Backing
begin

text \<open>
  What the reconcile pass promises: the recovery policy holds exactly the WorkItems whose resolution session is lost and that are dispatchable;
  and over the production dependencies the whole pass keeps the store invariant.
\<close>

section \<open>Recovery of lost sessions\<close>

definition lost_owner :: "census_entry \<Rightarrow> string option" where
  "lost_owner e = (if ce_kind e = Resolution_Session \<and> session_lost e \<and> present (ce_work_item_id e) then ce_work_item_id e else None)"

text \<open>The states of the WorkItems after the owners in \<open>lost\<close> were held.\<close>

definition held :: "string set \<Rightarrow> (string \<Rightarrow> string option) \<Rightarrow> string \<Rightarrow> string option" where
  "held lost st = (\<lambda>i. if i \<in> lost \<and> st i \<in> {Some ''RUNNING'', Some ''WAITING''} then Some ''FAILED_HOLD'' else st i)"

lemma held_nothing: "held {} st = st" by (simp add: held_def fun_eq_iff)

lemma held_twice: "held B (held A st) = held (A \<union> B) st"
  by (auto simp: held_def fun_eq_iff)

lemma wedge_states: "is_legal_transition Work_Item st ''FAILED_HOLD'' ''wedge'' \<longleftrightarrow> st = ''RUNNING'' \<or> st = ''WAITING''"
  by (auto simp: is_legal_transition_def work_item_transitions_def)

text \<open>A step of the recovery: it succeeds, keeps the store, and holds the given owners.\<close>

definition recovers :: "string set \<Rightarrow> db \<Rightarrow> 'a db_act \<Rightarrow> bool" where
  "recovers lost d m \<longleftrightarrow> (\<exists>x d'. m d = (Inr x, d') \<and> store_ok d' \<and> item_state d' = held lost (item_state d) \<and>
     inbox d' = inbox d \<and> side_effects d' = side_effects d \<and> worktrees d' = worktrees d \<and> prefix (state_transitions d) (state_transitions d'))"

lemma recoversI:
  assumes "m d = Inr (x, d')" "store_ok d'" "item_state d' = held lost (item_state d)"
    "inbox d' = inbox d" "side_effects d' = side_effects d" "worktrees d' = worktrees d" "prefix (state_transitions d) (state_transitions d')"
  shows "recovers lost d (act_then (run_write m) (act_return y))"
  using assms by (auto simp: recovers_def act_then_def act_bind_def run_write_def act_return_def)

lemma recovers_nothing: "store_ok d \<Longrightarrow> recovers {} d (act_return x)"
  by (simp add: recovers_def act_return_def held_nothing)

lemma recovers_get: "recovers lost d (act_bind (act_get f) k) = recovers lost d (k (f d))"
  by (simp add: recovers_def act_bind_def act_get_def)

lemma note_loss_recovers:
  assumes "store_ok d" "List.member evidence_events ev" "ety = Work_Item \<Longrightarrow> eid \<in> work_item_ids d" "ety \<noteq> Issue"
    "held lost (item_state d) = item_state d"
  shows "recovers lost d (act_then (run_write (note_loss ety eid st ev evidence)) (act_return y))"
proof -
  obtain u d' where run: "note_loss ety eid st ev evidence d = Inr (u, d')" by (simp add: note_loss_def)
  have "store_ok d'" by (rule append_evidence_ok[OF assms(1) run[unfolded note_loss_def] assms(2)]) (use assms(3,4) in auto)
  moreover have d': "d' = d\<lparr>state_transitions := state_transitions d @ [ledger_row ety eid (Some st) st ev (Some (Text (JObj evidence))) ''controller.reconcile'' (db_now d)]\<rparr>"
    using run by (simp add: note_loss_def coalesce_def)
  moreover have "item_state d' = item_state d" by (simp add: d' item_state_def get_work_item_def fun_eq_iff)
  ultimately show ?thesis using assms(5) by (intro recoversI[where m = "note_loss ety eid st ev evidence", OF run]) (simp_all only:, simp_all)
qed

lemma hold_lost_recovers:
  assumes "store_ok d" "get_work_item d wid = Some wi" "w_state wi = ''RUNNING'' \<or> w_state wi = ''WAITING''"
  shows "recovers {wid} d (act_then (run_write (hold_lost wi evidence)) (act_return y))"
proof -
  have id: "w_id wi = wid" using get_work_item_SomeD[OF assms(2)] by simp
  have legal: "is_legal_transition Work_Item (w_state wi) ''FAILED_HOLD'' ''wedge''" using assms(3) by (simp add: wedge_states)
  have st: "item_state d wid = Some (w_state wi)" using assms(2) by (simp add: item_state_def)
  obtain u d' where run: "hold_lost wi evidence d = Inr (u, d')"
    and same: "inbox d' = inbox d" "side_effects d' = side_effects d" "worktrees d' = worktrees d" "prefix (state_transitions d) (state_transitions d')"
    using legal by (auto simp: hold_lost_def tx_bind_def set_work_item_state_def update_work_items_def tx_simps Let_def)
  from work_item_move[OF assms(1) st run[unfolded hold_lost_def id]]
  have "store_ok d'" "item_state d' = held {wid} (item_state d)" using assms(3) st by (auto simp: held_def fun_eq_iff)
  with same show ?thesis by (intro recoversI[where m = "hold_lost wi evidence", OF run])
qed

lemma recover_lost_resolution_ok:
  assumes "store_ok d" "ce_kind e = Resolution_Session" "session_lost e"
  shows "recovers (set_option (lost_owner e)) d (recover_lost_resolution e)"
proof -
  have ev: "List.member evidence_events ''session_loss_absorbed''" "List.member evidence_events ''session_loss_observed''" by code_simp+
  let ?owner = "if present (ce_work_item_id e) then get_work_item d (the (ce_work_item_id e)) else None"
  show ?thesis
  proof (cases ?owner)
    case None
    have "held (set_option (lost_owner e)) (item_state d) = item_state d"
      using None by (auto simp: held_def lost_owner_def item_state_def fun_eq_iff split: if_splits)
    from note_loss_recovers[OF assms(1) ev(2) _ _ this, of Session] None show ?thesis
      by (simp add: recover_lost_resolution_def recovers_get)
  next
    case (Some wi)
    then have owner: "lost_owner e = Some (the (ce_work_item_id e))" "get_work_item d (the (ce_work_item_id e)) = Some wi"
      using assms(2,3) by (auto simp: lost_owner_def present_def split: if_splits)
    then have id: "w_id wi = the (ce_work_item_id e)" and st: "item_state d (w_id wi) = Some (w_state wi)"
      using get_work_item_SomeD[OF owner(2)] by (simp_all add: item_state_def)
    have ids: "w_id wi \<in> work_item_ids d" using st item_state_ids[of d "w_id wi"] by simp
    have same: "held {w_id wi} (item_state d) = item_state d" if "\<not> (w_state wi = ''RUNNING'' \<or> w_state wi = ''WAITING'')"
      using that st by (auto simp: held_def fun_eq_iff)
    show ?thesis
    proof (cases "w_state wi = ''RUNNING'' \<or> w_state wi = ''WAITING''")
      case True
      with hold_lost_recovers[OF assms(1) owner(2) True] Some owner(1) id show ?thesis
        by (auto simp: recover_lost_resolution_def recovers_get wedge_states)
    next
      case False
      with Some owner(1) id ids same[OF False] show ?thesis
        by (auto simp: recover_lost_resolution_def recovers_get wedge_states intro!: note_loss_recovers[OF assms(1) ev(1)] note_loss_recovers[OF assms(1) ev(2)])
    qed
  qed
qed

lemma quiet_recovers:
  assumes "store_ok d" "store_safe m" "tx_rel (frame item_state) m" "m d = Inr (x, d')"
    "inbox d' = inbox d" "side_effects d' = side_effects d" "worktrees d' = worktrees d" "prefix (state_transitions d) (state_transitions d')"
  shows "recovers {} d (act_then (run_write m) (act_return y))"
proof (rule recoversI[where m = m, OF assms(4) store_safeD[OF assms(2,1,4)]])
  show "item_state d' = held {} (item_state d)" using tx_relD[OF assms(3,4)] by (simp add: frame_def held_nothing)
qed (use assms in simp_all)

lemma other_record_item_state: "ety \<noteq> Work_Item \<Longrightarrow> tx_rel (frame item_state) (record_transition ety eid f t ev r a when_at)"
  by (rule tx_relI, cases f) (auto simp: frame_def item_state_def get_work_item_def record_transition_None fun_eq_iff dest!: record_transition_success)

lemma retain_session_recovers:
  assumes "store_ok d"
  shows "recovers {} d (act_then (run_write (retain_session e)) (act_return y))"
proof -
  let ?upd = "\<lambda>now s. s\<lparr>s_state := ''RETAINED'', s_updated_at := now\<rparr>"
  have legal: "is_legal_transition Session ''ACTIVE'' ''RETAINED'' ''session_retained''" by code_simp
  have "sessions_ok d" using assms store_okD(1) schema_okD(5) by blast
  then have "distinct (map s_work_item_id (filter active_resolution (opencode_sessions d)))" by (simp add: sessions_ok_def)
  then have "distinct (map s_work_item_id (filter (\<lambda>s. s_id s \<noteq> ce_session_id e) (filter active_resolution (opencode_sessions d))))"
    by (rule distinct_map_filter)
  moreover have "filter active_resolution (update_where (\<lambda>s. s_id s = ce_session_id e) (?upd (db_now d)) rows) =
      filter (\<lambda>s. s_id s \<noteq> ce_session_id e) (filter active_resolution rows)" for rows
    by (induction rows) (auto simp: update_where_def active_resolution_def)
  ultimately have uniq: "distinct (map s_work_item_id (filter active_resolution
      (update_where (\<lambda>s. s_id s = ce_session_id e) (?upd (db_now d)) (opencode_sessions d))))"
    by simp
  have safe: "store_safe (retain_session e)" unfolding retain_session_def by (intro preserves_intros keeping.rel_intros) simp_all
  have quiet: "tx_rel (frame item_state) (retain_session e)"
    unfolding retain_session_def set_session_state_def
    by (intro framing.rel_intros other_record_item_state tx_relI)
      (auto simp: frame_def update_sessions_def tx_simps item_state_def get_work_item_def fun_eq_iff split: if_splits)
  obtain u d' where run: "retain_session e d = Inr (u, d')"
    and same: "inbox d' = inbox d" "side_effects d' = side_effects d" "worktrees d' = worktrees d" "prefix (state_transitions d) (state_transitions d')"
    using legal uniq by (auto simp: retain_session_def tx_bind_def set_session_state_def update_sessions_def tx_simps Let_def)
  show ?thesis by (rule quiet_recovers[OF assms safe quiet run same])
qed

lemma release_triage_recovers:
  assumes "store_ok d"
  shows "recovers {} d (act_then (run_write (release_triage_session e repo)) (act_return y))"
proof -
  have safe: "store_safe (release_triage_session e repo)"
    unfolding release_triage_session_def note_loss_def by (intro preserves_intros keeping.rel_intros) simp_all
  have quiet: "tx_rel (frame item_state) (release_triage_session e repo)"
    by (rule tx_relI) (auto simp: frame_def release_triage_session_def note_loss_def update_triage_state_def update_repositories_def tx_simps tx_then_success
      item_state_def get_work_item_def fun_eq_iff no_triage_patch_def split: if_splits dest!: append_transition_success)
  obtain u d' where run: "release_triage_session e repo d = Inr (u, d')"
    and same: "inbox d' = inbox d" "side_effects d' = side_effects d" "worktrees d' = worktrees d" "prefix (state_transitions d) (state_transitions d')"
    by (auto simp: release_triage_session_def note_loss_def update_triage_state_def update_repositories_def tx_simps tx_then_def tx_bind_def no_triage_patch_def)
  show ?thesis by (rule quiet_recovers[OF assms safe quiet run same])
qed

lemma recover_session_ok:
  assumes "store_ok d"
  shows "\<exists>a d'. recover_session e d = (Inr a, d') \<and> sv_entry a = e \<and> store_ok d' \<and> item_state d' = held (set_option (lost_owner e)) (item_state d) \<and>
     inbox d' = inbox d \<and> side_effects d' = side_effects d \<and> worktrees d' = worktrees d \<and> prefix (state_transitions d) (state_transitions d')"
proof -
  have "recovers (set_option (lost_owner e)) d
       (if ce_kind e = Resolution_Session \<and> session_lost e then recover_lost_resolution e
        else if ce_kind e = Resolution_Session \<and> ce_classification e = C_Incomplete
        then act_bind (act_get (\<lambda>d. session_state_of d (ce_session_id e))) (\<lambda>st.
          if st = Some ''ACTIVE'' then act_then (run_write (retain_session e)) (act_return (Session_Retained, None))
          else act_return (No_Action, None))
        else if ce_kind e = Triage_Session \<and> session_lost e
        then act_bind (act_get (\<lambda>d. if present (ce_repo_id e) then get_repository_by_id d (the (ce_repo_id e)) else None)) (\<lambda>found.
          case found of
            None \<Rightarrow> act_return (No_Action, None)
          | Some repo \<Rightarrow>
              if r_triage_session_id repo = Some (ce_session_id e)
              then act_then (run_write (release_triage_session e repo)) (act_return (Triage_Session_Released, None))
              else act_return (No_Action, None))
        else act_return (No_Action, None))"
  proof (cases "ce_kind e = Resolution_Session \<and> session_lost e")
    case True
    with recover_lost_resolution_ok[OF assms] show ?thesis by simp
  next
    case False
    then have "lost_owner e = None" by (auto simp: lost_owner_def)
    with False assms show ?thesis
      by (auto simp: recovers_get intro: retain_session_recovers release_triage_recovers recovers_nothing split: option.split)
  qed
  then show ?thesis unfolding recovers_def by (auto simp: recover_session_def act_bind_def act_return_def)
qed

lemma recovery_fold_ok:
  assumes "store_ok d"
  shows "\<exists>out d'. act_fold (\<lambda>e actions. act_bind (recover_session e) (\<lambda>a. act_return (actions @ [a]))) es acc d = (Inr (acc @ out), d') \<and>
     map sv_entry out = es \<and> store_ok d' \<and> item_state d' = held {i. \<exists>e \<in> set es. lost_owner e = Some i} (item_state d) \<and>
     inbox d' = inbox d \<and> side_effects d' = side_effects d \<and> worktrees d' = worktrees d \<and> prefix (state_transitions d) (state_transitions d')"
  using assms
proof (induction es arbitrary: acc d)
  case Nil
  then show ?case by (simp add: act_return_def held_nothing)
next
  case (Cons e es)
  obtain a d1 where one: "recover_session e d = (Inr a, d1)" "sv_entry a = e" "store_ok d1" "item_state d1 = held (set_option (lost_owner e)) (item_state d)"
    "inbox d1 = inbox d" "side_effects d1 = side_effects d" "worktrees d1 = worktrees d" "prefix (state_transitions d) (state_transitions d1)"
    using recover_session_ok[OF Cons.prems] by blast
  obtain out d2 where rest: "act_fold (\<lambda>e actions. act_bind (recover_session e) (\<lambda>a. act_return (actions @ [a]))) es (acc @ [a]) d1 =
      (Inr ((acc @ [a]) @ out), d2)" "map sv_entry out = es" "store_ok d2"
    "item_state d2 = held {i. \<exists>e \<in> set es. lost_owner e = Some i} (item_state d1)" "inbox d2 = inbox d1" "side_effects d2 = side_effects d1"
    "worktrees d2 = worktrees d1" "prefix (state_transitions d1) (state_transitions d2)"
    using Cons.IH[OF one(3), of "acc @ [a]"] by (elim exE conjE) (rule that)
  have union: "set_option (lost_owner e) \<union> {i. \<exists>e \<in> set es. lost_owner e = Some i} = {i. \<exists>e \<in> set (e # es). lost_owner e = Some i}" by auto
  have "item_state d2 = held {i. \<exists>e \<in> set (e # es). lost_owner e = Some i} (item_state d)"
    unfolding rest(4) one(4) held_twice union ..
  moreover have "prefix (state_transitions d) (state_transitions d2)" using one(8) rest(8) by (rule prefix_order.trans)
  moreover have "act_bind (recover_session e) (\<lambda>a. act_return (acc @ [a])) d = (Inr (acc @ [a]), d1)"
    using one(1) by (simp add: act_bind_def act_return_def)
  then have "act_fold (\<lambda>e actions. act_bind (recover_session e) (\<lambda>a. act_return (actions @ [a]))) (e # es) acc d = (Inr (acc @ a # out), d2)"
    using rest(1) by (simp add: act_bind_Inr[where m = "act_bind (recover_session e) (\<lambda>a. act_return (acc @ [a]))"])
  ultimately show ?case using one rest by (intro exI[of _ "a # out"] exI[of _ d2]) simp
qed

lemma census_recovery_ok:
  assumes "store_ok d"
  shows "\<exists>actions d'. apply_session_census_recovery census d = (Inr actions, d') \<and> map sv_entry actions = census \<and> store_ok d' \<and>
     item_state d' = held {i. \<exists>e \<in> set census. lost_owner e = Some i} (item_state d) \<and>
     inbox d' = inbox d \<and> side_effects d' = side_effects d \<and> worktrees d' = worktrees d \<and> prefix (state_transitions d) (state_transitions d')"
  using recovery_fold_ok[OF assms, of census "[]"] unfolding apply_session_census_recovery_def by simp

text \<open>
  C33: The recovery policy is total and exact: applied to any census it succeeds with one action per entry, keeps the store invariant, holds
  exactly the RUNNING or WAITING WorkItems that own a lost resolution session and moves no other; it touches no event, effect or worktree, and
  the ledger only grows. The right-hand side is the abstract step, a function of the states before; applied to its own result it changes nothing.
\<close>
theorem census_recovery_holds_lost_owners:
  assumes "store_ok d"
  shows "\<exists>actions d'. apply_session_census_recovery census d = (Inr actions, d') \<and> map sv_entry actions = census \<and> store_ok d' \<and>
     item_state d' = (\<lambda>i. if (\<exists>e \<in> set census. lost_owner e = Some i) \<and> item_state d i \<in> {Some ''RUNNING'', Some ''WAITING''}
       then Some ''FAILED_HOLD'' else item_state d i) \<and>
     inbox d' = inbox d \<and> side_effects d' = side_effects d \<and> worktrees d' = worktrees d \<and> prefix (state_transitions d) (state_transitions d')"
  using census_recovery_ok[OF assms] unfolding held_def by simp

text \<open>The service no longer knows the session of b, which runs.\<close>

definition example_lost_session :: census_entry where
  "example_lost_session = \<lparr>ce_session_id = ''ses-b'', ce_kind = Resolution_Session, ce_repo_id = None,
     ce_work_item_id = Some ''b'', ce_classification = C_Missing, ce_detail = None\<rparr>"

theorem census_recovery_holds_lost_owners_witness:
  "\<exists>actions d'. apply_session_census_recovery [example_lost_session] example_working_db = (Inr actions, d') \<and> length actions = 1 \<and>
     item_state example_working_db ''b'' = Some ''RUNNING'' \<and> item_state d' ''b'' = Some ''FAILED_HOLD'' \<and>
     item_state d' ''a'' = item_state example_working_db ''a''"
proof -
  have eval: "item_state example_working_db ''b'' = Some ''RUNNING''" "lost_owner example_lost_session = Some ''b''" by code_simp+
  from census_recovery_holds_lost_owners[OF example_working_db_ok, of "[example_lost_session]"] eval show ?thesis
    by (elim exE conjE) (rule exI, rule exI, rule conjI, assumption, auto dest: arg_cong[where f = length])
qed

section \<open>The whole pass\<close>

text \<open>What keeps the store and backs the outbox keeps both.\<close>

lemma keeps_outbox: "keeps store_ok d d' \<Longrightarrow> backs d d' \<Longrightarrow> keeps outbox_ok d d'"
  using backs_effects by (auto simp: keeps_def outbox_ok_def)

lemma act_keeps_outbox:
  "act_safe m \<Longrightarrow> act_rel backs m \<Longrightarrow> act_rel (keeps outbox_ok) m"
  "world_safe k \<Longrightarrow> act_rel (\<lambda>s s'. backs (fst s) (fst s')) k \<Longrightarrow> act_rel (keeps_fst outbox_ok) k"
  by (auto intro!: keeps_outbox simp: keeps_fst_def act_rel_def)

lemma write_keeps_outbox: "store_safe m \<Longrightarrow> tx_rel backs m \<Longrightarrow> act_rel (keeps_fst outbox_ok) (write_tx m)"
  by (intro act_keeps_outbox world_safe_write backing_write)

lemma keeps_fst_outside: "act_rel (keeps_fst P) (on_snd m)"
  by (rule act_relI) (auto simp: keeps_fst_def keeps_def on_snd_def split: prod.splits)

lemma act_keeps_pairI:
  assumes "\<And>d w r d' w'. P d \<Longrightarrow> m (d, w) = (r, (d', w')) \<Longrightarrow> P d'"
  shows "act_rel (keeps_fst P) m"
proof (rule act_relI)
  fix s
  obtain r s' where "m s = (r, s')" by (cases "m s")
  with assms[of "fst s" "snd s" r "fst s'" "snd s'"] show "keeps_fst P s (snd (m s))" by (simp add: keeps_fst_def keeps_def)
qed

lemma at_clock_keeps: "(\<And>now. act_rel (keeps_fst P) (k now)) \<Longrightarrow> act_rel (keeps_fst P) (at_clock env k)"
  unfolding at_clock_def by (intro keeping_fst.act_rel_intros)

lemmas outbox_steps = keeping_fst.act_rel_intros at_clock_keeps keeps_fst_outside

lemma synchronize_back: "act_rel backs (synchronize_configured_repositories config t)"
  unfolding synchronize_configured_repositories_def by (intro backing.act_rel_intros backing_run_write backing_intros)

lemma verify_keeps: "act_rel (keeps_fst outbox_ok) (verify_repos env config)"
  unfolding verify_repos_def verify_one_def Let_def
  by (intro outbox_steps write_keeps_outbox act_keeps_outbox(2) world_safe_on_fst backing_on_fst synchronize_store_safe synchronize_back
      preserves_intros backing_intros)

lemma recovery_keeps: "act_rel (keeps_fst outbox_ok) (on_fst (apply_session_census_recovery census))"
proof (rule act_relI)
  fix s :: "db \<times> 'w"
  show "keeps_fst outbox_ok s (snd (on_fst (apply_session_census_recovery census) s))"
    unfolding keeps_fst_def keeps_def
  proof
    assume d: "outbox_ok (fst s)"
    obtain actions d' where run: "apply_session_census_recovery census (fst s) = (Inr actions, d')" "store_ok d'"
      and st: "item_state d' = held {i. \<exists>e \<in> set census. lost_owner e = Some i} (item_state (fst s))" and fx: "side_effects d' = side_effects (fst s)"
      using census_recovery_ok[of "fst s" census] d unfolding outbox_ok_def by (elim conjE exE) auto
    have "i \<in> work_item_ids d' \<longleftrightarrow> i \<in> work_item_ids (fst s)" for i
      using item_state_ids[of d' i] item_state_ids[of "fst s" i] st by (auto simp: held_def split: if_splits)
    then have "backs (fst s) d'" by (intro same_outbox fx) auto
    with d run(2) have "outbox_ok d'" unfolding outbox_ok_def using backs_effects by blast
    with run(1) show "outbox_ok (fst (snd (on_fst (apply_session_census_recovery census) s)))" by (simp add: on_fst_def split: prod.split)
  qed
qed

lemma cleanup_safe: "world_safe (cleanup_terminal_leftovers remove now)"
  unfolding cleanup_terminal_leftovers_def by (intro act_intros)

lemma mark_store_safe: "store_safe (update_inbox (\<lambda>r. ib_id r = i \<and> ib_terminal_action r = None) (mark_terminal_row reason dl t))"
  by (rule store_safe_quiet, rule update_inbox_safe)
    (auto intro!: tx_relI simp: mark_terminal_row_def update_inbox_success frame_def audit_view_def work_item_column_def issue_column_def issue_keys_def)

lemma housekeeping_safe: "act_safe (run_terminal_unattached_housekeeping now)"
proof -
  have "store_safe (housekeep_one dl t c acc)" for dl t c acc
    unfolding housekeep_one_def by (intro preserves_intros keeping.rel_intros) (simp_all add: mark_store_safe)
  then show ?thesis
    unfolding run_terminal_unattached_housekeeping_def housekeep_terminal_unattached_inbox_def by (intro act_intros preserves_intros)
qed

lemma artifacts_keep: "act_rel (keeps_fst outbox_ok) (reconcile_artifacts env)"
proof -
  have executor: "act_rel (keeps_fst outbox_ok) (execute_verified_effect tr now opts eid)" for tr :: "'w effect_transport" and now opts eid
    by (rule act_keeps_pairI) (rule executor_outbox_ok)
  have cleanup: "act_rel (keeps_fst outbox_ok) (cleanup_terminal_leftovers remove now)" for remove :: "'w remove_worktree" and now
    by (intro act_keeps_outbox(2) cleanup_back cleanup_safe)
  show ?thesis
    unfolding reconcile_artifacts_def by (intro outbox_steps executor cleanup write_keeps_outbox preserves_intros backing_intros)
qed

lemma drift_keeps: "act_rel (keeps_fst outbox_ok) (scan_all_drift env)"
proof -
  have "act_rel (keeps_fst outbox_ok) (scan_and_adopt_drift h scanner wid)" for h :: "'w host" and scanner wid
  proof (rule act_keeps_pairI)
    fix d w r d' w' assume "outbox_ok d" "scan_and_adopt_drift h scanner wid (d, w) = (r, (d', w'))"
    with scan_drift_keeps[OF this(2)] show "outbox_ok d'" unfolding outbox_ok_def using backs_effects by blast
  qed
  then show ?thesis unfolding scan_all_drift_def by (intro outbox_steps)
qed

lemma resume_keeps: "act_rel (keeps_fst outbox_ok) (resume_normal_loop env available)"
  unfolding resume_normal_loop_def recover_stale_prompting_def
  by (intro outbox_steps act_keeps_outbox(2) run_triage_safe run_triage_back)

lemma housekeep_keeps: "act_rel (keeps_fst outbox_ok) (on_fst (run_terminal_unattached_housekeeping t))"
  by (intro act_keeps_outbox(2) world_safe_on_fst backing_on_fst housekeeping_back housekeeping_safe)

lemma record_phase_keeps: "act_rel (keeps_fst P) m \<Longrightarrow> act_rel (keeps_fst P) (record_phase phase m reports)"
  unfolding record_phase_def by (intro keeping_fst.act_rel_intros)

lemma census_keeps: "act_rel (keeps_fst P) (classify_session_census status now)"
  unfolding classify_session_census_def by (intro keeping_fst.act_rel_intros keeps_fst_outside)

text \<open>
  C34: A whole reconcile pass over the production dependencies keeps the invariant of the store, whatever gh, git and the resident service answer
  and wherever it fails: before and after it every WorkItem, issue, lease and ledger row is well formed, every current state is the
  last one the ledger records, and every intent of the outbox names a WorkItem that exists.
\<close>
theorem reconcile_pass_keeps_store:
  assumes "outbox_ok d" "run_reconcile_pass (default_reconcile_deps env) clock config (d, w) = (r, (d', w'))"
  shows "outbox_ok d'"
proof -
  have "act_rel (keeps_fst outbox_ok) (run_reconcile_pass (default_reconcile_deps env) clock config)"
    unfolding run_reconcile_pass_def run_phases_def session_phase_def resume_phase_def default_reconcile_deps_def reconcile_deps.simps
      probe_resident_def
    by (intro outbox_steps record_phase_keeps verify_keeps recovery_keeps artifacts_keep drift_keeps resume_keeps housekeep_keeps census_keeps)
  from act_relD[OF this assms(2)] assms(1) show ?thesis by (simp add: keeps_fst_def keeps_def)
qed

text \<open>A pass in which gh and git fail every call and the service does not answer, over the store in which b runs.\<close>

definition failing_env :: "unit reconcile_env" where
  "failing_env = \<lparr>re_clock = (\<lambda>w. 0),
     re_gh = \<lparr>gc_run = (\<lambda>args stdin w. (\<lparr>gs_exit_code = 1, gs_stdout = [], gs_stderr = ''offline''\<rparr>, w)), gc_parse = (\<lambda>s. Inl ''offline''),
       gc_binary = ''/usr/bin/gh'', gc_min_version = MIN_GH_VERSION\<rparr>,
     re_host = \<lparr>ho_git = \<lparr>ge_run = (\<lambda>argv cwd w. (\<lparr>gs_exit_code = 1, gs_stdout = [], gs_stderr = ''broken''\<rparr>, w)), ge_read_file = (\<lambda>p w. None),
         ge_append_file = (\<lambda>p s w. w)\<rparr>, ho_cwd = ''/srv'', ho_env = (\<lambda>k. None), ho_realpath = (\<lambda>p w. None), ho_mkdir = (\<lambda>p. act_return ())\<rparr>,
     re_driver = \<lparr>sd_ensure = (\<lambda>m. act_fail (JsError ''offline'')), sd_prompt_triage = (\<lambda>s g. act_fail (JsError ''offline''))\<rparr>,
     re_status = (\<lambda>s. act_fail (JsError ''offline'')), re_list_sessions = None, re_triage = sample_triage_options,
     re_open = act_return ''/data/tissue.db'', re_close = act_return ()\<rparr>"

lemma failing_pass_outcome:
  "case fst (run_reconcile_pass (default_reconcile_deps failing_env) (\<lambda>w. 0) (example_config [example_repository_config ''tool'' True]) (example_working_db, ())) of
     Inr r \<Rightarrow> map ph_ok (rq_phases r) = [True, True, False, True, False, True, True] | Inl e \<Rightarrow> False"
  by code_simp

theorem reconcile_pass_keeps_store_witness:
  "\<exists>r d' w'. run_reconcile_pass (default_reconcile_deps failing_env) (\<lambda>w. 0) (example_config [example_repository_config ''tool'' True])
     (example_working_db, ()) = (Inr r, (d', w')) \<and> map ph_ok (rq_phases r) = [True, True, False, True, False, True, True] \<and> outbox_ok d'"
proof -
  let ?run = "run_reconcile_pass (default_reconcile_deps failing_env) (\<lambda>w. 0) (example_config [example_repository_config ''tool'' True]) (example_working_db, ())"
  have "side_effects example_working_db = []" by code_simp
  then have ok: "outbox_ok example_working_db" using example_working_db_ok by (simp add: outbox_ok_def effects_backed_def)
  obtain r d' w' where run: "?run = (r, (d', w'))" by (metis surj_pair)
  have "case r of Inr q \<Rightarrow> map ph_ok (rq_phases q) = [True, True, False, True, False, True, True] | Inl e \<Rightarrow> False"
    using failing_pass_outcome unfolding run fst_conv .
  with reconcile_pass_keeps_store[OF ok run] run show ?thesis by (cases r) auto
qed

end
