(* ===== verification/Session_Registry.thy ===== *)
theory Session_Registry
  imports Worktrees Artifacts
begin

text \<open>
  The registry of managed sessions (\<^verbatim>\<open>src/controller/session-registry.ts\<close>): one empty marker file per session that the controller owns.
  \<open>registry_fs\<close> is what the file system answers about the registry directory; the marker files are its entries. Log lines are left out.
\<close>

section \<open>The directory\<close>

definition DEFAULT_REGISTRY_DIR :: string where "DEFAULT_REGISTRY_DIR = ''/tissue-session-registry''"

text \<open>\<^verbatim>\<open>/^ses_[A-Za-z0-9]+$/\<close>\<close>

definition session_id_re :: "string \<Rightarrow> bool" where
  "session_id_re s \<longleftrightarrow> is_prefix ''ses_'' s \<and> drop 4 s \<noteq> [] \<and> list_all is_alnum (drop 4 s)"

definition resolve_session_registry_dir :: "(string \<Rightarrow> string option) \<Rightarrow> string parsed" where
  "resolve_session_registry_dir env =
     (case env ''TISSUE_SESSION_REGISTRY_DIR'' of
        None \<Rightarrow> Inr DEFAULT_REGISTRY_DIR
      | Some configured \<Rightarrow> p_bind (validate_absolute_path configured ''TISSUE_SESSION_REGISTRY_DIR'') (\<lambda>dir.
          if dir = ''/run'' \<or> is_prefix ''/run/'' dir
          then Inl (JsError (''TISSUE_SESSION_REGISTRY_DIR must be host-persisted, not a /run tmpfs path: '' @ quoted dir))
          else Inr dir))"

text \<open>
  \<open>rf_mode\<close> is the mode \<^verbatim>\<open>statSync(dir)\<close> gives when the path is a directory; \<open>rf_access\<close> what \<^verbatim>\<open>accessSync(dir, W_OK)\<close> answers, which is also
  whether files can be made and unlinked in it; \<open>rf_readable\<close> whether its entries can be listed and looked up; \<open>rf_mountinfo\<close> the text of the mount
  table, if it can be read.
\<close>

record registry_fs =
  rf_mode :: "nat option"
  rf_access :: bool
  rf_readable :: bool
  rf_entries :: "string list"
  rf_mountinfo :: "string option"

type_synonym 'a registry_act = "(registry_fs, err, 'a) act"

definition marker_path :: "string \<Rightarrow> string \<Rightarrow> string parsed" where
  "marker_path dir sid =
     (if session_id_re sid then Inr (resolve_path ''/'' [dir, sid])
      else Inl (JsError (''refusing invalid session id '' @ quoted sid @ '' for a registry marker'')))"

section \<open>Markers\<close>

datatype marker_state = MANAGED | UNMANAGED

text \<open>A marker is the file \<^verbatim>\<open>markerPath(dir, id)\<close>; in the directory it is the entry of that name.\<close>

definition marker_exists :: "registry_fs \<Rightarrow> string \<Rightarrow> bool" where
  "marker_exists fs sid \<longleftrightarrow> rf_mode fs \<noteq> None \<and> rf_readable fs \<and> List.member (rf_entries fs) sid"

definition classify_session_marker :: "string \<Rightarrow> string \<Rightarrow> registry_fs \<Rightarrow> marker_state" where
  "classify_session_marker dir sid fs =
     (case marker_path dir sid of Inl e \<Rightarrow> UNMANAGED | Inr path \<Rightarrow> if marker_exists fs sid then MANAGED else UNMANAGED)"

definition create_session_marker :: "string \<Rightarrow> string \<Rightarrow> unit registry_act" where
  "create_session_marker dir sid fs =
     (case marker_path dir sid of
        Inl e \<Rightarrow> (Inl e, fs)
      | Inr path \<Rightarrow>
          if rf_mode fs = None then (Inl (JsError (''ENOENT: no such file or directory, open '' @ quoted path)), fs)
          else if List.member (rf_entries fs) sid then (Inl (JsError (''EEXIST: file already exists, open '' @ quoted path)), fs)
          else if \<not> rf_access fs then (Inl (JsError (''EACCES: permission denied, open '' @ quoted path)), fs)
          else (Inr (), fs\<lparr>rf_entries := rf_entries fs @ [sid]\<rparr>))"

definition delete_session_marker :: "string \<Rightarrow> string \<Rightarrow> bool registry_act" where
  "delete_session_marker dir sid fs =
     (case marker_path dir sid of
        Inl e \<Rightarrow> (Inl e, fs)
      | Inr path \<Rightarrow>
          if rf_mode fs = None \<or> \<not> List.member (rf_entries fs) sid then (Inr False, fs)
          else if \<not> rf_access fs then (Inl (JsError (''EACCES: permission denied, unlink '' @ quoted path)), fs)
          else (Inr True, fs\<lparr>rf_entries := filter (\<lambda>e. e \<noteq> sid) (rf_entries fs)\<rparr>))"

definition list_marker_session_ids :: "registry_fs \<Rightarrow> string list" where
  "list_marker_session_ids fs = (if rf_mode fs = None \<or> \<not> rf_readable fs then [] else filter session_id_re (rf_entries fs))"

section \<open>The mount assertion\<close>

unbundle bit_operations_syntax

text \<open>\<^verbatim>\<open>0o222\<close>, the write bits, is 146.\<close>

definition is_octal :: "char \<Rightarrow> bool" where "is_octal c \<longleftrightarrow> is_digit c \<and> char_digit c < 8"

text \<open>The kernel escapes only the codes of space, tab, newline and backslash, so a decoded code is a character here.\<close>

fun decode_mount_field :: "string \<Rightarrow> string" where
  "decode_mount_field (b # x # y # z # s) =
     (if b = CHR 0x5C \<and> is_octal x \<and> is_octal y \<and> is_octal z
      then char_of (64 * char_digit x + 8 * char_digit y + char_digit z) # decode_mount_field s
      else b # decode_mount_field (x # y # z # s))"
| "decode_mount_field s = s"

definition is_writable_directory :: "registry_fs \<Rightarrow> bool" where
  "is_writable_directory fs =
     (case rf_mode fs of None \<Rightarrow> False | Some mode \<Rightarrow> mode AND 146 \<noteq> 0 \<and> rf_access fs)"

definition is_listed_mount_point :: "string \<Rightarrow> string \<Rightarrow> registry_fs \<Rightarrow> bool" where
  "is_listed_mount_point cwd dir fs =
     (case rf_mountinfo fs of
        None \<Rightarrow> False
      | Some content \<Rightarrow> list_ex (\<lambda>line. trim line \<noteq> [] \<and>
          (let fields = split_on (CHR '' '') line in
           4 < length fields \<and> resolve_path cwd [decode_mount_field (fields ! 4)] = resolve_path cwd [dir]))
          (split_on (CHR 0x0A) content))"

record registry_mount_status =
  rm_dir :: string
  rm_exists :: bool
  rm_writable :: bool
  rm_real_mount :: bool
  rm_ok :: bool
  rm_reason :: "string option"

definition assert_registry_mount :: "string \<Rightarrow> string \<Rightarrow> registry_fs \<Rightarrow> registry_mount_status" where
  "assert_registry_mount cwd dir fs =
     (let exists = rf_mode fs \<noteq> None; writable = is_writable_directory fs; real_mount = is_listed_mount_point cwd dir fs in
      \<lparr>rm_dir = dir, rm_exists = exists, rm_writable = writable, rm_real_mount = real_mount, rm_ok = exists \<and> writable \<and> real_mount,
       rm_reason = (if exists \<and> writable \<and> real_mount then None
         else if \<not> exists then Some ''registry directory does not exist''
         else if \<not> writable then Some ''registry directory is not writable''
         else Some ''registry path is not a real mounted volume'')\<rparr>)"

section \<open>Reconciliation at startup\<close>

definition prune_markers_without_db_row :: "string \<Rightarrow> db \<Rightarrow> string list registry_act" where
  "prune_markers_without_db_row dir d =
     (let known = map s_id (list_sessions d) in
      act_bind (act_get list_marker_session_ids) (\<lambda>ids.
        act_fold (\<lambda>sid pruned.
          if List.member known sid then act_return pruned
          else act_bind (delete_session_marker dir sid) (\<lambda>gone. act_return (if gone then pruned @ [sid] else pruned))) ids []))"

definition ensure_session_marker_before_resume :: "string \<Rightarrow> string \<Rightarrow> unit registry_act" where
  "ensure_session_marker_before_resume dir sid =
     act_bind (act_get (classify_session_marker dir sid)) (\<lambda>state.
       if state = MANAGED then act_return () else create_session_marker dir sid)"

record registry_startup_report =
  rs_dir :: string
  rs_mount_asserted :: bool
  rs_pruned :: "string list"
  rs_marker_count :: nat

definition run_startup_registry_reconciliation ::
  "(string \<Rightarrow> string option) \<Rightarrow> string \<Rightarrow> db \<Rightarrow> registry_startup_report registry_act" where
  "run_startup_registry_reconciliation env cwd d =
     act_bind (act_lift (resolve_session_registry_dir env)) (\<lambda>dir.
     act_bind (act_get (assert_registry_mount cwd dir)) (\<lambda>mount.
     if \<not> rm_ok mount
     then act_fail (JsError (''registry mount assertion failed for '' @ quoted dir @ '': '' @ coalesce (rm_reason mount) ''unknown reason''))
     else act_bind (prune_markers_without_db_row dir d) (\<lambda>pruned.
       act_get (\<lambda>fs. \<lparr>rs_dir = dir, rs_mount_asserted = True, rs_pruned = pruned,
         rs_marker_count = length (list_marker_session_ids fs)\<rparr>))))"

section \<open>What the registry promises\<close>

lemma classify_managed: "classify_session_marker dir sid fs = MANAGED \<longleftrightarrow> session_id_re sid \<and> marker_exists fs sid"
  by (simp add: classify_session_marker_def marker_path_def)

lemma marker_path_ok: "marker_path dir sid = (if session_id_re sid then Inr (resolve_path ''/'' [dir, sid])
    else Inl (JsError (''refusing invalid session id '' @ quoted sid @ '' for a registry marker'')))"
  by (simp add: marker_path_def)

text \<open>A marker that was created or ensured is there, if the directory can be read.\<close>

lemma ensure_marker_success:
  assumes "ensure_session_marker_before_resume dir sid fs = (Inr (), fs')"
  shows "session_id_re sid" "List.member (rf_entries fs') sid" "rf_mode fs' \<noteq> None"
    "\<And>x. List.member (rf_entries fs) x \<Longrightarrow> List.member (rf_entries fs') x" "rf_readable fs' = rf_readable fs"
  using assms by (auto simp: ensure_session_marker_before_resume_def act_bind_def act_get_def act_return_def create_session_marker_def
      classify_managed marker_exists_def marker_path_ok split: if_splits sum.splits prod.splits)

lemma create_marker_success:
  assumes "create_session_marker dir sid fs = (Inr (), fs')"
  shows "session_id_re sid" "List.member (rf_entries fs') sid" "rf_mode fs' \<noteq> None"
    "\<And>x. List.member (rf_entries fs) x \<Longrightarrow> List.member (rf_entries fs') x"
  using assms by (auto simp: create_session_marker_def marker_path_ok split: if_splits)

section \<open>Startup\<close>

lemma delete_marker_run:
  assumes "session_id_re sid" "rf_mode fs \<noteq> None" "rf_access fs"
  shows "\<exists>gone. delete_session_marker dir sid fs = (Inr gone, fs\<lparr>rf_entries := filter (\<lambda>e. e \<noteq> sid) (rf_entries fs)\<rparr>)"
proof (cases "List.member (rf_entries fs) sid")
  case False
  then have "filter (\<lambda>e. e \<noteq> sid) (rf_entries fs) = rf_entries fs" by (auto simp: filter_id_conv)
  with False assms show ?thesis by (intro exI[of _ False]) (simp add: delete_session_marker_def marker_path_ok)
next
  case True
  with assms show ?thesis by (intro exI[of _ True]) (auto simp: delete_session_marker_def marker_path_ok)
qed

lemma prune_fold:
  assumes "list_all session_id_re ids" "rf_mode fs \<noteq> None" "rf_access fs"
  shows "\<exists>out. act_fold (\<lambda>sid pruned. if List.member known sid then act_return pruned
      else act_bind (delete_session_marker dir sid) (\<lambda>gone. act_return (if gone then pruned @ [sid] else pruned))) ids pruned fs =
    (Inr out, fs\<lparr>rf_entries := filter (\<lambda>e. e \<in> set ids \<longrightarrow> List.member known e) (rf_entries fs)\<rparr>)"
  using assms
proof (induction ids arbitrary: pruned fs)
  case Nil
  then show ?case by (simp add: act_return_def)
next
  case (Cons sid ids)
  let ?step = "\<lambda>sid pruned. if List.member known sid then act_return pruned
      else act_bind (delete_session_marker dir sid) (\<lambda>gone. act_return (if gone then pruned @ [sid] else pruned))"
  let ?fs = "if List.member known sid then fs else fs\<lparr>rf_entries := filter (\<lambda>e. e \<noteq> sid) (rf_entries fs)\<rparr>"
  obtain p where step: "?step sid pruned fs = (Inr p, ?fs)"
  proof (cases "List.member known sid")
    case True
    then show thesis by (intro that[of pruned]) (simp add: act_return_def)
  next
    case False
    obtain gone where "delete_session_marker dir sid fs = (Inr gone, fs\<lparr>rf_entries := filter (\<lambda>e. e \<noteq> sid) (rf_entries fs)\<rparr>)"
      using delete_marker_run[of sid fs dir] Cons.prems by auto
    with False show thesis by (intro that[of "if gone then pruned @ [sid] else pruned"]) (simp add: act_return_def act_bind_def)
  qed
  have ok: "list_all session_id_re ids" "rf_mode ?fs \<noteq> None" "rf_access ?fs" using Cons.prems by simp_all
  from Cons.IH[OF ok, of p] obtain out where rest:
    "act_fold ?step ids p ?fs = (Inr out, ?fs\<lparr>rf_entries := filter (\<lambda>e. e \<in> set ids \<longrightarrow> List.member known e) (rf_entries ?fs)\<rparr>)"
    by (elim exE) (rule that)
  have "?fs\<lparr>rf_entries := filter (\<lambda>e. e \<in> set ids \<longrightarrow> List.member known e) (rf_entries ?fs)\<rparr> =
      fs\<lparr>rf_entries := filter (\<lambda>e. e \<in> set (sid # ids) \<longrightarrow> List.member known e) (rf_entries fs)\<rparr>"
    by (auto intro!: arg_cong[where f = "\<lambda>es. fs\<lparr>rf_entries := es\<rparr>"] filter_cong)
  with step rest show ?case by (auto simp: act_bind_def)
qed

text \<open>
  C38: The startup step reconciles the markers with the store: when it succeeds, exactly the markers of sessions that have no row were removed, every
  other entry of the directory is as before, and no marker of a known session is touched; it only succeeds on a directory that exists, is
  writable and is a listed mount point.
\<close>
theorem startup_prunes_exactly:
  assumes "run_startup_registry_reconciliation env cwd d fs = (Inr report, fs')" "rf_readable fs"
  shows "rm_ok (assert_registry_mount cwd (rs_dir report) fs) \<and>
     fs' = fs\<lparr>rf_entries := filter (\<lambda>e. \<not> session_id_re e \<or> list_ex (\<lambda>s. s_id s = e) (opencode_sessions d)) (rf_entries fs)\<rparr> \<and>
     rs_marker_count report = length (list_marker_session_ids fs')"
proof -
  obtain dir where dir: "resolve_session_registry_dir env = Inr dir" "rm_ok (assert_registry_mount cwd dir fs)"
    using assms(1) by (auto simp: run_startup_registry_reconciliation_def act_bind_def act_lift_def act_get_def act_fail_def act_return_def
      split: sum.splits if_splits)
  then have fs: "rf_mode fs \<noteq> None" "rf_access fs"
    by (auto simp: assert_registry_mount_def is_writable_directory_def Let_def split: option.splits)
  let ?ids = "list_marker_session_ids fs"
  have ids: "list_all session_id_re ?ids" by (auto simp: list_marker_session_ids_def list_all_iff)
  have known: "List.member (map s_id (list_sessions d)) e \<longleftrightarrow> list_ex (\<lambda>s. s_id s = e) (opencode_sessions d)" for e
    by (auto simp: list_sessions_def list_ex_iff table_simps)
  obtain out where fold: "prune_markers_without_db_row dir d fs =
      (Inr out, fs\<lparr>rf_entries := filter (\<lambda>e. e \<in> set ?ids \<longrightarrow> List.member (map s_id (list_sessions d)) e) (rf_entries fs)\<rparr>)"
    using prune_fold[OF ids fs, of "map s_id (list_sessions d)" dir "[]"]
    by (auto simp: prune_markers_without_db_row_def act_bind_def act_get_def Let_def)
  have "filter (\<lambda>e. e \<in> set ?ids \<longrightarrow> List.member (map s_id (list_sessions d)) e) (rf_entries fs) =
      filter (\<lambda>e. \<not> session_id_re e \<or> list_ex (\<lambda>s. s_id s = e) (opencode_sessions d)) (rf_entries fs)"
    using fs(1) assms(2) unfolding known by (intro filter_cong) (auto simp: list_marker_session_ids_def)
  with fold assms(1) dir show ?thesis
    by (auto simp: run_startup_registry_reconciliation_def act_bind_def act_lift_def act_get_def act_return_def)
qed

definition example_registry :: registry_fs where
  "example_registry = \<lparr>rf_mode = Some 493, rf_access = True, rf_readable = True, rf_entries = [''ses_gone'', ''README''],
     rf_mountinfo = Some ''36 35 98:0 / /tissue-session-registry rw shared:1 - ext4 /dev/sda rw''\<rparr>"

theorem startup_prunes_exactly_witness:
  "\<exists>report fs'. run_startup_registry_reconciliation (\<lambda>k. None) ''/srv'' (empty_db 90 []) example_registry = (Inr report, fs') \<and>
     rf_entries fs' = [''README'']"
proof -
  let ?run = "run_startup_registry_reconciliation (\<lambda>k. None) ''/srv'' (empty_db 90 []) example_registry"
  have "case fst ?run of Inl e \<Rightarrow> False | Inr r \<Rightarrow> True" by code_simp
  then obtain report fs' where run: "?run = (Inr report, fs')" by (cases ?run) (auto split: sum.splits)
  have "filter (\<lambda>e. \<not> session_id_re e \<or> list_ex (\<lambda>s. s_id s = e) (opencode_sessions (empty_db 90 []))) (rf_entries example_registry) = [''README'']"
    "rf_readable example_registry" by code_simp+
  with startup_prunes_exactly[OF run] run show ?thesis by auto
qed

end
