(* ===== verification/Opencode_Http.thy ===== *)
theory Opencode_Http
  imports Session_Registry Js_Text Relay
begin

text \<open>
  The HTTP client of the resident OpenCode service (\<^verbatim>\<open>src/integrations/opencode-http.ts\<close>): URLs, the basic credential, the classification
  of responses, and one function per session operation. \<^verbatim>\<open>fetch\<close> and \<^verbatim>\<open>JSON.parse\<close> are parameters; the timeout and the abort signal act
  inside \<^verbatim>\<open>fetch\<close>. The event stream is not modelled.
\<close>

section \<open>Requests\<close>

text \<open>A body is a JSON object, or the prompt of a session, whose one text part may hold any code unit.\<close>

record prompt_body =
  pb_agent :: "string option"
  pb_model :: "provider_model option"
  pb_no_reply :: "bool option"
  pb_system :: "string option"
  pb_text :: code_units

datatype request_body = Json_Body json | Prompt_Body prompt_body

record http_request =
  hq_method :: string
  hq_url :: string
  hq_headers :: "(string \<times> string) list"
  hq_body :: "request_body option"

text \<open>\<open>hp_text\<close> is what \<^verbatim>\<open>response.text()\<close> gives.\<close>

record http_response =
  hp_status :: nat
  hp_text :: "err + string"

record 'w opencode_http =
  oh_base_url :: string
  oh_username :: string
  oh_password :: "string option"
  oh_fetch :: "http_request \<Rightarrow> 'w \<Rightarrow> (string + http_response) \<times> 'w"
  oh_parse :: "string \<Rightarrow> json option"

definition http_base_url :: "string \<Rightarrow> string" where
  "http_base_url url = rev (dropWhile (\<lambda>c. c = CHR ''/'') (rev url))"

subsection \<open>Text encodings\<close>

text \<open>The bytes of a text whose characters are code points below 256.\<close>

definition utf8_char :: "char \<Rightarrow> nat list" where
  "utf8_char c = (let n = of_char c in if n < 128 then [n] else [192 + n div 64, 128 + n mod 64])"

definition utf8 :: "string \<Rightarrow> nat list" where "utf8 s = concat (map utf8_char s)"

definition base64_digit :: "nat \<Rightarrow> char" where
  "base64_digit n =
     (if n < 26 then char_of (65 + n) else if n < 52 then char_of (97 + (n - 26)) else if n < 62 then char_of (48 + (n - 52))
      else if n = 62 then CHR ''+'' else CHR ''/'')"

fun base64 :: "nat list \<Rightarrow> string" where
  "base64 [] = []"
| "base64 [a] = [base64_digit (a div 4), base64_digit (a mod 4 * 16), CHR ''='', CHR ''='']"
| "base64 [a, b] = [base64_digit (a div 4), base64_digit (a mod 4 * 16 + b div 16), base64_digit (b mod 16 * 4), CHR ''='']"
| "base64 (a # b # c # bs) =
     [base64_digit (a div 4), base64_digit (a mod 4 * 16 + b div 16), base64_digit (b mod 16 * 4 + c div 64), base64_digit (c mod 64)] @ base64 bs"

definition encode_basic :: "string \<Rightarrow> string \<Rightarrow> string" where
  "encode_basic user password = base64 (utf8 (user @ '':'' @ password))"

definition hex_digit :: "nat \<Rightarrow> char" where
  "hex_digit n = (if n < 10 then char_of (48 + n) else char_of (55 + n))"

definition uri_plain :: "char \<Rightarrow> bool" where
  "uri_plain c \<longleftrightarrow> is_alnum c \<or> List.member (''-_.!~*'' @ [CHR 0x27] @ ''()'') c"

definition encode_uri_component :: "string \<Rightarrow> string" where
  "encode_uri_component s =
     concat (map (\<lambda>c. if uri_plain c then [c] else concat (map (\<lambda>b. [CHR ''%'', hex_digit (b div 16), hex_digit (b mod 16)]) (utf8_char c))) s)"

fun join_query :: "(string \<times> string) list \<Rightarrow> string" where
  "join_query [] = []"
| "join_query [(k, v)] = encode_uri_component k @ ''='' @ encode_uri_component v"
| "join_query ((k, v) # q # qs) = encode_uri_component k @ ''='' @ encode_uri_component v @ ''&'' @ join_query (q # qs)"

definition http_url :: "'w opencode_http \<Rightarrow> string \<Rightarrow> (string \<times> string) list \<Rightarrow> string" where
  "http_url h path query = oh_base_url h @ path @ (if query = [] then [] else ''?'' @ join_query query)"

section \<open>One request\<close>

definition request_headers :: "'w opencode_http \<Rightarrow> bool \<Rightarrow> (string \<times> string) list" where
  "request_headers h has_body =
     (if present (oh_password h) then [(''Authorization'', ''Basic '' @ encode_basic (oh_username h) (the (oh_password h)))] else []) @
     (if has_body then [(''Content-Type'', ''application/json'')] else []) @ [(''Accept'', ''application/json'')]"

text \<open>\<open>void\<close> is \<^verbatim>\<open>expected: "void"\<close>; \<open>None\<close> is \<^verbatim>\<open>undefined\<close>.\<close>

definition http_answer :: "'w opencode_http \<Rightarrow> string \<Rightarrow> string \<Rightarrow> bool \<Rightarrow> http_response \<Rightarrow> err + json option" where
  "http_answer h method path void response =
     (let status = hp_status response in
      if \<not> (200 \<le> status \<and> status < 300)
      then (let detail = (case hp_text response of Inl e \<Rightarrow> [] | Inr t \<Rightarrow> t) in
        Inl (OpenCodeHttpError (method @ '' '' @ path @ '' -> HTTP '' @ show_nat status @
          (if detail = [] then [] else '': '' @ take 200 detail)) status))
      else if void \<or> status = 204 \<or> status = 201 then Inr None
      else (case hp_text response of
          Inl e \<Rightarrow> Inl e
        | Inr t \<Rightarrow> if trim t = [] then Inr None
            else (case oh_parse h t of
                None \<Rightarrow> Inl (OpenCodeHttpError (method @ '' '' @ path @ '' returned non-JSON'') status)
              | Some j \<Rightarrow> Inr (Some j))))"

definition http_send ::
  "'w opencode_http \<Rightarrow> string \<Rightarrow> string \<Rightarrow> (string \<times> string) list \<Rightarrow> request_body option \<Rightarrow> bool \<Rightarrow> ('w, err, json option) act" where
  "http_send h method path query body void w =
     (case oh_fetch h \<lparr>hq_method = method, hq_url = http_url h path query, hq_headers = request_headers h (body \<noteq> None), hq_body = body\<rparr> w of
        (Inl m, w') \<Rightarrow> (Inl (OpenCodeHttpError (''request '' @ method @ '' '' @ path @ '' failed: '' @ m) 0), w')
      | (Inr response, w') \<Rightarrow> (http_answer h method path void response, w'))"

section \<open>Sessions\<close>

definition assert_oc_session_id :: "string \<Rightarrow> ('w, err, unit) act" where
  "assert_oc_session_id value =
     act_guard (session_id_re value)
       (OpenCodeHttpError (''sessionId: not an OpenCode-created '' @ quoted ''ses_...'' @ '' identity: '' @ quoted value) 0)"

text \<open>\<^verbatim>\<open>data && typeof data.id === "string"\<close>; \<^verbatim>\<open>data\<close> may be \<^verbatim>\<open>null\<close>.\<close>

definition answered_id :: "json option \<Rightarrow> string option" where
  "answered_id data = (case Option.bind data (\<lambda>j. json_field j ''id'') of Some (JStr s) \<Rightarrow> Some s | _ \<Rightarrow> None)"

definition http_create_session :: "'w opencode_http \<Rightarrow> string \<Rightarrow> (string \<times> json) list option \<Rightarrow> ('w, err, string) act" where
  "http_create_session h directory body =
     act_bind (http_send h ''POST'' ''/session'' [(''directory'', directory)] (map_option (\<lambda>fs. Json_Body (JObj fs)) body) False) (\<lambda>data.
       case answered_id data of
         None \<Rightarrow> act_fail (OpenCodeHttpError ''create session: server returned no session'' 0)
       | Some sid \<Rightarrow> act_return sid)"

fun json_items :: "json option \<Rightarrow> json list" where
  "json_items (Some (JArr vs)) = vs"
| "json_items _ = []"

definition http_list_sessions :: "'w opencode_http \<Rightarrow> string option \<Rightarrow> ('w, err, json list) act" where
  "http_list_sessions h directory =
     act_bind (http_send h ''GET'' ''/session'' (case directory of None \<Rightarrow> [] | Some d \<Rightarrow> [(''directory'', d)]) None False) (\<lambda>data.
       act_return (json_items data))"

definition http_get_session :: "'w opencode_http \<Rightarrow> string \<Rightarrow> ('w, err, string) act" where
  "http_get_session h sid =
     act_then (assert_oc_session_id sid)
     (act_bind (http_send h ''GET'' (''/session/'' @ sid) [] None False) (\<lambda>data.
       case answered_id data of
         None \<Rightarrow> act_fail (OpenCodeHttpError (''get session '' @ sid @ '': no session returned'') 0)
       | Some i \<Rightarrow> act_return i))"

definition http_delete_session :: "'w opencode_http \<Rightarrow> string \<Rightarrow> ('w, err, unit) act" where
  "http_delete_session h sid =
     act_then (assert_oc_session_id sid)
     (act_bind (http_send h ''DELETE'' (''/session/'' @ sid) [] None True) (\<lambda>data. act_return ()))"

definition http_abort_session :: "'w opencode_http \<Rightarrow> string \<Rightarrow> ('w, err, unit) act" where
  "http_abort_session h sid =
     act_then (assert_oc_session_id sid)
     (act_bind (http_send h ''POST'' (''/session/'' @ sid @ ''/abort'') [] None True) (\<lambda>data. act_return ()))"

text \<open>The entries whose type is known.\<close>

fun status_type :: "json \<Rightarrow> string option" where
  "status_type (JObj fs) =
     (case map_of fs ''type'' of
        Some (JStr t) \<Rightarrow> if List.member [''idle'', ''busy'', ''retry''] t then Some t else None
      | _ \<Rightarrow> None)"
| "status_type _ = None"

fun as_status_map :: "json option \<Rightarrow> (string \<times> string) list" where
  "as_status_map (Some (JObj fs)) = List.map_filter (\<lambda>f. map_option (Pair (fst f)) (status_type (snd f))) fs"
| "as_status_map _ = []"

definition http_session_status :: "'w opencode_http \<Rightarrow> ('w, err, (string \<times> string) list) act" where
  "http_session_status h =
     act_bind (http_send h ''GET'' ''/session/status'' [] None False) (\<lambda>data. act_return (as_status_map data))"

text \<open>\<^verbatim>\<open>isJsonObject(e) && e.info && e.info.id\<close>, on values as JavaScript tests them.\<close>

fun js_truthy :: "json \<Rightarrow> bool" where
  "js_truthy JNull = False"
| "js_truthy (JBool b) = b"
| "js_truthy (JNum n) = (n \<noteq> 0)"
| "js_truthy (JStr s) = (s \<noteq> [])"
| "js_truthy _ = True"

definition history_entry :: "json \<Rightarrow> bool" where
  "history_entry e \<longleftrightarrow> is_record_json (Some e) \<and>
     (case json_field e ''info'' of None \<Rightarrow> False
      | Some info \<Rightarrow> js_truthy info \<and> (case json_field info ''id'' of None \<Rightarrow> False | Some i \<Rightarrow> js_truthy i))"

definition http_list_messages :: "'w opencode_http \<Rightarrow> string \<Rightarrow> ('w, err, json list) act" where
  "http_list_messages h sid =
     act_then (assert_oc_session_id sid)
     (act_bind (http_send h ''GET'' (''/session/'' @ sid @ ''/message'') [] None False) (\<lambda>data.
       act_return (filter history_entry (json_items data))))"

definition http_send_message :: "'w opencode_http \<Rightarrow> string \<Rightarrow> prompt_body \<Rightarrow> ('w, err, json) act" where
  "http_send_message h sid body =
     act_then (assert_oc_session_id sid)
     (act_bind (http_send h ''POST'' (''/session/'' @ sid @ ''/message'') [] (Some (Prompt_Body body)) False) (\<lambda>data.
       case data of
         Some turn \<Rightarrow>
           (case Option.bind (json_field turn ''info'') (\<lambda>info. json_field info ''id'') of
              Some (JStr i) \<Rightarrow> act_return turn
            | _ \<Rightarrow> act_fail (OpenCodeHttpError (''prompt '' @ sid @ '': server returned no assistant turn'') 0))
       | None \<Rightarrow> act_fail (OpenCodeHttpError (''prompt '' @ sid @ '': server returned no assistant turn'') 0)))"

definition http_send_prompt_async :: "'w opencode_http \<Rightarrow> string \<Rightarrow> prompt_body \<Rightarrow> ('w, err, unit) act" where
  "http_send_prompt_async h sid body =
     act_then (assert_oc_session_id sid)
     (act_bind (http_send h ''POST'' (''/session/'' @ sid @ ''/prompt_async'') [] (Some (Prompt_Body body)) True) (\<lambda>data. act_return ()))"

end
