(* ===== verification/Opencode_Driver.thy ===== *)
theory Opencode_Driver
  imports Opencode_Http Triage
begin

text \<open>
  The session driver over the resident OpenCode service (\<^verbatim>\<open>src/integrations/opencode-driver.ts\<close>): the managed-session gate, creation of a
  session with its marker and its row, prompts, the status of a session, completion by matching the transcript, and the reading of the two agent
  envelopes. The state beside the store is the marker registry, the flag of a synchronous prompt in flight and the outside world, on which the
  HTTP client acts. Messages stay JSON, as the service sent them. Log lines are left out.
\<close>

section \<open>State\<close>

record driver_state =
  ds_fs :: registry_fs
  ds_in_flight :: bool

type_synonym ('w, 'a) managed_act = "(driver_state \<times> 'w, 'a) world_act"

definition on_http :: "('w, err, 'a) act \<Rightarrow> ('w, 'a) managed_act" where
  "on_http m = on_snd (on_snd m)"

definition on_driver :: "(driver_state, err, 'a) act \<Rightarrow> ('w, 'a) managed_act" where
  "on_driver m = on_snd (on_fst m)"

definition on_registry :: "'a registry_act \<Rightarrow> ('w, 'a) managed_act" where
  "on_registry m = on_driver (\<lambda>ds. case m (ds_fs ds) of (r, fs) \<Rightarrow> (r, ds\<lparr>ds_fs := fs\<rparr>))"

text \<open>\<open>dv_db\<close>: a database handle is wired; \<open>dv_gate\<close>: the predicate that the moderation plugin is loaded.\<close>

record gate_verdict =
  gv_loaded :: bool
  gv_reason :: string

record 'w opencode_driver =
  dv_http :: "'w opencode_http"
  dv_db :: bool
  dv_triage_agent :: string
  dv_triage_model :: "provider_model option"
  dv_registry_dir :: string
  dv_gate :: "('w \<Rightarrow> gate_verdict) option"

section \<open>The managed-session gate\<close>

datatype gate_request = Gate_Creation string | Gate_Resume string | Gate_None

definition gate_error :: "string \<Rightarrow> string \<Rightarrow> err" where
  "gate_error reason action = JsError (''managed-session gate refused ('' @ action @ ''): '' @ reason)"

definition gate_marker :: "string \<Rightarrow> gate_request \<Rightarrow> string \<Rightarrow> ('w, unit) managed_act" where
  "gate_marker dir request action =
     (case request of
        Gate_Creation sid \<Rightarrow> act_bind (act_get (\<lambda>s. classify_session_marker dir sid (ds_fs (fst (snd s))))) (\<lambda>state.
          act_guard (state = MANAGED) (gate_error ''marker-absent'' action))
      | Gate_Resume sid \<Rightarrow> on_registry (ensure_session_marker_before_resume dir sid)
      | Gate_None \<Rightarrow> act_return ())"

definition enforce_managed_session_gate :: "'w opencode_driver \<Rightarrow> gate_request \<Rightarrow> string \<Rightarrow> ('w, unit) managed_act" where
  "enforce_managed_session_gate drv request action =
     act_then (gate_marker (dv_registry_dir drv) request action)
       (case dv_gate drv of
          None \<Rightarrow> act_return ()
        | Some gate \<Rightarrow> act_bind (act_get (\<lambda>s. gate (snd (snd s)))) (\<lambda>verdict.
            act_guard (gv_loaded verdict) (gate_error (gv_reason verdict) action)))"

section \<open>Messages\<close>

text \<open>\<^verbatim>\<open>===\<close> on values that may be objects: two objects of a parsed text are never the same.\<close>

fun js_strict_eq :: "json option \<Rightarrow> json option \<Rightarrow> bool" where
  "js_strict_eq (Some (JObj fs)) v = False"
| "js_strict_eq (Some (JArr vs)) v = False"
| "js_strict_eq u v = (u = v)"

definition entry_info :: "json \<Rightarrow> string \<Rightarrow> json option" where
  "entry_info entry k = Option.bind (json_field entry ''info'') (\<lambda>info. json_field info k)"

definition has_role :: "string \<Rightarrow> json \<Rightarrow> bool" where
  "has_role role entry \<longleftrightarrow> entry_info entry ''role'' = Some (JStr role)"

text \<open>The texts of the text parts; reading a field of a part that is \<^verbatim>\<open>null\<close>, or iterating over parts that are missing, throws.\<close>

definition type_error :: err where "type_error = JsError ''TypeError: Cannot read properties of undefined''"

fun part_texts :: "json list \<Rightarrow> err + string list" where
  "part_texts [] = Inr []"
| "part_texts (JNull # ps) = Inl type_error"
| "part_texts (p # ps) =
     (case part_texts ps of
        Inl e \<Rightarrow> Inl e
      | Inr ts \<Rightarrow> (case (json_field p ''type'', json_field p ''text'') of
          (Some (JStr k), Some (JStr t)) \<Rightarrow> Inr (if k = ''text'' then t # ts else ts)
        | _ \<Rightarrow> Inr ts))"

definition entry_texts :: "json \<Rightarrow> err + string list" where
  "entry_texts entry =
     (case json_field entry ''parts'' of
        Some (JArr ps) \<Rightarrow> part_texts ps
      | Some (JStr s) \<Rightarrow> Inr []
      | _ \<Rightarrow> Inl type_error)"

definition is_summary_or_compaction :: "json \<Rightarrow> bool" where
  "is_summary_or_compaction entry \<longleftrightarrow> has_role ''assistant'' entry \<and>
     (entry_info entry ''summary'' = Some (JBool True) \<or> entry_info entry ''mode'' = Some (JStr ''compaction''))"

section \<open>Observed metadata\<close>

definition observation_of :: "json \<Rightarrow> session_observation option" where
  "observation_of entry =
     (let agent = (case entry_info entry ''agent'' of Some (JStr a) \<Rightarrow> if a = [] then None else Some a | _ \<Rightarrow> None);
          model = (case entry_info entry ''model'' of None \<Rightarrow> None | Some m \<Rightarrow> if js_truthy m then Some (Text m) else None) in
      if agent = None \<and> model = None then None else Some \<lparr>so_agent = agent, so_model_json = model, so_at = None\<rparr>)"

text \<open>The last user message decides; a transcript that cannot be read is ignored.\<close>

definition capture_observed_metadata :: "'w opencode_driver \<Rightarrow> string \<Rightarrow> ('w, unit) managed_act" where
  "capture_observed_metadata drv sid =
     (if \<not> dv_db drv then act_return ()
      else act_bind (act_try (on_http (http_list_messages (dv_http drv) sid)) (\<lambda>e. act_return [])) (\<lambda>history.
        case List.find (has_role ''user'') (rev history) of
          None \<Rightarrow> act_return ()
        | Some entry \<Rightarrow> (case observation_of entry of
            None \<Rightarrow> act_return ()
          | Some obs \<Rightarrow> act_bind (write_tx (record_session_observation sid obs)) (\<lambda>b. act_return ()))))"

section \<open>Creating a session\<close>

definition model_json_of :: "provider_model \<Rightarrow> json" where
  "model_json_of m = JObj [(''providerID'', JStr (pm_provider m)), (''modelID'', JStr (pm_model m))]"

definition create_real_session :: "'w opencode_driver \<Rightarrow> session_kind \<Rightarrow> string \<Rightarrow> session_metadata \<Rightarrow> ('w, string) managed_act" where
  "create_real_session drv kind directory metadata =
     act_then (enforce_managed_session_gate drv Gate_None ''create'')
     (act_bind (on_http (http_create_session (dv_http drv) directory (Some []))) (\<lambda>sid.
      act_then (act_guard (session_id_re sid) (OpenCodeHttpError (''createRealSession: server returned non-ses_ identity '' @ quoted sid @
          '' (refusing real-session guarantee)'') 0))
      (act_then (act_try (on_registry (create_session_marker (dv_registry_dir drv) sid)) (\<lambda>e. act_fail (JsError
          (''createRealSession: managed-session marker write failed for '' @ quoted sid @
           '' (no real-session guarantee is issued without a marker): '' @ message e))))
      (act_then (act_when (dv_db drv) (write_tx (insert_session \<lparr>si_id = sid, si_kind = kind, si_repo_id = Some (sm_repo_id metadata),
          si_work_item_id = sm_work_item_id metadata, si_directory = directory, si_agent = sm_agent metadata,
          si_model_json = map_option (\<lambda>m. Text (model_json_of m)) (sm_model metadata), si_state = ''ACTIVE''\<rparr>)))
        (act_return sid)))))"

section \<open>Prompts\<close>

record driver_prompt =
  dp_text :: code_units
  dp_agent :: "string option"
  dp_model :: "provider_model option"
  dp_no_reply :: "bool option"
  dp_system :: "string option"

definition build_prompt_body :: "driver_prompt \<Rightarrow> prompt_body" where
  "build_prompt_body p =
     \<lparr>pb_agent = dp_agent p, pb_model = dp_model p, pb_no_reply = dp_no_reply p, pb_system = dp_system p, pb_text = dp_text p\<rparr>"

record prompt_observation =
  po_assistant_id :: string
  po_parent_id :: "json option"
  po_mode :: "json option"
  po_summary :: bool

definition in_flight_error :: err where
  "in_flight_error = JsError ''concurrent prompt refused: a sync prompt is already in flight''"

definition set_in_flight :: "bool \<Rightarrow> ('w, unit) managed_act" where
  "set_in_flight b = on_driver (\<lambda>ds. (Inr (), ds\<lparr>ds_in_flight := b\<rparr>))"

definition not_in_flight :: "('w, unit) managed_act" where
  "not_in_flight = act_bind (act_get (\<lambda>s. ds_in_flight (fst (snd s)))) (\<lambda>busy. act_guard (\<not> busy) in_flight_error)"

text \<open>What is done after the gate and the guard, inside \<^verbatim>\<open>try ... finally\<close>.\<close>

definition sync_turn :: "'w opencode_driver \<Rightarrow> string \<Rightarrow> driver_prompt \<Rightarrow> ('w, prompt_observation) managed_act" where
  "sync_turn drv sid prompt =
     act_bind (on_http (http_send_message (dv_http drv) sid (build_prompt_body prompt))) (\<lambda>turn.
     act_then (act_guard (has_role ''assistant'' turn) (JsError (''prompt '' @ sid @ '': expected an assistant turn, got role '' @
         quoted (case entry_info turn ''role'' of None \<Rightarrow> ''undefined'' | Some r \<Rightarrow> js_string r))))
     (act_then (capture_observed_metadata drv sid)
       (act_return \<lparr>po_assistant_id = coalesce (string_or_null (entry_info turn ''id'')) [], po_parent_id = entry_info turn ''parentID'',
          po_mode = entry_info turn ''mode'', po_summary = (entry_info turn ''summary'' = Some (JBool True))\<rparr>)))"

definition prompt_session :: "'w opencode_driver \<Rightarrow> string \<Rightarrow> driver_prompt \<Rightarrow> ('w, prompt_observation) managed_act" where
  "prompt_session drv sid prompt =
     act_then (enforce_managed_session_gate drv (Gate_Resume sid) ''prompt'')
     (act_then not_in_flight
     (act_then (set_in_flight True)
     (act_bind (act_try (act_bind (sync_turn drv sid prompt) (\<lambda>o'. act_return (Inr o'))) (\<lambda>e. act_return (Inl e))) (\<lambda>outcome.
      act_then (set_in_flight False) (act_lift outcome)))))"

definition prompt_async :: "'w opencode_driver \<Rightarrow> string \<Rightarrow> driver_prompt \<Rightarrow> ('w, unit) managed_act" where
  "prompt_async drv sid prompt =
     act_then (enforce_managed_session_gate drv (Gate_Resume sid) ''prompt_async'')
     (act_then not_in_flight (on_http (http_send_prompt_async (dv_http drv) sid (build_prompt_body prompt))))"

section \<open>The status of a session\<close>

definition get_session_status :: "'w opencode_driver \<Rightarrow> string \<Rightarrow> ('w, session_status) managed_act" where
  "get_session_status drv sid =
     act_bind (on_http (http_session_status (dv_http drv))) (\<lambda>statuses.
     case map_of statuses sid of
       Some t \<Rightarrow> act_return (if t = ''busy'' then Session_Busy else if t = ''retry'' then Session_Retry else Session_Idle)
     | None \<Rightarrow> act_try (act_bind (on_http (http_get_session (dv_http drv) sid)) (\<lambda>i. act_return Session_Idle))
         (\<lambda>e. case e of
            OpenCodeHttpError m status \<Rightarrow> if status = 404 then act_return Session_Missing else act_fail e
          | _ \<Rightarrow> act_fail e))"

section \<open>Completion\<close>

datatype completion = Completed json json "json option" | Incomplete string

text \<open>Whether a user message carries the nonce; only the text of user messages is read.\<close>

definition carries_nonce :: "string \<Rightarrow> json \<Rightarrow> err + bool" where
  "carries_nonce nonce entry =
     (if \<not> has_role ''user'' entry then Inr False
      else case entry_texts entry of
        Inl e \<Rightarrow> Inl e
      | Inr ts \<Rightarrow> Inr (contains nonce (concat ts) \<or> js_strict_eq (entry_info entry ''id'') (Some (JStr nonce))))"

fun find_nonce :: "string \<Rightarrow> json list \<Rightarrow> err + (json \<times> json list) option" where
  "find_nonce nonce [] = Inr None"
| "find_nonce nonce (e # es) =
     (case carries_nonce nonce e of
        Inl x \<Rightarrow> Inl x
      | Inr True \<Rightarrow> Inr (Some (e, es))
      | Inr False \<Rightarrow> find_nonce nonce es)"

definition answers :: "json \<Rightarrow> json \<Rightarrow> bool" where
  "answers user entry \<longleftrightarrow> has_role ''assistant'' entry \<and> js_strict_eq (entry_info entry ''parentID'') (entry_info user ''id'')"

fun find_turn :: "json \<Rightarrow> bool \<Rightarrow> json list \<Rightarrow> completion" where
  "find_turn user saw [] = Incomplete (if saw then ''only_summary_or_compaction'' else ''no_turn'')"
| "find_turn user saw (e # es) =
     (if \<not> answers user e then find_turn user saw es
      else if is_summary_or_compaction e then find_turn user True es
      else Completed (coalesce (entry_info user ''id'') JNull) (coalesce (entry_info e ''id'') JNull) (entry_info e ''mode''))"

definition match_completion :: "string \<Rightarrow> json list \<Rightarrow> err + completion" where
  "match_completion nonce history =
     (case find_nonce nonce history of
        Inl e \<Rightarrow> Inl e
      | Inr None \<Rightarrow> Inr (Incomplete ''nonce_not_found'')
      | Inr (Some (user, rest)) \<Rightarrow> Inr (find_turn user False rest))"

definition observe_completion :: "'w opencode_driver \<Rightarrow> string \<Rightarrow> string \<Rightarrow> ('w, completion) managed_act" where
  "observe_completion drv sid nonce =
     act_bind (act_try (act_bind (on_http (http_list_messages (dv_http drv) sid)) (\<lambda>h. act_return (Some h)))
       (\<lambda>e. case e of
          OpenCodeHttpError m status \<Rightarrow> if status = 404 then act_return None else act_fail e
        | _ \<Rightarrow> act_fail e)) (\<lambda>history.
     case history of
       None \<Rightarrow> act_return (Incomplete ''session_missing'')
     | Some h \<Rightarrow> act_bind (act_lift (match_completion nonce h)) (\<lambda>c.
         case c of
           Completed u a m \<Rightarrow> act_then (capture_observed_metadata drv sid) (act_return c)
         | Incomplete why \<Rightarrow> act_return c))"

section \<open>Agent envelopes\<close>

text \<open>
  \<^verbatim>\<open>validateEnvelope\<close> on a parsed value: each check in its order, and the typed envelope when all pass. Fields that are not strings fail the
  checks that the typed envelopes cannot express.
\<close>

definition e_bind :: "err + 'a \<Rightarrow> ('a \<Rightarrow> err + 'b) \<Rightarrow> err + 'b" where
  "e_bind v f = (case v of Inl e \<Rightarrow> Inl e | Inr x \<Rightarrow> f x)"

definition read_identifier :: "json option \<Rightarrow> string \<Rightarrow> err + string" where
  "read_identifier v field =
     (case v of
        Some (JStr s) \<Rightarrow>
          if s = [] then Inl (EnvelopeValidationError (field @ '': must be a non-empty string''))
          else if length s > 160 then Inl (EnvelopeValidationError (field @ '': exceeds 160 characters''))
          else if \<not> list_all identifier_char s
          then Inl (EnvelopeValidationError (field @ '': contains characters that are not identifier-safe''))
          else Inr s
      | _ \<Rightarrow> Inl (EnvelopeValidationError (field @ '': must be a non-empty string'')))"

definition read_optional_identifier :: "json option \<Rightarrow> string \<Rightarrow> err + string option" where
  "read_optional_identifier v field = (case v of None \<Rightarrow> Inr None | Some j \<Rightarrow> e_bind (read_identifier (Some j) field) (\<lambda>s. Inr (Some s)))"

definition read_reason :: "json option \<Rightarrow> err + string option" where
  "read_reason v =
     (case v of
        None \<Rightarrow> Inr None
      | Some JNull \<Rightarrow> Inr None
      | Some (JStr s) \<Rightarrow> if length s > 2000 then Inl (EnvelopeValidationError ''reason: exceeds 2000 characters'') else Inr (Some s)
      | Some _ \<Rightarrow> Inl (EnvelopeValidationError ''reason: must be a string''))"

definition js_text :: "json option \<Rightarrow> string" where
  "js_text v = (case v of None \<Rightarrow> ''undefined'' | Some j \<Rightarrow> js_string j)"

definition read_member :: "string list \<Rightarrow> json option \<Rightarrow> string \<Rightarrow> string \<Rightarrow> err + string" where
  "read_member allowed v field what =
     (case v of
        Some (JStr s) \<Rightarrow> if List.member allowed s then Inr s
          else Inl (EnvelopeValidationError (field @ '': '' @ quoted s @ '' is not a '' @ what))
      | _ \<Rightarrow> Inl (EnvelopeValidationError (field @ '': '' @ quoted (js_text v) @ '' is not a '' @ what)))"

definition read_triage_envelope :: "json \<Rightarrow> err + triage_envelope" where
  "read_triage_envelope j =
     e_bind (read_identifier (json_field j ''envelope_id'') ''envelope_id'') (\<lambda>envelope_id.
     e_bind (read_identifier (json_field j ''issue_id'') ''issue_id'') (\<lambda>issue_id.
     e_bind (read_member ISSUE_TRIAGE_DISPOSITIONS (json_field j ''disposition'') ''disposition'' ''triage disposition'') (\<lambda>disposition.
     e_bind (read_optional_identifier (json_field j ''canonical_work_item_id'') ''canonical_work_item_id'') (\<lambda>canonical.
     e_bind (read_optional_identifier (json_field j ''blocked_by'') ''blocked_by'') (\<lambda>blocked_by.
     e_bind (read_reason (json_field j ''reason'')) (\<lambda>reason.
       Inr \<lparr>te_envelope_id = envelope_id, te_issue_id = issue_id, te_disposition = disposition, te_canonical_work_item_id = canonical,
         te_blocked_by = blocked_by, te_reason = reason\<rparr>))))))"

definition read_dependency :: "json option \<Rightarrow> err + resolution_dependency option" where
  "read_dependency v =
     (case v of
        None \<Rightarrow> Inr None
      | Some j \<Rightarrow> (case json_field j ''kind'' of
          Some (JStr k) \<Rightarrow>
            if List.member [''issue'', ''work_item''] k
            then e_bind (read_identifier (json_field j ''id'') ''dependency.id'') (\<lambda>i. Inr (Some \<lparr>rd_kind = k, rd_id = i\<rparr>))
            else Inl (EnvelopeValidationError (''dependency: kind must be '' @ quoted ''issue'' @ '' or '' @ quoted ''work_item''))
        | _ \<Rightarrow> Inl (EnvelopeValidationError (''dependency: kind must be '' @ quoted ''issue'' @ '' or '' @ quoted ''work_item''))))"

definition read_resolution_envelope :: "json \<Rightarrow> err + resolution_envelope" where
  "read_resolution_envelope j =
     e_bind (read_identifier (json_field j ''envelope_id'') ''envelope_id'') (\<lambda>envelope_id.
     e_bind (read_identifier (json_field j ''work_item_id'') ''work_item_id'') (\<lambda>work_item_id.
     e_bind (read_member resolution_outcomes (json_field j ''outcome'') ''outcome'' ''resolution outcome'') (\<lambda>outcome.
     e_bind (read_dependency (json_field j ''dependency'')) (\<lambda>dependency.
     if outcome = ''deferred'' \<and> dependency = None
     then Inl (EnvelopeValidationError ''dependency: exactly one target is required for deferred outcome'')
     else if outcome \<noteq> ''deferred'' \<and> dependency \<noteq> None
     then Inl (EnvelopeValidationError ''dependency: only deferred outcome may include a dependency'')
     else e_bind (read_reason (json_field j ''reason'')) (\<lambda>reason.
       Inr \<lparr>re_envelope_id = envelope_id, re_work_item_id = work_item_id, re_outcome = outcome, re_dependency = dependency,
         re_reason = reason\<rparr>)))))"

definition read_envelope :: "json \<Rightarrow> err + agent_envelope" where
  "read_envelope j =
     (if json_field j ''kind'' = Some (JStr ''triage'') then e_bind (read_triage_envelope j) (\<lambda>e. Inr (Triage_Envelope e))
      else if json_field j ''kind'' = Some (JStr ''resolution'') then e_bind (read_resolution_envelope j) (\<lambda>e. Inr (Resolution_Envelope e))
      else Inl (EnvelopeValidationError (''envelope kind '' @ quoted (js_text (json_field j ''kind'')) @ '' is unsupported'')))"

section \<open>Reading the answer\<close>

fun join_texts :: "string list \<Rightarrow> string" where
  "join_texts [] = []"
| "join_texts [t] = t"
| "join_texts (t # u # us) = t @ newline @ join_texts (u # us)"

fun js_object_like :: "json \<Rightarrow> bool" where
  "js_object_like (JObj fs) = True"
| "js_object_like (JArr vs) = True"
| "js_object_like _ = False"

text \<open>The bounded text of an entry, parsed to an object; \<open>what\<close> names the output in the messages.\<close>

definition answer_object :: "'w opencode_http \<Rightarrow> string \<Rightarrow> nat \<Rightarrow> json \<Rightarrow> err + json" where
  "answer_object h what limit entry =
     e_bind (case json_field entry ''parts'' of Some (JArr ps) \<Rightarrow> part_texts ps | _ \<Rightarrow> Inl type_error) (\<lambda>ts.
       let text = trim (join_texts ts) in
       if text = [] \<or> length text > limit then Inl (JsError (what @ '' is empty or oversized''))
       else case oh_parse h text of
         None \<Rightarrow> Inl (JsError (what @ '' is not JSON''))
       | Some raw \<Rightarrow> if js_object_like raw then Inr raw else Inl (JsError (what @ '' is not an object'')))"

definition newlines :: "code_units list \<Rightarrow> code_units" where
  "newlines ls = (case ls of [] \<Rightarrow> [] | l # ms \<Rightarrow> foldl (\<lambda>acc m. acc @ units newline @ m) l ms)"

definition triage_prompt_text :: "triage_digest \<Rightarrow> code_units" where
  "triage_prompt_text g = newlines
     [units ''Return exactly one JSON triage envelope and no markdown.'',
      units (''issue_id='' @ dg_issue_id g @ '' repository='' @ dg_repo_owner g @ ''/'' @ dg_repo_name g @ '' number='' @ show_int (dg_issue_number g)),
      units ''title='' @ dg_title_preview g,
      units ''body='' @ dg_body_preview g,
      units (''created_at='' @ dg_created_at g @ '' pending='' @ show_nat (dg_pending_count g) @ '' open='' @ show_nat (ct_open (dg_repo_counts g)) @
        '' queued='' @ show_nat (ct_queued (dg_repo_counts g)) @ '' running='' @ show_nat (ct_running (dg_repo_counts g))),
      units ''Allowed dispositions: READY, DUPLICATE, MERGED, BLOCKED, REJECTED, PAUSED_TRIAGE.'']"

definition suggestion_of :: "string \<Rightarrow> agent_envelope \<Rightarrow> err + triage_suggestion" where
  "suggestion_of issue_id envelope =
     (case envelope of
        Triage_Envelope e \<Rightarrow>
          if te_issue_id e \<noteq> issue_id then Inl (JsError ''triage envelope identity mismatch'')
          else Inr \<lparr>sg_issue_id = te_issue_id e, sg_disposition = te_disposition e, sg_canonical_work_item_id = te_canonical_work_item_id e,
            sg_blocked_by = te_blocked_by e, sg_reason = (if present (te_reason e) then te_reason e else None)\<rparr>
      | _ \<Rightarrow> Inl (JsError ''triage envelope identity mismatch''))"

definition prompt_triage :: "'w opencode_driver \<Rightarrow> string \<Rightarrow> triage_digest \<Rightarrow> ('w, triage_suggestion) managed_act" where
  "prompt_triage drv sid digest =
     act_then (enforce_managed_session_gate drv (Gate_Creation sid) ''prompt_triage'')
     (act_bind (prompt_session drv sid \<lparr>dp_text = triage_prompt_text digest, dp_agent = Some (dv_triage_agent drv), dp_model = dv_triage_model drv,
         dp_no_reply = None, dp_system = None\<rparr>) (\<lambda>turn.
      act_bind (on_http (http_list_messages (dv_http drv) sid)) (\<lambda>history.
      case List.find (\<lambda>e. entry_info e ''id'' = Some (JStr (po_assistant_id turn))) history of
        None \<Rightarrow> act_fail (JsError ''triage assistant turn disappeared from history'')
      | Some entry \<Rightarrow> act_lift (e_bind (answer_object (dv_http drv) ''triage output'' 8000 entry) (\<lambda>raw.
          e_bind (read_envelope raw) (suggestion_of (dg_issue_id digest)))))))"

definition read_resolution_result ::
  "'w opencode_driver \<Rightarrow> string \<Rightarrow> string \<Rightarrow> string \<Rightarrow> ('w, (resolution_envelope \<times> json) option) managed_act" where
  "read_resolution_result drv sid wid nonce =
     act_bind (observe_completion drv sid nonce) (\<lambda>completion.
     case completion of
       Incomplete why \<Rightarrow> act_return None
     | Completed user_id assistant_id mode \<Rightarrow>
         act_bind (on_http (http_list_messages (dv_http drv) sid)) (\<lambda>history.
         case List.find (\<lambda>e. has_role ''assistant'' e \<and> js_strict_eq (entry_info e ''id'') (Some assistant_id)) history of
           None \<Rightarrow> act_return None
         | Some entry \<Rightarrow> act_lift (e_bind (answer_object (dv_http drv) ''resolution assistant output'' 16000 entry) (\<lambda>raw.
             if json_field raw ''kind'' \<noteq> Some (JStr ''resolution'') \<or> json_field raw ''work_item_id'' \<noteq> Some (JStr wid)
             then Inl (JsError ''resolution envelope identity mismatch'')
             else e_bind (read_resolution_envelope raw) (\<lambda>e. Inr (Some (e, assistant_id)))))))"

end
