(* ===== verification/Driver_Safety.thy ===== *)
theory Driver_Safety
  imports Opencode_Driver
begin

text \<open>
  What the session driver promises: no prompt without the marker of its session, completion exactly by a parent-linked turn after the nonce, and
  well-formed suggestions only.
\<close>

section \<open>Operations and the requests they send\<close>

datatype driver_op = Op_Create session_kind string session_metadata | Op_Prompt string driver_prompt | Op_Prompt_Async string driver_prompt
  | Op_Triage string triage_digest | Op_Status string | Op_Observe string string | Op_Result string string string

definition ignore :: "('s, 'e, 'a) act \<Rightarrow> ('s, 'e, unit) act" where "ignore m = act_bind m (\<lambda>x. act_return ())"

fun run_op :: "'w opencode_driver \<Rightarrow> driver_op \<Rightarrow> ('w, unit) managed_act" where
  "run_op drv (Op_Create kind directory metadata) = ignore (create_real_session drv kind directory metadata)"
| "run_op drv (Op_Prompt sid p) = ignore (prompt_session drv sid p)"
| "run_op drv (Op_Prompt_Async sid p) = ignore (prompt_async drv sid p)"
| "run_op drv (Op_Triage sid g) = ignore (prompt_triage drv sid g)"
| "run_op drv (Op_Status sid) = ignore (get_session_status drv sid)"
| "run_op drv (Op_Observe sid nonce) = ignore (observe_completion drv sid nonce)"
| "run_op drv (Op_Result sid wid nonce) = ignore (read_resolution_result drv sid wid nonce)"

text \<open>The client with a log of the requests it hands to \<^verbatim>\<open>fetch\<close>.\<close>

definition logged_http :: "'w opencode_http \<Rightarrow> (http_request list \<times> 'w) opencode_http" where
  "logged_http h =
     \<lparr>oh_base_url = oh_base_url h, oh_username = oh_username h, oh_password = oh_password h,
      oh_fetch = (\<lambda>req lw. case oh_fetch h req (snd lw) of (r, w) \<Rightarrow> (r, (fst lw @ [req], w))), oh_parse = oh_parse h\<rparr>"

definition logged_driver :: "'w opencode_driver \<Rightarrow> (http_request list \<times> 'w) opencode_driver" where
  "logged_driver drv =
     \<lparr>dv_http = logged_http (dv_http drv), dv_db = dv_db drv, dv_triage_agent = dv_triage_agent drv, dv_triage_model = dv_triage_model drv,
      dv_registry_dir = dv_registry_dir drv, dv_gate = map_option (\<lambda>gate lw. gate (snd lw)) (dv_gate drv)\<rparr>"

definition is_prompt :: "http_request \<Rightarrow> bool" where
  "is_prompt req \<longleftrightarrow> (case hq_body req of Some (Prompt_Body b) \<Rightarrow> True | _ \<Rightarrow> False)"

definition prompt_urls :: "'w opencode_driver \<Rightarrow> string \<Rightarrow> string list" where
  "prompt_urls drv sid = map (\<lambda>tail. oh_base_url (dv_http drv) @ ''/session/'' @ sid @ tail) [''/message'', ''/prompt_async'']"

text \<open>Of the requests that were added, the prompts satisfy \<open>P\<close>.\<close>

definition prompts_only :: "(http_request \<Rightarrow> bool) \<Rightarrow> http_request list \<times> 'w \<Rightarrow> http_request list \<times> 'w \<Rightarrow> bool" where
  "prompts_only P a b \<longleftrightarrow> (\<exists>new. fst b = fst a @ new \<and> (\<forall>req \<in> set new. is_prompt req \<longrightarrow> P req))"

lemma prompts_only_refl: "prompts_only P a a" by (simp add: prompts_only_def)

lemma prompts_only_trans: "prompts_only P a b \<Longrightarrow> prompts_only P b c \<Longrightarrow> prompts_only P a c"
  unfolding prompts_only_def by (elim exE conjE) (auto intro!: exI)

interpretation sending: tx_preorder "\<lambda>a b. prompts_only P a b" for P
  by unfold_locales (blast intro: prompts_only_refl prompts_only_trans)+

interpretation managing: tx_preorder "\<lambda>s s'. prompts_only P (snd (snd s)) (snd (snd s'))" for P
  by unfold_locales (blast intro: prompts_only_refl prompts_only_trans)+

lemma send_prompts:
  "(\<And>req. hq_url req = http_url h path query \<Longrightarrow> hq_body req = body \<Longrightarrow> is_prompt req \<Longrightarrow> P req) \<Longrightarrow>
   act_rel (prompts_only P) (http_send (logged_http h) m path query body void)"
  by (rule act_relI) (auto simp: prompts_only_def http_send_def logged_http_def http_url_def split: prod.split sum.split)

lemma plain_requests:
  "act_rel (prompts_only P) (http_send (logged_http h) m path query None void)"
  "act_rel (prompts_only P) (http_send (logged_http h) m path query (Some (Json_Body j)) void)"
  by (intro send_prompts; simp add: is_prompt_def)+

lemma id_case: "act_rel R (f None) \<Longrightarrow> (\<And>x. act_rel R (f (Some x))) \<Longrightarrow> act_rel R (f v)" by (cases v) auto

lemma queries_prompt_nothing:
  "act_rel (prompts_only P) (http_create_session (logged_http h) dir body)" "act_rel (prompts_only P) (http_get_session (logged_http h) sid)"
  "act_rel (prompts_only P) (http_list_messages (logged_http h) sid)" "act_rel (prompts_only P) (http_session_status (logged_http h))"
proof -
  show "act_rel (prompts_only P) (http_create_session (logged_http h) dir body)"
    unfolding http_create_session_def by (cases body; simp only: option.map) (intro sending.act_rel_intros plain_requests)+
qed (unfold http_get_session_def http_list_messages_def http_session_status_def assert_oc_session_id_def,
    (intro sending.act_rel_intros plain_requests)+)

lemma on_http_rel: "act_rel (prompts_only P) m \<Longrightarrow> act_rel (\<lambda>s s'. prompts_only P (snd (snd s)) (snd (snd s'))) (on_http m)"
  by (rule act_relI) (auto simp: on_http_def on_snd_def split: prod.splits dest: act_relD)

lemma on_driver_rel: "act_rel (\<lambda>s s'. prompts_only P (snd (snd s)) (snd (snd s'))) (on_driver m)"
  by (rule act_relI) (auto simp: on_driver_def on_snd_def on_fst_def prompts_only_refl split: prod.splits)

lemma write_prompts_nothing: "act_rel (\<lambda>s s'. prompts_only P (snd (snd s)) (snd (snd s'))) (write_tx m)"
  by (rule act_relI) (auto simp: write_tx_def on_fst_def prompts_only_refl split: prod.splits)

lemmas managing_steps = managing.act_rel_intros on_http_rel on_driver_rel write_prompts_nothing queries_prompt_nothing

lemma lift_rel: "(\<And>s. R s s) \<Longrightarrow> act_rel R (act_lift v)"
  by (rule act_relI) (auto simp: act_lift_def act_fail_def act_return_def split: sum.split)

lemma capture_prompts_nothing:
  "act_rel (\<lambda>s s'. prompts_only P (snd (snd s)) (snd (snd s'))) (capture_observed_metadata (logged_driver drv) sid)"
  unfolding capture_observed_metadata_def logged_driver_def opencode_driver.simps by (intro managing_steps)

lemma gate_prompts_nothing:
  "act_rel (\<lambda>s s'. prompts_only P (snd (snd s)) (snd (snd s'))) (enforce_managed_session_gate (drv :: (http_request list \<times> 'w) opencode_driver) rq action)"
  unfolding enforce_managed_session_gate_def gate_marker_def on_registry_def
  by (cases rq; simp only: gate_request.case; intro managing_steps)

lemma create_prompts_nothing:
  "act_rel (\<lambda>s s'. prompts_only P (snd (snd s)) (snd (snd s'))) (create_real_session (logged_driver drv) kind directory metadata)"
  unfolding create_real_session_def on_registry_def by (intro managing_steps gate_prompts_nothing; simp add: logged_driver_def; intro managing_steps)

lemma err_rel: "(\<And>m st. act_rel R (f m st)) \<Longrightarrow> (\<And>e'. act_rel R (g e')) \<Longrightarrow>
    act_rel R (case e of OpenCodeHttpError m st \<Rightarrow> f m st | _ \<Rightarrow> g e)"
  by (cases e) simp_all

lemma completion_rel: "(\<And>u a m. act_rel R (f u a m)) \<Longrightarrow> (\<And>why. act_rel R (g why)) \<Longrightarrow>
    act_rel R (case c of Completed u a m \<Rightarrow> f u a m | Incomplete why \<Rightarrow> g why)"
  by (cases c) simp_all

lemma reads_prompt_nothing:
  "act_rel (\<lambda>s s'. prompts_only P (snd (snd s)) (snd (snd s'))) (get_session_status (logged_driver drv) sid)"
  "act_rel (\<lambda>s s'. prompts_only P (snd (snd s)) (snd (snd s'))) (observe_completion (logged_driver drv) sid nonce)"
  "act_rel (\<lambda>s s'. prompts_only P (snd (snd s)) (snd (snd s'))) (read_resolution_result (logged_driver drv) sid wid nonce)"
proof -
  note http = logged_driver_def[THEN arg_cong[where f = dv_http], unfolded opencode_driver.simps]
  show "act_rel (\<lambda>s s'. prompts_only P (snd (snd s)) (snd (snd s'))) (get_session_status (logged_driver drv) sid)"
    unfolding get_session_status_def http by (intro managing_steps err_rel)
  show observe: "act_rel (\<lambda>s s'. prompts_only P (snd (snd s)) (snd (snd s'))) (observe_completion (logged_driver drv) sid nonce)" for sid nonce
    unfolding observe_completion_def http
    by (intro managing_steps err_rel completion_rel lift_rel capture_prompts_nothing prompts_only_refl)
  show "act_rel (\<lambda>s s'. prompts_only P (snd (snd s)) (snd (snd s'))) (read_resolution_result (logged_driver drv) sid wid nonce)"
    unfolding read_resolution_result_def http by (intro managing_steps completion_rel lift_rel observe prompts_only_refl)
qed

text \<open>What follows the gate sends a prompt only to the session.\<close>

abbreviation to_session :: "'w opencode_driver \<Rightarrow> string \<Rightarrow> http_request \<Rightarrow> bool" where
  "to_session drv sid req \<equiv> List.member (prompt_urls drv sid) (hq_url req)"

lemma prompts_sent:
  "act_rel (prompts_only (to_session drv sid)) (http_send_message (logged_http (dv_http drv)) sid body)"
  "act_rel (prompts_only (to_session drv sid)) (http_send_prompt_async (logged_http (dv_http drv)) sid body)"
  unfolding http_send_message_def http_send_prompt_async_def assert_oc_session_id_def
  by - ((intro sending.act_rel_intros send_prompts; simp add: http_url_def prompt_urls_def logged_http_def),
    (simp split: option.split json.split, intro allI impI conjI sending.act_rel_intros)?)+

lemma rest_sends_to_session:
  "act_rel (\<lambda>s s'. prompts_only (to_session drv sid) (snd (snd s)) (snd (snd s'))) (act_then not_in_flight
     (act_then (set_in_flight True)
     (act_bind (act_try (act_bind (sync_turn (logged_driver drv) sid prompt) (\<lambda>o'. act_return (Inr o'))) (\<lambda>e. act_return (Inl e))) (\<lambda>outcome.
      act_then (set_in_flight False) (act_lift outcome)))))"
  "act_rel (\<lambda>s s'. prompts_only (to_session drv sid) (snd (snd s)) (snd (snd s'))) (act_then not_in_flight
     (on_http (http_send_prompt_async (dv_http (logged_driver drv)) sid body)))"
proof -
  note http = logged_driver_def[THEN arg_cong[where f = dv_http], unfolded opencode_driver.simps]
  show "act_rel (\<lambda>s s'. prompts_only (to_session drv sid) (snd (snd s)) (snd (snd s'))) (act_then not_in_flight
     (act_then (set_in_flight True)
     (act_bind (act_try (act_bind (sync_turn (logged_driver drv) sid prompt) (\<lambda>o'. act_return (Inr o'))) (\<lambda>e. act_return (Inl e))) (\<lambda>outcome.
      act_then (set_in_flight False) (act_lift outcome)))))"
    unfolding not_in_flight_def set_in_flight_def sync_turn_def http
    by (intro managing_steps prompts_sent lift_rel capture_prompts_nothing prompts_only_refl)
  show "act_rel (\<lambda>s s'. prompts_only (to_session drv sid) (snd (snd s)) (snd (snd s'))) (act_then not_in_flight
     (on_http (http_send_prompt_async (dv_http (logged_driver drv)) sid body)))"
    unfolding not_in_flight_def http by (intro managing_steps prompts_sent)
qed

text \<open>A prompt in the log of a gated step means that the gate let it through.\<close>

definition new_requests :: "'d \<times> 's \<times> http_request list \<times> 'w \<Rightarrow> 'd \<times> 's \<times> http_request list \<times> 'w \<Rightarrow> http_request list" where
  "new_requests s s' = drop (length (fst (snd (snd s)))) (fst (snd (snd s')))"

lemma prompts_only_new: "prompts_only P (snd (snd s)) (snd (snd s')) \<Longrightarrow> req \<in> set (new_requests s s') \<Longrightarrow> is_prompt req \<Longrightarrow> P req"
  by (auto simp: prompts_only_def new_requests_def)

lemma gate_then:
  assumes "act_then (enforce_managed_session_gate drv rq action) rest s = (r, s')"
    and "act_rel (\<lambda>s s'. prompts_only P (snd (snd s)) (snd (snd s'))) rest" "req \<in> set (new_requests s s')" "is_prompt req"
  obtains s1 where "enforce_managed_session_gate drv rq action s = (Inr (), s1)" "rest s1 = (r, s')" "P req"
proof -
  obtain g s1 where gate: "enforce_managed_session_gate drv rq action s = (g, s1)" by (cases "enforce_managed_session_gate drv rq action s")
  then have silent: "prompts_only (\<lambda>req. False) (snd (snd s)) (snd (snd s1))" using act_relD[OF gate_prompts_nothing] by blast
  show thesis
  proof (cases g)
    case (Inl e)
    with assms(1) gate have "s1 = s'" by (simp add: act_then_def act_bind_def)
    with silent assms(3,4) prompts_only_new show thesis by blast
  next
    case (Inr u)
    then have run: "rest s1 = (r, s')" using assms(1) gate by (simp add: act_then_def act_bind_def)
    have "prompts_only P (snd (snd s1)) (snd (snd s'))" by (rule act_relD[OF assms(2) run])
    moreover have "prompts_only P (snd (snd s)) (snd (snd s1))" using silent by (auto simp: prompts_only_def)
    ultimately have "P req" using prompts_only_trans prompts_only_new assms(3,4) by blast
    with gate run Inr that show thesis by simp
  qed
qed

definition gate_open :: "'w opencode_driver \<Rightarrow> 'w \<Rightarrow> bool" where
  "gate_open drv w \<longleftrightarrow> (case dv_gate drv of None \<Rightarrow> True | Some gate \<Rightarrow> gv_loaded (gate w))"

lemma gate_success:
  assumes "enforce_managed_session_gate drv rq action s = (Inr (), s1)"
  shows "gate_open drv (snd (snd s1))"
    and "rq = Gate_Resume sid \<Longrightarrow> session_id_re sid \<and> List.member (rf_entries (ds_fs (fst (snd s1)))) sid"
    and "rq = Gate_Creation sid \<Longrightarrow> s1 = s \<and> session_id_re sid \<and> List.member (rf_entries (ds_fs (fst (snd s)))) sid"
proof -
  obtain s0 where marker: "gate_marker (dv_registry_dir drv) rq action s = (Inr (), s0)"
    and check: "(case dv_gate drv of None \<Rightarrow> act_return () | Some gate \<Rightarrow> act_bind (act_get (\<lambda>s. gate (snd (snd s)))) (\<lambda>verdict.
            act_guard (gv_loaded verdict) (gate_error (gv_reason verdict) action))) s0 = (Inr (), s1)"
    using assms by (auto simp: enforce_managed_session_gate_def act_then_def act_bind_def split: prod.splits sum.splits)
  from check have same: "s1 = s0" and "gate_open drv (snd (snd s0))"
    by (auto simp: gate_open_def act_return_def act_bind_def act_get_def act_guard_def act_fail_def split: option.splits if_splits)
  then show "gate_open drv (snd (snd s1))" by simp
  show "session_id_re sid \<and> List.member (rf_entries (ds_fs (fst (snd s1)))) sid" if resume: "rq = Gate_Resume sid"
  proof -
    obtain fs where "ensure_session_marker_before_resume (dv_registry_dir drv) sid (ds_fs (fst (snd s))) = (Inr (), fs)" "ds_fs (fst (snd s1)) = fs"
      using marker resume same by (auto simp: gate_marker_def on_registry_def on_driver_def on_snd_def on_fst_def split: prod.splits)
    with ensure_marker_success show ?thesis by metis
  qed
  show "s1 = s \<and> session_id_re sid \<and> List.member (rf_entries (ds_fs (fst (snd s)))) sid" if "rq = Gate_Creation sid"
    using marker that same by (auto simp: gate_marker_def act_bind_def act_get_def act_guard_def act_return_def act_fail_def classify_managed
      marker_exists_def split: if_splits)
qed

fun prompted_session :: "driver_op \<Rightarrow> string option" where
  "prompted_session (Op_Prompt sid p) = Some sid"
| "prompted_session (Op_Prompt_Async sid p) = Some sid"
| "prompted_session (Op_Triage sid g) = Some sid"
| "prompted_session _ = None"

definition marker_at :: "db \<times> driver_state \<times> 'v \<Rightarrow> string \<Rightarrow> bool" where
  "marker_at s sid \<longleftrightarrow> session_id_re sid \<and> List.member (rf_entries (ds_fs (fst (snd s)))) sid"

definition let_through :: "'w opencode_driver \<Rightarrow> string \<Rightarrow> db \<times> driver_state \<times> http_request list \<times> 'w \<Rightarrow> bool" where
  "let_through drv sid s \<longleftrightarrow> (\<exists>action s1. enforce_managed_session_gate (logged_driver drv) (Gate_Resume sid) action s = (Inr (), s1) \<and>
     marker_at s1 sid \<and> gate_open drv (snd (snd (snd s1))))"

lemma let_throughI:
  assumes "enforce_managed_session_gate (logged_driver drv) (Gate_Resume sid) action s = (Inr (), s1)"
  shows "let_through drv sid s"
proof -
  have "gate_open (logged_driver drv) (snd (snd s1))" by (rule gate_success(1)[OF assms])
  then have "gate_open drv (snd (snd (snd s1)))" by (auto simp: gate_open_def logged_driver_def split: option.splits)
  with assms gate_success(2)[OF assms refl] show ?thesis unfolding let_through_def marker_at_def by blast
qed

lemma ignore_run: "ignore m s = (r, s') \<Longrightarrow> \<exists>r0. m s = (r0, s')"
  by (auto simp: ignore_def act_bind_def act_return_def split: prod.splits sum.splits)

lemma silent_op:
  assumes "act_rel (\<lambda>s s'. prompts_only (\<lambda>req. False) (snd (snd s)) (snd (snd s'))) m" "ignore m s = (r, s')"
    "req \<in> set (new_requests s s')" "is_prompt req"
  shows False
  using ignore_run[OF assms(2)] prompts_only_new[OF _ assms(3,4)] act_relD[OF assms(1)] by blast

lemma prompt_session_gated:
  assumes "prompt_session (logged_driver drv) sid p s = (r, s')" "req \<in> set (new_requests s s')" "is_prompt req"
  shows "let_through drv sid s \<and> to_session drv sid req"
  by (rule gate_then[OF assms(1)[unfolded prompt_session_def] rest_sends_to_session(1) assms(2,3)]) (blast intro: let_throughI)

text \<open>What a triage prompt does after its own gate prompts only through \<open>prompt_session\<close>.\<close>

lemma after_turn_silent:
  "act_rel (\<lambda>s s'. prompts_only P (snd (snd s)) (snd (snd s'))) (act_bind (on_http (http_list_messages (dv_http (logged_driver drv)) sid)) (\<lambda>history.
      case List.find (\<lambda>e. entry_info e ''id'' = Some (JStr i)) history of
        None \<Rightarrow> act_fail err
      | Some entry \<Rightarrow> act_lift (f entry)))"
proof -
  note http = logged_driver_def[THEN arg_cong[where f = dv_http], unfolded opencode_driver.simps]
  show ?thesis unfolding http by (intro managing_steps lift_rel prompts_only_refl)
qed

lemma prompt_before_silent_tail:
  assumes "act_bind m k s = (r, s')" "act_rel (\<lambda>s s'. prompts_only P (snd (snd s)) (snd (snd s'))) m"
    "\<And>x. act_rel (\<lambda>s s'. prompts_only (\<lambda>req. False) (snd (snd s)) (snd (snd s'))) (k x)" "req \<in> set (new_requests s s')" "is_prompt req"
  obtains r0 s2 where "m s = (r0, s2)" "req \<in> set (new_requests s s2)"
proof -
  obtain r0 s2 where m: "m s = (r0, s2)" by (cases "m s")
  have "prompts_only (\<lambda>req. False) (snd (snd s2)) (snd (snd s'))"
    using assms(1) m act_relD[OF assms(3)] by (cases r0) (auto simp: act_bind_def prompts_only_refl)
  with act_relD[OF assms(2) m] assms(4,5) have "req \<in> set (new_requests s s2)"
    by (auto simp: prompts_only_def new_requests_def)
  then show thesis by (rule that[OF m])
qed

lemma prompt_triage_gated:
  assumes "prompt_triage (logged_driver drv) sid g s = (r, s')" "req \<in> set (new_requests s s')" "is_prompt req"
  shows "let_through drv sid s \<and> to_session drv sid req \<and> marker_at s sid"
proof -
  have turn: "act_rel (\<lambda>s s'. prompts_only (to_session drv sid) (snd (snd s)) (snd (snd s'))) (prompt_session (logged_driver drv) sid p)" for p
    unfolding prompt_session_def by (intro managing.act_rel_then[OF gate_prompts_nothing rest_sends_to_session(1)])
  have rest: "act_rel (\<lambda>s s'. prompts_only (to_session drv sid) (snd (snd s)) (snd (snd s')))
      (act_bind (prompt_session (logged_driver drv) sid p) (\<lambda>turn. act_bind (on_http (http_list_messages (dv_http (logged_driver drv)) sid)) (\<lambda>history.
       case List.find (\<lambda>e. entry_info e ''id'' = Some (JStr (po_assistant_id turn))) history of
         None \<Rightarrow> act_fail err | Some entry \<Rightarrow> act_lift (f entry))))" for p err and f :: "json \<Rightarrow> err + triage_suggestion"
    by (intro managing.act_rel_bind turn after_turn_silent)
  obtain s1 where gate: "enforce_managed_session_gate (logged_driver drv) (Gate_Creation sid) ''prompt_triage'' s = (Inr (), s1)"
    and run: "act_bind (prompt_session (logged_driver drv) sid \<lparr>dp_text = triage_prompt_text g, dp_agent = Some (dv_triage_agent (logged_driver drv)),
        dp_model = dv_triage_model (logged_driver drv), dp_no_reply = None, dp_system = None\<rparr>) (\<lambda>turn.
      act_bind (on_http (http_list_messages (dv_http (logged_driver drv)) sid)) (\<lambda>history.
      case List.find (\<lambda>e. entry_info e ''id'' = Some (JStr (po_assistant_id turn))) history of
        None \<Rightarrow> act_fail (JsError ''triage assistant turn disappeared from history'')
      | Some entry \<Rightarrow> act_lift (e_bind (answer_object (dv_http (logged_driver drv)) ''triage output'' 8000 entry) (\<lambda>raw.
          e_bind (read_envelope raw) (suggestion_of (dg_issue_id g)))))) s1 = (r, s')" and sent: "to_session drv sid req"
    by (rule gate_then[OF assms(1)[unfolded prompt_triage_def] rest assms(2,3)])
  from gate_success(3)[OF gate, of sid] have same: "s1 = s" and marker: "marker_at s sid" by (simp_all add: marker_at_def)
  from run[unfolded same] obtain r0 s2 where "prompt_session (logged_driver drv) sid \<lparr>dp_text = triage_prompt_text g,
      dp_agent = Some (dv_triage_agent (logged_driver drv)), dp_model = dv_triage_model (logged_driver drv), dp_no_reply = None, dp_system = None\<rparr> s = (r0, s2)"
    "req \<in> set (new_requests s s2)"
    by (rule prompt_before_silent_tail[OF _ turn after_turn_silent assms(2,3)])
  with prompt_session_gated assms(3) marker sent show ?thesis by blast
qed

text \<open>
  C35: No prompt without a marker: whatever operation the driver runs and whatever the service answers, a prompt request goes only to the session
  of a prompt operation, after the gate let it through: the state just before the request has the marker of that session in the registry and, if a
  predicate is wired, says that the moderation plugin is loaded. A triage prompt moreover needs the marker to exist when it is asked for.
\<close>
theorem prompts_need_marker:
  assumes "run_op (logged_driver drv) op s = (r, s')" "req \<in> set (new_requests s s')" "is_prompt req"
  shows "\<exists>sid. prompted_session op = Some sid \<and> to_session drv sid req \<and> let_through drv sid s \<and>
     (\<forall>g. op = Op_Triage sid g \<longrightarrow> marker_at s sid)"
proof (cases op)
  case (Op_Prompt sid p)
  with assms(1) obtain r0 where "prompt_session (logged_driver drv) sid p s = (r0, s')" by (auto dest: ignore_run)
  from prompt_session_gated[OF this assms(2,3)] Op_Prompt show ?thesis by simp
next
  case (Op_Prompt_Async sid p)
  with assms(1) obtain r0 where "prompt_async (logged_driver drv) sid p s = (r0, s')" by (auto dest: ignore_run)
  then obtain s1 where "enforce_managed_session_gate (logged_driver drv) (Gate_Resume sid) ''prompt_async'' s = (Inr (), s1)" "to_session drv sid req"
    unfolding prompt_async_def by (rule gate_then[OF _ rest_sends_to_session(2) assms(2,3)])
  from let_throughI[OF this(1)] this(2) Op_Prompt_Async show ?thesis by simp
next
  case (Op_Triage sid g)
  with assms(1) obtain r0 where "prompt_triage (logged_driver drv) sid g s = (r0, s')" by (auto dest: ignore_run)
  from prompt_triage_gated[OF this assms(2,3)] Op_Triage show ?thesis by simp
next
  case (Op_Create kind directory metadata)
  from silent_op[OF create_prompts_nothing assms(1)[unfolded Op_Create run_op.simps] assms(2,3)] show ?thesis ..
next
  case (Op_Status sid)
  from silent_op[OF reads_prompt_nothing(1) assms(1)[unfolded Op_Status run_op.simps] assms(2,3)] show ?thesis ..
next
  case (Op_Observe sid nonce)
  from silent_op[OF reads_prompt_nothing(2) assms(1)[unfolded Op_Observe run_op.simps] assms(2,3)] show ?thesis ..
next
  case (Op_Result sid wid nonce)
  from silent_op[OF reads_prompt_nothing(3) assms(1)[unfolded Op_Result run_op.simps] assms(2,3)] show ?thesis ..
qed

section \<open>Completion\<close>

lemma find_nonce_Some:
  "find_nonce nonce h = Inr (Some (user, rest)) \<longleftrightarrow> (\<exists>pre. h = pre @ user # rest \<and> carries_nonce nonce user = Inr True \<and>
     list_all (\<lambda>e. carries_nonce nonce e = Inr False) pre)"
proof (induction h)
  case (Cons e es)
  show ?case
  proof (cases "carries_nonce nonce e")
    case (Inr b)
    show ?thesis
    proof (cases b)
      case True
      with Inr show ?thesis by (auto simp: Cons_eq_append_conv)
    next
      case False
      with Inr Cons.IH show ?thesis by (fastforce simp: Cons_eq_append_conv)
    qed
  qed (auto simp: Cons_eq_append_conv)
qed simp

lemma ex_split_Cons:
  "(\<exists>pre x post. e # es = pre @ x # post \<and> Q pre x) \<longleftrightarrow> Q [] e \<or> (\<exists>pre x post. es = pre @ x # post \<and> Q (e # pre) x)"
  by (auto simp: Cons_eq_append_conv)

lemma find_turn_Completed:
  "find_turn user saw es = Completed u a m \<longleftrightarrow> (\<exists>mid turn post. es = mid @ turn # post \<and> (answers user turn \<and> \<not> is_summary_or_compaction turn \<and>
     list_all (\<lambda>e. answers user e \<longrightarrow> is_summary_or_compaction e) mid \<and>
     u = coalesce (entry_info user ''id'') JNull \<and> a = coalesce (entry_info turn ''id'') JNull \<and> m = entry_info turn ''mode''))"
proof (induction user saw es rule: find_turn.induct)
  case (2 user saw e es)
  show ?case
  proof (cases "answers user e \<and> \<not> is_summary_or_compaction e")
    case True
    then show ?thesis unfolding ex_split_Cons by simp blast
  next
    case False
    with 2 show ?thesis unfolding ex_split_Cons by auto
  qed
qed simp

text \<open>
  C36: Completion is exactly a finished turn: a transcript completes a nonce if and only if it has a user message that carries the nonce, no
  earlier message does, and a later assistant message answers it (its parent is that user message) without being a summary or a compaction; the
  reported turn is the first such answer. Acceptance by the service, an answer to another prompt or a compaction completes nothing.
\<close>
theorem completion_iff_answered:
  "match_completion nonce h = Inr (Completed u a m) \<longleftrightarrow>
     (\<exists>pre user mid turn post. h = pre @ user # mid @ turn # post \<and> carries_nonce nonce user = Inr True \<and>
        list_all (\<lambda>e. carries_nonce nonce e = Inr False) pre \<and> answers user turn \<and> \<not> is_summary_or_compaction turn \<and>
        list_all (\<lambda>e. \<not> answers user e \<or> is_summary_or_compaction e) mid \<and>
        u = coalesce (entry_info user ''id'') JNull \<and> a = coalesce (entry_info turn ''id'') JNull \<and> m = entry_info turn ''mode'')"
proof -
  have "match_completion nonce h = Inr (Completed u a m) \<longleftrightarrow>
      (\<exists>user rest. find_nonce nonce h = Inr (Some (user, rest)) \<and> find_turn user False rest = Completed u a m)"
    by (auto simp: match_completion_def split: sum.splits option.splits)
  then show ?thesis unfolding find_nonce_Some find_turn_Completed imp_conv_disj by blast
qed

section \<open>Suggestions\<close>

definition safe_identifier :: "string \<Rightarrow> bool" where
  "safe_identifier s \<longleftrightarrow> s \<noteq> [] \<and> length s \<le> 160 \<and> list_all identifier_char s"

definition suggestion_typed :: "triage_suggestion \<Rightarrow> bool" where
  "suggestion_typed g \<longleftrightarrow> safe_identifier (sg_issue_id g) \<and> List.member ISSUE_TRIAGE_DISPOSITIONS (sg_disposition g) \<and>
     pred_option safe_identifier (sg_canonical_work_item_id g) \<and> pred_option safe_identifier (sg_blocked_by g) \<and>
     pred_option (\<lambda>s. s \<noteq> [] \<and> length s \<le> 2000) (sg_reason g)"

lemma e_bind_Inr: "e_bind v f = Inr x \<longleftrightarrow> (\<exists>y. v = Inr y \<and> f y = Inr x)"
  by (cases v) (simp_all add: e_bind_def)

lemma read_identifier_typed: "read_identifier v field = Inr s \<Longrightarrow> safe_identifier s"
  by (auto simp: read_identifier_def safe_identifier_def split: option.splits json.splits if_splits)

lemma read_optional_typed: "read_optional_identifier v field = Inr s \<Longrightarrow> pred_option safe_identifier s"
  by (auto simp: read_optional_identifier_def e_bind_Inr dest: read_identifier_typed split: option.splits)

lemma read_reason_typed: "read_reason v = Inr s \<Longrightarrow> pred_option (\<lambda>s. length s \<le> 2000) s"
  by (auto simp: read_reason_def split: option.splits json.splits if_splits)

lemma read_member_typed: "read_member allowed v field what = Inr s \<Longrightarrow> List.member allowed s"
  by (auto simp: read_member_def split: option.splits json.splits if_splits)

lemma read_triage_typed:
  assumes "read_triage_envelope j = Inr e"
  shows "safe_identifier (te_issue_id e) \<and> List.member ISSUE_TRIAGE_DISPOSITIONS (te_disposition e) \<and>
     pred_option safe_identifier (te_canonical_work_item_id e) \<and> pred_option safe_identifier (te_blocked_by e) \<and>
     pred_option (\<lambda>s. length s \<le> 2000) (te_reason e)"
  using assms by (auto simp only: read_triage_envelope_def e_bind_Inr sum.inject triage_envelope.simps
      dest!: read_identifier_typed read_optional_typed read_reason_typed read_member_typed)

lemma act_bind_last: "act_bind m k s = (Inr x, s') \<Longrightarrow> \<exists>y s1. k y s1 = (Inr x, s')"
  by (auto simp: act_bind_def split: prod.splits sum.splits)

lemma suggestion_of_typed:
  assumes "e_bind (read_envelope raw) (suggestion_of i) = Inr g"
  shows "suggestion_typed g \<and> sg_issue_id g = i"
proof -
  obtain e where e: "read_triage_envelope raw = Inr e" "te_issue_id e = i"
      "g = \<lparr>sg_issue_id = te_issue_id e, sg_disposition = te_disposition e, sg_canonical_work_item_id = te_canonical_work_item_id e,
        sg_blocked_by = te_blocked_by e, sg_reason = (if present (te_reason e) then te_reason e else None)\<rparr>"
    using assms by (auto simp: e_bind_Inr read_envelope_def suggestion_of_def split: if_splits)
  with read_triage_typed[OF e(1)] show ?thesis
    by (auto simp: suggestion_typed_def present_def split: option.splits)
qed

text \<open>
  C37: What the agent answers reaches the controller only as a well-formed suggestion about the issue it was asked about: when a triage prompt
  returns, whatever the service sent, the suggestion names that issue, its disposition is one of the triage dispositions, its identifiers are
  non-empty, at most 160 characters and identifier-safe, and its reason has at most 2000 characters.
\<close>
theorem triage_answers_are_typed:
  assumes "prompt_triage drv sid g s = (Inr answer, s')"
  shows "suggestion_typed answer \<and> sg_issue_id answer = dg_issue_id g"
proof -
  from assms obtain raw y where "read_envelope raw = Inr y" "suggestion_of (dg_issue_id g) y = Inr answer"
    unfolding prompt_triage_def act_then_def
    by (auto simp: act_lift_def act_fail_def act_return_def e_bind_Inr split: option.splits sum.splits dest!: act_bind_last)
  then have "e_bind (read_envelope raw) (suggestion_of (dg_issue_id g)) = Inr answer" by (simp add: e_bind_Inr)
  then show ?thesis by (rule suggestion_of_typed)
qed

section \<open>Witnesses\<close>

text \<open>A service whose session \<^verbatim>\<open>ses_a\<close> answers a prompt about an issue with a READY envelope.\<close>

definition sample_turn :: "string \<Rightarrow> json" where
  "sample_turn parts = JObj [(''info'', JObj [(''id'', JStr ''m2''), (''role'', JStr ''assistant''), (''parentID'', JStr ''m1''), (''mode'', JStr ''build'')]),
     (''parts'', JArr [JObj [(''type'', JStr ''text''), (''text'', JStr parts)]])]"

definition sample_user_message :: json where
  "sample_user_message = JObj [(''info'', JObj [(''id'', JStr ''m1''), (''role'', JStr ''user'')]),
     (''parts'', JArr [JObj [(''type'', JStr ''text''), (''text'', JStr ''do it, nonce n7'')]])]"

definition sample_oc_parse :: "string \<Rightarrow> json option" where
  "sample_oc_parse t =
     (if t = ''turn'' then Some (sample_turn ''envelope'')
      else if t = ''history'' then Some (JArr [sample_user_message, sample_turn ''envelope''])
      else if t = ''envelope'' then Some (JObj [(''kind'', JStr ''triage''), (''envelope_id'', JStr ''e1''), (''issue_id'', JStr ''issue-acme/tool-2''),
        (''disposition'', JStr ''READY'')]) else None)"

definition sample_oc_driver :: "unit opencode_driver" where
  "sample_oc_driver = \<lparr>dv_http = \<lparr>oh_base_url = ''http://127.0.0.1:4096'', oh_username = [], oh_password = None,
       oh_fetch = (\<lambda>req w. (Inr \<lparr>hp_status = 200, hp_text = Inr (if hq_method req = ''GET'' then ''history'' else ''turn'')\<rparr>, w)),
       oh_parse = sample_oc_parse\<rparr>,
     dv_db = False, dv_triage_agent = ''tissue-triage'', dv_triage_model = None, dv_registry_dir = ''/registry'',
     dv_gate = Some (\<lambda>w. \<lparr>gv_loaded = True, gv_reason = []\<rparr>)\<rparr>"

definition sample_registry :: "string list \<Rightarrow> driver_state" where
  "sample_registry entries = \<lparr>ds_fs = \<lparr>rf_mode = Some 493, rf_access = True, rf_readable = True, rf_entries = entries, rf_mountinfo = None\<rparr>,
     ds_in_flight = False\<rparr>"

definition sample_prompt :: driver_prompt where
  "sample_prompt = \<lparr>dp_text = units ''do it, nonce n7'', dp_agent = None, dp_model = None, dp_no_reply = None, dp_system = None\<rparr>"

lemma sample_prompt_sent:
  "list_ex is_prompt (fst (snd (snd (snd (run_op (logged_driver sample_oc_driver) (Op_Prompt_Async ''ses_a'' sample_prompt)
     (empty_db 90 [], (sample_registry [], ([], ()))))))))"
  by code_simp

theorem prompts_need_marker_witness:
  "let_through sample_oc_driver ''ses_a'' (empty_db 90 [], (sample_registry [], ([], ()))) \<and> \<not> marker_at (empty_db 90 [], (sample_registry [], ([], ()))) ''ses_a''"
proof -
  let ?s = "(empty_db 90 [], (sample_registry [], ([], ()))) :: db \<times> driver_state \<times> http_request list \<times> unit"
  obtain r s' where run: "run_op (logged_driver sample_oc_driver) (Op_Prompt_Async ''ses_a'' sample_prompt) ?s = (r, s')" by (metis surj_pair)
  have "list_ex is_prompt (fst (snd (snd s')))" using sample_prompt_sent unfolding run snd_conv .
  then obtain req where "req \<in> set (new_requests ?s s')" "is_prompt req" by (auto simp: list_ex_iff new_requests_def)
  from prompts_need_marker[OF run this] have "let_through sample_oc_driver ''ses_a'' ?s" by auto
  then show ?thesis by (simp add: marker_at_def sample_registry_def)
qed

theorem completion_iff_answered_witness:
  "match_completion ''n7'' [sample_user_message, sample_turn ''ok''] = Inr (Completed (JStr ''m1'') (JStr ''m2'') (Some (JStr ''build'')))"
proof -
  have eval: "carries_nonce ''n7'' sample_user_message = Inr True" "answers sample_user_message (sample_turn ''ok'')"
    "\<not> is_summary_or_compaction (sample_turn ''ok'')" "entry_info sample_user_message ''id'' = Some (JStr ''m1'')"
    "entry_info (sample_turn ''ok'') ''id'' = Some (JStr ''m2'')" "entry_info (sample_turn ''ok'') ''mode'' = Some (JStr ''build'')"
    by code_simp+
  show ?thesis
    unfolding completion_iff_answered
    by (rule exI[of _ "[]"], rule exI[of _ sample_user_message], rule exI[of _ "[]"], rule exI[of _ "sample_turn ''ok''"], rule exI[of _ "[]"])
      (simp add: eval coalesce_def)
qed

definition sample_digest :: triage_digest where
  "sample_digest = \<lparr>dg_issue_id = ''issue-acme/tool-2'', dg_repo_owner = ''acme'', dg_repo_name = ''tool'', dg_repo_id = ''acme/tool'', dg_issue_number = 2,
     dg_title_preview = [], dg_body_preview = [], dg_created_at = [], dg_pending_count = 1, dg_repo_counts = \<lparr>ct_open = 1, ct_queued = 0, ct_running = 0\<rparr>\<rparr>"

lemma sample_triage_answer:
  "case fst (prompt_triage sample_oc_driver ''ses_a'' sample_digest (empty_db 90 [], (sample_registry [''ses_a''], ()))) of
     Inl e \<Rightarrow> False | Inr answer \<Rightarrow> sg_disposition answer = ''READY''"
  by code_simp

theorem triage_answers_are_typed_witness:
  "\<exists>answer s'. prompt_triage sample_oc_driver ''ses_a'' sample_digest (empty_db 90 [], (sample_registry [''ses_a''], ())) = (Inr answer, s') \<and>
     sg_disposition answer = ''READY'' \<and> suggestion_typed answer \<and> sg_issue_id answer = ''issue-acme/tool-2''"
proof -
  let ?run = "prompt_triage sample_oc_driver ''ses_a'' sample_digest (empty_db 90 [], (sample_registry [''ses_a''], ()))"
  obtain answer where answer: "fst ?run = Inr answer" "sg_disposition answer = ''READY''" using sample_triage_answer by (auto split: sum.splits)
  then obtain s' where run: "?run = (Inr answer, s')" by (metis prod.collapse)
  from triage_answers_are_typed[OF this] this answer(2) show ?thesis 
    unfolding sample_digest_def triage_digest.simps by blast
qed

end
