(* ===== verification/Resident.thy ===== *)
theory Resident
  imports Relay Js_Text Worktrees
begin

text \<open>
  The boundary to the resident OpenCode service (\<^verbatim>\<open>src/runtime/resident.ts\<close>): which endpoint may receive the credentials, the provider and
  model of a role, and the validation of the deployed agent definitions. Node's URL class, the DNS
  lookup, the YAML parser, SHA-256 and the reads of files are parameters. Installing files is not modelled.
\<close>

section \<open>Private addresses\<close>

definition resident_error :: "string \<Rightarrow> err" where "resident_error m = JsError m"

definition LOOPBACK_HOSTS :: "string list" where "LOOPBACK_HOSTS = [''localhost'', ''127.0.0.1'', ''::1'', ''[::1]'']"
definition WILDCARD_V4 :: string where "WILDCARD_V4 = ''0.0.0.0''"

text \<open>\<^verbatim>\<open>/^(\d{1,3})\.(\d{1,3})\.(\d{1,3})\.(\d{1,3})$/\<close>\<close>

definition ipv4_octets :: "string \<Rightarrow> nat list option" where
  "ipv4_octets host =
     (let parts = split_on (CHR ''.'') host in
      if length parts = 4 \<and> list_all (\<lambda>p. p \<noteq> [] \<and> length p \<le> 3 \<and> list_all is_digit p) parts then Some (map digits_val parts) else None)"

definition is_private_ipv4 :: "string \<Rightarrow> bool" where
  "is_private_ipv4 host =
     (case ipv4_octets host of
        Some [a, b, c, d] \<Rightarrow> list_all (\<lambda>n. n \<le> 255) [a, b, c, d] \<and>
          (a = 10 \<or> a = 172 \<and> 16 \<le> b \<and> b \<le> 31 \<or> a = 192 \<and> b = 168 \<or> a = 169 \<and> b = 254 \<or> a = 127)
      | _ \<Rightarrow> False)"

text \<open>\<^verbatim>\<open>host.replace(/^\[|\]$/g, "")\<close>\<close>

definition strip_brackets :: "string \<Rightarrow> string" where
  "strip_brackets host =
     (let h = (if is_prefix ''['' host then tl host else host) in if h \<noteq> [] \<and> last h = CHR '']'' then butlast h else h)"

definition is_hex_lower :: "char \<Rightarrow> bool" where
  "is_hex_lower c \<longleftrightarrow> is_digit c \<or> List.member ''abcdef'' c"

definition MAPPED_PREFIX :: string where "MAPPED_PREFIX = ''::ffff:''"

text \<open>\<^verbatim>\<open>/^f[cd][0-9a-f]{2}:/\<close> and \<^verbatim>\<open>/^fe[89ab][0-9a-f]:/\<close>\<close>

fun local_ipv6_prefix :: "string \<Rightarrow> bool" where
  "local_ipv6_prefix (f # x # y # z # c # s) \<longleftrightarrow> f = CHR ''f'' \<and> c = CHR '':'' \<and> is_hex_lower z \<and>
     ((x = CHR ''c'' \<or> x = CHR ''d'') \<and> is_hex_lower y \<or> x = CHR ''e'' \<and> List.member ''89ab'' y)"
| "local_ipv6_prefix _ \<longleftrightarrow> False"

definition is_private_ipv6 :: "string \<Rightarrow> bool" where
  "is_private_ipv6 host =
     (let h = to_lower (strip_brackets host) in
      h = ''::1'' \<or> is_prefix MAPPED_PREFIX h \<and> is_private_ipv4 (drop (length MAPPED_PREFIX) h) \<or> local_ipv6_prefix h)"

definition is_private_host_literal :: "string \<Rightarrow> bool" where
  "is_private_host_literal host = (let h = to_lower (strip_brackets host) in is_private_ipv4 h \<or> is_private_ipv6 h)"

section \<open>The endpoint\<close>

record parsed_url =
  pu_protocol :: string
  pu_username :: string
  pu_password :: string
  pu_hostname :: string
  pu_host :: string
  pu_origin :: string
  pu_href :: string

text \<open>\<^verbatim>\<open>new URL(s)\<close>, and the URL after \<^verbatim>\<open>url.hostname = h\<close>.\<close>

record url_library =
  ul_parse :: "string \<Rightarrow> parsed_url option"
  ul_set_hostname :: "parsed_url \<Rightarrow> string \<Rightarrow> parsed_url"

definition allowed_origin_set :: "url_library \<Rightarrow> string \<Rightarrow> string list" where
  "allowed_origin_set lib allowed =
     List.map_filter (\<lambda>entry. if trim entry = [] then None else map_option pu_origin (ul_parse lib (trim entry))) (split_on (CHR '','') allowed)"

definition validate_resident_endpoint :: "url_library \<Rightarrow> string \<Rightarrow> string option \<Rightarrow> err + parsed_url" where
  "validate_resident_endpoint lib url allowed_origins =
     (let raw = trim url in
      if raw = [] then Inl (resident_error ''TISSUE_OPENCODE_URL is required; Tissue never starts an OpenCode serve'')
      else case ul_parse lib raw of
        None \<Rightarrow> Inl (resident_error ''TISSUE_OPENCODE_URL is not a valid absolute URL'')
      | Some parsed \<Rightarrow>
          let host = to_lower (pu_hostname parsed) in
          if \<not> (pu_protocol parsed = ''http:'' \<or> pu_protocol parsed = ''https:'') then Inl (resident_error ''TISSUE_OPENCODE_URL must be http(s)'')
          else if pu_username parsed \<noteq> [] \<or> pu_password parsed \<noteq> [] then Inl (resident_error ''TISSUE_OPENCODE_URL must not embed credentials'')
          else if host = [] then Inl (resident_error ''TISSUE_OPENCODE_URL has no host'')
          else if host = WILDCARD_V4 \<or> host = ''::'' \<or> host = ''[::]''
          then Inl (resident_error ''TISSUE_OPENCODE_URL must be a concrete loopback/private host, not a wildcard bind'')
          else case allowed_origins of
            Some allowed \<Rightarrow>
              if List.member (allowed_origin_set lib allowed) (pu_origin parsed) then Inr parsed
              else Inl (resident_error
                ''TISSUE_OPENCODE_URL must byte-equal an exact TISSUE_OPENCODE_ALLOWED_ORIGINS entry (scheme://host:port)'')
          | None \<Rightarrow>
              if List.member LOOPBACK_HOSTS host \<or> is_private_ipv4 host \<or> is_private_ipv6 host then Inr parsed
              else Inl (resident_error ''TISSUE_OPENCODE_URL must be a loopback/private resident endpoint''))"

definition redact_resident_endpoint :: "url_library \<Rightarrow> string \<Rightarrow> string" where
  "redact_resident_endpoint lib url =
     (case ul_parse lib url of None \<Rightarrow> ''[invalid]'' | Some parsed \<Rightarrow> pu_protocol parsed @ ''//'' @ pu_host parsed)"

section \<open>Resolve and pin\<close>

record dns_address =
  dn_address :: string
  dn_family :: nat

record pinned_origin =
  pn_url :: parsed_url
  pn_ip :: string
  pn_family :: nat

definition ip_literal_of :: "string \<Rightarrow> (string \<times> nat) option" where
  "ip_literal_of host =
     (let h = to_lower (strip_brackets host) in
      if (case ipv4_octets h of None \<Rightarrow> False | Some os \<Rightarrow> list_all (\<lambda>n. n \<le> 255) os) then Some (h, 4)
      else if List.member h (CHR '':'') then Some (h, 6) else None)"

definition pinned_host_for :: "string \<Rightarrow> string" where
  "pinned_host_for address =
     (let h = to_lower address in
      if is_prefix MAPPED_PREFIX h \<and> ipv4_octets (drop (length MAPPED_PREFIX) h) \<noteq> None then drop (length MAPPED_PREFIX) h
      else if List.member h (CHR '':'') then ''['' @ h @ '']'' else h)"

text \<open>\<open>lookup\<close> is \<^verbatim>\<open>dns.lookup(host, { all: true })\<close>.\<close>

definition resolve_and_pin ::
  "url_library \<Rightarrow> (string \<Rightarrow> ('w, err, dns_address list) act) \<Rightarrow> parsed_url \<Rightarrow> ('w, err, pinned_origin) act" where
  "resolve_and_pin lib lookup url =
     (let host = strip_brackets (pu_hostname url);
          reparsed = (case ul_parse lib (pu_href url) of None \<Rightarrow> url | Some u \<Rightarrow> u) in
      case ip_literal_of host of
        Some (address, family) \<Rightarrow>
          if \<not> is_private_host_literal address
          then act_fail (resident_error ''TISSUE_OPENCODE_URL must be a loopback/private resident endpoint'')
          else act_return \<lparr>pn_url = reparsed, pn_ip = address, pn_family = family\<rparr>
      | None \<Rightarrow>
          act_bind (lookup host) (\<lambda>answers.
          case answers of
            [] \<Rightarrow> act_fail (resident_error ''TISSUE_OPENCODE_URL did not resolve to a private resident endpoint'')
          | first # rest \<Rightarrow>
              if \<not> list_all (\<lambda>a. is_private_host_literal (dn_address a)) answers
              then act_fail (resident_error ''TISSUE_OPENCODE_URL resolved to a non-private address'')
              else act_return \<lparr>pn_url = ul_set_hostname lib reparsed (pinned_host_for (dn_address first)), pn_ip = dn_address first,
                pn_family = (if dn_family first = 6 then 6 else 4)\<rparr>))"

text \<open>What the HTTP client is built with; the credentials are attached last.\<close>

record resident_transport =
  rt_base_url :: string
  rt_username :: "string option"
  rt_password :: "string option"
  rt_pinned :: pinned_origin
  rt_endpoint_label :: string

definition create_resident_transport ::
  "url_library \<Rightarrow> (string \<Rightarrow> ('w, err, dns_address list) act) \<Rightarrow> (string \<Rightarrow> string option) \<Rightarrow> string option \<Rightarrow> string option
    \<Rightarrow> ('w, err, resident_transport) act" where
  "create_resident_transport lib lookup env username password =
     act_bind (act_lift (validate_resident_endpoint lib (trim (coalesce (env ''TISSUE_OPENCODE_URL'') []))
         (env ''TISSUE_OPENCODE_ALLOWED_ORIGINS''))) (\<lambda>validated.
     act_bind (resolve_and_pin lib lookup validated) (\<lambda>pinned.
       act_return \<lparr>rt_base_url = pu_href (pn_url pinned), rt_username = username, rt_password = password, rt_pinned = pinned,
         rt_endpoint_label = redact_resident_endpoint lib (pu_href validated)\<rparr>))"

section \<open>Provider and model\<close>

definition parse_provider_model :: "string \<Rightarrow> err + provider_model" where
  "parse_provider_model value =
     (let raw = trim value; provider = takeWhile (\<lambda>c. c \<noteq> CHR ''/'') raw; model = drop (Suc (length provider)) raw in
      if provider = [] \<or> length provider = length raw \<or> model = []
      then Inl (resident_error (''agents.*.model must be '' @ quoted ''provider/model'' @ '' (a concrete model is not auto-selected)''))
      else if list_ex is_space provider \<or> list_ex is_control model
      then Inl (resident_error (''agents.*.model is not a valid '' @ quoted ''provider/model'' @ '' identifier''))
      else Inr \<lparr>pm_provider = provider, pm_model = model\<rparr>)"

section \<open>Agent definitions\<close>

datatype agent_role = Triage_Role | Resolution_Role

fun role_name :: "agent_role \<Rightarrow> string" where
  "role_name Triage_Role = ''triage''"
| "role_name Resolution_Role = ''resolution''"

definition TRIAGE_ALLOWED :: "string list" where "TRIAGE_ALLOWED = [''read'', ''grep'', ''glob'', ''list'', ''search'']"

definition RESOLUTION_ALLOWED :: "string list" where
  "RESOLUTION_ALLOWED = [''read'', ''edit'', ''write'', ''patch'', ''bash'', ''grep'', ''glob'', ''list'', ''search'']"

definition allowed_tools :: "agent_role \<Rightarrow> string list" where
  "allowed_tools role = (if role = Triage_Role then TRIAGE_ALLOWED else RESOLUTION_ALLOWED)"

text \<open>
  \<^verbatim>\<open>FORBIDDEN_TOOL_RE\<close>: one of the words, at the start or after \<^verbatim>\<open>_\<close> or \<^verbatim>\<open>-\<close>, and at the end or before one of them; case does not matter.
\<close>

definition forbidden_words :: "string list" where
  "forbidden_words = [''gh'', ''github'', ''tissue'', ''pr'', ''merge'', ''push'', ''release'', ''workflow'', ''admin''] @
     concat (map (\<lambda>sep. map (\<lambda>w. ''issue'' @ sep @ w) [''close'', ''comment'', ''edit'']) [[], ''_'', ''-''])"

definition tool_separator :: "char \<Rightarrow> bool" where "tool_separator c \<longleftrightarrow> c = CHR ''_'' \<or> c = CHR ''-''"

definition forbidden_here :: "string \<Rightarrow> bool" where
  "forbidden_here s \<longleftrightarrow> list_ex (\<lambda>w. is_prefix w s \<and> (case drop (length w) s of [] \<Rightarrow> True | c # cs \<Rightarrow> tool_separator c)) forbidden_words"

fun forbidden_from :: "bool \<Rightarrow> string \<Rightarrow> bool" where
  "forbidden_from starts [] = False"
| "forbidden_from starts (c # cs) = (starts \<and> forbidden_here (c # cs) \<or> forbidden_from (tool_separator c) cs)"

definition forbidden_tool :: "string \<Rightarrow> bool" where "forbidden_tool tool = forbidden_from True (to_lower tool)"

definition resolve_global_agents_dir :: "string \<Rightarrow> (string \<Rightarrow> string option) \<Rightarrow> err + string" where
  "resolve_global_agents_dir cwd env =
     (let explicit = trim (coalesce (env ''TISSUE_OPENCODE_AGENTS_DIR'') []); xdg = trim (coalesce (env ''XDG_CONFIG_HOME'') []);
          home = trim (coalesce (env ''HOME'') []) in
      if explicit \<noteq> []
      then if is_prefix ''/'' explicit then Inr (resolve_path cwd [explicit])
        else Inl (resident_error ''TISSUE_OPENCODE_AGENTS_DIR must be an absolute path'')
      else if xdg \<noteq> [] \<and> is_prefix ''/'' xdg then Inr (resolve_path cwd [xdg, ''opencode'', ''agents''])
      else if home \<noteq> [] \<and> is_prefix ''/'' home then Inr (resolve_path cwd [home, ''.config'', ''opencode'', ''agents''])
      else Inl (resident_error
        ''cannot resolve the OpenCode global agent directory: set TISSUE_OPENCODE_AGENTS_DIR or HOME/XDG_CONFIG_HOME''))"

text \<open>What validation reads: files (their text, or why they cannot be read), the YAML parser and the hash.\<close>

record agent_library =
  al_cwd :: string
  al_exists :: "string \<Rightarrow> bool"
  al_read :: "string \<Rightarrow> string + string"
  al_yaml :: "string \<Rightarrow> string + json"
  al_sha256 :: "string \<Rightarrow> string"

record parsed_frontmatter =
  pf_mode :: "string option"
  pf_tools :: "(string \<times> bool) list"
  pf_model_pin :: bool
  pf_errors :: "string list"

definition no_frontmatter :: "string \<Rightarrow> parsed_frontmatter" where
  "no_frontmatter e = \<lparr>pf_mode = None, pf_tools = [], pf_model_pin = False, pf_errors = [e]\<rparr>"

fun before_marker :: "string \<Rightarrow> string option" where
  "before_marker [] = None"
| "before_marker (c # cs) = (if is_prefix (newline @ ''---'') (c # cs) then Some [] else map_option (Cons c) (before_marker cs))"

fun read_tools :: "string \<Rightarrow> (string \<times> json) list \<Rightarrow> (string \<times> bool) list \<times> string list" where
  "read_tools rel [] = ([], [])"
| "read_tools rel ((k, v) # fs) =
     (case read_tools rel fs of (tools, errors) \<Rightarrow>
       (case v of JBool b \<Rightarrow> ((k, b) # tools, errors) | _ \<Rightarrow> (tools, (rel @ '': tools.'' @ k @ '' must be a boolean'') # errors)))"

definition parse_frontmatter :: "agent_library \<Rightarrow> string \<Rightarrow> string \<Rightarrow> parsed_frontmatter" where
  "parse_frontmatter lib text rel =
     (if \<not> is_prefix ''---'' text then no_frontmatter (rel @ '': missing YAML frontmatter'')
      else case before_marker (drop 3 text) of
        None \<Rightarrow> no_frontmatter (rel @ '': unterminated YAML frontmatter'')
      | Some yaml \<Rightarrow>
          (case al_yaml lib yaml of
             Inl m \<Rightarrow> no_frontmatter (rel @ '': invalid frontmatter YAML ('' @ m @ '')'')
           | Inr (JObj doc) \<Rightarrow>
               let tools = (case map_of doc ''tools'' of
                     None \<Rightarrow> ([], [rel @ '': a restrictive '' @ quoted ''tools'' @ '' profile is required''])
                   | Some (JObj fs) \<Rightarrow> read_tools rel fs
                   | Some v \<Rightarrow> ([], [rel @ '': '' @ quoted ''tools'' @ '' must be a mapping of tool name to boolean''])) in
               \<lparr>pf_mode = string_or_null (map_of doc ''mode''), pf_tools = fst tools,
                pf_model_pin = list_ex (\<lambda>k. map_of doc k \<noteq> None) [''model'', ''providerID'', ''modelID''], pf_errors = snd tools\<rparr>
           | Inr v \<Rightarrow> no_frontmatter (rel @ '': frontmatter must be a mapping'')))"

record agent_file_status =
  ag_role :: agent_role
  ag_file :: string
  ag_present :: bool
  ag_mode :: "string option"
  ag_enabled_tools :: "string list"
  ag_disabled_tools :: "string list"
  ag_source_file :: "string option"
  ag_source_drift :: bool
  ag_errors :: "string list"

definition sha256_file :: "agent_library \<Rightarrow> string \<Rightarrow> string option" where
  "sha256_file lib path = (case al_read lib path of Inl m \<Rightarrow> None | Inr t \<Rightarrow> Some (al_sha256 lib t))"

definition profile_errors :: "agent_role \<Rightarrow> string \<Rightarrow> parsed_frontmatter \<Rightarrow> string list" where
  "profile_errors role rel parsed =
     (let enabled = map fst (filter snd (pf_tools parsed)) in
      (if pf_model_pin parsed then [rel @ '': a concrete model/identity pin is a T8 (f) decision and must stay NEEDS_DECISION''] else []) @
      (if pf_mode parsed = None then [rel @ '': '' @ quoted ''mode'' @ '' is required''] else []) @
      map (\<lambda>k. rel @ '': forbidden lifecycle/GitHub tool '' @ quoted k @ '' must never be exposed to a Tissue agent'')
        (filter forbidden_tool (map fst (pf_tools parsed))) @
      map (\<lambda>k. rel @ '': tool '' @ quoted k @ '' is outside the '' @ role_name role @ '' allowed profile'')
        (filter (\<lambda>k. \<not> List.member (allowed_tools role) k) enabled) @
      (if enabled = [] then [rel @ '': at least one allowlisted '' @ role_name role @ '' tool must be explicitly enabled''] else []))"

definition drift_errors :: "agent_library \<Rightarrow> string \<Rightarrow> string \<Rightarrow> string \<Rightarrow> bool \<times> string list" where
  "drift_errors lib rel file source_file =
     (case sha256_file lib source_file of
        None \<Rightarrow> (False, [source_file @ '': checked-in source definition is missing or unreadable''])
      | Some h \<Rightarrow>
          if sha256_file lib file \<noteq> Some h
          then (True, [rel @ '': deployed definition has drifted from the checked-in source ('' @ source_file @ ''); re-run '' @
             quoted ''tissue install-agents --force''])
          else (False, []))"

text \<open>The checks on the text of a definition that was read.\<close>

definition check_agent_text ::
  "agent_library \<Rightarrow> agent_role \<Rightarrow> string \<Rightarrow> string \<Rightarrow> string option \<Rightarrow> string \<Rightarrow> agent_file_status \<Rightarrow> agent_file_status" where
  "check_agent_text lib role rel file source_file content base =
     (let parsed = parse_frontmatter lib content rel;
          drift = (case source_file of None \<Rightarrow> (False, []) | Some f \<Rightarrow> drift_errors lib rel file f) in
      base\<lparr>ag_mode := pf_mode parsed, ag_enabled_tools := map fst (filter snd (pf_tools parsed)),
        ag_disabled_tools := map fst (filter (\<lambda>f. \<not> snd f) (pf_tools parsed)), ag_source_file := source_file, ag_source_drift := fst drift,
        ag_errors := pf_errors parsed @ profile_errors role rel parsed @ snd drift\<rparr>)"

definition validate_agent_file :: "agent_library \<Rightarrow> agent_role \<Rightarrow> string \<Rightarrow> string option \<Rightarrow> string \<Rightarrow> agent_file_status" where
  "validate_agent_file lib role agents_dir source_dir file_name =
     (let file = resolve_path (al_cwd lib) [agents_dir, file_name]; rel = agents_dir @ ''/'' @ file_name;
          base = \<lparr>ag_role = role, ag_file = rel, ag_present = al_exists lib file, ag_mode = None, ag_enabled_tools = [], ag_disabled_tools = [],
            ag_source_file = None, ag_source_drift = False, ag_errors = []\<rparr> in
      if \<not> al_exists lib file then base\<lparr>ag_errors := [rel @ '': missing host-global '' @ role_name role @ '' agent definition'']\<rparr>
      else case al_read lib file of
        Inl m \<Rightarrow> base\<lparr>ag_errors := [rel @ '': cannot read ('' @ m @ '')'']\<rparr>
      | Inr content \<Rightarrow> check_agent_text lib role rel file (map_option (\<lambda>d. resolve_path (al_cwd lib) [d, file_name]) source_dir) content base)"

record agent_definition_status =
  as_ok :: bool
  as_agents_dir :: string
  as_source_dir :: "string option"
  as_agents :: "agent_file_status list"
  as_errors :: "string list"

text \<open>The files in role order; the agent name listed with each is not read by validation.\<close>

definition TISSUE_AGENT_FILES :: "(agent_role \<times> string) list" where
  "TISSUE_AGENT_FILES = [(Triage_Role, ''tissue-triage.md''), (Resolution_Role, ''tissue-resolve.md'')]"

text \<open>\<open>agents_dir\<close> and \<open>source_dir\<close> are the directories after \<^verbatim>\<open>resolve\<close>.\<close>

definition validate_tissue_agent_definitions :: "agent_library \<Rightarrow> string \<Rightarrow> string option \<Rightarrow> agent_definition_status" where
  "validate_tissue_agent_definitions lib agents_dir source_dir =
     (let agents = map (\<lambda>f. validate_agent_file lib (fst f) agents_dir source_dir (snd f)) TISSUE_AGENT_FILES;
          errors = concat (map ag_errors agents) in
      \<lparr>as_ok = (errors = []), as_agents_dir = agents_dir, as_source_dir = source_dir, as_agents = agents, as_errors = errors\<rparr>)"

section \<open>Where the credentials go\<close>

lemma resolve_and_pin_success:
  assumes "resolve_and_pin lib lookup url w = (Inr pinned, w')"
  shows "is_private_host_literal (pn_ip pinned) \<and>
     (ip_literal_of (strip_brackets (pu_hostname url)) = Some (pn_ip pinned, pn_family pinned) \<or>
      (\<exists>answers. lookup (strip_brackets (pu_hostname url)) w = (Inr answers, w') \<and> answers \<noteq> [] \<and>
         list_all (\<lambda>a. is_private_host_literal (dn_address a)) answers \<and>
         (\<exists>u. pn_url pinned = ul_set_hostname lib u (pinned_host_for (pn_ip pinned)))))"
proof (cases "ip_literal_of (strip_brackets (pu_hostname url))")
  case None
  then obtain answers w1 where answers: "lookup (strip_brackets (pu_hostname url)) w = (Inr answers, w1)"
    using assms by (auto simp: resolve_and_pin_def Let_def act_bind_success)
  show ?thesis
  proof (cases answers)
    case Nil
    with None answers assms show ?thesis by (simp add: resolve_and_pin_def act_bind_def act_fail_def)
  next
    case (Cons first rest)
    with None answers assms show ?thesis
      by (auto simp: resolve_and_pin_def Let_def act_bind_def act_return_def act_fail_def split: if_splits)
  qed
next
  case (Some literal)
  with assms show ?thesis by (cases literal) (auto simp: resolve_and_pin_def Let_def act_return_def act_fail_def split: if_splits)
qed


text \<open>A URL library that knows the plain URLs of the examples; the name \<^verbatim>\<open>opencode\<close> resolves to a private address.\<close>

definition example_url :: "string \<Rightarrow> parsed_url" where
  "example_url host = \<lparr>pu_protocol = ''http:'', pu_username = [], pu_password = [], pu_hostname = host, pu_host = host @ '':4096'',
     pu_origin = ''http://'' @ host @ '':4096'', pu_href = ''http://'' @ host @ '':4096/''\<rparr>"

definition example_urls :: url_library where
  "example_urls = \<lparr>ul_parse = (\<lambda>s. if is_prefix ''http://opencode:4096'' s then Some (example_url ''opencode'') else None),
     ul_set_hostname = (\<lambda>u h. example_url h)\<rparr>"

definition example_resident_env :: "string \<Rightarrow> string option" where
  "example_resident_env k = (if List.member [''TISSUE_OPENCODE_URL'', ''TISSUE_OPENCODE_ALLOWED_ORIGINS''] k then Some ''http://opencode:4096'' else None)"

definition example_lookup :: "string \<Rightarrow> (unit, err, dns_address list) act" where
  "example_lookup host = act_return [\<lparr>dn_address = ''172.20.0.3'', dn_family = 4\<rparr>]"


section \<open>What a validated agent can do\<close>

definition agent_confined :: "agent_file_status \<Rightarrow> bool" where
  "agent_confined a \<longleftrightarrow> ag_present a \<and> ag_mode a \<noteq> None \<and> ag_enabled_tools a \<noteq> [] \<and> \<not> ag_source_drift a \<and>
     list_all (\<lambda>k. List.member (allowed_tools (ag_role a)) k) (ag_enabled_tools a) \<and>
     list_all (\<lambda>k. \<not> forbidden_tool k) (ag_enabled_tools a @ ag_disabled_tools a)"

lemma check_agent_text_confined:
  assumes "ag_errors (check_agent_text lib role rel file src content base) = []" "ag_present base" "ag_role base = role"
  shows "agent_confined (check_agent_text lib role rel file src content base) \<and> ag_role (check_agent_text lib role rel file src content base) = role"
proof -
  let ?p = "parse_frontmatter lib content rel" and ?drift = "case src of None \<Rightarrow> (False, []) | Some f \<Rightarrow> drift_errors lib rel file f"
  from assms(1) have errors: "profile_errors role rel ?p = []" "snd ?drift = []" by (simp_all add: check_agent_text_def Let_def)
  from errors(1) have "pf_mode ?p \<noteq> None" "map fst (filter snd (pf_tools ?p)) \<noteq> []"
    "list_all (\<lambda>k. List.member (allowed_tools role) k) (map fst (filter snd (pf_tools ?p)))"
    "list_all (\<lambda>k. \<not> forbidden_tool k) (map fst (pf_tools ?p))"
    by (auto simp: profile_errors_def Let_def list_all_iff filter_empty_conv split: if_splits)
  moreover have "\<not> fst ?drift"
    using errors(2) by (auto simp: drift_errors_def split: option.splits if_splits)
  ultimately show ?thesis
    using assms(2,3) by (auto simp: agent_confined_def check_agent_text_def Let_def list_all_iff)
qed

lemma validate_agent_file_confined:
  assumes "ag_errors (validate_agent_file lib role dir src name) = []"
  shows "agent_confined (validate_agent_file lib role dir src name) \<and> ag_role (validate_agent_file lib role dir src name) = role"
proof -
  let ?file = "resolve_path (al_cwd lib) [dir, name]"
  from assms have present: "al_exists lib ?file" by (auto simp: validate_agent_file_def Let_def split: if_splits)
  with assms obtain content where "al_read lib ?file = Inr content" by (auto simp: validate_agent_file_def Let_def split: sum.splits)
  with assms present show ?thesis
    by (simp add: validate_agent_file_def Let_def check_agent_text_confined)
qed


definition example_agents :: agent_library where
  "example_agents = \<lparr>al_cwd = ''/srv'', al_exists = (\<lambda>p. True),
     al_read = (\<lambda>p. Inr (''---'' @ newline @ ''mode: subagent'' @ newline @ ''tools: {read: true, bash: false}'' @ newline @ ''---'' @ newline)),
     al_yaml = (\<lambda>s. Inr (JObj [(''mode'', JStr ''subagent''), (''tools'', JObj [(''read'', JBool True), (''bash'', JBool False)])])),
     al_sha256 = (\<lambda>s. s)\<rparr>"


end
