(* ===== verification/Spec2Isabelle.thy ===== *)
theory Spec2Isabelle
  imports Merge_Safety Worktrees Drift Terminal_Cleanup Triage_Safety Gh_Transport Reconcile_Safety Driver_Safety Resident
begin

text \<open>
  Tissue, a controller that triages GitHub issues and drives agents that resolve them. Header to be
  completed with the components.
\<close>

end
